(* ===== verification/Islet_Prelude.thy ===== *)
theory Islet_Prelude
  imports Main "HOL-Library.Word"
begin

text \<open>
  Shared ground of the development: the machine types of the Rust sources, the
  result monad in which every fallible, stateful function of the RMM is written,
  the Hoare rules for it and the locale of reflexive-transitive step relations
  that carries the frame conditions of the handlers.

  A Rust function that returns \<open>Result\<close> and mutates shared state becomes a
  program: a function from a state to an outcome and a state.  \<open>Ok\<close> and \<open>Err\<close>
  are the two constructors of \<open>Result\<close>; \<open>Panic\<close> is a Rust panic (the workspace is
  built with \<open>panic = abort\<close>, so nothing is unwound) and \<open>Hang\<close> is a spin on a lock
  that the same core already holds.  A state change made before an \<open>Err\<close> stays,
  as it does in the sources.
\<close>

unbundle bit_operations_syntax

section \<open>Machine types\<close>

type_synonym u8 = "8 word"
type_synonym u16 = "16 word"
type_synonym u32 = "32 word"
type_synonym u64 = "64 word"
type_synonym usize = "64 word"

named_theorems run \<open>evaluation of programs on a given state\<close>
named_theorems steps_intro \<open>introduction rules for frame conditions\<close>
named_theorems wp_intro \<open>introduction rules for triples\<close>

section \<open>Programs\<close>

datatype ('e, 'a) outcome = Ok 'a | Err 'e | Panic | Hang

type_synonym ('s, 'e, 'a) prog = "'s \<Rightarrow> ('e, 'a) outcome \<times> 's"

definition return :: "'a \<Rightarrow> ('s, 'e, 'a) prog" where
  "return a = (\<lambda>s. (Ok a, s))"

definition throw :: "'e \<Rightarrow> ('s, 'e, 'a) prog" where
  "throw e = (\<lambda>s. (Err e, s))"

definition panic :: "('s, 'e, 'a) prog" where
  "panic = (\<lambda>s. (Panic, s))"

definition hang :: "('s, 'e, 'a) prog" where
  "hang = (\<lambda>s. (Hang, s))"

definition gets :: "('s \<Rightarrow> 'a) \<Rightarrow> ('s, 'e, 'a) prog" where
  "gets f = (\<lambda>s. (Ok (f s), s))"

definition modify :: "('s \<Rightarrow> 's) \<Rightarrow> ('s, 'e, unit) prog" where
  "modify f = (\<lambda>s. (Ok (), f s))"

definition bind :: "('s, 'e, 'a) prog \<Rightarrow> ('a \<Rightarrow> ('s, 'e, 'b) prog) \<Rightarrow> ('s, 'e, 'b) prog" where
  "bind m f = (\<lambda>s. case m s of
      (Ok a, t) \<Rightarrow> f a t
    | (Err e, t) \<Rightarrow> (Err e, t)
    | (Panic, t) \<Rightarrow> (Panic, t)
    | (Hang, t) \<Rightarrow> (Hang, t))"

abbreviation seq :: "('s, 'e, 'a) prog \<Rightarrow> ('s, 'e, 'b) prog \<Rightarrow> ('s, 'e, 'b) prog" where
  "seq m n \<equiv> bind m (\<lambda>_. n)"

text \<open>
  \<open>attempt\<close> turns the result into a value, as a \<open>match\<close> or \<open>is_err\<close> on it does;
  \<open>map_err\<close> is the conversion that \<open>?\<close> applies to the error.
\<close>

definition attempt :: "('s, 'e, 'a) prog \<Rightarrow> ('s, 'f, 'e + 'a) prog" where
  "attempt m = (\<lambda>s. case m s of
      (Ok a, t) \<Rightarrow> (Ok (Inr a), t)
    | (Err e, t) \<Rightarrow> (Ok (Inl e), t)
    | (Panic, t) \<Rightarrow> (Panic, t)
    | (Hang, t) \<Rightarrow> (Hang, t))"

definition map_err :: "('e \<Rightarrow> 'f) \<Rightarrow> ('s, 'e, 'a) prog \<Rightarrow> ('s, 'f, 'a) prog" where
  "map_err h m = (\<lambda>s. case m s of
      (Ok a, t) \<Rightarrow> (Ok a, t)
    | (Err e, t) \<Rightarrow> (Err (h e), t)
    | (Panic, t) \<Rightarrow> (Panic, t)
    | (Hang, t) \<Rightarrow> (Hang, t))"

definition only_if :: "bool \<Rightarrow> ('s, 'e, unit) prog \<Rightarrow> ('s, 'e, unit) prog" where
  "only_if c m = (if c then m else return ())"

text \<open>\<open>ok_or\<close> and \<open>unwrap\<close> of \<open>Option\<close>, and the indexing of a slice, which panics out of range.\<close>

definition ok_or :: "'e \<Rightarrow> 'a option \<Rightarrow> ('s, 'e, 'a) prog" where
  "ok_or e x = (case x of None \<Rightarrow> throw e | Some a \<Rightarrow> return a)"

definition unwrap :: "'a option \<Rightarrow> ('s, 'e, 'a) prog" where
  "unwrap x = (case x of None \<Rightarrow> panic | Some a \<Rightarrow> return a)"

definition index_slice :: "'a list \<Rightarrow> nat \<Rightarrow> ('s, 'e, 'a) prog" where
  "index_slice xs i = (if i < length xs then return (xs ! i) else panic)"

primrec for_each :: "'x list \<Rightarrow> ('x \<Rightarrow> ('s, 'e, unit) prog) \<Rightarrow> ('s, 'e, unit) prog" where
  "for_each [] f = return ()"
| "for_each (x # xs) f = bind (f x) (\<lambda>_. for_each xs f)"

subsection \<open>Evaluation\<close>

lemma return_run [run]: "return a s = (Ok a, s)"
  by (simp add: return_def)

lemma throw_run [run]: "throw e s = (Err e, s)"
  by (simp add: throw_def)

lemma panic_run [run]: "panic s = (Panic, s)"
  by (simp add: panic_def)

lemma hang_run [run]: "hang s = (Hang, s)"
  by (simp add: hang_def)

lemma gets_run [run]: "gets f s = (Ok (f s), s)"
  by (simp add: gets_def)

lemma modify_run [run]: "modify f s = (Ok (), f s)"
  by (simp add: modify_def)

lemma bind_run [run]:
  "bind m f s = (case m s of (Ok a, t) \<Rightarrow> f a t | (Err e, t) \<Rightarrow> (Err e, t)
     | (Panic, t) \<Rightarrow> (Panic, t) | (Hang, t) \<Rightarrow> (Hang, t))"
  by (simp add: bind_def)

lemma attempt_run [run]:
  "attempt m s = (case m s of (Ok a, t) \<Rightarrow> (Ok (Inr a), t) | (Err e, t) \<Rightarrow> (Ok (Inl e), t)
     | (Panic, t) \<Rightarrow> (Panic, t) | (Hang, t) \<Rightarrow> (Hang, t))"
  by (simp add: attempt_def)

lemma map_err_run [run]:
  "map_err h m s = (case m s of (Ok a, t) \<Rightarrow> (Ok a, t) | (Err e, t) \<Rightarrow> (Err (h e), t)
     | (Panic, t) \<Rightarrow> (Panic, t) | (Hang, t) \<Rightarrow> (Hang, t))"
  by (simp add: map_err_def)

lemma only_if_run [run]: "only_if c m s = (if c then m s else (Ok (), s))"
  by (simp add: only_if_def return_run)

lemma ok_or_run [run]:
  "ok_or e x s = (case x of None \<Rightarrow> (Err e, s) | Some a \<Rightarrow> (Ok a, s))"
  by (simp add: ok_or_def run split: option.split)

lemma unwrap_run [run]:
  "unwrap x s = (case x of None \<Rightarrow> (Panic, s) | Some a \<Rightarrow> (Ok a, s))"
  by (simp add: unwrap_def run split: option.split)

lemma index_slice_run [run]:
  "index_slice xs i s = (if i < length xs then (Ok (xs ! i), s) else (Panic, s))"
  by (simp add: index_slice_def run)

lemma bind_assoc: "bind (bind m f) g = bind m (\<lambda>a. bind (f a) g)"
  by (rule ext) (simp add: bind_def split: prod.split outcome.split)

lemma bind_return [simp]: "bind (return a) f = f a"
  by (rule ext) (simp add: run)

lemma bind_throw [simp]: "bind (throw e) f = throw e"
  by (rule ext) (simp add: run)

lemma for_each_append: "for_each (xs @ ys) f = bind (for_each xs f) (\<lambda>_. for_each ys f)"
  by (induction xs) (simp_all add: bind_assoc)

section \<open>Triples\<close>

text \<open>
  Partial correctness with one postcondition for each constructor of \<open>Result\<close>.
  \<open>total\<close> adds that the program neither panics nor hangs.
\<close>

definition triple ::
  "('s \<Rightarrow> bool) \<Rightarrow> ('s, 'e, 'a) prog \<Rightarrow> ('a \<Rightarrow> 's \<Rightarrow> bool) \<Rightarrow> ('e \<Rightarrow> 's \<Rightarrow> bool) \<Rightarrow> bool" where
  "triple P m Q E \<longleftrightarrow> (\<forall>s. P s \<longrightarrow> (case m s of
      (Ok a, t) \<Rightarrow> Q a t | (Err e, t) \<Rightarrow> E e t | (Panic, t) \<Rightarrow> True | (Hang, t) \<Rightarrow> True))"

definition total :: "('s \<Rightarrow> bool) \<Rightarrow> ('s, 'e, 'a) prog \<Rightarrow> bool" where
  "total P m \<longleftrightarrow> (\<forall>s. P s \<longrightarrow> fst (m s) \<noteq> Panic \<and> fst (m s) \<noteq> Hang)"

abbreviation keeps :: "('s \<Rightarrow> bool) \<Rightarrow> ('s, 'e, 'a) prog \<Rightarrow> bool" where
  "keeps I m \<equiv> triple I m (\<lambda>_. I) (\<lambda>_. I)"

lemma tripleI:
  assumes "\<And>s a t. P s \<Longrightarrow> m s = (Ok a, t) \<Longrightarrow> Q a t"
    and "\<And>s e t. P s \<Longrightarrow> m s = (Err e, t) \<Longrightarrow> E e t"
  shows "triple P m Q E"
  using assms by (auto simp: triple_def split: prod.split outcome.split)

lemma triple_Ok: "triple P m Q E \<Longrightarrow> P s \<Longrightarrow> m s = (Ok a, t) \<Longrightarrow> Q a t"
  by (auto simp: triple_def dest: spec[of _ s])

lemma triple_Err: "triple P m Q E \<Longrightarrow> P s \<Longrightarrow> m s = (Err e, t) \<Longrightarrow> E e t"
  by (auto simp: triple_def dest: spec[of _ s])

lemma triple_weaken:
  assumes "triple P' m Q' E'" and "\<And>s. P s \<Longrightarrow> P' s"
    and "\<And>a t. Q' a t \<Longrightarrow> Q a t" and "\<And>e t. E' e t \<Longrightarrow> E e t"
  shows "triple P m Q E"
  by (rule tripleI) (use assms in \<open>blast dest: triple_Ok triple_Err\<close>)+

lemma triple_return [wp_intro]: "(\<And>s. P s \<Longrightarrow> Q a s) \<Longrightarrow> triple P (return a) Q E"
  by (simp add: triple_def run)

lemma triple_throw [wp_intro]: "(\<And>s. P s \<Longrightarrow> E e s) \<Longrightarrow> triple P (throw e) Q E"
  by (simp add: triple_def run)

lemma triple_panic [wp_intro]: "triple P panic Q E"
  by (simp add: triple_def run)

lemma triple_gets [wp_intro]: "(\<And>s. P s \<Longrightarrow> Q (f s) s) \<Longrightarrow> triple P (gets f) Q E"
  by (simp add: triple_def run)

lemma triple_modify [wp_intro]: "(\<And>s. P s \<Longrightarrow> Q () (f s)) \<Longrightarrow> triple P (modify f) Q E"
  by (simp add: triple_def run)

lemma triple_bind [wp_intro]:
  assumes "triple P m R E" and "\<And>a. triple (R a) (f a) Q E"
  shows "triple P (bind m f) Q E"
  using assms by (fastforce simp: triple_def run split: prod.splits outcome.splits)

lemma triple_attempt:
  assumes "triple P m (\<lambda>a. Q (Inr a)) (\<lambda>e. Q (Inl e))"
  shows "triple P (attempt m) Q E"
  using assms by (fastforce simp: triple_def run split: prod.splits outcome.splits)

lemma triple_for_each:
  assumes "\<And>x. x \<in> set xs \<Longrightarrow> triple I (f x) (\<lambda>_. I) E"
  shows "triple I (for_each xs f) (\<lambda>_. I) E"
  using assms
proof (induction xs)
  case Nil
  then show ?case by (simp add: triple_return)
next
  case (Cons x xs)
  then show ?case by (auto intro!: triple_bind[where R = "\<lambda>_. I"])
qed

section \<open>Frame conditions\<close>

text \<open>
  A frame condition relates the state before a program with the state after it,
  whenever it returns.  For a reflexive and transitive relation the condition is
  compositional; the rules are proved once here and used for every relation the
  components interpret the locale with.
\<close>

definition steps :: "('s \<Rightarrow> 's \<Rightarrow> bool) \<Rightarrow> ('s, 'e, 'a) prog \<Rightarrow> bool" where
  "steps R m \<longleftrightarrow> (\<forall>s. case m s of
      (Ok a, t) \<Rightarrow> R s t | (Err e, t) \<Rightarrow> R s t | (Panic, t) \<Rightarrow> True | (Hang, t) \<Rightarrow> True)"

lemma stepsI:
  assumes "\<And>s a t. m s = (Ok a, t) \<Longrightarrow> R s t" and "\<And>s e t. m s = (Err e, t) \<Longrightarrow> R s t"
  shows "steps R m"
  using assms by (auto simp: steps_def split: prod.split outcome.split)

lemma steps_Ok: "steps R m \<Longrightarrow> m s = (Ok a, t) \<Longrightarrow> R s t"
  by (auto simp: steps_def dest: spec[of _ s])

lemma steps_Err: "steps R m \<Longrightarrow> m s = (Err e, t) \<Longrightarrow> R s t"
  by (auto simp: steps_def dest: spec[of _ s])

lemma steps_returns: "steps R m \<Longrightarrow> m s = (r, t) \<Longrightarrow> r \<noteq> Panic \<Longrightarrow> r \<noteq> Hang \<Longrightarrow> R s t"
  by (cases r) (simp_all add: steps_Ok steps_Err)

lemma steps_weaken: "steps R m \<Longrightarrow> (\<And>s t. R s t \<Longrightarrow> R' s t) \<Longrightarrow> steps R' m"
  by (blast intro: stepsI dest: steps_Ok steps_Err)

lemma steps_conj: "steps R m \<Longrightarrow> steps R' m \<Longrightarrow> steps (\<lambda>s t. R s t \<and> R' s t) m"
  by (blast intro: stepsI dest: steps_Ok steps_Err)

locale step_relation =
  fixes R :: "'s \<Rightarrow> 's \<Rightarrow> bool"
  assumes R_refl: "R s s"
    and R_trans: "R s t \<Longrightarrow> R t u \<Longrightarrow> R s u"
begin

lemma steps_return: "steps R (return a)"
  by (simp add: steps_def run R_refl)

lemma steps_throw: "steps R (throw e)"
  by (simp add: steps_def run R_refl)

lemma steps_panic: "steps R panic"
  by (simp add: steps_def run)

lemma steps_hang: "steps R hang"
  by (simp add: steps_def run)

lemma steps_gets: "steps R (gets f)"
  by (simp add: steps_def run R_refl)

lemma steps_modify: "(\<And>s. R s (f s)) \<Longrightarrow> steps R (modify f)"
  by (simp add: steps_def run)

lemma steps_ok_or: "steps R (ok_or e x)"
  by (simp add: steps_def run R_refl split: option.split)

lemma steps_unwrap: "steps R (unwrap x)"
  by (simp add: steps_def run R_refl split: option.split)

lemma steps_index_slice: "steps R (index_slice xs i)"
  by (simp add: steps_def run R_refl)

lemma steps_bind:
  assumes "steps R m" and "\<And>a. steps R (f a)"
  shows "steps R (bind m f)"
proof (rule stepsI)
  fix s a t assume "bind m f s = (Ok a, t)"
  then show "R s t"
    using assms by (auto simp: run split: prod.splits outcome.splits dest: steps_Ok intro: R_trans)
next
  fix s e t assume "bind m f s = (Err e, t)"
  then show "R s t"
    using assms
    by (auto simp: run split: prod.splits outcome.splits dest: steps_Ok steps_Err intro: R_trans)
qed

lemma steps_attempt: "steps R m \<Longrightarrow> steps R (attempt m)"
  by (rule stepsI) (auto simp: run split: prod.splits outcome.splits dest: steps_Ok steps_Err)

lemma steps_map_err: "steps R m \<Longrightarrow> steps R (map_err h m)"
  by (rule stepsI) (auto simp: run split: prod.splits outcome.splits dest: steps_Ok steps_Err)

lemma steps_only_if: "(c \<Longrightarrow> steps R m) \<Longrightarrow> steps R (only_if c m)"
  by (simp add: only_if_def steps_return)

lemma steps_if: "(c \<Longrightarrow> steps R m) \<Longrightarrow> (\<not> c \<Longrightarrow> steps R n) \<Longrightarrow> steps R (if c then m else n)"
  by simp

lemma steps_for_each: "(\<And>x. x \<in> set xs \<Longrightarrow> steps R (f x)) \<Longrightarrow> steps R (for_each xs f)"
  by (induction xs) (auto intro: steps_return steps_bind)

lemmas steps_rules =
  steps_return steps_throw steps_panic steps_hang steps_gets steps_ok_or steps_unwrap
  steps_index_slice steps_bind steps_attempt steps_map_err steps_only_if steps_if steps_for_each

end

section \<open>Programs that end\<close>

definition ends :: "('s, 'e, 'a) prog \<Rightarrow> bool" where
  "ends m \<longleftrightarrow> (\<forall>s. fst (m s) \<noteq> Hang)"

lemma ends_basic:
  "ends (return a)" "ends (throw e)" "ends panic" "ends (gets f)" "ends (modify g)"
  "ends (ok_or e x)" "ends (unwrap x)" "ends (index_slice xs i)"
  by (simp_all add: ends_def run split: option.split)

lemma ends_bind: "ends m \<Longrightarrow> (\<And>a. ends (f a)) \<Longrightarrow> ends (bind m f)"
  unfolding ends_def
proof
  fix s
  assume "\<forall>s. fst (m s) \<noteq> Hang" and f: "\<And>a. \<forall>s. fst (f a s) \<noteq> Hang"
  then have "fst (m s) \<noteq> Hang" by blast
  then show "fst (bind m f s) \<noteq> Hang"
    using f by (auto simp: bind_run split: prod.split outcome.split)
qed

lemma ends_if: "(c \<Longrightarrow> ends m) \<Longrightarrow> (\<not> c \<Longrightarrow> ends n) \<Longrightarrow> ends (if c then m else n)"
  by simp

lemma ends_only_if: "(c \<Longrightarrow> ends m) \<Longrightarrow> ends (only_if c m)"
  by (simp add: only_if_def ends_basic)

lemma ends_prod: "(\<And>a b. ends (f a b)) \<Longrightarrow> ends (case x of (a, b) \<Rightarrow> f a b)"
  by (cases x) simp

lemmas ends_rules = ends_basic ends_bind ends_if ends_only_if ends_prod

section \<open>Words\<close>

lemma word_eq_by_bits: "(\<And>n. n < LENGTH('a) \<Longrightarrow> bit x n = bit y n) \<Longrightarrow> x = (y :: 'a::len word)"
  by (rule bit_word_eqI) simp

lemma unat_u64_less: "unat (x :: u64) < 0x10000000000000000"
  by (rule order.strict_trans2[OF unsigned_less]) simp

lemma unat_pow2: "n < 64 \<Longrightarrow> unat ((2 :: u64) ^ n) = 2 ^ n"
proof -
  assume "n < 64"
  then have "(2 :: nat) ^ n < 2 ^ 64" by (intro power_strict_increasing) simp_all
  moreover have "(2 :: u64) ^ n = of_nat (2 ^ n)" by simp
  ultimately show ?thesis by (simp add: unat_of_nat del: of_nat_power of_nat_numeral)
qed

lemma unat_of_nat_u64: "n < 2 ^ 64 \<Longrightarrow> unat (of_nat n :: u64) = n"
  by (simp add: unat_of_nat take_bit_nat_eq_self)

lemma unat_of_nat_times: "k * unat m < 2 ^ 64 \<Longrightarrow> unat (of_nat k * m :: u64) = k * unat m"
  using unat_of_nat_u64[of "k * unat m"] by simp

lemma unat_less_4096_mult:
  fixes x :: u64
  assumes "unat x * 4096 < 2 ^ 64"
  shows "unat (x * 4096) = unat x * 4096"
  using assms by (simp add: unat_word_ariths)

end
