(* ===== verification/Islet_Bits.thy ===== *)
theory Islet_Bits
  imports Islet_Prelude
begin

text \<open>
  The bit-field layer, \<open>lib/armv9a/src/macro.rs\<close> and \<open>lib/armv9a/src/lib.rs\<close>: the
  mask macro, the accessors that \<open>define_bits!\<close> generates for every register and
  descriptor type, and the address alignment helpers of \<open>lib/vmsa/src/address.rs\<close>.
  The lemmas give each accessor as a shift and a truncation, the laws of reading
  a field after writing the same or a disjoint one, and the algebra of fields of
  descriptors that are built by \<open>OR\<close>.
\<close>

section \<open>Masks and accessors\<close>

definition define_mask :: "nat \<Rightarrow> nat \<Rightarrow> u64" where
  "define_mask e b = push_bit e 1 - push_bit b 1 + push_bit e 1"

definition trailing_zeros :: "u64 \<Rightarrow> nat" where
  "trailing_zeros w = length (takeWhile (\<lambda>i. \<not> bit w i) [0..<64])"

definition get_masked :: "u64 \<Rightarrow> u64 \<Rightarrow> u64" where
  "get_masked x m = x AND m"

definition get_masked_value :: "u64 \<Rightarrow> u64 \<Rightarrow> u64" where
  "get_masked_value x m = drop_bit (trailing_zeros m) (x AND m)"

definition set_masked :: "u64 \<Rightarrow> u64 \<Rightarrow> u64 \<Rightarrow> u64" where
  "set_masked x m v = (x AND NOT m) OR (v AND m)"

definition set_masked_value :: "u64 \<Rightarrow> u64 \<Rightarrow> u64 \<Rightarrow> u64" where
  "set_masked_value x m v = (x AND NOT m) OR (push_bit (trailing_zeros m) v AND m)"

definition set_bits :: "u64 \<Rightarrow> u64 \<Rightarrow> u64" where
  "set_bits x m = x OR m"

definition clear_bits :: "u64 \<Rightarrow> u64 \<Rightarrow> u64" where
  "clear_bits x m = x AND NOT m"

definition bits_in_reg :: "u64 \<Rightarrow> u64 \<Rightarrow> u64" where
  "bits_in_reg m v = push_bit (trailing_zeros m) v AND m"

section \<open>Alignment\<close>

definition align_down :: "usize \<Rightarrow> usize \<Rightarrow> usize" where
  "align_down addr align = addr AND NOT (align - 1)"

definition align_up :: "usize \<Rightarrow> usize \<Rightarrow> usize" where
  "align_up addr align =
    (let align_mask = align - 1
     in if addr AND align_mask = 0 then addr else (addr OR align_mask) + 1)"

section \<open>Fields as shifts\<close>

named_theorems field_simps' \<open>reading and writing bit fields\<close>

lemma define_mask_eq: "b \<le> e \<Longrightarrow> e < 64 \<Longrightarrow> define_mask e b = push_bit b (mask (e + 1 - b))"
  by (simp add: define_mask_def mask_eq_exp_minus_1 push_bit_eq_mult algebra_simps
      flip: power_add)

lemma bit_define_mask:
  "b \<le> e \<Longrightarrow> e < 64 \<Longrightarrow> bit (define_mask e b) n \<longleftrightarrow> b \<le> n \<and> n \<le> e"
  by (auto simp: define_mask_eq bit_push_bit_iff bit_mask_iff)

lemma takeWhile_upt_first:
  assumes "b < n" and "\<And>i. i < b \<Longrightarrow> P i" and "\<not> P b"
  shows "takeWhile P [0..<n] = [0..<b]"
proof -
  have "[0..<n] = [0..<b] @ b # [Suc b..<n]"
    using assms(1) upt_add_eq_append[of 0 b "n - b"] by (simp add: upt_conv_Cons)
  then show ?thesis using assms(2,3) by (simp add: takeWhile_append)
qed

lemma trailing_zeros_mask: "b \<le> e \<Longrightarrow> e < 64 \<Longrightarrow> trailing_zeros (define_mask e b) = b"
  by (simp add: trailing_zeros_def takeWhile_upt_first[of b 64] bit_define_mask)

lemma get_masked_value_eq [field_simps']:
  assumes "b \<le> e" and "e < 64"
  shows "get_masked_value x (define_mask e b) = take_bit (e + 1 - b) (drop_bit b x)"
  by (rule word_eq_by_bits)
    (use assms in \<open>auto simp: get_masked_value_def trailing_zeros_mask bit_drop_bit_eq bit_and_iff
      bit_define_mask bit_take_bit_iff\<close>)

lemma bit_get_masked_value:
  assumes "b \<le> e" and "e < 64"
  shows "bit (get_masked_value x (define_mask e b)) n \<longleftrightarrow> n < e + 1 - b \<and> bit x (b + n)"
  using assms by (simp add: get_masked_value_eq bit_take_bit_iff bit_drop_bit_eq)

lemma bit_bits_in_reg:
  assumes "b \<le> e" and "e < 64"
  shows "bit (bits_in_reg (define_mask e b) v) n \<longleftrightarrow> b \<le> n \<and> n \<le> e \<and> bit v (n - b)"
  using assms
  by (auto simp: bits_in_reg_def trailing_zeros_mask bit_and_iff bit_push_bit_iff bit_define_mask)

lemma get_masked_value_bound:
  assumes "b \<le> e" and "e < 64"
  shows "unat (get_masked_value x (define_mask e b)) < 2 ^ (e + 1 - b)"
  using assms by (simp add: get_masked_value_eq unsigned_take_bit_eq)

subsection \<open>Algebra of fields\<close>

lemma get_masked_value_or [field_simps']:
  "get_masked_value (x OR y) m = get_masked_value x m OR get_masked_value y m"
  by (simp add: get_masked_value_def bit.conj_disj_distrib2 drop_bit_or)

lemma get_masked_value_0 [field_simps', simp]: "get_masked_value 0 m = 0"
  by (simp add: get_masked_value_def)

lemma get_field_bits_in_reg_same:
  assumes "b \<le> e" and "e < 64"
  shows "get_masked_value (bits_in_reg (define_mask e b) v) (define_mask e b) = take_bit (e + 1 - b) v"
  by (rule word_eq_by_bits)
    (use assms in \<open>auto simp: bit_get_masked_value bit_bits_in_reg bit_take_bit_iff\<close>)

lemma get_field_bits_in_reg_disjoint:
  assumes "b \<le> e" and "e < 64" and "b' \<le> e'" and "e' < 64" and "e < b' \<or> e' < b"
  shows "get_masked_value (bits_in_reg (define_mask e b) v) (define_mask e' b') = 0"
  by (rule word_eq_by_bits)
    (use assms in \<open>auto simp: bit_get_masked_value bit_bits_in_reg\<close>)

lemma get_field_set_same:
  assumes "b \<le> e" and "e < 64"
  shows "get_masked_value (set_masked_value x (define_mask e b) v) (define_mask e b)
    = take_bit (e + 1 - b) v"
  by (rule word_eq_by_bits)
    (use assms in \<open>auto simp: bit_get_masked_value set_masked_value_def bit_or_iff bit_and_iff
      bit_not_iff bit_define_mask trailing_zeros_mask bit_push_bit_iff bit_take_bit_iff\<close>)

lemma get_field_set_disjoint:
  assumes "b \<le> e" and "e < 64" and "b' \<le> e'" and "e' < 64" and "e < b' \<or> e' < b"
  shows "get_masked_value (set_masked_value x (define_mask e b) v) (define_mask e' b')
    = get_masked_value x (define_mask e' b')"
  by (rule word_eq_by_bits)
    (use assms in \<open>auto simp: bit_get_masked_value set_masked_value_def bit_or_iff bit_and_iff
      bit_not_iff bit_define_mask\<close>)

lemma set_masked_value_0: "set_masked_value 0 m v = bits_in_reg m v"
  by (simp add: set_masked_value_def bits_in_reg_def)

lemma set_masked_value_get:
  assumes "b \<le> e" and "e < 64"
  shows "set_masked_value x (define_mask e b) (get_masked_value x (define_mask e b)) = x"
  by (rule word_eq_by_bits)
    (use assms in \<open>auto simp: set_masked_value_def bit_or_iff bit_and_iff bit_not_iff
      bit_define_mask trailing_zeros_mask bit_push_bit_iff bit_get_masked_value\<close>)

subsection \<open>Alignment to a power of two\<close>

lemma align_down_eq: "n < 64 \<Longrightarrow> align_down a (2 ^ n) = push_bit n (drop_bit n a)"
  by (rule word_eq_by_bits)
    (auto simp: align_down_def bit_and_iff bit_not_iff bit_push_bit_iff bit_drop_bit_eq
      bit_mask_iff simp flip: mask_eq_exp_minus_1)

lemma and_low_mask_eq_0_iff: "(a AND (2 ^ n - 1) = (0 :: u64)) \<longleftrightarrow> take_bit n a = 0"
  by (simp add: take_bit_eq_mask mask_eq_exp_minus_1)

end
