(* ===== verification/Rmi_Error.thy ===== *)
theory Rmi_Error
  imports Islet_Bits
begin

text \<open>
  Error values and interface constants: \<open>rmm/src/rmi/error.rs\<close>,
  \<open>rmm/src/rsi/error.rs\<close>, \<open>rmm/src/measurement/error.rs\<close>, the command identifiers and
  status codes of \<open>rmm/src/rmi/mod.rs\<close> and \<open>rmm/src/rsi/mod.rs\<close>, and the version
  words of \<open>rmm/src/rmi/version.rs\<close> and \<open>rmm/src/rsi/version.rs\<close>.
\<close>

section \<open>Errors\<close>

datatype measurement_error = InvalidHashAlgorithmValue u8 | OutputBufferTooSmall

datatype rsi_error = RealmDoesNotExists | InvalidMeasurementIndexRsi | MeasurementErrorRsi measurement_error

datatype internal_error = NotExistRealm | MeasurementErr | InvalidMeasurementIndex

datatype error =
    RmiErrorInput
  | RmiErrorRealm usize
  | RmiErrorRec
  | RmiErrorRtt usize
  | RmiErrorInUse
  | RmiErrorCount
  | RmiErrorOthers internal_error

fun error_code :: "error \<Rightarrow> usize" where
  "error_code RmiErrorInput = 1"
| "error_code (RmiErrorRealm index) = 2 OR push_bit 8 index"
| "error_code RmiErrorRec = 3"
| "error_code (RmiErrorRtt level) = 4 OR push_bit 8 level"
| "error_code RmiErrorInUse = 5"
| "error_code RmiErrorCount = 6"
| "error_code (RmiErrorOthers _) = 7"

definition error_of_measurement :: "measurement_error \<Rightarrow> error" where
  "error_of_measurement _ = RmiErrorOthers MeasurementErr"

fun error_of_rsi :: "rsi_error \<Rightarrow> error" where
  "error_of_rsi RealmDoesNotExists = RmiErrorOthers NotExistRealm"
| "error_of_rsi _ = RmiErrorOthers InvalidMeasurementIndex"

definition rsi_error_of_measurement :: "measurement_error \<Rightarrow> rsi_error" where
  "rsi_error_of_measurement value = MeasurementErrorRsi value"

section \<open>Interface constants\<close>

abbreviation (input) RMI_VERSION :: usize where "RMI_VERSION \<equiv> 0xc4000150"
abbreviation (input) RMI_GRANULE_DELEGATE :: usize where "RMI_GRANULE_DELEGATE \<equiv> 0xc4000151"
abbreviation (input) RMI_GRANULE_UNDELEGATE :: usize where "RMI_GRANULE_UNDELEGATE \<equiv> 0xc4000152"
abbreviation (input) RMI_DATA_CREATE :: usize where "RMI_DATA_CREATE \<equiv> 0xc4000153"
abbreviation (input) RMI_DATA_CREATE_UNKNOWN :: usize where "RMI_DATA_CREATE_UNKNOWN \<equiv> 0xc4000154"
abbreviation (input) RMI_DATA_DESTROY :: usize where "RMI_DATA_DESTROY \<equiv> 0xc4000155"
abbreviation (input) RMI_REALM_ACTIVATE :: usize where "RMI_REALM_ACTIVATE \<equiv> 0xc4000157"
abbreviation (input) RMI_REALM_CREATE :: usize where "RMI_REALM_CREATE \<equiv> 0xc4000158"
abbreviation (input) RMI_REALM_DESTROY :: usize where "RMI_REALM_DESTROY \<equiv> 0xc4000159"
abbreviation (input) RMI_REC_CREATE :: usize where "RMI_REC_CREATE \<equiv> 0xc400015a"
abbreviation (input) RMI_REC_DESTROY :: usize where "RMI_REC_DESTROY \<equiv> 0xc400015b"
abbreviation (input) RMI_REC_ENTER :: usize where "RMI_REC_ENTER \<equiv> 0xc400015c"
abbreviation (input) RMI_RTT_CREATE :: usize where "RMI_RTT_CREATE \<equiv> 0xc400015d"
abbreviation (input) RMI_RTT_DESTROY :: usize where "RMI_RTT_DESTROY \<equiv> 0xc400015e"
abbreviation (input) RMI_RTT_MAP_UNPROTECTED :: usize where "RMI_RTT_MAP_UNPROTECTED \<equiv> 0xc400015f"
abbreviation (input) RMI_RTT_READ_ENTRY :: usize where "RMI_RTT_READ_ENTRY \<equiv> 0xc4000161"
abbreviation (input) RMI_RTT_UNMAP_UNPROTECTED :: usize where "RMI_RTT_UNMAP_UNPROTECTED \<equiv> 0xc4000162"
abbreviation (input) RMI_PSCI_COMPLETE :: usize where "RMI_PSCI_COMPLETE \<equiv> 0xc4000164"
abbreviation (input) RMI_FEATURES :: usize where "RMI_FEATURES \<equiv> 0xc4000165"
abbreviation (input) RMI_RTT_FOLD :: usize where "RMI_RTT_FOLD \<equiv> 0xc4000166"
abbreviation (input) RMI_REC_AUX_COUNT :: usize where "RMI_REC_AUX_COUNT \<equiv> 0xc4000167"
abbreviation (input) RMI_RTT_INIT_RIPAS :: usize where "RMI_RTT_INIT_RIPAS \<equiv> 0xc4000168"
abbreviation (input) RMI_RTT_SET_RIPAS :: usize where "RMI_RTT_SET_RIPAS \<equiv> 0xc4000169"
abbreviation (input) RMI_ISLET_REALM_SET_METADATA :: usize where "RMI_ISLET_REALM_SET_METADATA \<equiv> 0xc7000150"
abbreviation (input) RMI_REQ_COMPLETE :: usize where "RMI_REQ_COMPLETE \<equiv> 0xc400018f"
abbreviation (input) RMI_BOOT_COMPLETE :: usize where "RMI_BOOT_COMPLETE \<equiv> 0xc40001cf"
abbreviation (input) BOOT_SUCCESS :: usize where "BOOT_SUCCESS \<equiv> 0"
abbreviation (input) NOT_SUPPORTED_YET :: usize where "NOT_SUPPORTED_YET \<equiv> 0xffffeeee"
abbreviation (input) ABI_MAJOR_VERSION :: usize where "ABI_MAJOR_VERSION \<equiv> 1"
abbreviation (input) ABI_MINOR_VERSION :: usize where "ABI_MINOR_VERSION \<equiv> 0"
abbreviation (input) HASH_ALGO_SHA256 :: u8 where "HASH_ALGO_SHA256 \<equiv> 0"
abbreviation (input) HASH_ALGO_SHA512 :: u8 where "HASH_ALGO_SHA512 \<equiv> 1"
abbreviation (input) RET_FAIL :: usize where "RET_FAIL \<equiv> 0x100"
abbreviation (input) RMI_SUCCESS :: usize where "RMI_SUCCESS \<equiv> 0"
abbreviation (input) RMI_ERROR_REC :: usize where "RMI_ERROR_REC \<equiv> 3"
abbreviation (input) SUCCESS_REC_ENTER :: usize where "SUCCESS_REC_ENTER \<equiv> 4"
abbreviation (input) RMI_UNASSIGNED :: usize where "RMI_UNASSIGNED \<equiv> 0"
abbreviation (input) RMI_ASSIGNED :: usize where "RMI_ASSIGNED \<equiv> 1"
abbreviation (input) RMI_TABLE :: usize where "RMI_TABLE \<equiv> 2"
abbreviation (input) MAX_REC_AUX_GRANULES :: nat where "MAX_REC_AUX_GRANULES \<equiv> 16"
abbreviation (input) EXIT_SYNC :: u8 where "EXIT_SYNC \<equiv> 0"
abbreviation (input) EXIT_IRQ :: u8 where "EXIT_IRQ \<equiv> 1"
abbreviation (input) EXIT_PSCI :: u8 where "EXIT_PSCI \<equiv> 3"
abbreviation (input) EXIT_RIPAS_CHANGE :: u8 where "EXIT_RIPAS_CHANGE \<equiv> 4"
abbreviation (input) EXIT_HOST_CALL :: u8 where "EXIT_HOST_CALL \<equiv> 5"

abbreviation (input) RSI_SUCCESS :: usize where "RSI_SUCCESS \<equiv> 0"
abbreviation (input) RSI_ERROR_INPUT :: usize where "RSI_ERROR_INPUT \<equiv> 1"
abbreviation (input) RSI_ERROR_STATE :: usize where "RSI_ERROR_STATE \<equiv> 2"
abbreviation (input) RSI_INCOMPLETE :: usize where "RSI_INCOMPLETE \<equiv> 3"

section \<open>Versions\<close>

definition decode_version :: "usize \<Rightarrow> usize \<times> usize" where
  "decode_version version =
    (drop_bit 16 (version AND 0x7fff0000), version AND 0xffff)"

definition encode_version :: "usize" where
  "encode_version = push_bit 16 ABI_MAJOR_VERSION OR ABI_MINOR_VERSION"

lemma decode_encode_version: "decode_version encode_version = (ABI_MAJOR_VERSION, ABI_MINOR_VERSION)"
  by (simp add: decode_version_def encode_version_def)

section \<open>Status codes\<close>

text \<open>
  The low byte of a status code names the kind of error, the rest its index, and
  no error is reported as success.  A level or index of at most 55 bits can be
  read back.
\<close>

lemma error_code_low: "take_bit 8 (error_code e) = (case e of RmiErrorInput \<Rightarrow> 1 | RmiErrorRealm _ \<Rightarrow> 2
   | RmiErrorRec \<Rightarrow> 3 | RmiErrorRtt _ \<Rightarrow> 4 | RmiErrorInUse \<Rightarrow> 5 | RmiErrorCount \<Rightarrow> 6 | RmiErrorOthers _ \<Rightarrow> 7)"
  by (cases e) (simp_all add: take_bit_push_bit)

lemma error_code_nonzero: "error_code e \<noteq> RMI_SUCCESS"
proof
  assume "error_code e = RMI_SUCCESS"
  then have "take_bit 8 (error_code e) = 0" by simp
  then show False unfolding error_code_low by (cases e) simp_all
qed

end
