(* ===== verification/Realm_Rd.thy ===== *)
theory Realm_Rd
  imports Rmi_Error
begin

text \<open>
  The Realm Descriptor, \<open>rmm/src/realm/rd.rs\<close>: the record that a granule in state
  \<open>RD\<close> holds, its initialisation and its accessors.  A shift by a register-sized
  amount is modelled as the release build executes it, with the amount reduced
  modulo 64.  The SIMD configuration of \<open>rmm/src/rec/simd.rs\<close> is here because the
  descriptor embeds it.
\<close>

definition shl :: "u64 \<Rightarrow> u64 \<Rightarrow> u64" where
  "shl x n = push_bit (unat (n AND 63)) x"

lemma shl_eq: "n < 64 \<Longrightarrow> shl x n = push_bit (unat n) x"
proof -
  assume "n < 64"
  then have "unat n < 2 ^ 6" by (simp add: word_less_nat_alt)
  then have "take_bit 6 n = n" by (simp add: take_bit_nat_eq_self_iff unsigned_take_bit_eq word_unat_eq_iff)
  then have "n AND 63 = n" by (simp add: take_bit_eq_mask mask_eq_exp_minus_1)
  then show ?thesis by (simp add: shl_def)
qed

datatype realm_state = Null | New | Active | SystemOff

record simd_config =
  sve_en :: bool
  sve_vq :: u64
  sme_en :: bool

record rd =
  rd_vmid :: u16
  rd_state :: realm_state
  rd_rtt_base :: usize
  rd_rtt_num_start :: usize
  rd_ipa_bits :: usize
  rd_rec_index :: usize
  rd_s2_starting_level :: u64
  rd_hash_algo :: u8
  rd_rpv :: "u8 list"
  rd_measurements :: "u8 list list"
  rd_vcpu_index :: usize
  rd_metadata :: "usize option"
  rd_simd_cfg :: simd_config

abbreviation (input) MEASUREMENTS_SLOT_MAX_SIZE :: nat where "MEASUREMENTS_SLOT_MAX_SIZE \<equiv> 64"
abbreviation (input) MEASUREMENTS_SLOT_NR :: nat where "MEASUREMENTS_SLOT_NR \<equiv> 5"
abbreviation (input) MEASUREMENTS_SLOT_RIM :: nat where "MEASUREMENTS_SLOT_RIM \<equiv> 0"

definition measurement_empty :: "u8 list" where
  "measurement_empty = replicate MEASUREMENTS_SLOT_MAX_SIZE 0"

text \<open>What a wiped granule reads as.\<close>

definition rd_zero :: rd where
  "rd_zero = \<lparr> rd_vmid = 0, rd_state = Null, rd_rtt_base = 0, rd_rtt_num_start = 0, rd_ipa_bits = 0,
     rd_rec_index = 0, rd_s2_starting_level = 0, rd_hash_algo = 0, rd_rpv = replicate 64 0,
     rd_measurements = replicate MEASUREMENTS_SLOT_NR measurement_empty,
     rd_vcpu_index = 0, rd_metadata = None,
     rd_simd_cfg = \<lparr> sve_en = False, sve_vq = 0, sme_en = False \<rparr> \<rparr>"

definition rd_init ::
  "rd \<Rightarrow> u16 \<Rightarrow> usize \<Rightarrow> usize \<Rightarrow> usize \<Rightarrow> u64 \<Rightarrow> u8 list \<Rightarrow> bool \<Rightarrow> u64 \<Rightarrow> rd" where
  "rd_init r vmid rtt_base rtt_num_start ipa_bits s2_starting_level rpv en vl =
    r\<lparr> rd_vmid := vmid, rd_state := New, rd_rtt_base := rtt_base, rd_rtt_num_start := rtt_num_start,
       rd_ipa_bits := ipa_bits, rd_rec_index := 0, rd_s2_starting_level := s2_starting_level,
       rd_measurements := replicate MEASUREMENTS_SLOT_NR measurement_empty,
       rd_vcpu_index := 0, rd_rpv := rpv, rd_metadata := None,
       rd_simd_cfg := (let c = (rd_simd_cfg r)\<lparr> sve_en := en \<rparr>
                       in if en then c\<lparr> sve_vq := vl \<rparr> else c) \<rparr>"

definition rd_id :: "rd \<Rightarrow> usize" where
  "rd_id r = ucast (rd_vmid r)"

definition at_state :: "rd \<Rightarrow> realm_state \<Rightarrow> bool" where
  "at_state r compared \<longleftrightarrow> rd_state r = compared"

definition inc_rec_index :: "rd \<Rightarrow> rd" where
  "inc_rec_index r = r\<lparr> rd_rec_index := rd_rec_index r + 1 \<rparr>"

definition ipa_size :: "rd \<Rightarrow> usize" where
  "ipa_size r = shl 1 (rd_ipa_bits r)"

definition par_size :: "rd \<Rightarrow> usize" where
  "par_size r = ipa_size r div 2"

definition addr_in_par :: "rd \<Rightarrow> usize \<Rightarrow> bool" where
  "addr_in_par r ipa \<longleftrightarrow> ipa < par_size r"

section \<open>Address ranges\<close>

lemma unat_ipa_size:
  assumes "rd_ipa_bits r < 64"
  shows "unat (ipa_size r) = 2 ^ unat (rd_ipa_bits r)"
proof -
  have "unat (rd_ipa_bits r) < 64" using assms by (simp add: word_less_nat_alt)
  then show ?thesis
    using assms by (simp add: ipa_size_def shl_eq push_bit_eq_mult unat_pow2)
qed

lemma addr_in_par_iff:
  assumes "0 < rd_ipa_bits r" and "rd_ipa_bits r < 64"
  shows "addr_in_par r ipa \<longleftrightarrow> unat ipa < 2 ^ (unat (rd_ipa_bits r) - 1)"
proof -
  have pos: "0 < unat (rd_ipa_bits r)" using assms(1) by (simp add: word_less_nat_alt)
  have "unat (par_size r) = 2 ^ unat (rd_ipa_bits r) div 2"
    using assms(2) by (simp add: par_size_def unat_div unat_ipa_size)
  also have "\<dots> = 2 ^ (unat (rd_ipa_bits r) - 1)"
    using pos by (cases "unat (rd_ipa_bits r)") simp_all
  finally show ?thesis by (simp add: addr_in_par_def word_less_nat_alt)
qed

end
