(* ===== verification/Rec_Context.thy ===== *)
theory Rec_Context
  imports Realm_Rd
begin

text \<open>
  The Realm Execution Context: the register context of \<open>rmm/src/rec/context.rs\<close>, the
  record and its operations of \<open>rmm/src/rec/mod.rs\<close>, the vCPU indexing of
  \<open>rmm/src/rmi/rec/mpidr.rs\<close> and the initial values that \<open>timer.rs\<close>, \<open>gic.rs\<close> and
  \<open>simd.rs\<close> of \<open>rmm/src/rec\<close> give it.  Register layouts that come from the crates
  \<open>aarch64-cpu\<close> and \<open>tock-registers\<close>, which are not part of the repository, are the
  fields of the record \<open>platform\<close>, as are the values that the hardware reports.
\<close>

section \<open>Platform parameters\<close>

record reg_field =
  fld_shift :: nat
  fld_mask :: u64

record gic_features =
  nr_lrs :: nat
  nr_aprs :: nat
  pri_res0_mask :: u64
  max_vintid :: u64
  ext_range :: bool

record platform =
  p_spsr_reset :: u64
  p_cnthctl_init :: u64
  p_ich_hcr_init :: u64
  p_hcr_ns_mask :: u64
  p_hcr_eoi_count_shift :: nat
  p_hcr_en :: u64
  p_lr_state :: reg_field
  p_lr_vintid :: reg_field
  p_lr_priority :: reg_field
  p_lr_pintid :: reg_field
  p_lr_eoi :: reg_field
  p_lr_hw :: reg_field
  p_lr_state_invalid :: u64
  p_gic :: gic_features
  p_simd :: simd_config
  p_hpfar_fipa :: reg_field
  p_vttbr_vmid :: reg_field
  p_vttbr_baddr :: reg_field
  p_mpidr_res1 :: reg_field
  p_vtcr :: "u64 \<Rightarrow> u64 \<Rightarrow> u64"
  p_esr_ec :: reg_field
  p_esr_el1_unknown :: u64
  p_id_reg :: "u32 \<Rightarrow> u64"
  p_field :: "string \<Rightarrow> reg_field"
  p_x0_quads :: "128 word list \<Rightarrow> 128 word \<times> 128 word"

section \<open>Register context\<close>

record sys_regs =
  sr_sp :: u64
  sr_sp_el0 :: u64
  sr_esr_el1 :: u64
  sr_vbar :: u64
  sr_ttbr0 :: u64
  sr_ttbr1 :: u64
  sr_mair :: u64
  sr_amair :: u64
  sr_tcr :: u64
  sr_tpidr :: u64
  sr_tpidr_el0 :: u64
  sr_tpidrro :: u64
  sr_actlr :: u64
  sr_vmpidr :: u64
  sr_csselr :: u64
  sr_cpacr :: u64
  sr_afsr0 :: u64
  sr_afsr1 :: u64
  sr_far :: u64
  sr_contextidr :: u64
  sr_cntkctl :: u64
  sr_par :: u64
  sr_vttbr :: u64
  sr_esr_el2 :: u64
  sr_hpfar :: u64
  sr_sctlr :: u64

record gic_regs =
  ich_ap0r_el2 :: "u64 list"
  ich_ap1r_el2 :: "u64 list"
  ich_vmcr_el2 :: u64
  ich_hcr_el2 :: u64
  ich_lr_el2 :: "u64 list"
  ich_misr_el2 :: u64

record timer_regs =
  cntvoff_el2 :: u64
  cntv_cval_el0 :: u64
  cntv_ctl_el0 :: u64
  cntpoff_el2 :: u64
  cntp_cval_el0 :: u64
  cntp_ctl_el0 :: u64
  cnthctl_el2 :: u64

record fpu_regs =
  fpu_q :: "128 word list"
  fpu_fpsr :: u64
  fpu_fpcr :: u64

record simd_regs =
  simd_is_used :: bool
  simd_is_saved :: bool
  simd_cfg :: simd_config
  simd_cptr_el2 :: u64
  simd_svcr :: u64
  simd_fpu :: fpu_regs
  simd_zcr_el2 :: u64
  simd_zcr_el12 :: u64

record rec_ctx =
  gp_regs :: "u64 list"
  elr :: u64
  spsr :: u64
  sys_regs :: sys_regs
  gic_state :: gic_regs
  timer :: timer_regs
  simd :: simd_regs

definition sys_regs_default :: sys_regs where
  "sys_regs_default = \<lparr> sr_sp = 0, sr_sp_el0 = 0, sr_esr_el1 = 0, sr_vbar = 0, sr_ttbr0 = 0,
     sr_ttbr1 = 0, sr_mair = 0, sr_amair = 0, sr_tcr = 0, sr_tpidr = 0, sr_tpidr_el0 = 0,
     sr_tpidrro = 0, sr_actlr = 0, sr_vmpidr = 0, sr_csselr = 0, sr_cpacr = 0, sr_afsr0 = 0,
     sr_afsr1 = 0, sr_far = 0, sr_contextidr = 0, sr_cntkctl = 0, sr_par = 0, sr_vttbr = 0,
     sr_esr_el2 = 0, sr_hpfar = 0, sr_sctlr = 0 \<rparr>"

definition gic_default :: gic_regs where
  "gic_default = \<lparr> ich_ap0r_el2 = replicate 4 0, ich_ap1r_el2 = replicate 4 0, ich_vmcr_el2 = 0,
     ich_hcr_el2 = 0, ich_lr_el2 = replicate 16 0, ich_misr_el2 = 0 \<rparr>"

definition timer_default :: timer_regs where
  "timer_default = \<lparr> cntvoff_el2 = 0, cntv_cval_el0 = 0, cntv_ctl_el0 = 0, cntpoff_el2 = 0,
     cntp_cval_el0 = 0, cntp_ctl_el0 = 0, cnthctl_el2 = 0 \<rparr>"

definition simd_default :: simd_regs where
  "simd_default = \<lparr> simd_is_used = False, simd_is_saved = False,
     simd_cfg = \<lparr> sve_en = False, sve_vq = 0, sme_en = False \<rparr>, simd_cptr_el2 = 0, simd_svcr = 0,
     simd_fpu = \<lparr> fpu_q = replicate 32 0, fpu_fpsr = 0, fpu_fpcr = 0 \<rparr>,
     simd_zcr_el2 = 0, simd_zcr_el12 = 0 \<rparr>"

definition context_new :: "platform \<Rightarrow> rec_ctx" where
  "context_new p = \<lparr> gp_regs = replicate 31 0, elr = 0, spsr = p_spsr_reset p,
     sys_regs = sys_regs_default, gic_state = gic_default, timer = timer_default,
     simd = simd_default \<rparr>"

text \<open>
  The registers of the core that the monitor switches with an execution context.
  \<open>c_sys\<close> are the EL1 registers of \<open>SystemRegister\<close>; \<open>ELR_EL1\<close> and \<open>SPSR_EL1\<close> are not
  among them.  \<open>c_ns_simd\<close> is the entry of the table \<open>NS_SIMD\<close> of this core.
\<close>

record cpu =
  c_tpidr_el2 :: usize
  c_vtcr_el2 :: u64
  c_sys :: sys_regs
  c_elr_el1 :: u64
  c_spsr_el1 :: u64
  c_far_el2 :: u64
  c_gic :: gic_regs
  c_timer :: timer_regs
  c_cptr_el2 :: u64
  c_zcr_el2 :: u64
  c_zcr_el1 :: u64
  c_fpu :: fpu_regs
  c_ns_simd :: simd_regs

section \<open>The execution context record\<close>

datatype attest_state = AttestInProgress | NoAttestInProgress

datatype emulatable_abort = EmulatableAbort | NotEmulatableAbort

datatype rec_state = Ready | Running

record ripas_range =
  ripas_start :: u64
  ripas_end :: u64
  ripas_addr :: u64
  ripas_state :: u8
  ripas_flags :: u64

record rec =
  rec_context :: rec_ctx
  rec_attest_state :: attest_state
  rec_attest_challenge :: "u8 list"
  rec_attest_token_offset :: usize
  rec_aux :: "u64 list"
  rec_emulatable_abort :: emulatable_abort
  rec_owner :: "usize option"
  rec_vcpuid :: usize
  rec_runnable :: bool
  rec_psci_pending :: bool
  rec_state :: rec_state
  rec_ripas :: ripas_range
  rec_vtcr :: u64
  rec_host_call_pending :: bool

definition rec_new :: "platform \<Rightarrow> rec" where
  "rec_new p = \<lparr> rec_context = context_new p, rec_attest_state = NoAttestInProgress,
     rec_attest_challenge = replicate 64 0, rec_attest_token_offset = 0, rec_aux = replicate 16 0,
     rec_emulatable_abort = NotEmulatableAbort, rec_owner = None, rec_vcpuid = 0,
     rec_runnable = False, rec_psci_pending = False, rec_state = Ready,
     rec_ripas = \<lparr> ripas_start = 0, ripas_end = 0, ripas_addr = 0, ripas_state = 0, ripas_flags = 0 \<rparr>,
     rec_vtcr = 0, rec_host_call_pending = False \<rparr>"

definition set_runnable :: "rec \<Rightarrow> u64 \<Rightarrow> rec" where
  "set_runnable r flags = r\<lparr> rec_runnable := (flags AND 1 \<noteq> 0) \<rparr>"

definition set_ripas_range :: "rec \<Rightarrow> u64 \<Rightarrow> u64 \<Rightarrow> u8 \<Rightarrow> u64 \<Rightarrow> rec" where
  "set_ripas_range r start fin st flags =
    r\<lparr> rec_ripas := \<lparr> ripas_start = start, ripas_end = fin, ripas_addr = start,
         ripas_state = st, ripas_flags = flags \<rparr> \<rparr>"

definition set_ripas_addr :: "rec \<Rightarrow> u64 \<Rightarrow> rec" where
  "set_ripas_addr r addr = r\<lparr> rec_ripas := (rec_ripas r)\<lparr> ripas_addr := addr \<rparr> \<rparr>"

definition reset_ctx :: "platform \<Rightarrow> rec \<Rightarrow> rec" where
  "reset_ctx p r = r\<lparr> rec_context := (rec_context r)\<lparr> spsr := p_spsr_reset p,
     sys_regs := (sys_regs (rec_context r))\<lparr> sr_sctlr := 0 \<rparr> \<rparr> \<rparr>"

text \<open>General purpose registers, the program counter and the saved program status.\<close>

definition set_reg_rec :: "rec \<Rightarrow> usize \<Rightarrow> usize \<Rightarrow> error + rec" where
  "set_reg_rec r register val =
    (if register \<le> 30
     then Inr (r\<lparr> rec_context := (rec_context r)\<lparr>
            gp_regs := (gp_regs (rec_context r))[unat register := val] \<rparr> \<rparr>)
     else if register = 31 then Inr (r\<lparr> rec_context := (rec_context r)\<lparr> elr := val \<rparr> \<rparr>)
     else if register = 32 then Inr (r\<lparr> rec_context := (rec_context r)\<lparr> spsr := val \<rparr> \<rparr>)
     else Inl RmiErrorInput)"

definition get_reg_rec :: "rec \<Rightarrow> usize \<Rightarrow> error + usize" where
  "get_reg_rec r register =
    (if register \<le> 30 then Inr (gp_regs (rec_context r) ! unat register)
     else if register = 31 then Inr (elr (rec_context r))
     else Inl RmiErrorInput)"

section \<open>Initialisation\<close>

definition init_timer :: "platform \<Rightarrow> rec_ctx \<Rightarrow> rec_ctx" where
  "init_timer p c = c\<lparr> timer := (timer c)\<lparr> cnthctl_el2 := p_cnthctl_init p \<rparr> \<rparr>"

definition init_gic :: "platform \<Rightarrow> rec_ctx \<Rightarrow> rec_ctx" where
  "init_gic p c = c\<lparr> gic_state := (gic_state c)\<lparr> ich_hcr_el2 := p_ich_hcr_init p \<rparr> \<rparr>"

text \<open>\<open>CPTR_EL2\<close>: the bits TAM, TSM, TFP and TZ of \<open>lib/armv9a/src/regs/cptr_el2.rs\<close>.\<close>

definition cptr_el2_traps :: u64 where
  "cptr_el2_traps = push_bit 30 1 + push_bit 12 1 + push_bit 10 1 + push_bit 8 1"

definition init_simd :: "simd_config \<Rightarrow> rec_ctx \<Rightarrow> rec_ctx" where
  "init_simd cfg c =
    (let zcr = (if sve_en cfg then sve_vq cfg AND 15 else 0)
     in c\<lparr> simd := (simd c)\<lparr> simd_is_used := False, simd_is_saved := False, simd_cfg := cfg,
          simd_cptr_el2 := cptr_el2_traps, simd_zcr_el2 := zcr, simd_svcr := 0 \<rparr> \<rparr>)"

definition rec_init ::
  "platform \<Rightarrow> (usize \<Rightarrow> rd) \<Rightarrow> rec \<Rightarrow> usize \<Rightarrow> usize \<Rightarrow> u64 \<Rightarrow> u64 list \<Rightarrow> u64 \<Rightarrow> u64 \<Rightarrow> error + rec" where
  "rec_init p rd_at r owner vcpuid flags aux vttbr vmpidr =
    (if owner = 0 then Inl RmiErrorInput
     else case rec_owner r of
       Some _ \<Rightarrow> Inl RmiErrorRec
     | None \<Rightarrow>
        (let r1 = set_runnable (r\<lparr> rec_owner := Some owner, rec_vcpuid := vcpuid \<rparr>) flags;
             c1 = (rec_context r1)\<lparr> sys_regs := (sys_regs (rec_context r1))\<lparr>
                     sr_vttbr := vttbr, sr_vmpidr := vmpidr \<rparr> \<rparr>;
             c2 = init_simd (rd_simd_cfg (rd_at owner)) (init_gic p (init_timer p c1))
         in Inr (r1\<lparr> rec_aux := aux, rec_context := c2 \<rparr>)))"

section \<open>vCPU index\<close>

definition MPIDR_AFF3 :: u64 where "MPIDR_AFF3 = define_mask 31 24"
definition MPIDR_AFF2 :: u64 where "MPIDR_AFF2 = define_mask 23 16"
definition MPIDR_AFF1 :: u64 where "MPIDR_AFF1 = define_mask 15 8"
definition MPIDR_AFF0 :: u64 where "MPIDR_AFF0 = define_mask 3 0"

lemmas mpidr_masks = MPIDR_AFF0_def MPIDR_AFF1_def MPIDR_AFF2_def MPIDR_AFF3_def

definition mpidr_index :: "u64 \<Rightarrow> usize" where
  "mpidr_index m =
    (let aff0 = get_masked_value m MPIDR_AFF0;
         aff1 = get_masked_value m MPIDR_AFF1;
         aff2 = get_masked_value m MPIDR_AFF2;
         aff3 = get_masked_value m MPIDR_AFF3
     in aff0 + 16 * aff1 + 16 * 256 * aff2 + 16 * 256 * 256 * aff3)"

definition mpidr_validate :: "u64 \<Rightarrow> bool" where
  "mpidr_validate mpidr =
    (let must_be_zero = NOT (MPIDR_AFF0 OR MPIDR_AFF1 OR MPIDR_AFF2 OR MPIDR_AFF3)
     in mpidr AND must_be_zero = 0)"

section \<open>Properties\<close>

lemma rec_init_owner: "rec_init p rds r owner v f a vt vm = Inr r' \<Longrightarrow> rec_owner r' = Some owner"
  by (auto simp: rec_init_def set_runnable_def Let_def split: if_splits option.splits)

lemma get_set_reg:
  assumes "length (gp_regs (rec_context r)) = 31" and "x \<le> 31"
  shows "\<exists>r'. set_reg_rec r x v = Inr r' \<and> get_reg_rec r' x = Inr v
    \<and> length (gp_regs (rec_context r')) = 31"
proof (cases "x = 31")
  case True
  then show ?thesis using assms(1) by (simp add: set_reg_rec_def get_reg_rec_def)
next
  case False
  with assms(2) have "unat x < 31" by (simp add: word_le_nat_alt word_unat_eq_iff)
  then show ?thesis
    using assms(1) by (simp add: set_reg_rec_def get_reg_rec_def word_le_nat_alt)
qed

lemma aff_bounds:
  "unat (get_masked_value m MPIDR_AFF0) < 16" "unat (get_masked_value m MPIDR_AFF1) < 256"
  "unat (get_masked_value m MPIDR_AFF2) < 256" "unat (get_masked_value m MPIDR_AFF3) < 256"
  using get_masked_value_bound[of 0 3 m] get_masked_value_bound[of 8 15 m]
    get_masked_value_bound[of 16 23 m] get_masked_value_bound[of 24 31 m]
  by (simp_all add: mpidr_masks)

lemma unat_mpidr_index:
  "unat (mpidr_index m) =
     unat (get_masked_value m MPIDR_AFF0) + 16 * unat (get_masked_value m MPIDR_AFF1)
   + 4096 * unat (get_masked_value m MPIDR_AFF2) + 1048576 * unat (get_masked_value m MPIDR_AFF3)"
proof -
  let ?a = "\<lambda>k. unat (get_masked_value m k)"
  note b = aff_bounds[of m]
  have "mpidr_index m = of_nat (?a MPIDR_AFF0 + 16 * ?a MPIDR_AFF1 + 4096 * ?a MPIDR_AFF2
      + 1048576 * ?a MPIDR_AFF3)"
    by (simp add: mpidr_index_def Let_def)
  then show ?thesis using b by (simp only: unat_of_nat) simp
qed

lemma radix_step:
  fixes a b :: nat
  assumes "a + k * x = b + k * y" and "a < k" and "b < k"
  shows "a = b \<and> x = y"
proof -
  have "a = b" using arg_cong[OF assms(1), of "\<lambda>n. n mod k"] assms(2,3) by simp
  with assms show ?thesis by simp
qed

lemma mixed_radix_unique:
  fixes a0 b0 :: nat
  assumes "a0 + 16 * a1 + 4096 * a2 + 1048576 * a3 = b0 + 16 * b1 + 4096 * b2 + 1048576 * b3"
    and "a0 < 16" "b0 < 16" "a1 < 256" "b1 < 256" "a2 < 256" "b2 < 256"
  shows "a0 = b0 \<and> a1 = b1 \<and> a2 = b2 \<and> a3 = b3"
proof -
  have "a0 + 16 * (a1 + 256 * (a2 + 256 * a3)) = b0 + 16 * (b1 + 256 * (b2 + 256 * b3))"
    using assms(1) by (simp add: algebra_simps)
  with assms radix_step show ?thesis by metis
qed

lemma mpidr_validate_bits:
  "mpidr_validate m \<Longrightarrow> bit m n \<Longrightarrow> n \<le> 3 \<or> (8 \<le> n \<and> n \<le> 31)"
proof (rule ccontr)
  assume v: "mpidr_validate m" and b: "bit m n" and c: "\<not> (n \<le> 3 \<or> (8 \<le> n \<and> n \<le> 31))"
  have "n < 64" using b bit_imp_le_length by force
  then have "bit (m AND NOT (MPIDR_AFF0 OR MPIDR_AFF1 OR MPIDR_AFF2 OR MPIDR_AFF3)) n"
    using b c by (auto simp: bit_and_iff bit_or_iff bit_not_iff mpidr_masks bit_define_mask)
  with v show False by (simp add: mpidr_validate_def Let_def)
qed

lemma fields_determine_mpidr:
  assumes "mpidr_validate m" and "mpidr_validate m'"
    and "\<And>k. k \<in> {MPIDR_AFF0, MPIDR_AFF1, MPIDR_AFF2, MPIDR_AFF3}
      \<Longrightarrow> get_masked_value m k = get_masked_value m' k"
  shows "m = m'"
proof (rule word_eq_by_bits)
  fix n :: nat assume "n < LENGTH(64)"
  have f: "bit m n = bit m' n" if "b \<le> n" "n \<le> e" "e < 64"
      "get_masked_value m (define_mask e b) = get_masked_value m' (define_mask e b)" for b e
    using that bit_get_masked_value[of b e m "n - b"] bit_get_masked_value[of b e m' "n - b"] by auto
  consider "n \<le> 3" | "8 \<le> n" "n \<le> 15" | "16 \<le> n" "n \<le> 23" | "24 \<le> n" "n \<le> 31"
    | "\<not> (n \<le> 3 \<or> (8 \<le> n \<and> n \<le> 31))" by linarith
  then show "bit m n = bit m' n"
  proof cases
    case 1 then show ?thesis using f[of 0 3] assms(3) by (simp add: mpidr_masks)
  next
    case 2 then show ?thesis using f[of 8 15] assms(3) by (simp add: mpidr_masks)
  next
    case 3 then show ?thesis using f[of 16 23] assms(3) by (simp add: mpidr_masks)
  next
    case 4 then show ?thesis using f[of 24 31] assms(3) by (simp add: mpidr_masks)
  next
    case 5 then show ?thesis using mpidr_validate_bits assms(1,2) by blast
  qed
qed

text \<open>
  The affinity values that the monitor accepts are told apart by their index: two different
  MPIDRs never name the same virtual CPU of a realm.
\<close>

theorem mpidr_index_inj:
  assumes "mpidr_validate m" and "mpidr_validate m'" and "mpidr_index m = mpidr_index m'"
  shows "m = m'"
proof -
  have "unat (mpidr_index m) = unat (mpidr_index m')" using assms(3) by simp
  from mixed_radix_unique[OF this[unfolded unat_mpidr_index]] aff_bounds
  have "unat (get_masked_value m k) = unat (get_masked_value m' k)"
    if "k \<in> {MPIDR_AFF0, MPIDR_AFF1, MPIDR_AFF2, MPIDR_AFF3}" for k
    using that by auto
  then show ?thesis using fields_determine_mpidr[OF assms(1,2)] word_unat_eq_iff by blast
qed

theorem mpidr_index_inj_witness: "mpidr_index 0x100 \<noteq> mpidr_index 0x1"
proof -
  have "mpidr_validate 0x100" "mpidr_validate 0x1" by code_simp+
  from mpidr_index_inj[OF this] show ?thesis by auto
qed

end
