(* ===== verification/Stage1.thy ===== *)
theory Stage1
  imports Islet_Bits
begin

text \<open>
  The monitor's own stage 1 translation: the descriptors of
  \<open>rmm/src/mm/page_table/entry.rs\<close> and \<open>attr.rs\<close>, the generic table operations
  \<open>set_page\<close> and \<open>unset_page\<close> of \<open>lib/vmsa/src/page_table.rs\<close> at its three levels, and
  the mapping of granules on behalf of RMI commands of \<open>rmm/src/mm/translation.rs\<close>.

  A table descriptor points to a table on the monitor's heap; it is modelled by
  the table itself, so that an entry is either a raw descriptor or a table.  The
  interface \<open>page_map\<close> states what the rest of the monitor relies on: after
  mapping a page its descriptor is found, after unmapping it is not, and other
  pages keep theirs.
\<close>

section \<open>Descriptors\<close>

definition PTD_UXN :: u64 where "PTD_UXN = define_mask 54 54"
definition PTD_PXN :: u64 where "PTD_PXN = define_mask 53 53"
definition PTD_AF :: u64 where "PTD_AF = define_mask 10 10"
definition PTD_SH :: u64 where "PTD_SH = define_mask 9 8"
definition PTD_AP :: u64 where "PTD_AP = define_mask 7 6"
definition PTD_NS :: u64 where "PTD_NS = define_mask 5 5"
definition PTD_INDX :: u64 where "PTD_INDX = define_mask 4 2"
definition PTD_TYPE :: u64 where "PTD_TYPE = define_mask 1 1"
definition PTD_VALID :: u64 where "PTD_VALID = define_mask 0 0"

lemmas ptd_masks = PTD_UXN_def PTD_PXN_def PTD_AF_def PTD_SH_def PTD_AP_def PTD_NS_def PTD_INDX_def
  PTD_TYPE_def PTD_VALID_def

definition RawGPA_L0Index :: u64 where "RawGPA_L0Index = define_mask 47 39"
definition RawGPA_L1Index :: u64 where "RawGPA_L1Index = define_mask 38 30"
definition RawGPA_L2Index :: u64 where "RawGPA_L2Index = define_mask 29 21"
definition RawGPA_L3Index :: u64 where "RawGPA_L3Index = define_mask 20 12"

lemmas gpa_masks = RawGPA_L0Index_def RawGPA_L1Index_def RawGPA_L2Index_def RawGPA_L3Index_def

datatype s1_entry = S1Desc u64 | S1Table "nat \<Rightarrow> s1_entry"

fun s1_is_valid :: "s1_entry \<Rightarrow> bool" where
  "s1_is_valid (S1Desc d) \<longleftrightarrow> get_masked_value d PTD_VALID \<noteq> 0"
| "s1_is_valid (S1Table _) \<longleftrightarrow> True"

definition s1_index :: "nat \<Rightarrow> usize \<Rightarrow> nat" where
  "s1_index level addr =
    unat (if level = 0 then get_masked_value addr RawGPA_L0Index
          else if level = 1 then get_masked_value addr RawGPA_L1Index
          else if level = 2 then get_masked_value addr RawGPA_L2Index
          else get_masked_value addr RawGPA_L3Index)"

text \<open>\<open>MAP_EXTRA_FLAG\<close> of the 4 KiB page size, \<open>rmm/src/mm/page.rs\<close>.\<close>

definition s1_page_flags :: u64 where
  "s1_page_flags = bits_in_reg PTD_TYPE 1 OR bits_in_reg PTD_SH 3 OR bits_in_reg PTD_VALID 1
     OR bits_in_reg PTD_AF 1"

section \<open>Table operations\<close>

text \<open>
  The first argument is the number of levels below the table: 0 for level 3, 2
  for the root at level 1.
\<close>

fun s1_set_page :: "nat \<Rightarrow> (nat \<Rightarrow> s1_entry) \<Rightarrow> usize \<Rightarrow> usize \<Rightarrow> u64 \<Rightarrow> (nat \<Rightarrow> s1_entry)" where
  "s1_set_page 0 t va pa flags = t(s1_index 3 va := S1Desc (pa OR (flags OR s1_page_flags)))"
| "s1_set_page (Suc d) t va pa flags =
    (let i = s1_index (2 - d) va;
         sub = (case t i of S1Table u \<Rightarrow> u | S1Desc _ \<Rightarrow> (\<lambda>_. S1Desc 0))
     in t(i := S1Table (s1_set_page d sub va pa flags)))"

fun s1_unset_page :: "nat \<Rightarrow> (nat \<Rightarrow> s1_entry) \<Rightarrow> usize \<Rightarrow> (nat \<Rightarrow> s1_entry)" where
  "s1_unset_page 0 t va =
    (let i = s1_index 3 va in if s1_is_valid (t i) then t(i := S1Desc 0) else t)"
| "s1_unset_page (Suc d) t va =
    (let i = s1_index (2 - d) va
     in case t i of
          S1Table u \<Rightarrow> t(i := S1Table (s1_unset_page d u va))
        | S1Desc x \<Rightarrow> if s1_is_valid (t i) then t(i := S1Desc 0) else t)"

text \<open>The walk of the hardware: the descriptor that translates an address.\<close>

fun s1_walk :: "nat \<Rightarrow> (nat \<Rightarrow> s1_entry) \<Rightarrow> usize \<Rightarrow> u64 option" where
  "s1_walk 0 t va =
    (case t (s1_index 3 va) of
       S1Desc d \<Rightarrow> if s1_is_valid (S1Desc d) then Some d else None
     | S1Table _ \<Rightarrow> None)"
| "s1_walk (Suc d) t va =
    (case t (s1_index (2 - d) va) of
       S1Table u \<Rightarrow> s1_walk d u va
     | S1Desc x \<Rightarrow> if s1_is_valid (S1Desc x) then Some x else None)"

section \<open>Page iterators\<close>

text \<open>
  \<open>PageIter\<close> of \<open>lib/vmsa/src/page.rs\<close>: the addresses it yields, or \<open>None\<close> when it
  never ends.  The addition wraps in the release build.
\<close>

partial_function (option) page_iter :: "usize \<Rightarrow> usize \<Rightarrow> usize list option" where
  "page_iter cur fin =
    (if cur \<le> fin
     then Option.bind (page_iter (cur + 4096) fin) (\<lambda>rest. Some (cur # rest))
     else Some [])"

definition range_with_size :: "usize \<Rightarrow> usize \<Rightarrow> (unit, usize list) outcome" where
  "range_with_size addr sz =
    (let first = align_down addr 4096;
         fin = align_down (addr + sz - 1) 4096
     in if \<not> first \<le> fin then Panic
        else (case page_iter first fin of None \<Rightarrow> Hang | Some ps \<Rightarrow> Ok ps))"

section \<open>Mapping on behalf of RMI commands\<close>

definition s1_rmi_flags :: "bool \<Rightarrow> u64" where
  "s1_rmi_flags secure =
    (bits_in_reg PTD_AP 0 OR bits_in_reg PTD_INDX 0 OR bits_in_reg PTD_NS (of_bool (\<not> secure))
     OR bits_in_reg PTD_SH 3 OR (bits_in_reg PTD_UXN 1 OR bits_in_reg PTD_PXN 1)
     OR bits_in_reg PTD_VALID 1)"

text \<open>The virtual and the physical iterator run over the same range.\<close>

definition set_pages_for_rmi ::
  "usize \<Rightarrow> bool \<Rightarrow> (nat \<Rightarrow> s1_entry) \<Rightarrow> (unit, nat \<Rightarrow> s1_entry) outcome" where
  "set_pages_for_rmi addr secure t =
    (if addr = 0 then Ok t
     else (case range_with_size addr 4096 of
         Ok ps \<Rightarrow> Ok (fold (\<lambda>p u. s1_set_page 2 u p p (s1_rmi_flags secure)) ps t)
       | Err _ \<Rightarrow> Ok t
       | Panic \<Rightarrow> Panic
       | Hang \<Rightarrow> Hang))"

definition unset_pages_for_rmi :: "usize \<Rightarrow> (nat \<Rightarrow> s1_entry) \<Rightarrow> (nat \<Rightarrow> s1_entry)" where
  "unset_pages_for_rmi addr t =
    (if addr = 0 then t else s1_unset_page 2 t (align_down addr 4096))"

section \<open>The interface\<close>

text \<open>
  The part of an address that selects its entry: with the initial lookup at level
  1, bits 38 to 12.
\<close>

definition s1_key :: "usize \<Rightarrow> nat \<times> nat \<times> nat" where
  "s1_key va = (s1_index 1 va, s1_index 2 va, s1_index 3 va)"

definition s1_lookup :: "(nat \<Rightarrow> s1_entry) \<Rightarrow> usize \<Rightarrow> u64 option" where
  "s1_lookup t va = s1_walk 2 t va"

text \<open>Tables that only map 4 KiB pages, the only ones the monitor builds.\<close>

fun s1_pages_only :: "nat \<Rightarrow> (nat \<Rightarrow> s1_entry) \<Rightarrow> bool" where
  "s1_pages_only 0 t \<longleftrightarrow> (\<forall>i. \<exists>d. t i = S1Desc d)"
| "s1_pages_only (Suc d) t \<longleftrightarrow> (\<forall>i. case t i of S1Table u \<Rightarrow> s1_pages_only d u | S1Desc x \<Rightarrow> x = 0)"

text \<open>Addresses whose page can be mapped: aligned, not null and not the last page.\<close>

definition s1_mappable :: "usize \<Rightarrow> bool" where
  "s1_mappable a \<longleftrightarrow> a \<noteq> 0 \<and> a mod 4096 = 0 \<and> a < - 4096"

definition s1_desc :: "usize \<Rightarrow> bool \<Rightarrow> u64" where
  "s1_desc a secure = a OR (s1_rmi_flags secure OR s1_page_flags)"

locale page_map =
  fixes lookup :: "'t \<Rightarrow> usize \<Rightarrow> u64 option"
    and map_page :: "usize \<Rightarrow> bool \<Rightarrow> 't \<Rightarrow> (unit, 't) outcome"
    and unmap_page :: "usize \<Rightarrow> 't \<Rightarrow> 't"
    and key :: "usize \<Rightarrow> 'k"
    and desc :: "usize \<Rightarrow> bool \<Rightarrow> u64"
    and invar :: "'t \<Rightarrow> bool"
    and mappable :: "usize \<Rightarrow> bool"
  assumes map_returns: "mappable a \<Longrightarrow> \<exists>u. map_page a sec t = Ok u"
    and lookup_map: "invar t \<Longrightarrow> mappable a \<Longrightarrow> map_page a sec t = Ok u \<Longrightarrow>
      lookup u b = (if key b = key a then Some (desc a sec) else lookup t b)"
    and lookup_unmap: "invar t \<Longrightarrow> mappable a \<Longrightarrow>
      lookup (unmap_page a t) b = (if key b = key a then None else lookup t b)"
    and lookup_key: "key a = key b \<Longrightarrow> lookup t a = lookup t b"
    and invar_map: "invar t \<Longrightarrow> map_page a sec t = Ok u \<Longrightarrow> invar u"
    and invar_unmap: "invar t \<Longrightarrow> invar (unmap_page a t)"
begin

text \<open>Mapping a page for the time of a command and unmapping it again leaves no trace.\<close>

lemma transparent_use:
  assumes "invar t" and "mappable a" and "map_page a sec t = Ok u" and "lookup t a = None"
  shows "lookup (unmap_page a u) = lookup t"
proof
  fix b
  show "lookup (unmap_page a u) b = lookup t b"
    using assms lookup_key[of a b t]
    by (auto simp: lookup_unmap[OF invar_map[OF assms(1,3)] assms(2)] lookup_map[OF assms(1-3)])
qed

lemma map_overrides:
  assumes "invar t" and "mappable a" and "map_page a sec t = Ok u" and "key b = key a"
  shows "lookup u b = Some (desc a sec)"
  using lookup_map[OF assms(1-3), of b] assms(4) by simp

end

section \<open>The tables implement the interface\<close>

lemma unat_align_down: "unat (align_down a 4096) = unat a div 4096 * 4096"
proof -
  have "align_down a 4096 = push_bit 12 (drop_bit 12 a)"
    using align_down_eq[of 12 a] by simp
  moreover have "unat a div 4096 * 4096 < 2 ^ 64"
    using unat_u64_less[of a] by simp
  ultimately show ?thesis
    by (simp add: push_bit_eq_mult unat_word_ariths unat_drop_bit_eq drop_bit_eq_div)
qed

lemma align_down_page:
  assumes "a mod 4096 = 0" and "a < - 4096"
  shows "align_down a 4096 = a" "align_down (a + 4095) 4096 = a"
proof -
  have "unat a mod 4096 = 0" using assms(1) by (simp add: word_unat_eq_iff unat_mod)
  then obtain q where q: "unat a = 4096 * q" by auto
  have "unat a < unat (- 4096 :: usize)" using assms(2) by (simp add: word_less_nat_alt)
  then have b: "unat a + 4096 < 2 ^ 64" by simp
  have "unat (a + 4095) = unat a + 4095" using b by (simp add: unat_word_ariths)
  then show "align_down (a + 4095) 4096 = a"
    using q by (simp add: word_unat_eq_iff unat_align_down)
  show "align_down a 4096 = a" using q by (simp add: word_unat_eq_iff unat_align_down)
qed

lemma page_iter_single:
  assumes "a < - 4096"
  shows "page_iter a a = Some [a]"
proof -
  have "unat a < unat (- 4096 :: usize)" using assms by (simp add: word_less_nat_alt)
  then have "\<not> a + 4096 \<le> a" by (simp add: word_le_nat_alt unat_word_ariths)
  then have "page_iter (a + 4096) a = Some []" by (subst page_iter.simps) simp
  then show ?thesis by (subst page_iter.simps) simp
qed

lemma set_pages_mappable:
  assumes "s1_mappable a"
  shows "set_pages_for_rmi a sec t = Ok (s1_set_page 2 t a a (s1_rmi_flags sec))"
  using assms align_down_page[of a] page_iter_single[of a]
  by (simp add: set_pages_for_rmi_def s1_mappable_def range_with_size_def add.commute)

lemma page_flags_valid: "s1_is_valid (S1Desc (pa OR (fl OR s1_page_flags)))"
proof -
  have "bit (get_masked_value (pa OR (fl OR s1_page_flags)) PTD_VALID) 0"
    by (simp add: PTD_VALID_def bit_get_masked_value bit_or_iff s1_page_flags_def ptd_masks
        bit_bits_in_reg)
  then show ?thesis by auto
qed

lemma walk_empty: "s1_walk d (\<lambda>_. S1Desc 0) va = None"
  by (cases d) simp_all

lemma levels_insert: "d \<le> 1 \<Longrightarrow> {2 - d..3} = insert (2 - d) {3 - d..(3::nat)}"
  by auto

lemma s1_walk_set:
  assumes "d \<le> 2" and "s1_pages_only d t"
  shows "s1_walk d (s1_set_page d t va pa fl) vb =
    (if \<forall>l \<in> {3 - d..3}. s1_index l va = s1_index l vb
     then Some (pa OR (fl OR s1_page_flags)) else s1_walk d t vb)"
  using assms
proof (induction d arbitrary: t)
  case 0
  then show ?case using page_flags_valid by (auto simp del: s1_is_valid.simps)
next
  case (Suc d)
  let ?i = "s1_index (2 - d) va"
  let ?sub = "case t ?i of S1Table u \<Rightarrow> u | S1Desc _ \<Rightarrow> (\<lambda>_. S1Desc 0)"
  have po: "s1_pages_only d ?sub"
    using Suc.prems by (cases d) (auto split: s1_entry.splits)
  have w: "s1_walk (Suc d) t vb = s1_walk d ?sub vb" if "s1_index (2 - d) vb = ?i"
  proof (cases "t ?i")
    case (S1Desc x)
    with Suc.prems(2) have "x = 0" by (auto split: s1_entry.splits)
    with S1Desc that show ?thesis by (simp add: walk_empty)
  qed (simp add: that)
  show ?case
  proof (cases "s1_index (2 - d) vb = ?i")
    case True
    then have "s1_walk (Suc d) (s1_set_page (Suc d) t va pa fl) vb
      = s1_walk d (s1_set_page d ?sub va pa fl) vb"
      by (simp add: Let_def)
    also have "\<dots> = (if \<forall>l \<in> {3 - d..3}. s1_index l va = s1_index l vb
       then Some (pa OR (fl OR s1_page_flags)) else s1_walk d ?sub vb)"
      using Suc.IH[OF _ po] Suc.prems(1) by simp
    finally show ?thesis using w[OF True] True levels_insert[of d] Suc.prems(1) by simp
  next
    case False
    then show ?thesis using levels_insert[of d] Suc.prems(1) by (auto simp: Let_def)
  qed
qed

lemma s1_pages_only_set: "s1_pages_only d t \<Longrightarrow> s1_pages_only d (s1_set_page d t va pa fl)"
proof (induction d arbitrary: t)
  case 0
  then show ?case by simp
next
  case (Suc d)
  let ?sub = "case t (s1_index (2 - d) va) of S1Table u \<Rightarrow> u | S1Desc _ \<Rightarrow> (\<lambda>_. S1Desc 0)"
  have "s1_pages_only d ?sub"
    using Suc.prems by (cases d) (auto split: s1_entry.splits)
  with Suc show ?case by (auto simp: Let_def)
qed

lemma s1_walk_unset:
  assumes "d \<le> 2" and "s1_pages_only d t"
  shows "s1_walk d (s1_unset_page d t va) vb =
    (if \<forall>l \<in> {3 - d..3}. s1_index l va = s1_index l vb then None else s1_walk d t vb)"
  using assms
proof (induction d arbitrary: t)
  case 0
  then show ?case by (auto simp: Let_def split: s1_entry.splits)
next
  case (Suc d)
  show ?case
  proof (cases "t (s1_index (2 - d) va)")
    case (S1Desc x)
    with Suc.prems have "x = 0" by (auto split: s1_entry.splits)
    with S1Desc show ?thesis using Suc.prems(1) levels_insert[of d] by (auto simp: Let_def)
  next
    case (S1Table u)
    with Suc.prems have "s1_pages_only d u" by (auto split: s1_entry.splits)
    with S1Table Suc show ?thesis using levels_insert[of d] by (auto simp: Let_def)
  qed
qed

lemma s1_pages_only_unset: "s1_pages_only d t \<Longrightarrow> s1_pages_only d (s1_unset_page d t va)"
proof (induction d arbitrary: t)
  case 0
  then show ?case by (auto simp: Let_def)
next
  case (Suc d)
  then show ?case by (auto simp: Let_def split: s1_entry.splits)
qed

lemma s1_walk_key:
  assumes "d \<le> 2" and "\<forall>l \<in> {3 - d..3}. s1_index l va = s1_index l vb"
  shows "s1_walk d t va = s1_walk d t vb"
  using assms
proof (induction d arbitrary: t)
  case (Suc d)
  then show ?case using levels_insert[of d] by (auto split: s1_entry.split)
qed simp

lemma s1_key_eq: "s1_key a = s1_key b \<longleftrightarrow> (\<forall>l \<in> {3 - 2..3}. s1_index l b = s1_index l a)"
proof -
  have "{3 - 2..3} = {1, 2, 3 :: nat}" by auto
  then show ?thesis by (auto simp: s1_key_def)
qed

lemma s1_pages_only_fold:
  "s1_pages_only 2 t \<Longrightarrow> s1_pages_only 2 (fold (\<lambda>p u. s1_set_page 2 u p p fl) ps t)"
  by (induction ps arbitrary: t) (auto intro: s1_pages_only_set simp del: s1_pages_only.simps)

interpretation s1: page_map s1_lookup set_pages_for_rmi unset_pages_for_rmi s1_key s1_desc
    "s1_pages_only 2" s1_mappable
proof unfold_locales
  show "\<exists>u. set_pages_for_rmi a sec t = Ok u" if "s1_mappable a" for a sec t
    using that by (simp add: set_pages_mappable)
  show "s1_lookup u b = (if s1_key b = s1_key a then Some (s1_desc a sec) else s1_lookup t b)"
    if "s1_pages_only 2 t" "s1_mappable a" "set_pages_for_rmi a sec t = Ok u" for t a sec u b
    using that s1_walk_set[of 2 t a a "s1_rmi_flags sec" b]
    by (auto simp: s1_lookup_def set_pages_mappable s1_key_eq s1_desc_def)
  show "s1_lookup (unset_pages_for_rmi a t) b = (if s1_key b = s1_key a then None else s1_lookup t b)"
    if "s1_pages_only 2 t" "s1_mappable a" for t a b
    using that s1_walk_unset[of 2 t a b] align_down_page[of a]
    by (auto simp: s1_lookup_def unset_pages_for_rmi_def s1_key_eq s1_mappable_def)
  show "s1_lookup t a = s1_lookup t b" if "s1_key a = s1_key b" for a b t
    using that s1_walk_key[of 2 b a t] by (simp add: s1_lookup_def s1_key_eq)
  show "s1_pages_only 2 u" if "s1_pages_only 2 t" "set_pages_for_rmi a sec t = Ok u" for t a sec u
    using that s1_pages_only_fold
    by (auto simp: set_pages_for_rmi_def split: if_splits outcome.splits)
  show "s1_pages_only 2 (unset_pages_for_rmi a t)" if "s1_pages_only 2 t" for a t
    using that s1_pages_only_unset by (simp add: unset_pages_for_rmi_def)
qed

section \<open>Host pointers at the end of the address space\<close>

lemma aligned_unat: "(a :: usize) mod 4096 = 0 \<longleftrightarrow> unat a mod 4096 = 0"
  by (simp add: word_unat_eq_iff unat_mod)

lemma aligned_next:
  fixes a :: usize
  assumes "a mod 4096 = 0"
  shows "(a + 4096) mod 4096 = 0"
proof -
  have "(4096 :: nat) dvd 2 ^ 64" by (rule dvdI[of _ _ "2 ^ 52"]) simp
  then have "unat (a + 4096) mod 4096 = (unat a + 4096) mod 4096"
    by (simp add: unat_word_ariths mod_mod_cancel)
  then show ?thesis using assms by (simp add: aligned_unat)
qed

lemma aligned_le_last:
  fixes a :: usize
  assumes "a mod 4096 = 0"
  shows "a \<le> - 4096"
proof -
  obtain q where "unat a = 4096 * q" using assms by (auto simp: aligned_unat)
  then show ?thesis using unat_u64_less[of a] by (simp add: word_le_nat_alt)
qed

lemma page_iter_never_ends: "page_iter a b = Some ps \<Longrightarrow> \<not> (b = - 4096 \<and> a mod 4096 = 0)"
proof (rule page_iter.raw_induct[where P = "\<lambda>a b ps. \<not> (b = - 4096 \<and> a mod 4096 = 0)"])
  fix iter :: "usize \<Rightarrow> usize \<Rightarrow> usize list option" and a b ps
  assume ih: "\<And>a b ps. iter a b = Some ps \<Longrightarrow> \<not> (b = - 4096 \<and> a mod 4096 = 0)"
    and step: "(if a \<le> b then Option.bind (iter (a + 4096) b) (\<lambda>rest. Some (a # rest)) else Some [])
      = Some ps"
  show "\<not> (b = - 4096 \<and> a mod 4096 = 0)"
  proof
    assume ab: "b = - 4096 \<and> a mod 4096 = 0"
    then have "a \<le> b" using aligned_le_last by simp
    with step obtain rest where "iter (a + 4096) b = Some rest" by (auto split: Option.bind_splits)
    then show False using ih[of "a + 4096" b rest] ab aligned_next[of a] by simp
  qed
qed

lemma set_pages_last_page: "set_pages_for_rmi (- 4096) sec t = Hang"
proof -
  have "page_iter (- 4096) (- 4096) = None"
    using page_iter_never_ends[of "- 4096" "- 4096"] by (cases "page_iter (- 4096) (- 4096)") auto
  moreover have "align_down (- 4096) 4096 = - 4096" "align_down (- 1) 4096 = (- 4096 :: usize)"
    by (simp_all add: align_down_def)
  ultimately show ?thesis by (simp add: set_pages_for_rmi_def range_with_size_def)
qed

lemma set_pages_past_last_page:
  assumes "- 4096 < a"
  shows "set_pages_for_rmi a sec t = Panic"
proof -
  have u: "2 ^ 64 - 4096 < unat a" using assms by (simp add: word_less_nat_alt)
  have f: "unat (align_down a 4096) = 2 ^ 64 - 4096"
    using u unat_u64_less[of a] by (simp add: unat_align_down)
  have "a + 4096 - 1 = 4095 + a" by simp
  moreover have "unat (4095 + a) < 4095"
    using u unat_u64_less[of a] by (simp add: unat_word_ariths mod_if, linarith)
  ultimately have "unat (align_down (a + 4096 - 1) 4096) = 0" by (simp add: unat_align_down)
  with f have "\<not> align_down a 4096 \<le> align_down (a + 4096 - 1) 4096" by (simp add: word_le_nat_alt)
  then show ?thesis using u by (auto simp: set_pages_for_rmi_def range_with_size_def Let_def)
qed

section \<open>Properties\<close>



text \<open>
  A host pointer at the end of the address space is not an error of the command:
  mapping the last page never ends, because the page iterator wraps around, and any
  pointer beyond the start of the last page is a panic of the range constructor.
\<close>

theorem host_page_at_end:
  "set_pages_for_rmi (- 4096) sec t = Hang
    \<and> (\<forall>a. - 4096 < a \<longrightarrow> set_pages_for_rmi a sec t = Panic)"
  using set_pages_last_page set_pages_past_last_page by blast

theorem host_page_at_end_witness:
  "set_pages_for_rmi (- 4096) False (\<lambda>_. S1Desc 0) = Hang
    \<and> - 4096 < (- 8 :: usize) \<and> set_pages_for_rmi (- 8) False (\<lambda>_. S1Desc 0) = Panic"
  using host_page_at_end[of False "\<lambda>_. S1Desc 0"] by simp

end
