(* ===== verification/Granule.thy ===== *)
theory Granule
  imports Rec_Context Stage1
begin

text \<open>
  The state of the monitor and its granule status table,
  \<open>rmm/src/granule/array/mod.rs\<close> and \<open>rmm/src/granule/array/entry.rs\<close>, with the
  accesses to host memory of \<open>rmm/src/host.rs\<close> and the secure monitor call of
  \<open>rmm/src/asm.rs\<close>.

  Memory is a map from the address of an aligned 8-byte word to its value; a
  granule that holds a Rust structure of no fixed layout (\<open>Rd\<close>, \<open>Rec\<close>) is read
  through \<open>rds\<close> and \<open>recs\<close>, and wiping it resets these views with the words.
  \<open>held\<close> lists the indices of the entries whose spinlock is taken: taking one
  twice spins for ever.  A guard bound by \<open>let\<close> lives to the end of its block, so
  the macros \<open>get_granule!\<close> and \<open>get_granule_if!\<close> take the rest of the block as a
  function of the entry and release the lock when it returns.
\<close>

section \<open>State\<close>

datatype gpt = GPT_NS | GPT_OTHER | GPT_REALM

record granule =
  g_state :: u8
  g_ref_count :: u8

record s2table =
  s2_base :: usize
  s2_root_level :: usize
  s2_root_pages :: usize
  s2_dirty :: bool

datatype tlbi_op = TLBI_IPAS2E1IS usize u64 | TLBI_RIPAS2LE1 usize u64 | TLBI_VMALLE1IS usize

record rmm =
  gst :: "nat \<Rightarrow> granule"
  held :: "nat list"
  mem :: "u64 \<Rightarrow> u64"
  rds :: "usize \<Rightarrow> rd"
  recs :: "usize \<Rightarrow> rec"
  gpt :: "usize \<Rightarrow> gpt"
  vmid_set :: "usize set"
  rtt_tables :: "usize \<Rightarrow> s2table option"
  s1_pt :: "nat \<Rightarrow> s1_entry"
  tlb_log :: "tlbi_op list"
  ret :: "usize list"
  run_page :: "nat \<Rightarrow> u64"
  cpu :: cpu

type_synonym 'a rmm_prog = "(rmm, error, 'a) prog"

text \<open>
  The environment of the monitor: the platform, the firmware at EL3 (its effect on
  the granule protection table and the registers it returns, the keys and the
  platform token it has handed over at boot), the hash function of the crate \<open>sha2\<close>
  by algorithm, the signature check, the public key and the signed envelope of the
  crates \<open>p384\<close> and \<open>coset\<close>, the encoder of the crate \<open>ciborium\<close>, whose \<open>Value\<close> is
  \<open>cbor\<close>, and the key derivation of the crate \<open>hkdf\<close>.
\<close>

datatype cbor = CInt u64 | CBytes "u8 list" | CText string | CArray "cbor list"
  | CMap "(cbor \<times> cbor) list" | CTag u64 cbor

record env =
  e_plat :: platform
  e_smc :: "(usize \<Rightarrow> gpt) \<Rightarrow> usize list \<Rightarrow> usize list \<times> (usize \<Rightarrow> gpt)"
  e_hash :: "u8 \<Rightarrow> u8 list \<Rightarrow> u8 list"
  e_p384_verify :: "u8 list \<Rightarrow> u8 list \<Rightarrow> u8 list \<Rightarrow> bool"
  e_p384_public :: "u8 list \<Rightarrow> u8 list option"
  e_cose_sign1 :: "u8 list \<Rightarrow> u8 list \<Rightarrow> u8 list"
  e_cbor :: "cbor \<Rightarrow> u8 list"
  e_hkdf :: "u8 list \<Rightarrow> u8 list \<Rightarrow> u8 list \<Rightarrow> nat \<Rightarrow> u8 list option"
  e_vhuk_a :: "u8 list"
  e_vhuk_m :: "u8 list"
  e_plat_token :: "u8 list"
  e_rak :: "u8 list"

section \<open>Addresses and indices\<close>

abbreviation (input) GRANULE_SIZE :: usize where "GRANULE_SIZE \<equiv> 4096"
abbreviation (input) GRANULE_SHIFT :: usize where "GRANULE_SHIFT \<equiv> 12"
abbreviation (input) GRANULE_MASK :: usize where "GRANULE_MASK \<equiv> NOT 0xfff"
abbreviation (input) FVP_DRAM0_START :: usize where "FVP_DRAM0_START \<equiv> 0x80000000"
abbreviation (input) FVP_DRAM0_END :: usize where "FVP_DRAM0_END \<equiv> 0xfc000000"
abbreviation (input) FVP_DRAM1_START :: usize where "FVP_DRAM1_START \<equiv> 0x880000000"
abbreviation (input) FVP_DRAM1_END :: usize where "FVP_DRAM1_END \<equiv> 0x900000000"
abbreviation (input) FVP_DRAM1_IDX :: usize where "FVP_DRAM1_IDX \<equiv> 0x7c000"
abbreviation (input) GRANULE_STATUS_TABLE_SIZE :: usize where "GRANULE_STATUS_TABLE_SIZE \<equiv> 0xfc000"

definition in_dram0 :: "usize \<Rightarrow> bool" where
  "in_dram0 addr \<longleftrightarrow> FVP_DRAM0_START \<le> addr \<and> addr < FVP_DRAM0_END"

definition in_dram1 :: "usize \<Rightarrow> bool" where
  "in_dram1 addr \<longleftrightarrow> FVP_DRAM1_START \<le> addr \<and> addr < FVP_DRAM1_END"

definition validate_addr :: "usize \<Rightarrow> bool" where
  "validate_addr addr =
    (if addr mod GRANULE_SIZE \<noteq> 0 then False
     else if \<not> (in_dram0 addr \<or> in_dram1 addr) then False
     else True)"

definition granule_addr_to_index :: "usize \<Rightarrow> usize" where
  "granule_addr_to_index addr =
    (if in_dram0 addr then (addr - FVP_DRAM0_START) div GRANULE_SIZE
     else if in_dram1 addr then (addr - FVP_DRAM1_START) div GRANULE_SIZE + FVP_DRAM1_IDX
     else - 1)"

definition index_to_addr :: "usize \<Rightarrow> usize" where
  "index_to_addr idx =
    (if idx < FVP_DRAM1_IDX then FVP_DRAM0_START + idx * GRANULE_SIZE
     else FVP_DRAM1_START + (idx - FVP_DRAM1_IDX) * GRANULE_SIZE)"

definition is_granule_aligned :: "usize \<Rightarrow> bool" where
  "is_granule_aligned addr \<longleftrightarrow> addr mod GRANULE_SIZE = 0"

section \<open>Granule states\<close>

abbreviation (input) Undelegated :: u8 where "Undelegated \<equiv> 0"
abbreviation (input) Delegated :: u8 where "Delegated \<equiv> 1"
abbreviation (input) GS_RD :: u8 where "GS_RD \<equiv> 2"
abbreviation (input) GS_Rec :: u8 where "GS_Rec \<equiv> 3"
abbreviation (input) GS_RecAux :: u8 where "GS_RecAux \<equiv> 4"
abbreviation (input) GS_Data :: u8 where "GS_Data \<equiv> 5"
abbreviation (input) GS_RTT :: u8 where "GS_RTT \<equiv> 6"
abbreviation (input) GS_Metadata :: u8 where "GS_Metadata \<equiv> 7"

definition granule_new :: granule where
  "granule_new = \<lparr> g_state = Undelegated, g_ref_count = 0 \<rparr>"

definition upd_granule :: "nat \<Rightarrow> (granule \<Rightarrow> granule) \<Rightarrow> rmm \<Rightarrow> rmm" where
  "upd_granule i f s = s\<lparr> gst := (gst s)(i := f (gst s i)) \<rparr>"

definition inc_count :: "nat \<Rightarrow> unit rmm_prog" where
  "inc_count i = modify (upd_granule i (\<lambda>g. g\<lparr> g_ref_count := g_ref_count g + 1 \<rparr>))"

definition dec_count :: "nat \<Rightarrow> unit rmm_prog" where
  "dec_count i = modify (upd_granule i (\<lambda>g. g\<lparr> g_ref_count := g_ref_count g - 1 \<rparr>))"

definition num_children :: "rmm \<Rightarrow> nat \<Rightarrow> usize" where
  "num_children s i = ucast (g_ref_count (gst s i))"

definition page_base :: "u64 \<Rightarrow> u64" where
  "page_base a = a AND GRANULE_MASK"

text \<open>
  A platform and an environment to evaluate with, and what a wiped granule reads as
  when viewed as a \<open>Rec\<close>; such a view is never read.
\<close>

abbreviation (input) no_field :: reg_field where "no_field \<equiv> \<lparr> fld_shift = 0, fld_mask = 0 \<rparr>"

definition platform0 :: platform where
  "platform0 = \<lparr> p_spsr_reset = 0, p_cnthctl_init = 0, p_ich_hcr_init = 0,
     p_hcr_ns_mask = 0, p_hcr_eoi_count_shift = 0, p_hcr_en = 0,
     p_lr_state = no_field, p_lr_vintid = no_field,
     p_lr_priority = no_field, p_lr_pintid = no_field,
     p_lr_eoi = no_field, p_lr_hw = no_field,
     p_lr_state_invalid = 0,
     p_gic = \<lparr> nr_lrs = 0, nr_aprs = 0, pri_res0_mask = 0, max_vintid = 0, ext_range = False \<rparr>,
     p_simd = \<lparr> sve_en = False, sve_vq = 0, sme_en = False \<rparr>,
     p_hpfar_fipa = no_field, p_vttbr_vmid = no_field,
     p_vttbr_baddr = no_field, p_mpidr_res1 = no_field,
     p_vtcr = (\<lambda>_ _. 0), p_esr_ec = \<lparr> fld_shift = 26, fld_mask = 63 \<rparr>, p_esr_el1_unknown = 0,
     p_id_reg = (\<lambda>_. 0), p_field = (\<lambda>_. no_field),
     p_x0_quads = (\<lambda>q. (q ! 0, q ! 1)) \<rparr>"

definition env0 :: env where
  "env0 = \<lparr> e_plat = platform0, e_smc = (\<lambda>g regs. (regs, g)),
     e_hash = (\<lambda>algo _. replicate (if algo = 0 then 32 else 64) 0),
     e_p384_verify = (\<lambda>_ _ _. True), e_p384_public = (\<lambda>_. Some (replicate 97 4)),
     e_cose_sign1 = (\<lambda>key payload. payload), e_cbor = (\<lambda>_. replicate 1024 0),
     e_hkdf = (\<lambda>salt ikm info n. Some (replicate n 0)), e_vhuk_a = replicate 32 0xaa,
     e_vhuk_m = replicate 32 0x33, e_plat_token = [], e_rak = replicate 48 1 \<rparr>"

definition rec_wiped :: rec where
  "rec_wiped = rec_new platform0"

definition cpu0 :: cpu where
  "cpu0 = \<lparr> c_tpidr_el2 = 0, c_vtcr_el2 = 0, c_sys = sys_regs_default, c_elr_el1 = 0, c_spsr_el1 = 0,
     c_far_el2 = 0, c_gic = gic_default, c_timer = timer_default, c_cptr_el2 = 0, c_zcr_el2 = 0,
     c_zcr_el1 = 0, c_fpu = \<lparr> fpu_q = replicate 32 0, fpu_fpsr = 0, fpu_fpcr = 0 \<rparr>,
     c_ns_simd = simd_default \<rparr>"

text \<open>
  The state in which no granule is delegated and no realm exists.
\<close>

definition rmm0 :: rmm where
  "rmm0 = \<lparr> gst = (\<lambda>_. granule_new), held = [], mem = (\<lambda>_. 0), rds = (\<lambda>_. rd_zero),
     recs = (\<lambda>_. rec_wiped), gpt = (\<lambda>_. GPT_NS), vmid_set = {}, rtt_tables = (\<lambda>_. None),
     s1_pt = (\<lambda>_. S1Desc 0), tlb_log = [], ret = [0], run_page = (\<lambda>_. 0), cpu = cpu0 \<rparr>"

definition zeroize :: "nat \<Rightarrow> rmm \<Rightarrow> rmm" where
  "zeroize i s =
    (let addr = index_to_addr (of_nat i)
     in s\<lparr> mem := (\<lambda>a. if page_base a = addr then 0 else mem s a),
          rds := (rds s)(addr := rd_zero),
          recs := (recs s)(addr := rec_wiped) \<rparr>)"

definition set_state_g :: "nat \<Rightarrow> u8 \<Rightarrow> unit rmm_prog" where
  "set_state_g i state = modify (\<lambda>s.
     (let prev = g_state (gst s i);
          s' = (if prev = Delegated \<and> state = Undelegated \<or> state = Delegated then zeroize i s else s)
      in upd_granule i (\<lambda>g. g\<lparr> g_state := state \<rparr>) s'))"

definition set_granule :: "nat \<Rightarrow> u8 \<Rightarrow> unit rmm_prog" where
  "set_granule i state = set_state_g i state"

section \<open>Locks\<close>

definition with_lock :: "nat \<Rightarrow> 'a rmm_prog \<Rightarrow> 'a rmm_prog" where
  "with_lock i body = (\<lambda>s.
     if i \<in> set (held s) then (Hang, s)
     else (case body (s\<lparr> held := i # held s \<rparr>) of
         (Ok a, t) \<Rightarrow> (Ok a, t\<lparr> held := remove1 i (held t) \<rparr>)
       | (Err e, t) \<Rightarrow> (Err e, t\<lparr> held := remove1 i (held t) \<rparr>)
       | (Panic, t) \<Rightarrow> (Panic, t)
       | (Hang, t) \<Rightarrow> (Hang, t)))"

definition get_granule :: "usize \<Rightarrow> (nat \<Rightarrow> 'a rmm_prog) \<Rightarrow> 'a rmm_prog" where
  "get_granule addr body =
    (if \<not> validate_addr addr then throw RmiErrorInput
     else (let idx = granule_addr_to_index addr
           in if idx \<ge> GRANULE_STATUS_TABLE_SIZE then throw RmiErrorInput
              else with_lock (unat idx) (body (unat idx))))"

definition get_granule_if :: "usize \<Rightarrow> u8 \<Rightarrow> (nat \<Rightarrow> 'a rmm_prog) \<Rightarrow> 'a rmm_prog" where
  "get_granule_if addr state body =
    get_granule addr (\<lambda>i. bind (gets (\<lambda>s. g_state (gst s i))) (\<lambda>st.
      if st \<noteq> state then throw RmiErrorInput else body i))"

definition is_not_in_realm :: "usize \<Rightarrow> bool rmm_prog" where
  "is_not_in_realm addr =
    bind (attempt (get_granule_if addr Undelegated (\<lambda>_. return ()))) (\<lambda>r.
      return (case r of Inr _ \<Rightarrow> True | Inl _ \<Rightarrow> False))"

section \<open>Host memory and firmware\<close>

text \<open>
  Structures exchanged with the host have a fixed layout of one granule and are
  read and written as its 512 words.
\<close>

definition read_page :: "rmm \<Rightarrow> usize \<Rightarrow> nat \<Rightarrow> u64" where
  "read_page s addr = (\<lambda>i. mem s (addr + 8 * of_nat i))"

definition write_page :: "usize \<Rightarrow> (nat \<Rightarrow> u64) \<Rightarrow> rmm \<Rightarrow> rmm" where
  "write_page addr pg s =
    s\<lparr> mem := (\<lambda>a. if page_base a = addr \<and> a mod 8 = 0 then pg (unat (a - addr) div 8) else mem s a) \<rparr>"

definition copy_from :: "usize \<Rightarrow> (nat \<Rightarrow> u64) option rmm_prog" where
  "copy_from addr =
    bind (attempt (get_granule_if addr Undelegated (\<lambda>_. return ()))) (\<lambda>r.
      case r of Inl _ \<Rightarrow> return None
      | Inr _ \<Rightarrow> gets (\<lambda>s. Some (read_page s addr)))"

definition copy_to_obj :: "usize \<Rightarrow> usize \<Rightarrow> unit option rmm_prog" where
  "copy_to_obj src dst =
    bind (attempt (get_granule_if src Undelegated (\<lambda>_. return ()))) (\<lambda>r.
      case r of Inl _ \<Rightarrow> return None
      | Inr _ \<Rightarrow> bind (modify (\<lambda>s. write_page dst (read_page s src) s)) (\<lambda>_. return (Some ())))"

definition copy_to_ptr :: "(nat \<Rightarrow> u64) \<Rightarrow> usize \<Rightarrow> unit option rmm_prog" where
  "copy_to_ptr pg dst =
    bind (attempt (get_granule_if dst Undelegated (\<lambda>_. return ()))) (\<lambda>r.
      case r of Inl _ \<Rightarrow> return None
      | Inr _ \<Rightarrow> bind (modify (write_page dst pg)) (\<lambda>_. return (Some ())))"

abbreviation (input) SMC_SUCCESS :: usize where "SMC_SUCCESS \<equiv> 0"

definition smc :: "env \<Rightarrow> usize \<Rightarrow> usize list \<Rightarrow> usize list rmm_prog" where
  "smc e cmd args =
    (if 1 + length args > 7 then return (replicate 8 0)
     else (\<lambda>s. let padded = cmd # args @ replicate (7 - length args) 0;
                   (r, g) = e_smc e (gpt s) padded
               in (Ok r, s\<lparr> gpt := g \<rparr>)))"

text \<open>\<open>map\<close> and \<open>unmap\<close> of the monitor's page table, \<open>rmm/src/mm/translation.rs\<close>.\<close>

definition pt_map :: "usize \<Rightarrow> bool \<Rightarrow> unit rmm_prog" where
  "pt_map addr secure = (\<lambda>s. case set_pages_for_rmi addr secure (s1_pt s) of
      Ok t \<Rightarrow> (Ok (), s\<lparr> s1_pt := t \<rparr>)
    | Err _ \<Rightarrow> (Ok (), s)
    | Panic \<Rightarrow> (Panic, s)
    | Hang \<Rightarrow> (Hang, s))"

definition pt_unmap :: "usize \<Rightarrow> unit rmm_prog" where
  "pt_unmap addr = modify (\<lambda>s. s\<lparr> s1_pt := unset_pages_for_rmi addr (s1_pt s) \<rparr>)"

text \<open>Writing a return register of the current command.\<close>

definition set_ret :: "nat \<Rightarrow> usize \<Rightarrow> unit rmm_prog" where
  "set_ret i v = bind (gets ret) (\<lambda>r.
     if i < length r then modify (\<lambda>s. s\<lparr> ret := (ret s)[i := v] \<rparr>) else panic)"

section \<open>The table covers exactly the managed memory\<close>

abbreviation gidx :: "usize \<Rightarrow> nat" where
  "gidx addr \<equiv> unat (granule_addr_to_index addr)"

abbreviation gaddr :: "nat \<Rightarrow> usize" where
  "gaddr i \<equiv> index_to_addr (of_nat i)"

lemma validate_addr_iff:
  "validate_addr a \<longleftrightarrow> unat a mod 4096 = 0
     \<and> (0x80000000 \<le> unat a \<and> unat a < 0xfc000000 \<or> 0x880000000 \<le> unat a \<and> unat a < 0x900000000)"
proof -
  have "a mod 4096 = 0 \<longleftrightarrow> unat a mod 4096 = 0"
    by (simp add: word_unat_eq_iff unat_mod)
  then show ?thesis
    by (auto simp: validate_addr_def in_dram0_def in_dram1_def word_le_nat_alt word_less_nat_alt)
qed

lemma granule_index_dram0:
  assumes "in_dram0 a"
  shows "gidx a = (unat a - 0x80000000) div 4096"
  using assms
  by (simp add: granule_addr_to_index_def in_dram0_def unat_div unat_sub word_le_nat_alt)

lemma granule_index_dram1:
  assumes "in_dram1 a"
  shows "gidx a = (unat a - 0x880000000) div 4096 + 0x7c000"
proof -
  from assms have b: "0x880000000 \<le> unat a" "unat a < 0x900000000"
    by (simp_all add: in_dram1_def word_le_nat_alt word_less_nat_alt)
  have n: "\<not> in_dram0 a" using b by (simp add: in_dram0_def word_less_nat_alt)
  have "unat ((a - 0x880000000) div 4096) = (unat a - 0x880000000) div 4096"
    using b by (simp add: unat_div unat_sub word_le_nat_alt)
  moreover have "(unat a - 0x880000000) div 4096 + 0x7c000 < 2 ^ 64"
    using b by simp
  ultimately show ?thesis
    using assms n by (simp add: granule_addr_to_index_def unat_word_ariths)
qed

lemma gidx_bound: "validate_addr a \<Longrightarrow> gidx a < 0xfc000"
  using granule_index_dram0[of a] granule_index_dram1[of a]
  by (auto simp: validate_addr_def in_dram0_def in_dram1_def word_le_nat_alt word_less_nat_alt
      split: if_splits)

lemma unat_gaddr:
  assumes "i < 0xfc000"
  shows "unat (gaddr i) = (if i < 0x7c000 then 0x80000000 + i * 4096 else 0x880000000 + (i - 0x7c000) * 4096)"
proof -
  have i: "unat (of_nat i :: usize) = i" using assms by (simp add: unat_of_nat)
  show ?thesis
  proof (cases "i < 0x7c000")
    case True
    then have "unat (of_nat i * 4096 :: usize) = i * 4096" by (simp add: unat_word_ariths i)
    then show ?thesis using True
      by (simp add: index_to_addr_def word_less_nat_alt i unat_word_ariths)
  next
    case False
    then have "unat (of_nat i - 0x7c000 :: usize) = i - 0x7c000"
      by (simp add: unat_sub word_le_nat_alt i)
    moreover have "(i - 0x7c000) * 4096 < 2 ^ 40" using assms by simp
    ultimately show ?thesis using False
      by (simp add: index_to_addr_def word_less_nat_alt i unat_word_ariths)
  qed
qed

lemma gaddr_gidx: "validate_addr a \<Longrightarrow> gaddr (gidx a) = a"
proof -
  assume v: "validate_addr a"
  then obtain q where q: "unat a = 4096 * q" by (auto simp: validate_addr_iff)
  have "unat (gaddr (gidx a)) = unat a"
  proof (cases "in_dram0 a")
    case True
    then have "0x80000 \<le> q" "q < 0xfc000"
      using q by (simp_all add: in_dram0_def word_le_nat_alt word_less_nat_alt)
    then obtain k where "q = 0x80000 + k" "k < 0x7c000" by (auto simp: le_iff_add)
    then show ?thesis
      using unat_gaddr[of "gidx a"] granule_index_dram0[OF True] q by simp
  next
    case False
    then have d: "in_dram1 a" using v by (simp add: validate_addr_def split: if_splits)
    then have "0x880000 \<le> q" "q < 0x900000"
      using q by (simp_all add: in_dram1_def word_le_nat_alt word_less_nat_alt)
    then obtain k where "q = 0x880000 + k" "k < 0x80000" by (auto simp: le_iff_add)
    then show ?thesis
      using unat_gaddr[of "gidx a"] granule_index_dram1[OF d] q by simp
  qed
  then show ?thesis by (simp add: word_unat_eq_iff)
qed

lemma index_to_addr_inverse: "validate_addr a \<Longrightarrow> index_to_addr (granule_addr_to_index a) = a"
  using gaddr_gidx[of a] by simp

lemma validate_gaddr: "i < 0xfc000 \<Longrightarrow> validate_addr (gaddr i)"
  by (auto simp: validate_addr_iff unat_gaddr)

lemma gidx_gaddr:
  assumes "i < 0xfc000"
  shows "gidx (gaddr i) = i"
proof (cases "i < 0x7c000")
  case True
  then have "in_dram0 (gaddr i)"
    using assms by (simp add: in_dram0_def word_le_nat_alt word_less_nat_alt unat_gaddr)
  then show ?thesis using True assms by (simp add: granule_index_dram0 unat_gaddr)
next
  case False
  then have "in_dram1 (gaddr i)"
    using assms by (simp add: in_dram1_def word_le_nat_alt word_less_nat_alt unat_gaddr)
  then show ?thesis using False assms by (simp add: granule_index_dram1 unat_gaddr)
qed

lemma gidx_eq_iff: "validate_addr a \<Longrightarrow> validate_addr b \<Longrightarrow> gidx a = gidx b \<longleftrightarrow> a = b"
  using gaddr_gidx by metis

lemma gidx_size: "validate_addr a \<Longrightarrow> \<not> granule_addr_to_index a \<ge> GRANULE_STATUS_TABLE_SIZE"
  using gidx_bound[of a] by (simp add: word_le_nat_alt)

section \<open>Evaluating guarded blocks\<close>

fun release :: "nat \<Rightarrow> (error, 'a) outcome \<times> rmm \<Rightarrow> (error, 'a) outcome \<times> rmm" where
  "release i (Ok a, t) = (Ok a, t\<lparr> held := remove1 i (held t) \<rparr>)"
| "release i (Err e, t) = (Err e, t\<lparr> held := remove1 i (held t) \<rparr>)"
| "release i (Panic, t) = (Panic, t)"
| "release i (Hang, t) = (Hang, t)"

lemma with_lock_run:
  "with_lock i body s =
     (if i \<in> set (held s) then (Hang, s) else release i (body (s\<lparr> held := i # held s \<rparr>)))"
  by (simp add: with_lock_def split: prod.split outcome.split)

lemma get_granule_invalid [run]: "\<not> validate_addr a \<Longrightarrow> get_granule a body s = (Err RmiErrorInput, s)"
  by (simp add: get_granule_def run)

lemma get_granule_run:
  assumes "validate_addr a"
  shows "get_granule a body s =
    (if gidx a \<in> set (held s) then (Hang, s)
     else release (gidx a) (body (gidx a) (s\<lparr> held := gidx a # held s \<rparr>)))"
  using assms gidx_size[OF assms] by (simp add: get_granule_def with_lock_run Let_def)

lemma get_granule_if_run:
  assumes "validate_addr a"
  shows "get_granule_if a st body s =
    (if gidx a \<in> set (held s) then (Hang, s)
     else if g_state (gst s (gidx a)) \<noteq> st then (Err RmiErrorInput, s)
     else release (gidx a) (body (gidx a) (s\<lparr> held := gidx a # held s \<rparr>)))"
  using assms by (simp add: get_granule_if_def get_granule_run run)

lemma get_granule_if_invalid [run]:
  "\<not> validate_addr a \<Longrightarrow> get_granule_if a st body s = (Err RmiErrorInput, s)"
  by (simp add: get_granule_if_def run)

lemma get_granule_if_Ok:
  assumes "get_granule_if a st body s = (Ok x, t)"
  shows "validate_addr a \<and> gidx a \<notin> set (held s) \<and> g_state (gst s (gidx a)) = st
    \<and> (\<exists>t'. body (gidx a) (s\<lparr> held := gidx a # held s \<rparr>) = (Ok x, t')
         \<and> t = t'\<lparr> held := remove1 (gidx a) (held t') \<rparr>)"
proof -
  have v: "validate_addr a" using assms by (cases "validate_addr a") (simp_all add: run)
  obtain r t' where b: "body (gidx a) (s\<lparr> held := gidx a # held s \<rparr>) = (r, t')"
    by (cases "body (gidx a) (s\<lparr> held := gidx a # held s \<rparr>)")
  show ?thesis using assms v b by (cases r) (auto simp: get_granule_if_run split: if_splits)
qed

lemma get_granule_Ok:
  assumes "get_granule a body s = (Ok x, t)"
  shows "validate_addr a \<and> gidx a \<notin> set (held s)
    \<and> (\<exists>t'. body (gidx a) (s\<lparr> held := gidx a # held s \<rparr>) = (Ok x, t')
         \<and> t = t'\<lparr> held := remove1 (gidx a) (held t') \<rparr>)"
proof -
  have v: "validate_addr a" using assms by (cases "validate_addr a") (simp_all add: run)
  obtain r t' where b: "body (gidx a) (s\<lparr> held := gidx a # held s \<rparr>) = (r, t')"
    by (cases "body (gidx a) (s\<lparr> held := gidx a # held s \<rparr>)")
  show ?thesis using assms v b by (cases r) (auto simp: get_granule_run split: if_splits)
qed

lemma gst_upd_granule [simp]: "gst (upd_granule i f s) = (gst s)(i := f (gst s i))"
  by (simp add: upd_granule_def)

lemma upd_granule_frame [simp]:
  "held (upd_granule i f s) = held s" "mem (upd_granule i f s) = mem s"
  "rds (upd_granule i f s) = rds s" "recs (upd_granule i f s) = recs s"
  "gpt (upd_granule i f s) = gpt s" "vmid_set (upd_granule i f s) = vmid_set s"
  "rtt_tables (upd_granule i f s) = rtt_tables s" "s1_pt (upd_granule i f s) = s1_pt s"
  "ret (upd_granule i f s) = ret s" "run_page (upd_granule i f s) = run_page s"
  "tlb_log (upd_granule i f s) = tlb_log s" "cpu (upd_granule i f s) = cpu s"
  by (simp_all add: upd_granule_def)

lemma zeroize_frame [simp]:
  "gst (zeroize i s) = gst s" "held (zeroize i s) = held s" "gpt (zeroize i s) = gpt s"
  "vmid_set (zeroize i s) = vmid_set s" "rtt_tables (zeroize i s) = rtt_tables s"
  "s1_pt (zeroize i s) = s1_pt s" "ret (zeroize i s) = ret s" "run_page (zeroize i s) = run_page s"
  "tlb_log (zeroize i s) = tlb_log s" "cpu (zeroize i s) = cpu s"
  by (simp_all add: zeroize_def Let_def)

lemma write_page_frame [simp]:
  "gst (write_page a p s) = gst s" "held (write_page a p s) = held s" "gpt (write_page a p s) = gpt s"
  "vmid_set (write_page a p s) = vmid_set s" "rtt_tables (write_page a p s) = rtt_tables s"
  "s1_pt (write_page a p s) = s1_pt s" "ret (write_page a p s) = ret s"
  "run_page (write_page a p s) = run_page s" "tlb_log (write_page a p s) = tlb_log s"
  "rds (write_page a p s) = rds s" "recs (write_page a p s) = recs s" "cpu (write_page a p s) = cpu s"
  by (simp_all add: write_page_def)

lemma set_granule_run [run]:
  "set_granule i st s = (Ok (), upd_granule i (\<lambda>g. g\<lparr> g_state := st \<rparr>)
     (if g_state (gst s i) = Delegated \<and> st = Undelegated \<or> st = Delegated then zeroize i s else s))"
  by (simp add: set_granule_def set_state_g_def run Let_def)

section \<open>Frame conditions of guarded programs\<close>

text \<open>
  A program that returns has released every lock it took.  Together with any
  relation that ignores the set of held locks this is again a step relation, for
  which the guarded blocks have their own rule.
\<close>

definition balanced :: "(rmm \<Rightarrow> rmm \<Rightarrow> bool) \<Rightarrow> rmm \<Rightarrow> rmm \<Rightarrow> bool" where
  "balanced Q s t \<longleftrightarrow> held s = held t \<and> Q s t"

locale granule_frame =
  fixes Q :: "rmm \<Rightarrow> rmm \<Rightarrow> bool"
  assumes Q_refl: "Q s s"
    and Q_trans: "Q s t \<Longrightarrow> Q t u \<Longrightarrow> Q s u"
    and Q_held: "Q (s\<lparr> held := x \<rparr>) (t\<lparr> held := y \<rparr>) \<longleftrightarrow> Q s t"
begin

sublocale step_relation "balanced Q"
  by unfold_locales (auto simp: balanced_def intro: Q_refl Q_trans)

lemma Q_held_left: "Q (s\<lparr> held := x \<rparr>) t \<longleftrightarrow> Q s t"
  using Q_held[where s = s and t = t and x = x and y = "held t"] by simp

lemma Q_held_right: "Q s (t\<lparr> held := y \<rparr>) \<longleftrightarrow> Q s t"
  using Q_held[where s = s and t = t and x = "held s" and y = y] by simp

lemma lock_frame:
  assumes "balanced Q (s\<lparr> held := i # held s \<rparr>) t'"
  shows "balanced Q s (t'\<lparr> held := remove1 i (held t') \<rparr>)"
  using assms unfolding balanced_def Q_held_left Q_held_right by (auto dest: sym)

lemma steps_with_lock:
  assumes "steps (balanced Q) m"
  shows "steps (balanced Q) (with_lock i m)"
proof (rule stepsI)
  fix s a t assume "with_lock i m s = (Ok a, t)"
  then obtain t' where m: "m (s\<lparr> held := i # held s \<rparr>) = (Ok a, t')"
    and t: "t = t'\<lparr> held := remove1 i (held t') \<rparr>"
    by (auto simp: with_lock_def split: if_splits prod.splits outcome.splits)
  show "balanced Q s t" unfolding t by (rule lock_frame[OF steps_Ok[OF assms m]])
next
  fix s e t assume "with_lock i m s = (Err e, t)"
  then obtain t' where m: "m (s\<lparr> held := i # held s \<rparr>) = (Err e, t')"
    and t: "t = t'\<lparr> held := remove1 i (held t') \<rparr>"
    by (auto simp: with_lock_def split: if_splits prod.splits outcome.splits)
  show "balanced Q s t" unfolding t by (rule lock_frame[OF steps_Err[OF assms m]])
qed

lemma steps_get_granule:
  "(\<And>i. steps (balanced Q) (body i)) \<Longrightarrow> steps (balanced Q) (get_granule a body)"
  by (simp add: get_granule_def Let_def steps_throw steps_with_lock)

lemma steps_get_granule_if:
  "(\<And>i. steps (balanced Q) (body i)) \<Longrightarrow> steps (balanced Q) (get_granule_if a st body)"
  unfolding get_granule_if_def
  by (intro steps_get_granule steps_bind steps_gets) (auto intro: steps_throw)

lemma steps_read_host:
  "steps (balanced Q) (copy_from a)" "steps (balanced Q) (is_not_in_realm a)"
  unfolding copy_from_def is_not_in_realm_def
  by (intro steps_bind steps_attempt steps_get_granule_if; auto split: sum.split intro: steps_rules)+

lemmas frame_rules = steps_rules steps_get_granule steps_get_granule_if steps_read_host

end

text \<open>
  Most frame conditions also ignore the monitor's own translation table, the
  return registers, the run structure, the log of TLB operations and the registers of
  the core.
\<close>

locale command_frame = granule_frame +
  assumes Q_s1: "Q s (s\<lparr> s1_pt := t \<rparr>)"
    and Q_ret: "Q s (s\<lparr> ret := r \<rparr>)"
    and Q_run: "Q s (s\<lparr> run_page := p \<rparr>)"
    and Q_tlb: "Q s (s\<lparr> tlb_log := l \<rparr>)"
    and Q_cpu: "Q s (s\<lparr> cpu := c \<rparr>)"
begin

lemma steps_pt_map: "steps (balanced Q) (pt_map a sec)"
  by (rule stepsI) (auto simp: pt_map_def balanced_def Q_s1 Q_refl split: outcome.splits)

lemma steps_pt_unmap: "steps (balanced Q) (pt_unmap a)"
  unfolding pt_unmap_def by (rule steps_modify) (simp add: balanced_def Q_s1)

lemma steps_set_ret: "steps (balanced Q) (set_ret i v)"
  unfolding set_ret_def
  by (intro steps_bind steps_gets) (auto intro!: steps_modify steps_panic simp: balanced_def Q_ret)

lemmas command_rules = frame_rules steps_pt_map steps_pt_unmap steps_set_ret

end

text \<open>
  \<open>confined A\<close>: firmware assignments are untouched and a granule changes state only
  among the states of \<open>A\<close>.
\<close>

definition confined :: "u8 set \<Rightarrow> rmm \<Rightarrow> rmm \<Rightarrow> bool" where
  "confined A s t \<longleftrightarrow> gpt s = gpt t
     \<and> (\<forall>i. g_state (gst s i) = g_state (gst t i)
          \<or> g_state (gst s i) \<in> A \<and> g_state (gst t i) \<in> A)"

interpretation conf: command_frame "confined A" for A
proof unfold_locales
  show "confined A s s" for s by (simp add: confined_def)
  show "confined A s u" if "confined A s t" "confined A t u" for s t u
    using that unfolding confined_def by metis
  show "confined A (s\<lparr> held := x \<rparr>) (t\<lparr> held := y \<rparr>) \<longleftrightarrow> confined A s t" for s t x y
    by (simp add: confined_def)
qed (simp_all add: confined_def)

lemma confined_mono: "confined A s t \<Longrightarrow> A \<subseteq> B \<Longrightarrow> confined B s t"
  by (auto simp: confined_def)

subsection \<open>Blocks that change the state of the granule they lock\<close>

definition steps_at :: "nat \<Rightarrow> u8 \<Rightarrow> (rmm \<Rightarrow> rmm \<Rightarrow> bool) \<Rightarrow> 'a rmm_prog \<Rightarrow> bool" where
  "steps_at i st R m \<longleftrightarrow> (\<forall>s. g_state (gst s i) = st \<longrightarrow> (case m s of
      (Ok a, t) \<Rightarrow> R s t | (Err e, t) \<Rightarrow> R s t | (Panic, t) \<Rightarrow> True | (Hang, t) \<Rightarrow> True))"

lemma steps_atI:
  assumes "\<And>s a t. g_state (gst s i) = st \<Longrightarrow> m s = (Ok a, t) \<Longrightarrow> R s t"
    and "\<And>s e t. g_state (gst s i) = st \<Longrightarrow> m s = (Err e, t) \<Longrightarrow> R s t"
  shows "steps_at i st R m"
  using assms by (auto simp: steps_at_def split: prod.split outcome.split)

lemma steps_at_Ok: "steps_at i st R m \<Longrightarrow> g_state (gst s i) = st \<Longrightarrow> m s = (Ok a, t) \<Longrightarrow> R s t"
  by (auto simp: steps_at_def dest: spec[of _ s])

lemma steps_at_Err: "steps_at i st R m \<Longrightarrow> g_state (gst s i) = st \<Longrightarrow> m s = (Err e, t) \<Longrightarrow> R s t"
  by (auto simp: steps_at_def dest: spec[of _ s])

lemma steps_at_steps: "steps R m \<Longrightarrow> steps_at i st R m"
  by (blast intro: steps_atI dest: steps_Ok steps_Err)

lemma balanced_confined_trans:
  "balanced (confined A) s t \<Longrightarrow> balanced (confined A) t u \<Longrightarrow> balanced (confined A) s u"
  using conf.R_trans by blast

lemma balanced_confined_keep: "balanced (confined {}) s t \<Longrightarrow> balanced (confined A) s t"
  by (auto simp: balanced_def intro: confined_mono)

lemma confined_keep_state: "balanced (confined {}) s t \<Longrightarrow> g_state (gst t i) = g_state (gst s i)"
  by (auto simp: balanced_def confined_def)

lemma steps_at_bind:
  assumes m: "steps (balanced (confined {})) m"
    and f: "\<And>a. steps_at i st (balanced (confined A)) (f a)"
  shows "steps_at i st (balanced (confined A)) (bind m f)"
proof (rule steps_atI)
  fix s a t assume s: "g_state (gst s i) = st" and "bind m f s = (Ok a, t)"
  then obtain x u where u: "m s = (Ok x, u)" and t: "f x u = (Ok a, t)"
    by (auto simp: run split: prod.splits outcome.splits)
  from steps_Ok[OF m u] have k: "balanced (confined {}) s u" .
  with s have "g_state (gst u i) = st" by (simp add: confined_keep_state)
  from steps_at_Ok[OF f this t] k show "balanced (confined A) s t"
    by (blast intro: balanced_confined_trans balanced_confined_keep)
next
  fix s e t assume s: "g_state (gst s i) = st" and b: "bind m f s = (Err e, t)"
  show "balanced (confined A) s t"
  proof (cases "m s")
    case (Pair o' u)
    show ?thesis
    proof (cases o')
      case (Ok x)
      then have u: "m s = (Ok x, u)" and t: "f x u = (Err e, t)" using b Pair by (simp_all add: run)
      from steps_Ok[OF m u] have k: "balanced (confined {}) s u" .
      with s have "g_state (gst u i) = st" by (simp add: confined_keep_state)
      from steps_at_Err[OF f this t] k show ?thesis
        by (blast intro: balanced_confined_trans balanced_confined_keep)
    next
      case (Err e')
      then have "m s = (Err e, t)" using b Pair by (simp add: run)
      then show ?thesis by (blast intro: balanced_confined_keep dest: steps_Err[OF m])
    qed (use b Pair in \<open>simp_all add: run\<close>)
  qed
qed

lemma set_granule_frame:
  assumes "set_granule i st s = (r, t)"
  shows "r = Ok () \<and> gpt t = gpt s \<and> held t = held s \<and> gst t = (gst s)(i := (gst s i)\<lparr> g_state := st \<rparr>)"
  using assms
  by (cases "g_state (gst s i) = Delegated \<and> st = Undelegated \<or> st = Delegated")
    (auto simp: set_granule_run)

lemma steps_at_set_end:
  assumes "st \<in> A" and "st' \<in> A"
  shows "steps_at i st (balanced (confined A)) (set_granule i st')"
  by (rule steps_atI; drule set_granule_frame) (use assms in \<open>auto simp: balanced_def confined_def\<close>)

lemma steps_at_set:
  assumes "st \<in> A" and "st' \<in> A" and f: "\<And>a. steps (balanced (confined A)) (f a)"
  shows "steps_at i st (balanced (confined A)) (bind (set_granule i st') f)"
proof -
  have k: "balanced (confined A) s u" if "g_state (gst s i) = st" "set_granule i st' s = (Ok a, u)"
    for s u a
    using steps_at_Ok[OF steps_at_set_end[OF assms(1,2)] that] .
  show ?thesis
  proof (rule steps_atI)
    fix s a t assume s: "g_state (gst s i) = st" and "bind (set_granule i st') f s = (Ok a, t)"
    then obtain x u where u: "set_granule i st' s = (Ok x, u)" "f x u = (Ok a, t)"
      by (auto simp: bind_run split: prod.splits outcome.splits)
    then show "balanced (confined A) s t"
      using balanced_confined_trans[OF k[OF s u(1)] steps_Ok[OF f u(2)]] by blast
  next
    fix s e t assume s: "g_state (gst s i) = st" and b: "bind (set_granule i st') f s = (Err e, t)"
    obtain r u where ru: "set_granule i st' s = (r, u)" by (cases "set_granule i st' s")
    then have u: "set_granule i st' s = (Ok (), u)" using set_granule_frame by blast
    then have "f () u = (Err e, t)" using b by (simp add: bind_run)
    then show "balanced (confined A) s t"
      using balanced_confined_trans[OF k[OF s u] steps_Err[OF f]] by blast
  qed
qed

lemma steps_at_if:
  "(c \<Longrightarrow> steps_at i st R m) \<Longrightarrow> (\<not> c \<Longrightarrow> steps_at i st R n) \<Longrightarrow> steps_at i st R (if c then m else n)"
  by simp

lemma steps_get_granule_if_at:
  assumes "\<And>i. steps_at i st (balanced (confined A)) (body i)"
  shows "steps (balanced (confined A)) (get_granule_if a st body)"
proof (cases "validate_addr a")
  case True
  have lock: "balanced (confined A) s (t\<lparr> held := remove1 i (held t) \<rparr>)"
    if "balanced (confined A) (s\<lparr> held := i # held s \<rparr>) t" for s t i
    using that by (rule conf.lock_frame)
  show ?thesis
  proof (rule stepsI)
    fix s x t assume "get_granule_if a st body s = (Ok x, t)"
    from get_granule_if_Ok[OF this] obtain t' where g: "g_state (gst s (gidx a)) = st"
      and b: "body (gidx a) (s\<lparr> held := gidx a # held s \<rparr>) = (Ok x, t')"
      and t: "t = t'\<lparr> held := remove1 (gidx a) (held t') \<rparr>" by blast
    from steps_at_Ok[OF assms _ b] g show "balanced (confined A) s t"
      unfolding t by (intro lock) simp
  next
    fix s e t assume e: "get_granule_if a st body s = (Err e, t)"
    obtain r t' where b: "body (gidx a) (s\<lparr> held := gidx a # held s \<rparr>) = (r, t')"
      by (cases "body (gidx a) (s\<lparr> held := gidx a # held s \<rparr>)")
    show "balanced (confined A) s t"
    proof (cases "g_state (gst s (gidx a)) = st \<and> gidx a \<notin> set (held s)")
      case True
      then have r: "r = Err e" and t: "t = t'\<lparr> held := remove1 (gidx a) (held t') \<rparr>"
        using e b \<open>validate_addr a\<close> by (cases r; auto simp: get_granule_if_run)+
      from steps_at_Err[OF assms _ b[unfolded r]] True show ?thesis
        unfolding t by (intro lock) simp
    next
      case False
      then have "t = s" using e \<open>validate_addr a\<close> by (auto simp: get_granule_if_run split: if_splits)
      then show ?thesis by (simp add: conf.R_refl)
    qed
  qed
next
  case False
  then show ?thesis by (intro stepsI) (auto simp: run conf.R_refl)
qed

section \<open>Properties\<close>

text \<open>
  The granule status table has exactly one entry for every managed granule.  A
  valid address has an index inside the table and is the address of that index, and
  every index is the index of its own, valid, address.
\<close>

theorem granule_index_bijection:
  "(validate_addr a \<longrightarrow> granule_addr_to_index a < GRANULE_STATUS_TABLE_SIZE
      \<and> index_to_addr (granule_addr_to_index a) = a)
   \<and> (i < GRANULE_STATUS_TABLE_SIZE \<longrightarrow> validate_addr (index_to_addr i)
      \<and> granule_addr_to_index (index_to_addr i) = i)"
proof (intro conjI impI)
  assume v: "validate_addr a"
  from gidx_bound[OF v] show "granule_addr_to_index a < GRANULE_STATUS_TABLE_SIZE"
    by (simp add: word_less_nat_alt)
  from gaddr_gidx[OF v] show "index_to_addr (granule_addr_to_index a) = a" by simp
next
  assume "i < GRANULE_STATUS_TABLE_SIZE"
  then have b: "unat i < 0xfc000" by (simp add: word_less_nat_alt)
  from validate_gaddr[OF b] show "validate_addr (index_to_addr i)" by simp
  from gidx_gaddr[OF b] show "granule_addr_to_index (index_to_addr i) = i"
    by (simp add: word_unat_eq_iff)
qed

theorem granule_index_bijection_witness:
  "index_to_addr (granule_addr_to_index 0x880001000) = 0x880001000
   \<and> granule_addr_to_index (index_to_addr 0x7c001) = 0x7c001"
  using granule_index_bijection[of "0x880001000" "0x7c001"]
  by (simp add: validate_addr_def in_dram0_def in_dram1_def)

end
