(* ===== verification/Measurement.thy ===== *)
theory Measurement
  imports Granule
begin

text \<open>
  Realm measurements: the hashing layer of \<open>rmm/src/measurement/hash.rs\<close>, the
  measurement context of \<open>rmm/src/measurement/ctx.rs\<close>, the slots of
  \<open>rmm/src/rsi/measurement.rs\<close> and the serialisation of the realm and REC parameters
  (\<open>Hashable\<close> of \<open>rmm/src/rmi/realm/params.rs\<close> and \<open>rmm/src/rmi/rec/params.rs\<close>).  The
  digest itself (crate \<open>sha2\<close>) is the field \<open>e_hash\<close> of the environment.
\<close>

section \<open>Bytes\<close>

definition le_bytes :: "nat \<Rightarrow> u64 \<Rightarrow> u8 list" where
  "le_bytes n w = map (\<lambda>i. ucast (drop_bit (8 * i) w)) [0..<n]"

definition page_bytes :: "(nat \<Rightarrow> u64) \<Rightarrow> u8 list" where
  "page_bytes pg = concat (map (\<lambda>i. le_bytes 8 (pg i)) [0..<512])"

definition page_byte :: "(nat \<Rightarrow> u64) \<Rightarrow> nat \<Rightarrow> u8" where
  "page_byte pg k = ucast (drop_bit (8 * (k mod 8)) (pg (k div 8)))"

definition page_slice :: "(nat \<Rightarrow> u64) \<Rightarrow> nat \<Rightarrow> nat \<Rightarrow> u8 list" where
  "page_slice pg a b = map (page_byte pg) [a..<b]"

section \<open>Hashing\<close>

definition from_hash_algo :: "u8 \<Rightarrow> measurement_error + (u8 \<times> nat)" where
  "from_hash_algo hash_algo =
    (if hash_algo = HASH_ALGO_SHA256 then Inr (hash_algo, 32)
     else if hash_algo = HASH_ALGO_SHA512 then Inr (hash_algo, 64)
     else Inl (InvalidHashAlgorithmValue hash_algo))"

text \<open>
  \<open>finish\<close> overwrites as many bytes of the output buffer as the digest has.
\<close>

definition hash_fields_into :: "env \<Rightarrow> u8 \<Rightarrow> u8 list \<Rightarrow> u8 list \<Rightarrow> u8 list" where
  "hash_fields_into e algo out data =
    (let d = e_hash e algo data in d @ drop (length d) out)"

definition sha_sizes :: "env \<Rightarrow> bool" where
  "sha_sizes e \<longleftrightarrow> (\<forall>b. length (e_hash e HASH_ALGO_SHA256 b) = 32)
     \<and> (\<forall>b. length (e_hash e HASH_ALGO_SHA512 b) = 64)"

section \<open>Slots\<close>

definition measurement_read :: "rd \<Rightarrow> nat \<Rightarrow> rsi_error + u8 list" where
  "measurement_read r index =
    (if index < length (rd_measurements r) then Inr (rd_measurements r ! index)
     else Inl InvalidMeasurementIndexRsi)"

definition measurement_extend :: "rd \<Rightarrow> nat \<Rightarrow> (u8 list \<Rightarrow> u8 list) \<Rightarrow> rsi_error + rd" where
  "measurement_extend r index f =
    (if index < length (rd_measurements r)
     then Inr (r\<lparr> rd_measurements := (rd_measurements r)[index := f (rd_measurements r ! index)] \<rparr>)
     else Inl InvalidMeasurementIndexRsi)"

section \<open>Measured structures\<close>

definition realm_params_bytes :: "(nat \<Rightarrow> u64) \<Rightarrow> u8 list" where
  "realm_params_bytes pg =
     page_slice pg 0x0 0x8
   @ page_slice pg 0x8 0x9 @ page_slice pg 0x9 0x10
   @ page_slice pg 0x10 0x11 @ page_slice pg 0x11 0x18
   @ page_slice pg 0x18 0x19 @ page_slice pg 0x19 0x20
   @ page_slice pg 0x20 0x21 @ page_slice pg 0x21 0x28
   @ page_slice pg 0x28 0x29 @ page_slice pg 0x29 0x30
   @ page_slice pg 0x30 0x31 @ page_slice pg 0x31 0x400
   @ replicate 64 0 @ page_slice pg 0x440 0x800
   @ replicate 2 0 @ page_slice pg 0x802 0x808
   @ replicate 8 0
   @ replicate 8 0
   @ replicate 4 0 @ page_slice pg 0x81c 0x1000"

definition rec_params_bytes :: "(nat \<Rightarrow> u64) \<Rightarrow> u8 list" where
  "rec_params_bytes pg =
     page_slice pg 0x0 0x8 @ page_slice pg 0x8 0x100
   @ replicate 8 0 @ page_slice pg 0x108 0x200
   @ page_slice pg 0x200 0x208 @ page_slice pg 0x208 0x300
   @ page_slice pg 0x300 0x340 @ page_slice pg 0x340 0x800
   @ replicate 8 0
   @ replicate 128 0 @ page_slice pg 0x888 0x1000"

abbreviation (input) MEASURE_DESC_TYPE_DATA :: u8 where "MEASURE_DESC_TYPE_DATA \<equiv> 0"
abbreviation (input) MEASURE_DESC_TYPE_REC :: u8 where "MEASURE_DESC_TYPE_REC \<equiv> 1"
abbreviation (input) MEASURE_DESC_TYPE_RIPAS :: u8 where "MEASURE_DESC_TYPE_RIPAS \<equiv> 2"
abbreviation (input) RMI_MEASURE_CONTENT :: usize where "RMI_MEASURE_CONTENT \<equiv> 1"

definition data_desc :: "u8 list \<Rightarrow> usize \<Rightarrow> usize \<Rightarrow> u8 list \<Rightarrow> u8 list" where
  "data_desc oldrim ipa flags data_measurement =
     [MEASURE_DESC_TYPE_DATA] @ replicate 7 0 @ le_bytes 8 0x100 @ oldrim
   @ le_bytes 8 ipa @ le_bytes 8 flags @ data_measurement @ replicate (0x100 - 0xa0) 0"

definition rec_desc :: "u8 list \<Rightarrow> u8 list \<Rightarrow> u8 list" where
  "rec_desc oldrim params_measurement =
     [MEASURE_DESC_TYPE_REC] @ replicate 7 0 @ le_bytes 8 0x100 @ oldrim
   @ params_measurement @ replicate (0x100 - 0x90) 0"

definition ripas_desc :: "u8 list \<Rightarrow> u64 \<Rightarrow> u64 \<Rightarrow> u8 list" where
  "ripas_desc oldrim base tp =
     [MEASURE_DESC_TYPE_RIPAS] @ replicate 7 0 @ le_bytes 8 0x100 @ oldrim
   @ le_bytes 8 base @ le_bytes 8 tp @ replicate (0x100 - 0x60) 0"

section \<open>The measurement context\<close>

text \<open>\<open>HashContext::new\<close> followed by one of its operations, on the descriptor it borrows.\<close>

definition hash_context :: "rd \<Rightarrow> (u8 \<Rightarrow> nat \<Rightarrow> rsi_error + rd) \<Rightarrow> error + rd" where
  "hash_context r op =
    (case from_hash_algo (rd_hash_algo r) of
       Inl m \<Rightarrow> Inl (error_of_measurement m)
     | Inr (algo, sz) \<Rightarrow>
         (case op algo sz of Inl x \<Rightarrow> Inl (error_of_rsi x) | Inr r' \<Rightarrow> Inr r'))"

definition measure_realm_create :: "env \<Rightarrow> (nat \<Rightarrow> u64) \<Rightarrow> rd \<Rightarrow> error + rd" where
  "measure_realm_create e params r =
    hash_context r (\<lambda>algo sz. measurement_extend r MEASUREMENTS_SLOT_RIM
      (\<lambda>rim. hash_fields_into e algo rim (realm_params_bytes params)))"

definition extend_measurement :: "env \<Rightarrow> u8 list \<Rightarrow> nat \<Rightarrow> rd \<Rightarrow> error + rd" where
  "extend_measurement e buffer index r =
    hash_context r (\<lambda>algo sz. measurement_extend r index
      (\<lambda>current. hash_fields_into e algo current (take sz current @ buffer)))"

definition measure_data_granule :: "env \<Rightarrow> (nat \<Rightarrow> u64) \<Rightarrow> usize \<Rightarrow> usize \<Rightarrow> rd \<Rightarrow> error + rd" where
  "measure_data_granule e data ipa flags r =
    hash_context r (\<lambda>algo sz.
      (let dm = (if flags = RMI_MEASURE_CONTENT
                 then hash_fields_into e algo measurement_empty (page_bytes data)
                 else measurement_empty)
       in measurement_extend r MEASUREMENTS_SLOT_RIM
            (\<lambda>current. hash_fields_into e algo current (data_desc current ipa flags dm))))"

definition measure_rec_params :: "env \<Rightarrow> (nat \<Rightarrow> u64) \<Rightarrow> rd \<Rightarrow> error + rd" where
  "measure_rec_params e params r =
    hash_context r (\<lambda>algo sz.
      (let pm = hash_fields_into e algo measurement_empty (rec_params_bytes params)
       in measurement_extend r MEASUREMENTS_SLOT_RIM
            (\<lambda>current. hash_fields_into e algo current (rec_desc current pm))))"

definition measure_ripas_granule :: "env \<Rightarrow> u64 \<Rightarrow> u64 \<Rightarrow> rd \<Rightarrow> error + rd" where
  "measure_ripas_granule e base tp r =
    hash_context r (\<lambda>algo sz. measurement_extend r MEASUREMENTS_SLOT_RIM
      (\<lambda>current. hash_fields_into e algo current (ripas_desc current base tp)))"

section \<open>Serialisation\<close>

lemma length_le_bytes [simp]: "length (le_bytes n w) = n"
  by (simp add: le_bytes_def)

lemma length_page_slice [simp]: "length (page_slice pg a b) = b - a"
  by (simp add: page_slice_def)

lemma le_bytes_inj:
  assumes "le_bytes 8 v = le_bytes 8 w"
  shows "v = w"
proof (rule word_eq_by_bits)
  fix n :: nat assume n: "n < LENGTH(64)"
  have "le_bytes 8 v ! (n div 8) = le_bytes 8 w ! (n div 8)" using assms by simp
  then have "(ucast (drop_bit (8 * (n div 8)) v) :: u8) = ucast (drop_bit (8 * (n div 8)) w)"
    using n nth_upt[of 0 "n div 8" 8] by (simp add: le_bytes_def)
  then have "bit (ucast (drop_bit (8 * (n div 8)) v) :: u8) (n mod 8)
      = bit (ucast (drop_bit (8 * (n div 8)) w) :: u8) (n mod 8)"
    by (rule arg_cong)
  then show "bit v n = bit w n"
    by (simp add: bit_ucast_iff bit_drop_bit_eq)
qed

lemma page_bytes_slice: "page_bytes pg = page_slice pg 0 0x1000"
proof -
  have a: "concat (map (\<lambda>i. le_bytes 8 (pg i)) [0..<n]) = page_slice pg 0 (8 * n)" for n
  proof (induction n)
    case 0
    then show ?case by (simp add: page_slice_def)
  next
    case (Suc n)
    have "page_slice pg (8 * n) (8 * n + 8) = le_bytes 8 (pg n)"
      by (rule nth_equalityI) (simp_all add: page_slice_def le_bytes_def page_byte_def)
    moreover have "[0..<8 * Suc n] = [0..<8 * n] @ [8 * n..<8 * n + 8]"
      using upt_add_eq_append[of 0 "8 * n" 8] by (simp add: add.commute)
    ultimately show ?case using Suc by (simp add: page_slice_def)
  qed
  show ?thesis using a[of 512] by (simp add: page_bytes_def)
qed

lemma desc_lengths:
  assumes "length rim = 64" and "length dm = 64"
  shows "length (data_desc rim ipa flags dm) = 0x100" "length (rec_desc rim dm) = 0x100"
    "length (ripas_desc rim base tp) = 0x100"
  using assms by (simp_all add: data_desc_def rec_desc_def ripas_desc_def)

lemma length_realm_params_bytes: "length (realm_params_bytes pg) = 0x1000"
  by (simp add: realm_params_bytes_def)

lemma length_rec_params_bytes: "length (rec_params_bytes pg) = 0x1000"
  by (simp add: rec_params_bytes_def)

lemma length_hash_fields_into:
  assumes "length (e_hash e algo data) \<le> length out"
  shows "length (hash_fields_into e algo out data) = length out"
  using assms by (simp add: hash_fields_into_def Let_def)

section \<open>What the initial measurement commits to\<close>

text \<open>The measured part of an operation on a realm: what enters its descriptor.\<close>

datatype measured = MData usize usize "u8 list" | MRec "u8 list" | MRipas u64 u64

datatype measure_op = OpData "nat \<Rightarrow> u64" usize usize | OpRec "nat \<Rightarrow> u64" | OpRipas u64 u64

fun measure :: "env \<Rightarrow> measure_op \<Rightarrow> rd \<Rightarrow> error + rd" where
  "measure e (OpData data ipa flags) r = measure_data_granule e data ipa flags r"
| "measure e (OpRec params) r = measure_rec_params e params r"
| "measure e (OpRipas base tp) r = measure_ripas_granule e base tp r"

fun measure_all :: "env \<Rightarrow> measure_op list \<Rightarrow> rd \<Rightarrow> error + rd" where
  "measure_all e [] r = Inr r"
| "measure_all e (op # ops) r = (case measure e op r of Inl x \<Rightarrow> Inl x | Inr r' \<Rightarrow> measure_all e ops r')"

fun measured_of :: "env \<Rightarrow> u8 \<Rightarrow> measure_op \<Rightarrow> measured" where
  "measured_of e algo (OpData data ipa flags) = MData ipa flags (if flags = RMI_MEASURE_CONTENT
      then hash_fields_into e algo measurement_empty (page_bytes data) else measurement_empty)"
| "measured_of e algo (OpRec params) =
     MRec (hash_fields_into e algo measurement_empty (rec_params_bytes params))"
| "measured_of e algo (OpRipas base tp) = MRipas base tp"

fun measured_desc :: "u8 list \<Rightarrow> measured \<Rightarrow> u8 list" where
  "measured_desc rim (MData ipa flags dm) = data_desc rim ipa flags dm"
| "measured_desc rim (MRec pm) = rec_desc rim pm"
| "measured_desc rim (MRipas base tp) = ripas_desc rim base tp"

fun measured_ok :: "measured \<Rightarrow> bool" where
  "measured_ok (MData ipa flags dm) \<longleftrightarrow> length dm = 64"
| "measured_ok (MRec pm) \<longleftrightarrow> length pm = 64"
| "measured_ok (MRipas base tp) \<longleftrightarrow> True"

text \<open>The descriptors that a sequence of operations hashes into the initial measurement.\<close>

fun rim_inputs :: "env \<Rightarrow> measure_op list \<Rightarrow> rd \<Rightarrow> u8 list list" where
  "rim_inputs e [] r = []"
| "rim_inputs e (op # ops) r =
    measured_desc (rd_measurements r ! 0) (measured_of e (rd_hash_algo r) op)
    # (case measure e op r of Inl _ \<Rightarrow> [] | Inr r' \<Rightarrow> rim_inputs e ops r')"

definition hashing_ready :: "env \<Rightarrow> rd \<Rightarrow> bool" where
  "hashing_ready e r \<longleftrightarrow> (rd_hash_algo r = HASH_ALGO_SHA256 \<or> rd_hash_algo r = HASH_ALGO_SHA512)
     \<and> rd_measurements r \<noteq> [] \<and> length (rd_measurements r ! 0) = 64"

lemma algo_digest:
  assumes "sha_sizes e" and "hashing_ready e r"
  shows "length (e_hash e (rd_hash_algo r) x) = length (e_hash e (rd_hash_algo r) y)
    \<and> length (e_hash e (rd_hash_algo r) x) \<le> 64"
  using assms by (auto simp: sha_sizes_def hashing_ready_def)

lemma measured_desc_length:
  "length rim = 64 \<Longrightarrow> measured_ok m \<Longrightarrow> length (measured_desc rim m) = 0x100"
  by (cases m) (simp_all add: desc_lengths)

lemma measured_desc_inj:
  assumes "length rim = 64" "length rim' = 64" "measured_ok m" "measured_ok m'"
    and "measured_desc rim m = measured_desc rim' m'"
  shows "rim = rim' \<and> m = m'"
proof (cases m; cases m')
  fix i f d i' f' d' assume "m = MData i f d" "m' = MData i' f' d'"
  then show ?thesis using assms le_bytes_inj by (auto simp: data_desc_def)
next
  fix d d' assume "m = MRec d" "m' = MRec d'"
  then show ?thesis using assms by (auto simp: rec_desc_def)
next
  fix b t b' t' assume "m = MRipas b t" "m' = MRipas b' t'"
  then show ?thesis using assms le_bytes_inj by (auto simp: ripas_desc_def)
qed (use assms(5) in \<open>simp_all add: data_desc_def rec_desc_def ripas_desc_def\<close>)

lemma measured_of_ok: "sha_sizes e \<Longrightarrow> hashing_ready e r \<Longrightarrow> measured_ok (measured_of e (rd_hash_algo r) op)"
  using algo_digest[of e r]
  by (cases op) (auto simp: length_hash_fields_into measurement_empty_def)

lemma measure_step:
  assumes "sha_sizes e" and "hashing_ready e r"
  shows "\<exists>r'. measure e op r = Inr r' \<and> hashing_ready e r' \<and> rd_hash_algo r' = rd_hash_algo r
    \<and> rd_measurements r' ! 0 = hash_fields_into e (rd_hash_algo r) (rd_measurements r ! 0)
        (measured_desc (rd_measurements r ! 0) (measured_of e (rd_hash_algo r) op))"
  using assms algo_digest[OF assms]
  by (cases op)
    (auto simp: measure_data_granule_def measure_rec_params_def measure_ripas_granule_def
      hash_context_def from_hash_algo_def measurement_extend_def hashing_ready_def Let_def
      length_hash_fields_into)

lemma hash_fields_into_eqD:
  assumes "hash_fields_into e algo out x = hash_fields_into e algo out' y"
    and "length (e_hash e algo x) = length (e_hash e algo y)"
  shows "e_hash e algo x = e_hash e algo y"
  using assms by (simp add: hash_fields_into_def Let_def)

lemma measure_all_snoc:
  "measure_all e (ops @ [op]) r =
     (case measure_all e ops r of Inl x \<Rightarrow> Inl x | Inr r' \<Rightarrow> measure e op r')"
  by (induction ops arbitrary: r) (auto split: sum.split)

lemma measure_all_ready:
  assumes "sha_sizes e" and "hashing_ready e r"
  shows "\<exists>r'. measure_all e ops r = Inr r' \<and> hashing_ready e r' \<and> rd_hash_algo r' = rd_hash_algo r"
  using assms
proof (induction ops arbitrary: r)
  case (Cons op ops)
  from measure_step[OF Cons.prems, of op] obtain r1 where
    "measure e op r = Inr r1" "hashing_ready e r1" "rd_hash_algo r1 = rd_hash_algo r" by blast
  with Cons.IH[of r1] Cons.prems(1) show ?case by auto
qed simp

lemma rim_inputs_snoc:
  assumes "measure_all e ops r = Inr r'"
  shows "rim_inputs e (ops @ [op]) r = rim_inputs e ops r
    @ [measured_desc (rd_measurements r' ! 0) (measured_of e (rd_hash_algo r') op)]"
  using assms
proof (induction ops arbitrary: r)
  case Nil
  then show ?case by (cases "measure e op r") simp_all
qed (auto split: sum.splits)

text \<open>
  C2: the realm initial measurement commits to the whole history of a realm under
  construction.  Two sequences of equally many measured operations (\<open>DATA_CREATE\<close>,
  \<open>REC_CREATE\<close>, \<open>INIT_RIPAS\<close>) on the same descriptor that end with the same initial
  measurement have measured the same data, parameters and ranges in the same order,
  or two of the descriptors that they hashed are a collision of the hash function.
\<close>

theorem rim_commits:
  assumes sha: "sha_sizes e" and rdy: "hashing_ready e r"
    and "length ops = length ops'"
    and "measure_all e ops r = Inr r1" and "measure_all e ops' r = Inr r2"
    and "rd_measurements r1 ! 0 = rd_measurements r2 ! 0"
  shows "map (measured_of e (rd_hash_algo r)) ops = map (measured_of e (rd_hash_algo r)) ops'
    \<or> (\<exists>x y. x \<in> set (rim_inputs e ops r) \<and> y \<in> set (rim_inputs e ops' r) \<and> x \<noteq> y
         \<and> e_hash e (rd_hash_algo r) x = e_hash e (rd_hash_algo r) y)"
  using assms(3-6)
proof (induction ops arbitrary: ops' r1 r2 rule: rev_induct)
  case Nil
  then show ?case by simp
next
  case (snoc op ops)
  let ?a = "rd_hash_algo r"
  from snoc.prems(1) obtain xs op' where ops': "ops' = xs @ [op']" and len: "length xs = length ops"
    by (metis length_append_singleton length_Suc_conv_rev)
  obtain s1 where s1: "measure_all e ops r = Inr s1" "hashing_ready e s1" "rd_hash_algo s1 = ?a"
    using measure_all_ready[OF sha rdy] by blast
  obtain s2 where s2: "measure_all e xs r = Inr s2" "hashing_ready e s2" "rd_hash_algo s2 = ?a"
    using measure_all_ready[OF sha rdy] by blast
  let ?d1 = "measured_desc (rd_measurements s1 ! 0) (measured_of e ?a op)"
  let ?d2 = "measured_desc (rd_measurements s2 ! 0) (measured_of e ?a op')"
  have in1: "set (rim_inputs e (ops @ [op]) r) = insert ?d1 (set (rim_inputs e ops r))"
    and in2: "set (rim_inputs e ops' r) = insert ?d2 (set (rim_inputs e xs r))"
    using rim_inputs_snoc[OF s1(1)] rim_inputs_snoc[OF s2(1)] s1(3) s2(3) ops' by simp_all
  have "hash_fields_into e ?a (rd_measurements s1 ! 0) ?d1 = hash_fields_into e ?a (rd_measurements s2 ! 0) ?d2"
    using measure_step[OF sha s1(2), of op] measure_step[OF sha s2(2), of op'] s1 s2 snoc.prems ops'
    by (auto simp: measure_all_snoc)
  then have h: "e_hash e ?a ?d1 = e_hash e ?a ?d2"
    using hash_fields_into_eqD algo_digest[OF sha rdy] by blast
  show ?case
  proof (cases "?d1 = ?d2")
    case False
    then show ?thesis using h in1 in2 by blast
  next
    case True
    have l: "length (rd_measurements s1 ! 0) = 64" "length (rd_measurements s2 ! 0) = 64"
      using s1(2) s2(2) by (simp_all add: hashing_ready_def)
    from measured_desc_inj[OF l measured_of_ok[OF sha rdy] measured_of_ok[OF sha rdy] True]
    have "rd_measurements s1 ! 0 = rd_measurements s2 ! 0" "measured_of e ?a op = measured_of e ?a op'"
      by auto
    then show ?thesis
      using snoc.IH[OF _ s1(1) s2(1)] len ops' in1 in2 by (auto simp del: set_append)
  qed
qed

lemma env0_sha: "sha_sizes env0"
  by (simp add: sha_sizes_def env0_def)

theorem rim_commits_witness:
  "\<exists>r1 r2. measure_all env0 [OpRipas 0 0x1000] rd_zero = Inr r1
     \<and> measure_all env0 [OpRipas 0 0x2000] rd_zero = Inr r2
     \<and> (\<exists>x y. x \<in> set (rim_inputs env0 [OpRipas 0 0x1000] rd_zero)
          \<and> y \<in> set (rim_inputs env0 [OpRipas 0 0x2000] rd_zero) \<and> x \<noteq> y
          \<and> e_hash env0 0 x = e_hash env0 0 y)"
proof -
  have rdy: "hashing_ready env0 rd_zero"
    by (simp add: hashing_ready_def rd_zero_def measurement_empty_def)
  have eval: "measure_all env0 [OpRipas 0 t] rd_zero = Inr (rd_zero\<lparr> rd_measurements :=
      (replicate 5 measurement_empty)[0 := measurement_empty] \<rparr>)" for t
    by (simp add: measure_ripas_granule_def hash_context_def from_hash_algo_def rd_zero_def
        measurement_extend_def hash_fields_into_def env0_def measurement_empty_def Let_def
        drop_replicate flip: replicate_add)
  show ?thesis
    using rim_commits[OF env0_sha rdy _ eval[of "0x1000"] eval[of "0x2000"]] eval
    by (simp add: rd_zero_def)
qed

end
