(* ===== verification/S2tte.thy ===== *)
theory S2tte
  imports Islet_Bits
begin

text \<open>
  Stage 2 translation table entries, \<open>rmm/src/realm/mm/stage2_tte.rs\<close> with the
  constants of \<open>attribute.rs\<close>: the fields of a descriptor, the predicates that
  read its state (HIPAS and RIPAS of an invalid descriptor, page, block, table),
  and the homogeneity test that decides whether a table can be folded.  A
  function that reaches \<open>unreachable!()\<close> on some level returns an option, with
  \<open>None\<close> for the panic.
\<close>

section \<open>Constants\<close>

abbreviation (input) RTT_PAGE_LEVEL :: usize where "RTT_PAGE_LEVEL \<equiv> 3"
abbreviation (input) RTT_MIN_BLOCK_LEVEL :: usize where "RTT_MIN_BLOCK_LEVEL \<equiv> 2"
abbreviation (input) RTT_STRIDE :: usize where "RTT_STRIDE \<equiv> 9"
abbreviation (input) PAGE_BITS :: usize where "PAGE_BITS \<equiv> 12"

abbreviation (input) L012_TABLE :: u64 where "L012_TABLE \<equiv> 3"
abbreviation (input) L012_BLOCK :: u64 where "L012_BLOCK \<equiv> 1"
abbreviation (input) L3_PAGE :: u64 where "L3_PAGE \<equiv> 3"
abbreviation (input) LX_INVALID :: u64 where "LX_INVALID \<equiv> 0"

abbreviation (input) HIPAS_UNASSIGNED :: u64 where "HIPAS_UNASSIGNED \<equiv> 0"
abbreviation (input) HIPAS_ASSIGNED :: u64 where "HIPAS_ASSIGNED \<equiv> 1"
abbreviation (input) RIPAS_EMPTY :: u64 where "RIPAS_EMPTY \<equiv> 0"
abbreviation (input) RIPAS_RAM :: u64 where "RIPAS_RAM \<equiv> 1"
abbreviation (input) RIPAS_DESTROYED :: u64 where "RIPAS_DESTROYED \<equiv> 2"

abbreviation (input) NORMAL_FWB :: u64 where "NORMAL_FWB \<equiv> 6"
abbreviation (input) FWB_RESERVED :: u64 where "FWB_RESERVED \<equiv> 4"
abbreviation (input) SH_RESERVED :: u64 where "SH_RESERVED \<equiv> 1"
abbreviation (input) SH_INNER :: u64 where "SH_INNER \<equiv> 3"
abbreviation (input) PERM_RW :: u64 where "PERM_RW \<equiv> 3"
abbreviation (input) TABLE_OR_PAGE :: u64 where "TABLE_OR_PAGE \<equiv> 1"

text \<open>The fields of \<open>S2TTE\<close>.\<close>

definition S2TTE_NS :: u64 where "S2TTE_NS = define_mask 55 55"
definition S2TTE_XN :: u64 where "S2TTE_XN = define_mask 54 54"
definition S2TTE_ADDR_BLK_L0 :: u64 where "S2TTE_ADDR_BLK_L0 = define_mask 47 39"
definition S2TTE_ADDR_BLK_L1 :: u64 where "S2TTE_ADDR_BLK_L1 = define_mask 47 30"
definition S2TTE_ADDR_BLK_L2 :: u64 where "S2TTE_ADDR_BLK_L2 = define_mask 47 21"
definition S2TTE_ADDR_BLK_L3 :: u64 where "S2TTE_ADDR_BLK_L3 = define_mask 47 12"
definition S2TTE_ADDR_TBL_OR_PAGE :: u64 where "S2TTE_ADDR_TBL_OR_PAGE = define_mask 47 12"
definition S2TTE_AF :: u64 where "S2TTE_AF = define_mask 10 10"
definition S2TTE_SH :: u64 where "S2TTE_SH = define_mask 9 8"
definition S2TTE_S2AP :: u64 where "S2TTE_S2AP = define_mask 7 6"
definition S2TTE_INVALID_RIPAS :: u64 where "S2TTE_INVALID_RIPAS = define_mask 6 5"
definition S2TTE_INVALID_HIPAS :: u64 where "S2TTE_INVALID_HIPAS = define_mask 4 2"
definition S2TTE_MEMATTR :: u64 where "S2TTE_MEMATTR = define_mask 5 2"
definition S2TTE_DESC_TYPE :: u64 where "S2TTE_DESC_TYPE = define_mask 1 0"
definition S2TTE_TYPE :: u64 where "S2TTE_TYPE = define_mask 1 1"
definition S2TTE_VALID :: u64 where "S2TTE_VALID = define_mask 0 0"

lemmas s2tte_masks =
  S2TTE_NS_def S2TTE_XN_def S2TTE_ADDR_BLK_L0_def S2TTE_ADDR_BLK_L1_def S2TTE_ADDR_BLK_L2_def
  S2TTE_ADDR_BLK_L3_def S2TTE_ADDR_TBL_OR_PAGE_def S2TTE_AF_def S2TTE_SH_def S2TTE_S2AP_def
  S2TTE_INVALID_RIPAS_def S2TTE_INVALID_HIPAS_def S2TTE_MEMATTR_def S2TTE_DESC_TYPE_def
  S2TTE_TYPE_def S2TTE_VALID_def

section \<open>Operations\<close>

definition mapping_size :: "usize \<Rightarrow> usize option" where
  "mapping_size level =
    (if level = 3 then Some (push_bit (trailing_zeros S2TTE_ADDR_BLK_L3) 1)
     else if level = 2 then Some (push_bit (trailing_zeros S2TTE_ADDR_BLK_L2) 1)
     else if level = 1 then Some (push_bit (trailing_zeros S2TTE_ADDR_BLK_L1) 1)
     else if level = 0 then Some (push_bit (trailing_zeros S2TTE_ADDR_BLK_L0) 1)
     else None)"

definition level_mask :: "usize \<Rightarrow> u64 option" where
  "level_mask level =
    (if level = 3 then Some S2TTE_ADDR_BLK_L3
     else if level = 2 then Some S2TTE_ADDR_BLK_L2
     else if level = 1 then Some S2TTE_ADDR_BLK_L1
     else if level = 0 then Some S2TTE_ADDR_BLK_L0
     else None)"

definition is_valid_tte :: "u64 \<Rightarrow> usize \<Rightarrow> bool \<Rightarrow> bool" where
  "is_valid_tte x level is_ns =
    (let ns = get_masked_value x S2TTE_NS;
         ns_valid = (if is_ns then ns = 1 else ns = 0)
     in ns_valid
        \<and> ((level = RTT_PAGE_LEVEL \<and> get_masked_value x S2TTE_DESC_TYPE = L3_PAGE)
         \<or> (level = RTT_MIN_BLOCK_LEVEL \<and> get_masked_value x S2TTE_DESC_TYPE = L012_BLOCK)))"

definition is_host_ns_valid :: "u64 \<Rightarrow> usize \<Rightarrow> bool" where
  "is_host_ns_valid x level =
    (let tmp = NOT 0;
         addr_mask = (if level = 1 then Some (get_masked tmp S2TTE_ADDR_BLK_L1)
                 else if level = 2 then Some (get_masked tmp S2TTE_ADDR_BLK_L2)
                 else if level = 3 then Some (get_masked tmp S2TTE_ADDR_BLK_L3)
                 else None)
     in case addr_mask of
          None \<Rightarrow> False
        | Some am \<Rightarrow>
           (let m = am OR get_masked tmp S2TTE_MEMATTR OR get_masked tmp S2TTE_S2AP
                      OR get_masked tmp S2TTE_SH
            in if x AND NOT m \<noteq> 0 then False
               else if get_masked_value x S2TTE_MEMATTR = FWB_RESERVED then False
               else if get_masked_value x S2TTE_SH = SH_RESERVED then False
               else True))"

definition is_unassigned :: "u64 \<Rightarrow> bool" where
  "is_unassigned x \<longleftrightarrow> get_masked_value x S2TTE_DESC_TYPE = LX_INVALID
     \<and> get_masked_value x S2TTE_INVALID_HIPAS = HIPAS_UNASSIGNED
     \<and> get_masked_value x S2TTE_NS = 0"

definition is_unassigned_empty :: "u64 \<Rightarrow> bool" where
  "is_unassigned_empty x \<longleftrightarrow> is_unassigned x \<and> get_masked_value x S2TTE_INVALID_RIPAS = RIPAS_EMPTY"

definition is_unassigned_destroyed :: "u64 \<Rightarrow> bool" where
  "is_unassigned_destroyed x \<longleftrightarrow>
     is_unassigned x \<and> get_masked_value x S2TTE_INVALID_RIPAS = RIPAS_DESTROYED"

definition is_unassigned_ram :: "u64 \<Rightarrow> bool" where
  "is_unassigned_ram x \<longleftrightarrow> is_unassigned x \<and> get_masked_value x S2TTE_INVALID_RIPAS = RIPAS_RAM"

definition is_unassigned_ns :: "u64 \<Rightarrow> bool" where
  "is_unassigned_ns x \<longleftrightarrow> get_masked_value x S2TTE_DESC_TYPE = LX_INVALID
     \<and> get_masked_value x S2TTE_INVALID_HIPAS = HIPAS_UNASSIGNED
     \<and> get_masked_value x S2TTE_NS \<noteq> 0"

definition is_destroyed :: "u64 \<Rightarrow> bool" where
  "is_destroyed x \<longleftrightarrow> get_masked_value x S2TTE_DESC_TYPE = LX_INVALID
     \<and> get_masked_value x S2TTE_INVALID_RIPAS = RIPAS_DESTROYED"

definition is_assigned :: "u64 \<Rightarrow> bool" where
  "is_assigned x \<longleftrightarrow> get_masked_value x S2TTE_NS = 0
     \<and> get_masked_value x S2TTE_DESC_TYPE = LX_INVALID
     \<and> get_masked_value x S2TTE_INVALID_HIPAS = HIPAS_ASSIGNED"

definition is_assigned_empty :: "u64 \<Rightarrow> bool" where
  "is_assigned_empty x \<longleftrightarrow> is_assigned x \<and> get_masked_value x S2TTE_INVALID_RIPAS = RIPAS_EMPTY"

definition is_assigned_destroyed :: "u64 \<Rightarrow> bool" where
  "is_assigned_destroyed x \<longleftrightarrow>
     is_assigned x \<and> get_masked_value x S2TTE_INVALID_RIPAS = RIPAS_DESTROYED"

definition is_assigned_ram :: "u64 \<Rightarrow> usize \<Rightarrow> bool" where
  "is_assigned_ram x level =
    (if get_masked_value x S2TTE_NS \<noteq> 0 then False
     else (let desc_type = get_masked_value x S2TTE_DESC_TYPE
           in (level = RTT_PAGE_LEVEL \<and> desc_type = L3_PAGE)
            \<or> (level = RTT_MIN_BLOCK_LEVEL \<and> desc_type = L012_BLOCK)))"

definition is_assigned_ns :: "u64 \<Rightarrow> usize \<Rightarrow> bool" where
  "is_assigned_ns x level =
    (if get_masked_value x S2TTE_NS = 0 then False
     else (let desc_type = get_masked_value x S2TTE_DESC_TYPE
           in (level = RTT_PAGE_LEVEL \<and> desc_type = L3_PAGE)
            \<or> (level = RTT_MIN_BLOCK_LEVEL \<and> desc_type = L012_BLOCK)))"

definition is_table :: "u64 \<Rightarrow> usize \<Rightarrow> bool" where
  "is_table x level \<longleftrightarrow>
     level < RTT_PAGE_LEVEL \<and> get_masked_value x S2TTE_DESC_TYPE = L012_TABLE"

definition get_ripas :: "u64 \<Rightarrow> u64" where
  "get_ripas x = get_masked_value x S2TTE_INVALID_RIPAS"

definition is_invalid_ripas :: "u64 \<Rightarrow> bool" where
  "is_invalid_ripas x \<longleftrightarrow>
     get_masked_value x S2TTE_DESC_TYPE \<noteq> LX_INVALID \<and> get_ripas x \<noteq> RIPAS_RAM"

definition addr_as_block :: "u64 \<Rightarrow> usize \<Rightarrow> u64 option" where
  "addr_as_block x level =
    (if level = 1 then Some (get_masked x S2TTE_ADDR_BLK_L1)
     else if level = 2 then Some (get_masked x S2TTE_ADDR_BLK_L2)
     else if level = 3 then Some (get_masked x S2TTE_ADDR_BLK_L3)
     else None)"

definition is_live :: "u64 \<Rightarrow> bool" where
  "is_live x \<longleftrightarrow> get_masked_value x S2TTE_DESC_TYPE \<noteq> LX_INVALID
     \<or> is_assigned_empty x \<or> is_assigned_destroyed x"

subsection \<open>Homogeneity\<close>

text \<open>
  The loop of \<open>is_homogeneous\<close>: the variables the first iteration sets, and one
  step for every further entry.  Each returns \<open>None\<close> where \<open>addr_as_block\<close> panics,
  and the early \<open>return false\<close> as \<open>Some None\<close>.
\<close>

record homog =
  h_hipas :: u64
  h_ripas :: u64
  h_desc_type :: u64
  h_pa :: u64
  h_attr :: u64
  h_ns :: u64

definition homog_first :: "u64 \<Rightarrow> usize \<Rightarrow> homog option option" where
  "homog_first x level =
    (let v = \<lparr> h_hipas = get_masked_value x S2TTE_INVALID_HIPAS,
               h_ripas = get_masked_value x S2TTE_INVALID_RIPAS,
               h_desc_type = get_masked_value x S2TTE_DESC_TYPE,
               h_pa = 0, h_attr = 0,
               h_ns = get_masked_value x S2TTE_NS \<rparr>
     in if is_assigned_ns x level \<or> is_assigned_ram x level \<or> is_assigned x
        then if level \<noteq> 2 \<and> level \<noteq> 3 then Some None
             else (case addr_as_block x level of
                 None \<Rightarrow> None
               | Some pa \<Rightarrow>
                   if pa AND NOT (case level_mask (level - 1) of None \<Rightarrow> 0 | Some m \<Rightarrow> m) \<noteq> 0
                   then Some None
                   else Some (Some (v\<lparr> h_pa := pa,
                     h_attr := x AND NOT (case level_mask level of None \<Rightarrow> 0 | Some m \<Rightarrow> m) \<rparr>)))
        else Some (Some v))"

definition homog_next :: "u64 \<Rightarrow> usize \<Rightarrow> u64 \<Rightarrow> homog \<Rightarrow> homog option option" where
  "homog_next map_size level x v =
    (if h_desc_type v \<noteq> get_masked_value x S2TTE_DESC_TYPE then Some None
     else if is_assigned_ns x level then
       (let pa = h_pa v + map_size
        in case addr_as_block x level of
             None \<Rightarrow> None
           | Some a \<Rightarrow>
               if pa \<noteq> a then Some None
               else if h_attr v \<noteq> x AND NOT (case level_mask level of None \<Rightarrow> 0 | Some m \<Rightarrow> m)
               then Some None
               else Some (Some (v\<lparr> h_pa := pa \<rparr>)))
     else if is_assigned_ram x level \<or> is_assigned x then
       (let pa = h_pa v + map_size
        in case addr_as_block x level of
             None \<Rightarrow> None
           | Some a \<Rightarrow>
               if pa \<noteq> a then Some None
               else if h_ripas v \<noteq> get_masked_value x S2TTE_INVALID_RIPAS then Some None
               else Some (Some (v\<lparr> h_pa := pa \<rparr>)))
     else if is_unassigned_ns x then
       (if h_ns v \<noteq> get_masked_value x S2TTE_NS then Some None
        else if h_hipas v \<noteq> get_masked_value x S2TTE_INVALID_HIPAS then Some None
        else Some (Some v))
     else if is_unassigned x then
       (if h_hipas v \<noteq> get_masked_value x S2TTE_INVALID_HIPAS then Some None
        else if h_ripas v \<noteq> get_masked_value x S2TTE_INVALID_RIPAS then Some None
        else Some (Some v))
     else Some (Some v))"

fun homog_rest :: "u64 \<Rightarrow> usize \<Rightarrow> homog \<Rightarrow> u64 list \<Rightarrow> bool option" where
  "homog_rest map_size level v [] = Some True"
| "homog_rest map_size level v (x # xs) =
    (case homog_next map_size level x v of
       None \<Rightarrow> None
     | Some None \<Rightarrow> Some False
     | Some (Some w) \<Rightarrow> homog_rest map_size level w xs)"

definition is_homogeneous :: "u64 list \<Rightarrow> usize \<Rightarrow> bool option" where
  "is_homogeneous entries level =
    (case mapping_size level of
       None \<Rightarrow> None
     | Some map_size \<Rightarrow>
        (case entries of
           [] \<Rightarrow> Some True
         | x # xs \<Rightarrow>
            (case homog_first x level of
               None \<Rightarrow> None
             | Some None \<Rightarrow> Some False
             | Some (Some v) \<Rightarrow> homog_rest map_size level v xs)))"

section \<open>Descriptor states\<close>

lemma mapping_size_simps [simp]:
  "mapping_size 3 = Some 0x1000" "mapping_size 2 = Some 0x200000"
  "mapping_size 1 = Some 0x40000000" "mapping_size 0 = Some 0x8000000000"
  by (simp_all add: mapping_size_def s2tte_masks trailing_zeros_mask)

lemma is_assigned_ram_iff:
  "is_assigned_ram x level \<longleftrightarrow> get_masked_value x S2TTE_NS = 0
     \<and> (level = 3 \<and> get_masked_value x S2TTE_DESC_TYPE = 3
      \<or> level = 2 \<and> get_masked_value x S2TTE_DESC_TYPE = 1)"
  by (simp add: is_assigned_ram_def Let_def)

lemma is_assigned_ns_iff:
  "is_assigned_ns x level \<longleftrightarrow> get_masked_value x S2TTE_NS \<noteq> 0
     \<and> (level = 3 \<and> get_masked_value x S2TTE_DESC_TYPE = 3
      \<or> level = 2 \<and> get_masked_value x S2TTE_DESC_TYPE = 1)"
  by (simp add: is_assigned_ns_def Let_def)

lemmas tte_predicates =
  is_unassigned_def is_unassigned_empty_def is_unassigned_ram_def is_unassigned_destroyed_def
  is_unassigned_ns_def is_assigned_def is_assigned_empty_def is_assigned_destroyed_def
  is_assigned_ram_iff is_assigned_ns_iff is_table_def

definition tte_states :: "u64 \<Rightarrow> usize \<Rightarrow> bool list" where
  "tte_states x level =
    [is_unassigned_empty x, is_unassigned_ram x, is_unassigned_destroyed x, is_unassigned_ns x,
     is_assigned_empty x, is_assigned_destroyed x, is_assigned_ram x level, is_assigned_ns x level,
     is_table x level]"

lemma tte_states_length: "length (filter id (tte_states x level)) \<le> 1"
  by (cases "get_masked_value x S2TTE_NS = 0"; cases "get_masked_value x S2TTE_DESC_TYPE = 0";
      cases "level = 3")
    (simp_all add: tte_states_def tte_predicates)

lemma get_ns_neq_attr:
  assumes "get_masked_value x S2TTE_NS \<noteq> 0" and "get_masked_value y S2TTE_NS = 0"
    and "level = 2 \<or> level = 3"
  shows "x AND NOT (case level_mask level of None \<Rightarrow> 0 | Some m \<Rightarrow> m)
       \<noteq> y AND NOT (case level_mask level of None \<Rightarrow> 0 | Some m \<Rightarrow> m)"
proof
  let ?m = "case level_mask level of None \<Rightarrow> 0 | Some m \<Rightarrow> m"
  assume eq: "x AND NOT ?m = y AND NOT ?m"
  have m: "\<not> bit ?m 55"
    using assms(3) by (auto simp: level_mask_def s2tte_masks bit_define_mask)
  have "bit (x AND NOT ?m) 55 = bit (y AND NOT ?m) 55"
    using eq by simp
  with m have b: "bit x 55 = bit y 55"
    by (simp add: bit_and_iff bit_not_iff)
  have "get_masked_value z S2TTE_NS = of_bool (bit z 55)" for z
    by (rule word_eq_by_bits) (auto simp: S2TTE_NS_def bit_get_masked_value bit_simps)
  with assms(1,2) b show False by simp
qed

lemma homog_next_ram:
  assumes "homog_next ms level x v = Some (Some w)"
    and "level = 2 \<or> level = 3" and "h_desc_type v = (if level = 3 then 3 else 1)"
    and "h_attr v = y AND NOT (case level_mask level of None \<Rightarrow> 0 | Some m \<Rightarrow> m)"
    and "get_masked_value y S2TTE_NS = 0"
  shows "is_assigned_ram x level \<and> addr_as_block x level = Some (h_pa v + ms)
    \<and> w = v\<lparr> h_pa := h_pa v + ms \<rparr>"
proof -
  have d: "get_masked_value x S2TTE_DESC_TYPE = (if level = 3 then 3 else 1)"
    using assms(1,3) by (auto simp: homog_next_def split: if_splits)
  have ns: "\<not> is_assigned_ns x level"
    using assms(1,2,4,5) get_ns_neq_attr[of x y level]
    by (auto simp: homog_next_def is_assigned_ns_iff Let_def split: if_splits option.splits)
  then have ram: "is_assigned_ram x level"
    using d assms(2) by (auto simp: is_assigned_ram_iff is_assigned_ns_iff split: if_splits)
  then show ?thesis
    using assms(1) ns by (auto simp: homog_next_def Let_def split: if_splits option.splits)
qed

lemma homog_rest_ram:
  assumes "homog_rest ms level v xs = Some True"
    and "level = 2 \<or> level = 3" and "h_desc_type v = (if level = 3 then 3 else 1)"
    and "h_attr v = y AND NOT (case level_mask level of None \<Rightarrow> 0 | Some m \<Rightarrow> m)"
    and "get_masked_value y S2TTE_NS = 0" and "i < length xs"
  shows "is_assigned_ram (xs ! i) level
    \<and> addr_as_block (xs ! i) level = Some (h_pa v + of_nat (Suc i) * ms)"
  using assms(1,3,4,6)
proof (induction xs arbitrary: v i)
  case Nil
  then show ?case by simp
next
  case (Cons x xs)
  from Cons.prems(1) obtain w where w: "homog_next ms level x v = Some (Some w)"
    and rest: "homog_rest ms level w xs = Some True"
    by (auto split: option.splits)
  note x = homog_next_ram[OF w assms(2) Cons.prems(2,3) assms(5)]
  show ?case
  proof (cases i)
    case 0
    with x show ?thesis by simp
  next
    case (Suc j)
    with x rest Cons.prems Cons.IH[of w j] show ?thesis by (simp add: algebra_simps)
  qed
qed

lemma homog_first_ram:
  assumes "is_assigned_ram x level" and "homog_first x level = Some (Some v)"
  shows "(level = 2 \<or> level = 3) \<and> h_desc_type v = (if level = 3 then 3 else 1)
    \<and> h_attr v = x AND NOT (case level_mask level of None \<Rightarrow> 0 | Some m \<Rightarrow> m)
    \<and> addr_as_block x level = Some (h_pa v)
    \<and> h_pa v AND NOT (case level_mask (level - 1) of None \<Rightarrow> 0 | Some m \<Rightarrow> m) = 0"
  using assms
  by (auto simp: homog_first_def is_assigned_ram_iff Let_def split: if_splits option.splits)

lemma homogeneous_ram_contiguous:
  assumes "is_homogeneous (x # xs) level = Some True" and "is_assigned_ram x level"
    and "mapping_size level = Some ms" and "i \<le> length xs"
  shows "\<exists>pa. addr_as_block x level = Some pa
    \<and> pa AND NOT (case level_mask (level - 1) of None \<Rightarrow> 0 | Some m \<Rightarrow> m) = 0
    \<and> is_assigned_ram ((x # xs) ! i) level
    \<and> addr_as_block ((x # xs) ! i) level = Some (pa + of_nat i * ms)"
proof -
  from assms(1,3) obtain v where v: "homog_first x level = Some (Some v)"
    and rest: "homog_rest ms level v xs = Some True"
    by (auto simp: is_homogeneous_def split: option.splits)
  note f = homog_first_ram[OF assms(2) v]
  show ?thesis
  proof (cases i)
    case 0
    with f assms(2) show ?thesis by auto
  next
    case (Suc j)
    have "is_assigned_ram (xs ! j) level
      \<and> addr_as_block (xs ! j) level = Some (h_pa v + of_nat (Suc j) * ms)"
      by (rule homog_rest_ram[OF rest, of x])
        (use f assms(2,4) Suc in \<open>auto simp: is_assigned_ram_iff\<close>)
    with f Suc show ?thesis by auto
  qed
qed

lemma homog_rest_unassigned:
  assumes "homog_rest ms level v xs = Some True" and "h_desc_type v = 0"
    and "h_hipas v = 0" and "\<forall>x \<in> set xs. \<not> is_unassigned_ns x \<and> \<not> is_assigned x
      \<and> get_masked_value x S2TTE_INVALID_HIPAS < 2 \<and> get_masked_value x S2TTE_NS = 0"
  shows "\<forall>x \<in> set xs. is_unassigned x \<and> get_ripas x = h_ripas v"
  using assms
proof (induction xs arbitrary: v)
  case Nil
  then show ?case by simp
next
  case (Cons x xs)
  have d: "get_masked_value x S2TTE_DESC_TYPE = 0"
    using Cons.prems(1,2) by (auto simp: homog_next_def split: if_splits)
  moreover have "get_masked_value x S2TTE_INVALID_HIPAS = 0"
  proof -
    have "y < 2 \<Longrightarrow> y \<noteq> 1 \<Longrightarrow> y = 0" for y :: u64
      by (simp add: word_less_nat_alt unat_eq_0 less_2_cases_iff) (metis One_nat_def unsigned_1 word_unat_eq_iff)
    then show ?thesis using Cons.prems(4) d by (auto simp: is_assigned_def)
  qed
  ultimately have u: "is_unassigned x" using Cons.prems(4) by (simp add: is_unassigned_def)
  then have n: "\<not> is_assigned_ns x level" "\<not> is_assigned_ram x level" "\<not> is_assigned x"
    "\<not> is_unassigned_ns x"
    by (auto simp: tte_predicates)
  with u Cons.prems(1-3) have "homog_rest ms level v xs = Some True" "get_ripas x = h_ripas v"
    by (auto simp: homog_next_def get_ripas_def split: if_splits)
  with Cons u show ?case by simp
qed

section \<open>Properties\<close>

text \<open>
  The nine states in which the monitor sees an entry exclude each other, whatever
  the entry holds: the order in which the operations test for them does not matter.
\<close>

theorem tte_state_unique: "length (filter id (tte_states x level)) \<le> 1"
  by (rule tte_states_length)

text \<open>
  C6: the optimised test for homogeneity is right for RAM.  If it accepts a table whose
  first entry is assigned RAM, every entry is assigned RAM, the output addresses are
  contiguous and the first of them is aligned to the size of the block that replaces
  the table.
\<close>

theorem homogeneous_table_is_block:
  assumes "is_homogeneous (x # xs) level = Some True" and "is_assigned_ram x level"
    and "mapping_size level = Some ms"
  shows "\<exists>pa. pa AND NOT (case level_mask (level - 1) of None \<Rightarrow> 0 | Some m \<Rightarrow> m) = 0
    \<and> (\<forall>i \<le> length xs. is_assigned_ram ((x # xs) ! i) level
         \<and> addr_as_block ((x # xs) ! i) level = Some (pa + of_nat i * ms))"
proof -
  note h = homogeneous_ram_contiguous[OF assms]
  obtain pa where pa: "addr_as_block x level = Some pa" using h[of 0] by blast
  show ?thesis
  proof (intro exI[of _ pa] conjI allI impI)
    show "pa AND NOT (case level_mask (level - 1) of None \<Rightarrow> 0 | Some m \<Rightarrow> m) = 0"
      using h[of 0] pa by auto
    fix i assume "i \<le> length xs"
    from h[OF this] pa show "is_assigned_ram ((x # xs) ! i) level"
      and "addr_as_block ((x # xs) ! i) level = Some (pa + of_nat i * ms)" by auto
  qed
qed

theorem homogeneous_table_is_block_witness:
  "\<exists>pa. \<forall>i \<le> length [0x201003 :: u64, 0x202003]. is_assigned_ram ([0x200003, 0x201003, 0x202003] ! i) 3
     \<and> addr_as_block ([0x200003, 0x201003, 0x202003] ! i) 3 = Some (pa + of_nat i * 0x1000)"
proof -
  have "is_homogeneous [0x200003, 0x201003, 0x202003] 3 = Some True" by code_simp
  moreover have "is_assigned_ram 0x200003 3" by code_simp
  ultimately show ?thesis
    using homogeneous_table_is_block[of "0x200003" "[0x201003, 0x202003]" 3 "0x1000"] by auto
qed

end
