(* ===== verification/Stage2.thy ===== *)
theory Stage2
  imports Measurement S2tte
begin

text \<open>
  Stage 2 translation tables: the entry operations of \<open>rmm/src/realm/mm/entry.rs\<close>, the
  recursive table walks \<open>entry\<close> and \<open>table_entries\<close> of \<open>lib/vmsa/src/page_table.rs\<close>, and
  \<open>rmm/src/realm/mm/stage2_translation.rs\<close>, through which the rest of the monitor
  reads and writes the tables.

  A table is an array of 8-byte entries in memory.  The walk is a recursion on
  the number of levels below the table; it returns the address of the entry that
  was reached, to which the caller's closure is then applied.  An index beyond the
  entries of a table is a panic of the array access.  The lock of a table is taken
  and released within each expression that uses it and is not modelled.
\<close>

section \<open>Entries\<close>

datatype mm_error = MmStateError | MmInvalidAddr | MmInvalidLevel | MmNoEntry | MmAllocFail
  | MmRustError | MmUnimplemented | MmIsInUse | MmRefcountError | MmWrongParentChild
  | MmSubtableError | MmErrorOthers

definition s2e_is_valid :: "u64 \<Rightarrow> bool" where
  "s2e_is_valid x \<longleftrightarrow> get_masked_value x S2TTE_VALID \<noteq> 0"

definition s2e_address :: "u64 \<Rightarrow> usize \<Rightarrow> usize option" where
  "s2e_address x level =
    (if s2e_is_valid x
     then if get_masked_value x S2TTE_TYPE = TABLE_OR_PAGE
          then Some (get_masked x S2TTE_ADDR_TBL_OR_PAGE)
          else if level = 1 then Some (get_masked x S2TTE_ADDR_BLK_L1)
          else if level = 2 then Some (get_masked x S2TTE_ADDR_BLK_L2)
          else None
     else None)"

definition s2e_points_to_table_or_page :: "u64 \<Rightarrow> bool" where
  "s2e_points_to_table_or_page x \<longleftrightarrow>
     s2e_is_valid x \<and> get_masked_value x S2TTE_TYPE = TABLE_OR_PAGE"

definition s2e_set :: "usize \<Rightarrow> u64 \<Rightarrow> u64" where
  "s2e_set addr flags = addr OR flags"

definition s2e_point_to_subtable :: "usize \<Rightarrow> u64" where
  "s2e_point_to_subtable addr =
    s2e_set addr (set_masked_value (set_masked_value (set_masked_value 0
      S2TTE_DESC_TYPE L012_TABLE) S2TTE_MEMATTR NORMAL_FWB) S2TTE_SH SH_INNER)"

text \<open>The index of an address in a table at a level; a root may span several pages.\<close>

definition s2_index :: "nat \<Rightarrow> nat \<Rightarrow> usize \<Rightarrow> nat" where
  "s2_index level pages addr =
    (let l0 = unat (get_masked_value addr RawGPA_L0Index);
         l1 = unat (get_masked_value addr RawGPA_L1Index);
         l2 = unat (get_masked_value addr RawGPA_L2Index);
         l3 = unat (get_masked_value addr RawGPA_L3Index)
     in if level = 0 then l0
        else if level = 1 then (if pages > 1 then l0 * 512 + l1 else l1)
        else if level = 2 then (if pages > 1 then l1 * 512 + l2 else l2)
        else l3)"

definition entry_at :: "usize \<Rightarrow> nat \<Rightarrow> usize" where
  "entry_at tbl i = tbl + 8 * of_nat i"

section \<open>Walks\<close>

text \<open>
  \<open>s2_subtable\<close> is \<open>subtable\<close>; \<open>s2_walk d\<close> is \<open>entry\<close> of a table at level \<open>3 - d\<close>, with
  the address of the entry in place of the closure's result.
\<close>

definition s2_subtable :: "u64 \<Rightarrow> nat \<Rightarrow> usize option" where
  "s2_subtable x this_level =
    (if \<not> s2e_points_to_table_or_page x then None
     else s2e_address x (of_nat this_level))"

fun s2_walk ::
  "nat \<Rightarrow> (u64 \<Rightarrow> u64) \<Rightarrow> nat \<Rightarrow> usize \<Rightarrow> usize \<Rightarrow> usize \<Rightarrow> bool \<Rightarrow> (mm_error, usize option \<times> usize) outcome" where
  "s2_walk 0 m pages tbl guest level no_valid_check =
    (if level > 3 then Err MmInvalidLevel
     else if level \<noteq> 3 then Err MmInvalidLevel
     else (let index = s2_index 3 pages guest; loc = entry_at tbl index
           in if index \<ge> 512 * pages then Panic
              else if no_valid_check then Ok (Some loc, 3)
              else if s2e_is_valid (m loc) then Ok (Some loc, 3)
              else Err MmNoEntry))"
| "s2_walk (Suc d) m pages tbl guest level no_valid_check =
    (if level > 3 then Err MmInvalidLevel
     else (let this_level = 2 - d; index = s2_index this_level pages guest; loc = entry_at tbl index
           in if index \<ge> 512 * pages then Panic
              else if \<not> no_valid_check \<and> \<not> s2e_is_valid (m loc) then Err MmNoEntry
              else if of_nat this_level < level \<and> s2e_points_to_table_or_page (m loc)
              then (case s2_subtable (m loc) this_level of
                  Some sub \<Rightarrow> s2_walk d m 1 sub guest level no_valid_check
                | None \<Rightarrow> Ok (None, of_nat this_level))
              else Ok (Some loc, of_nat this_level)))"

fun s2_entries ::
  "nat \<Rightarrow> (u64 \<Rightarrow> u64) \<Rightarrow> nat \<Rightarrow> usize \<Rightarrow> usize \<Rightarrow> usize \<Rightarrow> (mm_error, u64 list \<times> usize) outcome" where
  "s2_entries 0 m pages tbl guest level =
    Ok (map (\<lambda>i. m (entry_at tbl i)) [0..<512 * pages], 3)"
| "s2_entries (Suc d) m pages tbl guest level =
    (if level > 3 then Err MmInvalidLevel
     else (let this_level = 2 - d; entries = map (\<lambda>i. m (entry_at tbl i)) [0..<512 * pages]
           in if of_nat this_level < level
              then (let index = s2_index this_level pages guest
                    in if index \<ge> 512 * pages then Panic
                       else (case s2_subtable (m (entry_at tbl index)) this_level of
                           Some sub \<Rightarrow> s2_entries d m 1 sub guest level
                         | None \<Rightarrow> Ok (entries, of_nat this_level)))
              else Ok (entries, of_nat this_level)))"

section \<open>Stage 2 translation\<close>

datatype tlbi = TlbiNone | TlbiLeaf usize | TlbiBreakdown usize

text \<open>
  The root tables that \<open>Stage2Translation::new\<close> supports; the other combinations are
  \<open>todo!()\<close>.  The new root is cleared.
\<close>

definition s2_supported :: "usize \<Rightarrow> usize \<Rightarrow> bool" where
  "s2_supported root_level root_pages =
    (if root_level = 0 then root_pages \<in> {1, 16}
     else if root_level = 1 then root_pages \<in> {1, 2, 8}
     else if root_level = 2 then root_pages \<in> {4, 8, 16}
     else False)"

definition s2_new :: "usize \<Rightarrow> usize \<Rightarrow> usize \<Rightarrow> s2table rmm_prog" where
  "s2_new rtt_base root_level root_pages =
    (if \<not> s2_supported root_level root_pages then panic
     else if rtt_base = 0 then panic
     else bind (modify (\<lambda>s. s\<lparr> mem := (\<lambda>a. if a - rtt_base < 4096 * root_pages then 0 else mem s a) \<rparr>))
       (\<lambda>_. return \<lparr> s2_base = rtt_base, s2_root_level = root_level, s2_root_pages = root_pages,
          s2_dirty = False \<rparr>))"

definition s2_depth :: "s2table \<Rightarrow> nat" where
  "s2_depth t = 3 - unat (s2_root_level t)"

definition ipa_to_pa :: "s2table \<Rightarrow> usize \<Rightarrow> usize \<Rightarrow> usize option rmm_prog" where
  "ipa_to_pa t guest level = (\<lambda>s.
    (let g = align_down guest 4096
     in case s2_walk (s2_depth t) (mem s) (unat (s2_root_pages t)) (s2_base t) g level False of
          Ok (Some loc, _) \<Rightarrow> (Ok (s2e_address (mem s loc) 0), s)
        | Ok (None, _) \<Rightarrow> (Ok None, s)
        | Err _ \<Rightarrow> (Ok None, s)
        | Panic \<Rightarrow> (Panic, s)
        | Hang \<Rightarrow> (Hang, s)))"

definition ipa_to_pte :: "s2table \<Rightarrow> usize \<Rightarrow> usize \<Rightarrow> (u64 \<times> usize) option rmm_prog" where
  "ipa_to_pte t guest level = (\<lambda>s.
    (let g = align_down guest 4096
     in case s2_walk (s2_depth t) (mem s) (unat (s2_root_pages t)) (s2_base t) g level True of
          Ok (Some loc, l) \<Rightarrow> (Ok (Some (mem s loc, l)), s)
        | Ok (None, l) \<Rightarrow> (Ok (Some (0, l)), s)
        | Err _ \<Rightarrow> (Ok None, s)
        | Panic \<Rightarrow> (Panic, s)
        | Hang \<Rightarrow> (Hang, s)))"

text \<open>The operands of the TLB maintenance instructions.\<close>

definition TLBI_OP_TTL :: u64 where "TLBI_OP_TTL = define_mask 47 44"
definition TLBI_OP_IPA :: u64 where "TLBI_OP_IPA = define_mask 35 0"
definition TLBI_RANGE_OP_TG :: u64 where "TLBI_RANGE_OP_TG = define_mask 47 46"
definition TLBI_RANGE_OP_SCALE :: u64 where "TLBI_RANGE_OP_SCALE = define_mask 45 44"
definition TLBI_RANGE_OP_NUM :: u64 where "TLBI_RANGE_OP_NUM = define_mask 43 39"
definition TLBI_RANGE_OP_TTL :: u64 where "TLBI_RANGE_OP_TTL = define_mask 38 37"
definition TLBI_RANGE_OP_IPA :: u64 where "TLBI_RANGE_OP_IPA = define_mask 36 0"

definition tlbi_leaf_operand :: "usize \<Rightarrow> usize \<Rightarrow> u64" where
  "tlbi_leaf_operand level page =
    bits_in_reg TLBI_OP_TTL (4 OR level) OR bits_in_reg TLBI_OP_IPA (drop_bit 12 page)"

definition tlbi_range_operand :: "usize \<Rightarrow> usize \<Rightarrow> u64" where
  "tlbi_range_operand level guest =
    (let scale = 3 - level; num = 8 + 4 * scale
     in bits_in_reg TLBI_RANGE_OP_TG 1 OR bits_in_reg TLBI_RANGE_OP_SCALE scale
        OR bits_in_reg TLBI_RANGE_OP_NUM num OR bits_in_reg TLBI_RANGE_OP_TTL (level + 1)
        OR bits_in_reg TLBI_RANGE_OP_IPA guest)"

definition tlbi_by_vmid_ipa :: "usize \<Rightarrow> usize \<Rightarrow> usize \<Rightarrow> unit rmm_prog" where
  "tlbi_by_vmid_ipa level guest vmid =
    (case range_with_size guest 4096 of
       Ok ps \<Rightarrow> modify (\<lambda>s. s\<lparr> tlb_log := tlb_log s
          @ map (\<lambda>p. TLBI_IPAS2E1IS vmid (tlbi_leaf_operand level p)) ps @ [TLBI_VMALLE1IS vmid] \<rparr>)
     | Err _ \<Rightarrow> return ()
     | Panic \<Rightarrow> panic
     | Hang \<Rightarrow> hang)"

definition tlbi_by_vmid_ipa_range :: "usize \<Rightarrow> usize \<Rightarrow> usize \<Rightarrow> unit rmm_prog" where
  "tlbi_by_vmid_ipa_range level guest vmid =
    modify (\<lambda>s. s\<lparr> tlb_log := tlb_log s
      @ [TLBI_RIPAS2LE1 vmid (tlbi_range_operand level guest), TLBI_VMALLE1IS vmid] \<rparr>)"

definition set_dirty :: "usize \<Rightarrow> bool \<Rightarrow> unit rmm_prog" where
  "set_dirty rid b = modify (\<lambda>s. s\<lparr> rtt_tables := (rtt_tables s)(rid :=
     map_option (\<lambda>t. t\<lparr> s2_dirty := b \<rparr>) (rtt_tables s rid)) \<rparr>)"

definition ipa_to_pte_set :: "usize \<Rightarrow> s2table \<Rightarrow> usize \<Rightarrow> usize \<Rightarrow> u64 \<Rightarrow> tlbi \<Rightarrow> unit rmm_prog" where
  "ipa_to_pte_set rid t guest level val invalidate =
    bind (\<lambda>s.
      (let g = align_down guest 4096
       in case s2_walk (s2_depth t) (mem s) (unat (s2_root_pages t)) (s2_base t) g level True of
            Ok (Some loc, _) \<Rightarrow> (Ok (), s\<lparr> mem := (mem s)(loc := s2e_set 0 val) \<rparr>)
          | Ok (None, _) \<Rightarrow> (Ok (), s)
          | Err _ \<Rightarrow> (Err RmiErrorInput, s)
          | Panic \<Rightarrow> (Panic, s)
          | Hang \<Rightarrow> (Hang, s)))
    (\<lambda>_. case invalidate of
        TlbiLeaf vmid \<Rightarrow> seq (tlbi_by_vmid_ipa level guest vmid) (set_dirty rid True)
      | TlbiBreakdown vmid \<Rightarrow> seq (tlbi_by_vmid_ipa_range level guest vmid) (set_dirty rid True)
      | TlbiNone \<Rightarrow> return ())"

definition s2_clean :: "usize \<Rightarrow> usize \<Rightarrow> unit rmm_prog" where
  "s2_clean rid vmid = bind (gets (\<lambda>s. rtt_tables s rid)) (\<lambda>x. bind (unwrap x) (\<lambda>t.
     only_if (s2_dirty t) (seq (modify (\<lambda>s. s\<lparr> tlb_log := tlb_log s @ [TLBI_VMALLE1IS vmid] \<rparr>))
       (set_dirty rid False))))"

definition space_size :: "s2table \<Rightarrow> usize \<Rightarrow> usize option" where
  "space_size t level =
    (let count = (if level = s2_root_level t then s2_root_pages t else 1)
     in if level = 0 then map_option (\<lambda>ms. ms * 512 * count) (mapping_size 0)
        else map_option (\<lambda>ms. ms * count) (mapping_size (level - 1)))"

definition s2_table_entries :: "s2table \<Rightarrow> usize \<Rightarrow> usize \<Rightarrow> (u64 list \<times> usize) rmm_prog" where
  "s2_table_entries t guest level = (\<lambda>s.
    (let g = align_down guest 4096
     in case s2_entries (s2_depth t) (mem s) (unat (s2_root_pages t)) (s2_base t) g level of
          Ok r \<Rightarrow> (Ok r, s)
        | Err _ \<Rightarrow> (Err RmiErrorInput, s)
        | Panic \<Rightarrow> (Panic, s)
        | Hang \<Rightarrow> (Hang, s)))"

text \<open>\<open>Rd::s2_table\<close> and \<open>S2TTE::get_s2tte\<close>.\<close>

definition s2_table :: "rd \<Rightarrow> s2table rmm_prog" where
  "s2_table r = bind (gets (\<lambda>s. rtt_tables s (rd_id r))) unwrap"

definition get_s2tte :: "rd \<Rightarrow> usize \<Rightarrow> usize \<Rightarrow> error \<Rightarrow> (u64 \<times> usize) rmm_prog" where
  "get_s2tte r ipa level err =
    bind (s2_table r) (\<lambda>t. bind (ipa_to_pte t ipa level) (ok_or err))"

definition s2_pte_set :: "rd \<Rightarrow> usize \<Rightarrow> usize \<Rightarrow> u64 \<Rightarrow> tlbi \<Rightarrow> unit rmm_prog" where
  "s2_pte_set r ipa level val invalidate =
    bind (s2_table r) (\<lambda>t. ipa_to_pte_set (rd_id r) t ipa level val invalidate)"

section \<open>Walks reach an entry\<close>

lemma unat_get_masked_value:
  assumes "b \<le> e" and "e < 64"
  shows "unat (get_masked_value x (define_mask e b)) = unat x div 2 ^ b mod 2 ^ (e + 1 - b)"
proof -
  have "unat (get_masked_value x (define_mask e b)) = take_bit (e + 1 - b) (drop_bit b (unat x))"
    using assms by (simp add: get_masked_value_eq unsigned_take_bit_eq unat_drop_bit_eq)
  then show ?thesis by (simp only: take_bit_eq_mod drop_bit_eq_div)
qed

lemma s2_index_less: "s2_index level 1 g < 512"
  using get_masked_value_bound[of 39 47 g] get_masked_value_bound[of 30 38 g]
    get_masked_value_bound[of 21 29 g] get_masked_value_bound[of 12 20 g]
  by (simp add: s2_index_def gpa_masks Let_def)

lemma concat_digits: "(q :: nat) div 512 mod 512 * 512 + q mod 512 \<le> q"
proof -
  have "q div 512 mod 512 * 512 \<le> q div 512 * 512" by (simp add: mult_le_mono1 mod_less_eq_dividend)
  then show ?thesis using div_mult_mod_eq[of q 512] by linarith
qed

lemma s2_index_root:
  assumes "level = 1 \<or> level = 2" and "pages > 1" and "unat g < 512 * pages * 2 ^ (39 - 9 * level)"
  shows "s2_index level pages g < 512 * pages"
proof -
  have *: "unat g div 2 ^ (39 - 9 * level) < 512 * pages"
    using assms(3) by (simp add: less_mult_imp_div_less)
  have "s2_index level pages g \<le> unat g div 2 ^ (39 - 9 * level)"
    using assms(1,2) concat_digits[of "unat g div 2 ^ 30"] concat_digits[of "unat g div 2 ^ 21"]
    by (auto simp: s2_index_def gpa_masks Let_def unat_get_masked_value div_mult2_eq[symmetric])
  with * show ?thesis by simp
qed

text \<open>The table covers an address: its index in the root is within the root.\<close>

definition s2_covers :: "s2table \<Rightarrow> usize \<Rightarrow> bool" where
  "s2_covers t g \<longleftrightarrow> s2_supported (s2_root_level t) (s2_root_pages t)
     \<and> (s2_root_level t = 0 \<or> s2_root_pages t = 1
        \<or> unat g < 512 * unat (s2_root_pages t) * 2 ^ (39 - 9 * unat (s2_root_level t)))"

lemma s2_subtable_total: "s2e_points_to_table_or_page x \<Longrightarrow> \<exists>sub. s2_subtable x n = Some sub"
  by (simp add: s2_subtable_def s2e_points_to_table_or_page_def s2e_address_def)

lemma s2_walk_total:
  assumes "s2_index (3 - d) pages g < 512 * pages" and "level \<le> 3" and "d \<le> 3"
    and "d = 0 \<longrightarrow> level = 3"
  shows "\<exists>loc l. s2_walk d m pages tbl g level True = Ok (Some loc, l) \<and> unat l \<le> 3
    \<and> 3 - d \<le> unat l \<and> (unat l \<le> unat level \<or> unat l = 3 - d)"
  using assms
proof (induction d arbitrary: pages tbl)
  case 0
  then show ?case by (simp add: Let_def not_less[symmetric])
next
  case (Suc d)
  let ?loc = "entry_at tbl (s2_index (2 - d) pages g)"
  have l: "unat (of_nat (2 - d) :: usize) = 2 - d" by (simp add: unat_of_nat)
  show ?case
  proof (cases "of_nat (2 - d) < level \<and> s2e_points_to_table_or_page (m ?loc)")
    case True
    then obtain sub where sub: "s2_subtable (m ?loc) (2 - d) = Some sub"
      using s2_subtable_total by blast
    have lv: "2 - d < unat level" using True l by (simp add: word_less_nat_alt)
    moreover have "unat level \<le> 3" using Suc.prems(2) by (simp add: word_le_nat_alt)
    ultimately have "d = 0 \<longrightarrow> level = 3" by (auto simp: word_unat_eq_iff)
    then obtain loc k where "s2_walk d m 1 sub g level True = Ok (Some loc, k)" "unat k \<le> 3"
      "3 - d \<le> unat k" "unat k \<le> unat level \<or> unat k = 3 - d"
      using Suc.IH[of 1 sub] Suc.prems s2_index_less[of _ g] by auto
    then show ?thesis using True sub Suc.prems lv
      by (auto simp: Let_def not_less[symmetric])
  next
    case False
    then show ?thesis using Suc.prems l by (auto simp: Let_def not_less[symmetric])
  qed
qed

text \<open>The entry a table holds for an address at a level, and the level it is found at.\<close>

definition s2_slot :: "s2table \<Rightarrow> rmm \<Rightarrow> usize \<Rightarrow> usize \<Rightarrow> (usize \<times> usize) option" where
  "s2_slot t s ipa level =
    (case s2_walk (s2_depth t) (mem s) (unat (s2_root_pages t)) (s2_base t) (align_down ipa 4096)
            level True of
       Ok (Some loc, l) \<Rightarrow> Some (loc, l)
     | _ \<Rightarrow> None)"

lemma align_down_le: "unat (align_down a 4096) \<le> unat a"
  using unat_align_down[of a] by simp

lemma s2_root_index:
  assumes "s2_covers t ipa"
  shows "s2_index (3 - s2_depth t) (unat (s2_root_pages t)) (align_down ipa 4096)
      < 512 * unat (s2_root_pages t)" "unat (s2_root_level t) \<le> 2"
proof -
  let ?L = "unat (s2_root_level t)" and ?p = "unat (s2_root_pages t)"
  let ?g = "align_down ipa 4096"
  show L: "?L \<le> 2" using assms by (auto simp: s2_covers_def s2_supported_def split: if_splits)
  have p: "0 < ?p" using assms by (auto simp: s2_covers_def s2_supported_def split: if_splits)
  have "s2_index ?L ?p ?g < 512 * ?p"
  proof (cases "?p = 1 \<or> ?L = 0")
    case True
    moreover have "s2_index 0 ?p ?g = s2_index 0 1 ?g" by (simp add: s2_index_def Let_def)
    ultimately show ?thesis
      using s2_index_less[of ?L ?g] s2_index_less[of 0 ?g] p by auto
  next
    case False
    then have "unat ipa < 512 * ?p * 2 ^ (39 - 9 * ?L)" and "?p > 1" and "?L = 1 \<or> ?L = 2"
      using assms L p by (auto simp: s2_covers_def word_unat_eq_iff)
    then show ?thesis
      using align_down_le[of ipa] by (intro s2_index_root) auto
  qed
  then show "s2_index (3 - s2_depth t) ?p ?g < 512 * ?p" using L by (simp add: s2_depth_def)
qed

lemma s2_slot_total:
  assumes "s2_covers t ipa" and "level \<le> 3"
  shows "\<exists>loc l. s2_slot t s ipa level = Some (loc, l) \<and> l \<le> 3 \<and> s2_root_level t \<le> l
    \<and> (l \<le> level \<or> l = s2_root_level t)"
proof -
  let ?L = "unat (s2_root_level t)"
  from s2_walk_total[OF s2_root_index(1)[OF assms(1)] assms(2), of "mem s" "s2_base t"]
    s2_root_index(2)[OF assms(1)]
  obtain loc l where w: "s2_walk (s2_depth t) (mem s) (unat (s2_root_pages t)) (s2_base t)
      (align_down ipa 4096) level True = Ok (Some loc, l)"
    "unat l \<le> 3" "?L \<le> unat l" "unat l \<le> unat level \<or> unat l = ?L"
    by (auto simp: s2_depth_def)
  then have "s2_slot t s ipa level = Some (loc, l)" by (simp add: s2_slot_def)
  then show ?thesis using w by (auto simp: word_le_nat_alt word_unat_eq_iff[of l])
qed

section \<open>Reading and writing one entry\<close>

text \<open>
  The parents of an entry are the table descriptors on the way to it.  A write to an
  entry that is not among its own parents leaves the walk to it as it was.
\<close>

fun s2_path :: "nat \<Rightarrow> (u64 \<Rightarrow> u64) \<Rightarrow> nat \<Rightarrow> usize \<Rightarrow> usize \<Rightarrow> usize \<Rightarrow> usize list" where
  "s2_path 0 m pages tbl g level = []"
| "s2_path (Suc d) m pages tbl g level =
    (let this_level = 2 - d; loc = entry_at tbl (s2_index this_level pages g)
     in if of_nat this_level < level \<and> s2e_points_to_table_or_page (m loc)
        then (case s2_subtable (m loc) this_level of
            Some sub \<Rightarrow> loc # s2_path d m 1 sub g level
          | None \<Rightarrow> [])
        else [])"

definition s2_parents :: "s2table \<Rightarrow> rmm \<Rightarrow> usize \<Rightarrow> usize \<Rightarrow> usize list" where
  "s2_parents t s ipa level =
    s2_path (s2_depth t) (mem s) (unat (s2_root_pages t)) (s2_base t) (align_down ipa 4096) level"

lemma s2_walk_cong:
  assumes "s2_walk d m pages tbl g level True = Ok (Some loc, l)"
    and "\<forall>a \<in> set (s2_path d m pages tbl g level). m' a = m a"
    and "\<not> (l < level \<and> s2e_points_to_table_or_page (m' loc))"
  shows "s2_walk d m' pages tbl g level True = Ok (Some loc, l)"
  using assms
proof (induction d arbitrary: pages tbl)
  case 0
  then show ?case by (auto simp: Let_def split: if_splits)
next
  case (Suc d)
  let ?loc = "entry_at tbl (s2_index (2 - d) pages g)"
  show ?case
  proof (cases "of_nat (2 - d) < level \<and> s2e_points_to_table_or_page (m ?loc)")
    case True
    then obtain sub where sub: "s2_subtable (m ?loc) (2 - d) = Some sub"
      using s2_subtable_total by blast
    with True Suc.prems have "m' ?loc = m ?loc" "s2_walk d m 1 sub g level True = Ok (Some loc, l)"
      "\<forall>a \<in> set (s2_path d m 1 sub g level). m' a = m a"
      by (auto simp: Let_def split: if_splits)
    then show ?thesis using Suc.IH[of 1 sub] Suc.prems(1,3) True sub
      by (auto simp: Let_def split: if_splits)
  next
    case False
    with Suc.prems(1) have "l = of_nat (2 - d)" "loc = ?loc" "s2_index (2 - d) pages g < 512 * pages"
      "level \<le> 3"
      by (auto simp: Let_def not_less split: if_splits)
    then show ?thesis using Suc.prems(3) by (auto simp: Let_def not_less[symmetric])
  qed
qed

lemma s2_path_cong:
  assumes "s2_walk d m pages tbl g level True = Ok (Some loc, l)"
    and "\<forall>a \<in> set (s2_path d m pages tbl g level). m' a = m a"
    and "\<not> (l < level \<and> s2e_points_to_table_or_page (m' loc))"
  shows "s2_path d m' pages tbl g level = s2_path d m pages tbl g level"
  using assms
proof (induction d arbitrary: pages tbl)
  case 0
  then show ?case by simp
next
  case (Suc d)
  let ?loc = "entry_at tbl (s2_index (2 - d) pages g)"
  show ?case
  proof (cases "of_nat (2 - d) < level \<and> s2e_points_to_table_or_page (m ?loc)")
    case True
    then obtain sub where sub: "s2_subtable (m ?loc) (2 - d) = Some sub"
      using s2_subtable_total by blast
    with True Suc.prems have "m' ?loc = m ?loc" "s2_walk d m 1 sub g level True = Ok (Some loc, l)"
      "\<forall>a \<in> set (s2_path d m 1 sub g level). m' a = m a"
      by (auto simp: Let_def split: if_splits)
    then show ?thesis using Suc.IH[of 1 sub] Suc.prems(1,3) True sub by (simp add: Let_def)
  next
    case False
    with Suc.prems(1) have "l = of_nat (2 - d)" "loc = ?loc"
      by (auto simp: Let_def split: if_splits)
    then show ?thesis using Suc.prems(3) False by (auto simp: Let_def)
  qed
qed

lemma s2_slot_walk:
  "s2_slot t s ipa level = Some (loc, l) \<longleftrightarrow>
     s2_walk (s2_depth t) (mem s) (unat (s2_root_pages t)) (s2_base t) (align_down ipa 4096)
       level True = Ok (Some loc, l)"
  by (auto simp: s2_slot_def split: outcome.splits prod.splits option.splits)

lemma s2_parents_cong:
  assumes "s2_slot t s ipa level = Some (loc, l)"
    and "\<forall>a \<in> set (s2_parents t s ipa level). mem s' a = mem s a"
    and "\<not> (l < level \<and> s2e_points_to_table_or_page (mem s' loc))"
  shows "s2_parents t s' ipa level = s2_parents t s ipa level"
  unfolding s2_parents_def
  by (rule s2_path_cong[OF assms(1)[unfolded s2_slot_walk]])
    (use assms(2,3) in \<open>simp_all add: s2_parents_def\<close>)

lemma s2_slot_cong:
  assumes "s2_slot t s ipa level = Some (loc, l)"
    and "\<forall>a \<in> set (s2_parents t s ipa level). mem s' a = mem s a"
    and "\<not> (l < level \<and> s2e_points_to_table_or_page (mem s' loc))"
  shows "s2_slot t s' ipa level = Some (loc, l)"
proof -
  have "s2_walk (s2_depth t) (mem s) (unat (s2_root_pages t)) (s2_base t) (align_down ipa 4096)
      level True = Ok (Some loc, l)"
    using assms(1)
    by (auto simp: s2_slot_def split: outcome.splits prod.splits option.splits)
  from s2_walk_cong[OF this] assms(2,3) show ?thesis
    by (simp add: s2_slot_def s2_parents_def)
qed

lemma s2_slot_dirty [simp]: "s2_slot (t\<lparr> s2_dirty := b \<rparr>) s ipa level = s2_slot t s ipa level"
  by (simp add: s2_slot_def s2_depth_def)

lemma ipa_to_pte_slot:
  assumes "s2_slot t s ipa level = Some (loc, l)"
  shows "ipa_to_pte t ipa level s = (Ok (Some (mem s loc, l)), s)"
  using assms
  by (auto simp: s2_slot_def ipa_to_pte_def Let_def split: outcome.splits prod.splits option.splits)

lemma get_s2tte_run:
  assumes "rtt_tables s (rd_id r) = Some t" and "s2_slot t s ipa level = Some (loc, l)"
  shows "get_s2tte r ipa level e s = (Ok (mem s loc, l), s)"
  using assms by (simp add: get_s2tte_def s2_table_def run ipa_to_pte_slot)

definition s2_written :: "usize \<Rightarrow> usize \<Rightarrow> u64 \<Rightarrow> usize \<Rightarrow> usize \<Rightarrow> tlbi \<Rightarrow> rmm \<Rightarrow> rmm" where
  "s2_written rid loc v ipa level iv s =
    (let s1 = s\<lparr> mem := (mem s)(loc := v) \<rparr>;
         dirty = (rtt_tables s)(rid := map_option (\<lambda>t. t\<lparr> s2_dirty := True \<rparr>) (rtt_tables s rid))
     in case iv of
          TlbiNone \<Rightarrow> s1
        | TlbiLeaf vmid \<Rightarrow> s1\<lparr> rtt_tables := dirty, tlb_log := tlb_log s
            @ [TLBI_IPAS2E1IS vmid (tlbi_leaf_operand level (align_down ipa 4096)), TLBI_VMALLE1IS vmid] \<rparr>
        | TlbiBreakdown vmid \<Rightarrow> s1\<lparr> rtt_tables := dirty, tlb_log := tlb_log s
            @ [TLBI_RIPAS2LE1 vmid (tlbi_range_operand level ipa), TLBI_VMALLE1IS vmid] \<rparr>)"

lemma s2_written_simps [simp]:
  "mem (s2_written rid loc v ipa level iv s) = (mem s)(loc := v)"
  "gst (s2_written rid loc v ipa level iv s) = gst s"
  "held (s2_written rid loc v ipa level iv s) = held s"
  "gpt (s2_written rid loc v ipa level iv s) = gpt s"
  "rds (s2_written rid loc v ipa level iv s) = rds s"
  "recs (s2_written rid loc v ipa level iv s) = recs s"
  "ret (s2_written rid loc v ipa level iv s) = ret s"
  "s1_pt (s2_written rid loc v ipa level iv s) = s1_pt s"
  "vmid_set (s2_written rid loc v ipa level iv s) = vmid_set s"
  "run_page (s2_written rid loc v ipa level iv s) = run_page s"
  "cpu (s2_written rid loc v ipa level iv s) = cpu s"
  by (simp_all add: s2_written_def Let_def split: tlbi.split)

lemma s2_written_table:
  assumes "rtt_tables s k = Some t"
  shows "\<exists>b. rtt_tables (s2_written rid loc v ipa level iv s) k = Some (t\<lparr> s2_dirty := b \<rparr>)"
proof -
  have "\<exists>b. t = t\<lparr> s2_dirty := b \<rparr>" by (rule exI[of _ "s2_dirty t"]) simp
  then show ?thesis using assms by (auto simp: s2_written_def Let_def split: tlbi.split)
qed

lemma range_one_page:
  assumes "ipa mod 4096 = 0" and "ipa < - 4096"
  shows "range_with_size ipa 4096 = Ok [ipa]"
  using assms align_down_page[of ipa] page_iter_single[of ipa]
  by (simp add: range_with_size_def add.commute)

lemma s2_pte_set_run:
  assumes "rtt_tables s (rd_id r) = Some t" and "s2_slot t s ipa level = Some (loc, l)"
    and "ipa mod 4096 = 0" and "ipa < - 4096"
  shows "s2_pte_set r ipa level v iv s = (Ok (), s2_written (rd_id r) loc v ipa level iv s)"
proof -
  have "s2_walk (s2_depth t) (mem s) (unat (s2_root_pages t)) (s2_base t) (align_down ipa 4096)
      level True = Ok (Some loc, l)"
    using assms(2) by (auto simp: s2_slot_def split: outcome.splits prod.splits option.splits)
  then show ?thesis
    using assms(1) range_one_page[OF assms(3,4)] align_down_page[OF assms(3,4)]
    by (auto simp: s2_pte_set_def s2_table_def ipa_to_pte_set_def run s2_written_def s2e_set_def
        tlbi_by_vmid_ipa_def tlbi_by_vmid_ipa_range_def set_dirty_def Let_def split: tlbi.split)
qed

text \<open>
  The position of an entry: where the walk to an address ends, in a table that the
  entry is not a parent of.  A write of a leaf keeps every position, and the entry
  read at one is the last one written there.
\<close>

definition s2_at :: "rd \<Rightarrow> rmm \<Rightarrow> usize \<Rightarrow> usize \<Rightarrow> usize \<Rightarrow> usize \<Rightarrow> bool" where
  "s2_at r s ipa level loc l \<longleftrightarrow>
     (case rtt_tables s (rd_id r) of
        None \<Rightarrow> False
      | Some t \<Rightarrow> s2_slot t s ipa level = Some (loc, l) \<and> loc \<notin> set (s2_parents t s ipa level))
     \<and> ipa mod 4096 = 0 \<and> ipa < - 4096"

lemma s2_atE:
  assumes "s2_at r s ipa level loc l"
  obtains t where "rtt_tables s (rd_id r) = Some t" "s2_slot t s ipa level = Some (loc, l)"
    "loc \<notin> set (s2_parents t s ipa level)" "ipa mod 4096 = 0" "ipa < - 4096"
  using assms that by (auto simp: s2_at_def split: option.splits)

lemma get_s2tte_at: "s2_at r s ipa level loc l \<Longrightarrow> get_s2tte r ipa level e s = (Ok (mem s loc, l), s)"
  by (erule s2_atE) (rule get_s2tte_run)

lemma s2_pte_set_at:
  "s2_at r s ipa level loc l \<Longrightarrow>
     s2_pte_set r ipa level v iv s = (Ok (), s2_written (rd_id r) loc v ipa level iv s)"
  by (erule s2_atE) (rule s2_pte_set_run)

lemma s2_parents_dirty [simp]: "s2_parents (t\<lparr> s2_dirty := b \<rparr>) s ipa level = s2_parents t s ipa level"
  by (simp add: s2_parents_def s2_depth_def)

lemma s2_at_written:
  assumes at: "s2_at r s ipa level loc l" and leaf: "\<not> (l < level \<and> s2e_points_to_table_or_page v)"
  shows "s2_at r (s2_written rid loc v ipa' level' iv s) ipa level loc l"
proof -
  let ?s = "s2_written rid loc v ipa' level' iv s"
  from at obtain t where t: "rtt_tables s (rd_id r) = Some t" "s2_slot t s ipa level = Some (loc, l)"
    "loc \<notin> set (s2_parents t s ipa level)" "ipa mod 4096 = 0" "ipa < - 4096"
    by (rule s2_atE)
  obtain b where b: "rtt_tables ?s (rd_id r) = Some (t\<lparr> s2_dirty := b \<rparr>)"
    using s2_written_table[OF t(1)] by blast
  have same: "\<forall>a \<in> set (s2_parents t s ipa level). mem ?s a = mem s a" using t(3) by auto
  have "s2_slot t ?s ipa level = Some (loc, l)" "s2_parents t ?s ipa level = s2_parents t s ipa level"
    using s2_slot_cong[OF t(2) same] s2_parents_cong[OF t(2) same] leaf by auto
  then show ?thesis using b t(3-5) by (simp add: s2_at_def)
qed

lemma s2_at_written_other:
  assumes at: "s2_at r s ipa level loc l"
    and other: "\<And>t. rtt_tables s (rd_id r) = Some t \<Longrightarrow> loc' \<notin> insert loc (set (s2_parents t s ipa level))"
    and leaf: "\<not> (l < level \<and> s2e_points_to_table_or_page (mem s loc))"
  shows "s2_at r (s2_written rid loc' v ipa' level' iv s) ipa level loc l"
proof -
  let ?s = "s2_written rid loc' v ipa' level' iv s"
  from at obtain t where t: "rtt_tables s (rd_id r) = Some t" "s2_slot t s ipa level = Some (loc, l)"
    "loc \<notin> set (s2_parents t s ipa level)" "ipa mod 4096 = 0" "ipa < - 4096"
    by (rule s2_atE)
  obtain b where b: "rtt_tables ?s (rd_id r) = Some (t\<lparr> s2_dirty := b \<rparr>)"
    using s2_written_table[OF t(1)] by blast
  have same: "\<forall>a \<in> set (s2_parents t s ipa level). mem ?s a = mem s a" using other[OF t(1)] by auto
  have "s2_slot t ?s ipa level = Some (loc, l)" "s2_parents t ?s ipa level = s2_parents t s ipa level"
    using s2_slot_cong[OF t(2) same] s2_parents_cong[OF t(2) same] leaf other[OF t(1)] by auto
  then show ?thesis using b t(3-5) by (simp add: s2_at_def)
qed

section \<open>Tables of entries\<close>

lemma s2_entries_total:
  assumes "s2_index (3 - d) pages g < 512 * pages" and "level \<le> 3" and "d \<le> 3"
  shows "\<exists>es l. s2_entries d m pages tbl g level = Ok (es, l) \<and> 3 - d \<le> unat l
    \<and> (l = of_nat (3 - d) \<and> length es = 512 * pages \<or> length es = 512)"
  using assms
proof (induction d arbitrary: pages tbl)
  case 0
  then show ?case by simp
next
  case (Suc d)
  have l: "unat (of_nat (2 - d) :: usize) = 2 - d" by (simp add: unat_of_nat)
  show ?case
  proof (cases "of_nat (2 - d) < level \<and>
      (\<exists>sub. s2_subtable (m (entry_at tbl (s2_index (2 - d) pages g))) (2 - d) = Some sub)")
    case True
    then obtain sub where sub: "s2_subtable (m (entry_at tbl (s2_index (2 - d) pages g))) (2 - d) = Some sub"
      by blast
    obtain es k where "s2_entries d m 1 sub g level = Ok (es, k)" "3 - d \<le> unat k" "length es = 512"
      using Suc.IH[of 1 sub] Suc.prems s2_index_less[of _ g] by auto
    then show ?thesis using True sub Suc.prems by (auto simp: Let_def not_less[symmetric])
  next
    case False
    then show ?thesis using Suc.prems l
      by (auto simp: Let_def not_less[symmetric] split: option.split)
  qed
qed

section \<open>Frame conditions of table operations\<close>

locale table_frame = command_frame +
  assumes Q_mem: "Q s (s\<lparr> mem := m \<rparr>)"
    and Q_tables: "Q s (s\<lparr> rtt_tables := rt \<rparr>)"
begin

lemma Q_step: "Q s t \<Longrightarrow> held t = held s \<Longrightarrow> balanced Q s t"
  by (simp add: balanced_def)

lemma steps_s2_table: "steps (balanced Q) (s2_table r)"
  unfolding s2_table_def by (intro frame_rules)

lemma steps_ipa_to_pte: "steps (balanced Q) (ipa_to_pte t ipa level)"
  by (rule stepsI)
    (auto simp: ipa_to_pte_def balanced_def Q_refl Let_def split: outcome.splits option.splits)

lemma steps_ipa_to_pa: "steps (balanced Q) (ipa_to_pa t ipa level)"
  by (rule stepsI)
    (auto simp: ipa_to_pa_def balanced_def Q_refl Let_def split: outcome.splits option.splits)

lemma steps_get_s2tte: "steps (balanced Q) (get_s2tte r ipa level e)"
  unfolding get_s2tte_def by (intro frame_rules steps_s2_table steps_ipa_to_pte)

lemma steps_set_dirty: "steps (balanced Q) (set_dirty i b)"
  unfolding set_dirty_def by (intro steps_modify Q_step Q_tables) simp

lemma steps_tlbi:
  "steps (balanced Q) (tlbi_by_vmid_ipa level g vmid)"
  "steps (balanced Q) (tlbi_by_vmid_ipa_range level g vmid)"
  unfolding tlbi_by_vmid_ipa_def tlbi_by_vmid_ipa_range_def
  by (auto intro!: steps_modify Q_step Q_tlb steps_return steps_panic steps_hang split: outcome.split)

lemma steps_ipa_to_pte_set: "steps (balanced Q) (ipa_to_pte_set rid t ipa level v iv)"
  unfolding ipa_to_pte_set_def
proof (intro steps_bind)
  show "steps (balanced Q) (case iv of
        TlbiLeaf vmid \<Rightarrow> seq (tlbi_by_vmid_ipa level ipa vmid) (set_dirty rid True)
      | TlbiBreakdown vmid \<Rightarrow> seq (tlbi_by_vmid_ipa_range level ipa vmid) (set_dirty rid True)
      | TlbiNone \<Rightarrow> return ())"
    by (cases iv) (auto intro: steps_bind steps_tlbi steps_set_dirty steps_return)
qed (rule stepsI, auto simp: balanced_def Q_refl Q_mem Let_def split: outcome.splits option.splits)

lemma steps_s2_pte_set: "steps (balanced Q) (s2_pte_set r ipa level v iv)"
  unfolding s2_pte_set_def by (intro frame_rules steps_s2_table steps_ipa_to_pte_set)

lemma steps_s2_table_entries: "steps (balanced Q) (s2_table_entries t ipa level)"
  by (rule stepsI)
    (auto simp: s2_table_entries_def balanced_def Q_refl Let_def split: outcome.splits)

lemma steps_s2_new: "steps (balanced Q) (s2_new base level pages)"
  unfolding s2_new_def by (intro frame_rules steps_modify Q_step Q_mem) simp_all

lemmas table_rules = command_rules steps_s2_table steps_ipa_to_pa steps_get_s2tte steps_s2_pte_set
  steps_s2_table_entries steps_s2_new

end

interpretation conf_tables: table_frame "confined A" for A
  by unfold_locales (simp_all add: confined_def)

section \<open>Properties\<close>

text \<open>
  C8. Reading the table entry of an address that the root table covers never panics and
  never fails: the walk ends at an entry of a level between the root and the requested one,
  or of the root, and leaves the state alone.
\<close>

theorem table_walk_total:
  assumes "rtt_tables s (rd_id r) = Some t" and "s2_covers t ipa" and "level \<le> 3"
  shows "\<exists>loc l. get_s2tte r ipa level e s = (Ok (mem s loc, l), s) \<and> s2_root_level t \<le> l
    \<and> l \<le> 3 \<and> (l \<le> level \<or> l = s2_root_level t)"
  using s2_slot_total[OF assms(2,3), of s] get_s2tte_run[OF assms(1)] by blast

text \<open>A table and a state to evaluate on: a root of four pages at level 2.\<close>

definition sample_table :: s2table where
  "sample_table = \<lparr> s2_base = 0x88000000, s2_root_level = 2, s2_root_pages = 4, s2_dirty = False \<rparr>"

definition sample_state :: "usize \<Rightarrow> (usize \<Rightarrow> u64) \<Rightarrow> rmm" where
  "sample_state vmid m = rmm0\<lparr> rtt_tables := [vmid \<mapsto> sample_table], mem := m \<rparr>"

theorem table_walk_total_witness:
  "\<exists>loc l. get_s2tte (rds rmm0 0) 0x1000 3 RmiErrorInput (sample_state 0 (\<lambda>_. 0))
      = (Ok (mem (sample_state 0 (\<lambda>_. 0)) loc, l), sample_state 0 (\<lambda>_. 0))
    \<and> s2_root_level sample_table \<le> l \<and> l \<le> 3 \<and> (l \<le> 3 \<or> l = s2_root_level sample_table)"
  by (rule table_walk_total)
    (simp_all add: sample_state_def sample_table_def rmm0_def rd_zero_def rd_id_def s2_covers_def s2_supported_def)

text \<open>
  C9. Writing a leaf entry and reading it back: the entry at the end of the walk holds the
  value written, every other word of memory is unchanged, and the walk still ends there.
\<close>

theorem table_write_read:
  assumes "s2_at r s ipa level loc l" and "\<not> (l < level \<and> s2e_points_to_table_or_page v)"
  shows "\<exists>t. s2_pte_set r ipa level v iv s = (Ok (), t) \<and> get_s2tte r ipa level e t = (Ok (v, l), t)
    \<and> (\<forall>a. a \<noteq> loc \<longrightarrow> mem t a = mem s a)"
  using s2_pte_set_at[OF assms(1), of v iv] get_s2tte_at[OF s2_at_written[OF assms]] by fastforce

theorem table_write_read_witness:
  "\<exists>t. s2_pte_set (rds rmm0 0) 0x200000 2 0x40 (TlbiLeaf 0) (sample_state 0 (\<lambda>_. 0)) = (Ok (), t)
    \<and> get_s2tte (rds rmm0 0) 0x200000 2 RmiErrorInput t = (Ok (0x40, 2), t)
    \<and> (\<forall>a. a \<noteq> 0x88000008 \<longrightarrow> mem t a = mem (sample_state 0 (\<lambda>_. 0)) a)"
proof (rule table_write_read)
  show "s2_at (rds rmm0 0) (sample_state 0 (\<lambda>_. 0)) 0x200000 2 0x88000008 2"
    by code_simp
qed simp

end
