(* ===== verification/Rtt.thy ===== *)
theory Rtt
  imports Stage2
begin

text \<open>
  The operations on realm translation tables, \<open>rmm/src/realm/mm/rtt.rs\<close>, that the
  RTT and data commands are made of.

  An operation takes the realm descriptor it is given by reference as a value; \<open>init_ripas\<close>,
  which also extends the measurement, takes its address.  A callback \<open>f\<close> is a
  program.  The two loops run on a fuel that the number of entries of a table
  bounds; \<open>fuel_enough\<close> and \<open>set_ripas_no_hang\<close> state that it is never used up.
\<close>

section \<open>Helpers\<close>

abbreviation (input) CHANGE_DESTROYED :: u64 where "CHANGE_DESTROYED \<equiv> 1"
abbreviation (input) INVALID_UNPROTECTED :: u64 where "INVALID_UNPROTECTED \<equiv> 0"

definition level_space_size :: "rd \<Rightarrow> usize \<Rightarrow> usize rmm_prog" where
  "level_space_size r level = bind (s2_table r) (\<lambda>t. unwrap (space_size t level))"

text \<open>A new table of 512 entries at \<open>rtt_addr\<close>.\<close>

definition create_pgtbl_at :: "usize \<Rightarrow> u64 \<Rightarrow> usize \<Rightarrow> usize \<Rightarrow> unit rmm_prog" where
  "create_pgtbl_at rtt_addr flags pa map_size =
    (if rtt_addr = 0 then throw (RmiErrorRtt 0)
     else modify (\<lambda>s. s\<lparr> mem := (\<lambda>a.
       let off = a - rtt_addr; p = pa + (off div 8) * map_size
       in if off < 4096 \<and> off mod 8 = 0 then s2e_set p (p OR flags) else mem s a) \<rparr>))"

definition is_live_rtt :: "rd \<Rightarrow> usize \<Rightarrow> usize \<Rightarrow> bool rmm_prog" where
  "is_live_rtt r base level =
    bind (s2_table r) (\<lambda>t. bind (s2_table_entries t base level) (\<lambda>(entries, last_level).
      if \<exists>x \<in> set entries. is_live x then return True else throw (RmiErrorRtt level)))"

fun skip_loop :: "usize \<Rightarrow> usize \<Rightarrow> usize \<Rightarrow> usize \<Rightarrow> u64 list \<Rightarrow> usize" where
  "skip_loop base map_size bottom_addr addr [] = addr"
| "skip_loop base map_size bottom_addr addr (x # xs) =
    (if bottom_addr < base then skip_loop base map_size (bottom_addr + map_size) addr xs
     else if is_live x then addr
     else skip_loop base map_size bottom_addr (addr + map_size) xs)"

definition skip_non_live_entries :: "rd \<Rightarrow> usize \<Rightarrow> usize \<Rightarrow> usize rmm_prog" where
  "skip_non_live_entries r base level =
    bind (unwrap (mapping_size level)) (\<lambda>map_size.
      let addr = base AND NOT (map_size - 1)
      in if addr \<noteq> base then throw (RmiErrorRtt level)
         else bind (level_space_size r level) (\<lambda>space_size.
           bind (s2_table r) (\<lambda>t. bind (s2_table_entries t base level) (\<lambda>(entries, last_level).
             return (skip_loop base map_size (addr AND NOT (space_size - 1)) addr entries)))))"

section \<open>Creating, destroying and folding tables\<close>

definition block_or_page :: "usize \<Rightarrow> u64" where
  "block_or_page level =
    (if level = RTT_PAGE_LEVEL then bits_in_reg S2TTE_DESC_TYPE L3_PAGE
     else bits_in_reg S2TTE_DESC_TYPE L012_BLOCK)"

definition rtt_create :: "rd \<Rightarrow> usize \<Rightarrow> usize \<Rightarrow> usize \<Rightarrow> unit rmm_prog" where
  "rtt_create r rtt_addr ipa level =
    bind (get_s2tte r ipa (level - 1) RmiErrorInput) (\<lambda>(parent, last_level).
      if last_level \<noteq> level - 1 \<or> is_table parent last_level then throw (RmiErrorRtt last_level)
      else bind (unwrap (mapping_size level)) (\<lambda>map_size.
        bind
         (if is_unassigned parent then
            (if is_invalid_ripas parent then panic
             else bind (create_pgtbl_at rtt_addr
                    (get_masked parent (S2TTE_INVALID_HIPAS OR S2TTE_INVALID_RIPAS)) 0 0)
                  (\<lambda>_. return TlbiNone))
          else if is_assigned parent then
            (if get_masked_value parent S2TTE_INVALID_RIPAS = RIPAS_RAM then panic
             else bind (unwrap (addr_as_block parent (level - 1))) (\<lambda>pa.
               bind (create_pgtbl_at rtt_addr
                    (get_masked parent (S2TTE_INVALID_HIPAS OR S2TTE_INVALID_RIPAS)) pa map_size)
                  (\<lambda>_. return TlbiNone)))
          else if is_assigned_ram parent (level - 1) then
            bind (unwrap (addr_as_block parent (level - 1))) (\<lambda>pa.
              bind (create_pgtbl_at rtt_addr
                   (get_masked parent (S2TTE_INVALID_HIPAS OR S2TTE_INVALID_RIPAS)
                    OR block_or_page level) pa map_size)
                 (\<lambda>_. return (TlbiLeaf (rd_id r))))
          else if is_unassigned_ns parent then
            bind (create_pgtbl_at rtt_addr
                 (bits_in_reg S2TTE_INVALID_HIPAS HIPAS_UNASSIGNED OR bits_in_reg S2TTE_NS 1) 0 0)
               (\<lambda>_. return TlbiNone)
          else if is_assigned_ns parent (level - 1) then
            bind (unwrap (addr_as_block parent (level - 1))) (\<lambda>pa.
              bind (create_pgtbl_at rtt_addr
                   (bits_in_reg S2TTE_NS 1
                    OR get_masked parent (S2TTE_MEMATTR OR S2TTE_S2AP OR S2TTE_SH)
                    OR block_or_page level) pa map_size)
                 (\<lambda>_. return TlbiNone))
          else panic)
         (\<lambda>invalidate. s2_pte_set r ipa (level - 1)
            (rtt_addr OR bits_in_reg S2TTE_DESC_TYPE L012_TABLE) invalidate)))"

definition rtt_destroy ::
  "rd \<Rightarrow> usize \<Rightarrow> usize \<Rightarrow> (usize \<Rightarrow> unit rmm_prog) \<Rightarrow> (usize \<times> usize) rmm_prog" where
  "rtt_destroy r ipa level f =
    bind (get_s2tte r ipa (level - 1) (RmiErrorRtt 0)) (\<lambda>(parent, last_level).
      if last_level \<noteq> level - 1 \<or> \<not> is_table parent last_level then
        bind (skip_non_live_entries r ipa last_level) (\<lambda>top_ipa.
          seq (f top_ipa) (throw (RmiErrorRtt last_level)))
      else bind (unwrap (addr_as_block parent RTT_PAGE_LEVEL)) (\<lambda>rtt_addr.
        get_granule_if rtt_addr GS_RTT (\<lambda>g_rtt.
          bind (attempt (is_live_rtt r ipa level)) (\<lambda>live.
            if live = Inr True then seq (f ipa) (throw (RmiErrorRtt level))
            else seq
              (if addr_in_par r ipa
               then s2_pte_set r ipa (level - 1)
                      (bits_in_reg S2TTE_INVALID_HIPAS HIPAS_UNASSIGNED
                       OR bits_in_reg S2TTE_INVALID_RIPAS RIPAS_DESTROYED) (TlbiLeaf (rd_id r))
               else s2_pte_set r ipa (level - 1)
                      (bits_in_reg S2TTE_NS 1 OR bits_in_reg S2TTE_INVALID_HIPAS HIPAS_UNASSIGNED
                       OR INVALID_UNPROTECTED) (TlbiBreakdown (rd_id r)))
              (seq (set_granule g_rtt Delegated)
                (bind (skip_non_live_entries r ipa last_level) (\<lambda>top_ipa.
                   return (rtt_addr, top_ipa))))))))"

definition fold_tte :: "rd \<Rightarrow> usize \<Rightarrow> usize \<Rightarrow> u64 \<Rightarrow> u64 option" where
  "fold_tte r ipa level x =
    (let attr = get_masked x S2TTE_NS
     in if is_assigned_ram x level \<or> is_assigned_ns x level then
          map_option (\<lambda>pa. pa OR (attr OR get_masked x (S2TTE_MEMATTR OR S2TTE_S2AP OR S2TTE_SH))
            OR 0 OR 0 OR L012_BLOCK) (addr_as_block x level)
        else if is_assigned x then
          map_option (\<lambda>pa. pa OR (attr OR get_masked x (S2TTE_S2AP OR S2TTE_SH))
            OR get_masked x S2TTE_INVALID_HIPAS OR get_masked x S2TTE_INVALID_RIPAS OR 0)
            (addr_as_block x level)
        else if addr_in_par r ipa then
          Some (0 OR attr OR 0 OR get_masked x S2TTE_INVALID_RIPAS OR 0)
        else Some (0 OR attr OR 0 OR 0 OR 0))"

definition rtt_fold :: "rd \<Rightarrow> usize \<Rightarrow> usize \<Rightarrow> usize rmm_prog" where
  "rtt_fold r ipa level =
    bind (get_s2tte r ipa level (RmiErrorRtt level)) (\<lambda>(fold_s2tte, _).
    bind (get_s2tte r ipa (level - 1) RmiErrorInput) (\<lambda>(parent, parent_level).
      if parent_level < level - 1 \<or> \<not> is_table parent (level - 1)
      then throw (RmiErrorRtt parent_level)
      else (let rtt_addr = get_masked parent S2TTE_ADDR_TBL_OR_PAGE
        in get_granule_if rtt_addr GS_RTT (\<lambda>g_rtt.
          bind (s2_table r) (\<lambda>t. bind (s2_table_entries t ipa level) (\<lambda>(entries, _).
            bind (unwrap (is_homogeneous entries level)) (\<lambda>h.
              if h then
                bind (unwrap (fold_tte r ipa level fold_s2tte)) (\<lambda>new_parent.
                  seq (s2_pte_set r ipa (level - 1) new_parent (TlbiBreakdown (rd_id r)))
                  (seq (set_granule g_rtt Delegated)
                    (return rtt_addr)))
              else throw (RmiErrorRtt level))))))))"

section \<open>RIPAS\<close>

fun init_ripas_loop ::
  "nat \<Rightarrow> env \<Rightarrow> usize \<Rightarrow> usize \<Rightarrow> usize \<Rightarrow> usize \<Rightarrow> usize \<Rightarrow> usize rmm_prog" where
  "init_ripas_loop 0 e rdp tp map_size top_addr addr = hang"
| "init_ripas_loop (Suc n) e rdp tp map_size top_addr addr =
    (if addr < top_addr then
       (let nxt = addr + map_size
        in if nxt > tp then return addr
           else bind (gets (\<lambda>s. rds s rdp)) (\<lambda>r.
             bind (get_s2tte r addr RTT_PAGE_LEVEL (RmiErrorRtt 0)) (\<lambda>(x, last_level).
               if \<not> is_unassigned_empty x \<and> \<not> is_unassigned_ram x then return addr
               else seq
                 (only_if (is_unassigned_empty x)
                   (s2_pte_set r addr last_level
                     (bits_in_reg S2TTE_INVALID_HIPAS HIPAS_UNASSIGNED
                      OR bits_in_reg S2TTE_INVALID_RIPAS RIPAS_RAM) TlbiNone))
                 (seq
                   (case measure_ripas_granule e addr nxt r of
                      Inl err \<Rightarrow> throw err
                    | Inr r' \<Rightarrow> modify (\<lambda>s. s\<lparr> rds := (rds s)(rdp := r') \<rparr>))
                   (init_ripas_loop n e rdp tp map_size top_addr (addr + map_size))))))
     else return addr)"

definition loop_fuel :: "usize \<Rightarrow> usize \<Rightarrow> usize \<Rightarrow> nat" where
  "loop_fuel map_size fin addr = Suc ((unat fin - unat addr) div unat map_size + 1)"

definition init_ripas :: "env \<Rightarrow> usize \<Rightarrow> usize \<Rightarrow> usize \<Rightarrow> usize rmm_prog" where
  "init_ripas e rdp base tp =
    bind (gets (\<lambda>s. rds s rdp)) (\<lambda>r.
    bind (get_s2tte r base RTT_PAGE_LEVEL (RmiErrorRtt 0)) (\<lambda>(_, last_level).
    bind (unwrap (mapping_size last_level)) (\<lambda>map_size.
      let addr = base AND NOT (map_size - 1)
      in if addr \<noteq> base then throw (RmiErrorRtt last_level)
         else if tp \<noteq> tp AND NOT (map_size - 1) then throw (RmiErrorRtt last_level)
         else bind (level_space_size r last_level) (\<lambda>space_size.
           let top_addr = (addr AND NOT (space_size - 1)) + space_size
           in bind (init_ripas_loop (loop_fuel map_size top_addr addr) e rdp tp map_size top_addr addr)
                (\<lambda>a. if a > base then return a else throw (RmiErrorRtt last_level))))))"

definition rtt_get_ripas :: "rd \<Rightarrow> usize \<Rightarrow> usize \<Rightarrow> u64 rmm_prog" where
  "rtt_get_ripas r ipa level =
    bind (get_s2tte r ipa level (RmiErrorRtt 0)) (\<lambda>(x, last_level).
      if level \<noteq> last_level then throw (RmiErrorRtt last_level)
      else if is_assigned_ram x level then return RIPAS_RAM
      else return (get_ripas x))"

datatype ripas_step = RBreak | RSkip | RWrite u64 bool bool

text \<open>
  The decision of one iteration of \<open>set_ripas\<close>: leave the loop, do nothing, or write
  a new entry; the flags say whether the output address is kept and whether the
  entry is invalidated in the TLB.
\<close>

definition ripas_decide :: "u64 \<Rightarrow> u64 \<Rightarrow> u64 \<Rightarrow> usize \<Rightarrow> ripas_step option" where
  "ripas_decide x ripas flags level =
    (if ripas = RIPAS_EMPTY then
       (let new = bits_in_reg S2TTE_INVALID_RIPAS RIPAS_EMPTY
        in Some (if is_unassigned_empty x then
             RWrite (new OR bits_in_reg S2TTE_INVALID_HIPAS HIPAS_UNASSIGNED) False False
           else if is_unassigned_destroyed x then
             (if flags AND CHANGE_DESTROYED \<noteq> 0
              then RWrite (new OR bits_in_reg S2TTE_INVALID_HIPAS HIPAS_UNASSIGNED) False False
              else RBreak)
           else if is_assigned_ram x level then
             RWrite (new OR bits_in_reg S2TTE_INVALID_HIPAS HIPAS_ASSIGNED) True True
           else if is_assigned_destroyed x then
             (if flags AND CHANGE_DESTROYED \<noteq> 0
              then RWrite (new OR bits_in_reg S2TTE_INVALID_HIPAS HIPAS_ASSIGNED) True True
              else RBreak)
           else RWrite new False False))
     else if ripas = RIPAS_RAM then
       (let new = bits_in_reg S2TTE_INVALID_RIPAS RIPAS_RAM
        in Some (if is_unassigned_empty x then
             RWrite (new OR bits_in_reg S2TTE_INVALID_HIPAS HIPAS_UNASSIGNED) False False
           else if is_unassigned_destroyed x then
             (if flags AND CHANGE_DESTROYED \<noteq> 0
              then RWrite (new OR bits_in_reg S2TTE_INVALID_HIPAS HIPAS_UNASSIGNED) False False
              else RBreak)
           else if is_assigned_empty x then
             RWrite (new OR bits_in_reg S2TTE_INVALID_HIPAS HIPAS_ASSIGNED OR block_or_page level)
               True False
           else if is_assigned_destroyed x then
             (if flags AND CHANGE_DESTROYED \<noteq> 0
              then RWrite (new OR block_or_page level) True False
              else RBreak)
           else RSkip))
     else None)"

fun set_ripas_loop ::
  "nat \<Rightarrow> rd \<Rightarrow> usize \<Rightarrow> u8 \<Rightarrow> u64 \<Rightarrow> usize \<Rightarrow> usize \<Rightarrow> usize \<Rightarrow> usize \<Rightarrow> usize rmm_prog" where
  "set_ripas_loop 0 r tp ripas flags level map_size table_top addr = hang"
| "set_ripas_loop (Suc n) r tp ripas flags level map_size table_top addr =
    (if addr < table_top \<and> addr < tp then
       bind (get_s2tte r addr RTT_PAGE_LEVEL (RmiErrorRtt level)) (\<lambda>(x, last_level).
         if level \<noteq> last_level then return addr
         else bind (unwrap (addr_as_block x last_level)) (\<lambda>pa.
           bind (unwrap (ripas_decide x (ucast ripas) flags last_level)) (\<lambda>d. case d of
             RBreak \<Rightarrow> return addr
           | RSkip \<Rightarrow> set_ripas_loop n r tp ripas flags level map_size table_top (addr + map_size)
           | RWrite new add_pa inval \<Rightarrow>
               seq (s2_pte_set r addr last_level (if add_pa then new OR pa else new)
                     (if inval then TlbiLeaf (rd_id r) else TlbiNone))
                 (set_ripas_loop n r tp ripas flags level map_size table_top (addr + map_size)))))
     else return addr)"

definition set_ripas :: "rd \<Rightarrow> usize \<Rightarrow> usize \<Rightarrow> u8 \<Rightarrow> u64 \<Rightarrow> usize rmm_prog" where
  "set_ripas r base tp ripas flags =
    bind (get_s2tte r base RTT_PAGE_LEVEL (RmiErrorRtt RTT_PAGE_LEVEL)) (\<lambda>(_, level).
    bind (unwrap (mapping_size level)) (\<lambda>map_size.
      let addr = base AND NOT (map_size - 1)
      in if addr \<noteq> base then throw (RmiErrorRtt level)
         else if tp AND NOT (map_size - 1) \<noteq> tp then throw (RmiErrorRtt level)
         else bind (level_space_size r level) (\<lambda>space_size.
           let table_top = (addr AND NOT (space_size - 1)) + space_size
           in bind (set_ripas_loop (loop_fuel map_size table_top addr) r tp ripas flags level map_size
                      table_top addr)
                (\<lambda>a. if a > base then return a else throw (RmiErrorRtt level)))))"

section \<open>Data and unprotected mappings\<close>

definition read_entry :: "rd \<Rightarrow> usize \<Rightarrow> usize \<Rightarrow> usize list rmm_prog" where
  "read_entry r ipa level =
    bind (get_s2tte r ipa level (RmiErrorRtt 0)) (\<lambda>(x, last_level).
      if is_unassigned x then
        return [last_level, RMI_UNASSIGNED, 0, get_masked_value x S2TTE_INVALID_RIPAS]
      else if is_assigned x then
        bind (unwrap (addr_as_block x last_level)) (\<lambda>pa.
          return [last_level, RMI_ASSIGNED, pa, get_masked_value x S2TTE_INVALID_RIPAS])
      else if is_table x last_level then
        return [last_level, RMI_TABLE, get_masked x S2TTE_ADDR_TBL_OR_PAGE, 0]
      else if is_assigned_ram x last_level then
        bind (unwrap (addr_as_block x last_level)) (\<lambda>pa.
          return [last_level, RMI_ASSIGNED, pa, RIPAS_RAM])
      else if is_unassigned_ns x then return [last_level, RMI_UNASSIGNED, 0, 0]
      else if is_assigned_ns x last_level then
        bind (ok_or (RmiErrorRtt 0) (level_mask last_level)) (\<lambda>addr_mask.
          return [last_level, RMI_ASSIGNED,
            get_masked x (addr_mask OR S2TTE_MEMATTR OR S2TTE_S2AP OR S2TTE_SH), 0])
      else return [last_level, 0, 0, 0])"

definition unprotected_tte :: "usize \<Rightarrow> u64 \<Rightarrow> u64" where
  "unprotected_tte level host_s2tte =
    host_s2tte OR (bits_in_reg S2TTE_NS 1 OR bits_in_reg S2TTE_XN 1 OR bits_in_reg S2TTE_AF 1
      OR block_or_page level)"

definition map_unprotected :: "rd \<Rightarrow> usize \<Rightarrow> usize \<Rightarrow> usize \<Rightarrow> unit rmm_prog" where
  "map_unprotected r ipa level host_s2tte =
    (if addr_in_par r ipa then throw RmiErrorInput
     else bind (get_s2tte r ipa level (RmiErrorRtt 0)) (\<lambda>(x, last_level).
       if level \<noteq> last_level then throw (RmiErrorRtt last_level)
       else if \<not> is_unassigned x then throw (RmiErrorRtt level)
       else s2_pte_set r ipa level (unprotected_tte level host_s2tte) (TlbiLeaf (rd_id r))))"

definition unmap_unprotected :: "rd \<Rightarrow> usize \<Rightarrow> usize \<Rightarrow> (usize \<Rightarrow> unit rmm_prog) \<Rightarrow> usize rmm_prog" where
  "unmap_unprotected r ipa level f =
    (if addr_in_par r ipa then throw RmiErrorInput
     else bind (get_s2tte r ipa level (RmiErrorRtt 0)) (\<lambda>(x, last_level).
       if level \<noteq> last_level \<or> \<not> is_assigned_ns x last_level then
         bind (skip_non_live_entries r ipa last_level) (\<lambda>top_ipa.
           seq (f top_ipa) (throw (RmiErrorRtt last_level)))
       else seq
         (s2_pte_set r ipa level
           (bits_in_reg S2TTE_NS 1 OR bits_in_reg S2TTE_INVALID_HIPAS HIPAS_UNASSIGNED
            OR INVALID_UNPROTECTED) (TlbiLeaf (rd_id r)))
         (skip_non_live_entries r ipa level)))"

definition data_tte :: "usize \<Rightarrow> bool \<Rightarrow> u64 \<Rightarrow> u64" where
  "data_tte target_pa unknown ripas =
    (if unknown \<and> ripas \<noteq> RIPAS_RAM
     then target_pa OR bits_in_reg S2TTE_INVALID_HIPAS HIPAS_ASSIGNED
          OR bits_in_reg S2TTE_INVALID_RIPAS ripas
     else target_pa OR bits_in_reg S2TTE_DESC_TYPE L3_PAGE
          OR bits_in_reg S2TTE_MEMATTR NORMAL_FWB OR bits_in_reg S2TTE_S2AP PERM_RW
          OR bits_in_reg S2TTE_SH SH_INNER OR bits_in_reg S2TTE_AF 1)"

definition data_create :: "rd \<Rightarrow> usize \<Rightarrow> usize \<Rightarrow> bool \<Rightarrow> unit rmm_prog" where
  "data_create r ipa target_pa unknown =
    bind (get_s2tte r ipa RTT_PAGE_LEVEL (RmiErrorRtt 0)) (\<lambda>(x, last_level).
      if RTT_PAGE_LEVEL \<noteq> last_level then throw (RmiErrorRtt last_level)
      else if \<not> is_unassigned x then throw (RmiErrorRtt RTT_PAGE_LEVEL)
      else if is_invalid_ripas x then panic
      else s2_pte_set r ipa RTT_PAGE_LEVEL (data_tte target_pa unknown (get_ripas x)) TlbiNone)"

definition data_destroy :: "rd \<Rightarrow> usize \<Rightarrow> (usize \<Rightarrow> unit rmm_prog) \<Rightarrow> (usize \<times> usize) rmm_prog" where
  "data_destroy r ipa f =
    bind (get_s2tte r ipa RTT_PAGE_LEVEL (RmiErrorRtt RTT_PAGE_LEVEL)) (\<lambda>(x, last_level).
      if last_level < RTT_PAGE_LEVEL \<or> \<not> is_valid_tte x last_level False \<and> \<not> is_assigned x then
        bind (skip_non_live_entries r ipa last_level) (\<lambda>top_ipa.
          seq (f top_ipa) (throw (RmiErrorRtt last_level)))
      else bind (unwrap (addr_as_block x last_level)) (\<lambda>pa.
        let unassigned = bits_in_reg S2TTE_INVALID_HIPAS HIPAS_UNASSIGNED
        in seq
          (if is_assigned_ram x RTT_PAGE_LEVEL
           then s2_pte_set r ipa RTT_PAGE_LEVEL
                  (unassigned OR bits_in_reg S2TTE_INVALID_RIPAS RIPAS_DESTROYED) (TlbiLeaf (rd_id r))
           else s2_pte_set r ipa RTT_PAGE_LEVEL
                  (unassigned OR get_masked x S2TTE_INVALID_RIPAS) TlbiNone)
          (bind (skip_non_live_entries r ipa RTT_PAGE_LEVEL) (\<lambda>top_ipa. return (pa, top_ipa)))))"

section \<open>Frame conditions\<close>

context table_frame
begin

lemma steps_prod: "(\<And>a b. steps (balanced Q) (f a b)) \<Longrightarrow> steps (balanced Q) (case x of (a, b) \<Rightarrow> f a b)"
  by (cases x) simp

lemma steps_level_space_size: "steps (balanced Q) (level_space_size r level)"
  unfolding level_space_size_def by (intro table_rules)

lemma steps_create_pgtbl_at: "steps (balanced Q) (create_pgtbl_at a fl pa ms)"
  unfolding create_pgtbl_at_def by (intro table_rules steps_modify Q_step Q_mem) simp

lemma steps_skip: "steps (balanced Q) (skip_non_live_entries r base level)"
  unfolding skip_non_live_entries_def Let_def
  by (intro table_rules steps_prod steps_level_space_size)

lemma steps_is_live_rtt: "steps (balanced Q) (is_live_rtt r base level)"
  unfolding is_live_rtt_def by (intro table_rules steps_prod)

lemma steps_rtt_create: "steps (balanced Q) (rtt_create r a ipa level)"
  unfolding rtt_create_def
  by (intro table_rules steps_prod steps_create_pgtbl_at)

lemma steps_read_entry: "steps (balanced Q) (read_entry r ipa level)"
  unfolding read_entry_def by (intro table_rules steps_prod)

lemma steps_rtt_get_ripas: "steps (balanced Q) (rtt_get_ripas r ipa level)"
  unfolding rtt_get_ripas_def by (intro table_rules steps_prod)

lemma steps_map_unprotected: "steps (balanced Q) (map_unprotected r ipa level x)"
  unfolding map_unprotected_def by (intro table_rules steps_prod)

lemma steps_unmap_unprotected:
  "(\<And>a. steps (balanced Q) (f a)) \<Longrightarrow> steps (balanced Q) (unmap_unprotected r ipa level f)"
  unfolding unmap_unprotected_def by (intro table_rules steps_prod steps_skip)

lemma steps_data_create: "steps (balanced Q) (data_create r ipa pa u)"
  unfolding data_create_def by (intro table_rules steps_prod)

lemma steps_data_destroy:
  "(\<And>a. steps (balanced Q) (f a)) \<Longrightarrow> steps (balanced Q) (data_destroy r ipa f)"
  unfolding data_destroy_def Let_def by (intro table_rules steps_prod steps_skip)

lemma steps_set_ripas_loop: "steps (balanced Q) (set_ripas_loop n r tp ri fl level ms tt addr)"
proof (induction n arbitrary: addr)
  case 0
  then show ?case by (simp add: steps_hang)
next
  case (Suc n)
  have "steps (balanced Q) (case d of
      RBreak \<Rightarrow> return addr
    | RSkip \<Rightarrow> set_ripas_loop n r tp ri fl level ms tt (addr + ms)
    | RWrite new add_pa inval \<Rightarrow>
        seq (s2_pte_set r addr l (if add_pa then new OR pa else new)
              (if inval then TlbiLeaf (rd_id r) else TlbiNone))
          (set_ripas_loop n r tp ri fl level ms tt (addr + ms)))" for d l pa
    by (cases d) (auto intro: steps_return steps_bind steps_s2_pte_set Suc.IH)
  then show ?case
    unfolding set_ripas_loop.simps by (intro table_rules steps_prod)
qed

lemma steps_set_ripas: "steps (balanced Q) (set_ripas r base tp ri fl)"
  unfolding set_ripas_def Let_def
  by (intro table_rules steps_prod steps_level_space_size steps_set_ripas_loop)

end

lemma steps_rtt_destroy:
  assumes "\<And>A a. steps (balanced (confined A)) (f a)" and "{GS_RTT, Delegated} \<subseteq> A"
  shows "steps (balanced (confined A)) (rtt_destroy r ipa level f)"
  unfolding rtt_destroy_def
  by (intro conf_tables.table_rules conf_tables.steps_prod conf_tables.steps_skip assms(1)
      steps_get_granule_if_at steps_at_bind conf_tables.steps_is_live_rtt steps_at_if
      steps_at_steps[OF conf.steps_bind] steps_at_set)
    (use assms(2) in auto)

lemma steps_at_prod: "(\<And>a b. steps_at i st R (f a b)) \<Longrightarrow> steps_at i st R (case x of (a, b) \<Rightarrow> f a b)"
  by (cases x) simp

lemma steps_rtt_fold:
  assumes "{GS_RTT, Delegated} \<subseteq> A"
  shows "steps (balanced (confined A)) (rtt_fold r ipa level)"
  unfolding rtt_fold_def Let_def
  by (intro conf_tables.table_rules conf_tables.steps_prod steps_get_granule_if_at steps_at_bind
      steps_at_prod steps_at_if steps_at_steps[OF conf.steps_throw] steps_at_set)
    (use assms in auto)

lemma steps_init_ripas_loop:
  "steps (balanced (confined A)) (init_ripas_loop n e rdp tp ms ta addr)"
proof (induction n arbitrary: addr)
  case 0
  then show ?case by (simp add: conf.steps_hang)
next
  case (Suc n)
  have "steps (balanced (confined A)) (case measure_ripas_granule e a b r of
      Inl err \<Rightarrow> throw err | Inr r' \<Rightarrow> modify (\<lambda>s. s\<lparr> rds := (rds s)(rdp := r') \<rparr>))" for a b r
    by (auto split: sum.split intro!: conf.steps_throw conf.steps_modify
        simp: balanced_def confined_def)
  with Suc.IH show ?case
    unfolding init_ripas_loop.simps Let_def
    by (intro conf_tables.table_rules conf_tables.steps_prod)
qed

lemma steps_init_ripas: "steps (balanced (confined A)) (init_ripas e rdp base tp)"
  unfolding init_ripas_def Let_def
  by (intro conf_tables.table_rules conf_tables.steps_prod conf_tables.steps_level_space_size
      steps_init_ripas_loop)

section \<open>Descriptors\<close>

text \<open>A page frame has address bits only.\<close>

definition page_frame :: "u64 \<Rightarrow> bool" where
  "page_frame pa \<longleftrightarrow> get_masked pa S2TTE_ADDR_BLK_L3 = pa"

lemma page_frame_bit: "page_frame pa \<Longrightarrow> bit pa n \<Longrightarrow> 12 \<le> n \<and> n \<le> 47"
  using bit_and_iff[of pa "define_mask 47 12" n] bit_define_mask[of 12 47 n]
  by (simp add: page_frame_def get_masked_def S2TTE_ADDR_BLK_L3_def)

lemma page_frame_field:
  assumes "page_frame pa" and "b \<le> e" and "e < 64" and "e < 12 \<or> 48 \<le> b"
  shows "get_masked_value pa (define_mask e b) = 0"
proof (rule word_eq_by_bits)
  fix n
  show "bit (get_masked_value pa (define_mask e b)) n = bit (0 :: u64) n"
    using assms(2-4) page_frame_bit[OF assms(1), of "b + n"] by (auto simp: bit_get_masked_value)
qed

lemma get_field_numeral:
  assumes "b \<le> numeral e" and "numeral e < (64 :: nat)"
  shows "get_masked_value (numeral n) (define_mask (numeral e) b)
      = take_bit (numeral e + 1 - b) (drop_bit b (numeral n))"
    "get_masked_value 1 (define_mask (numeral e) b) = take_bit (numeral e + 1 - b) (drop_bit b 1)"
  using assms by (simp_all add: get_masked_value_eq)

lemma get_low:
  "get_masked_value x (define_mask (Suc 0) 0) = take_bit 2 x"
  "get_masked_value x (define_mask 0 0) = take_bit 1 x"
  "get_masked_value x (define_mask (Suc 0) (Suc 0)) = take_bit 1 (drop_bit 1 x)"
proof -
  show "get_masked_value x (define_mask (Suc 0) 0) = take_bit 2 x"
    by (rule word_eq_by_bits) (auto simp: bit_get_masked_value bit_take_bit_iff)
qed (simp_all add: get_masked_value_eq)

lemmas get_low_numeral = get_low[of "numeral n"] get_low[of 1] for n

lemma bits_in_reg_eq:
  assumes "b \<le> e" and "e < 64"
  shows "bits_in_reg (define_mask e b) v = push_bit b (take_bit (e + 1 - b) v)"
  by (rule word_eq_by_bits)
    (use assms in \<open>auto simp: bit_bits_in_reg bit_push_bit_iff bit_take_bit_iff\<close>)

lemma bits_in_low: "bits_in_reg (define_mask (Suc 0) 0) v = take_bit 2 v"
  by (rule word_eq_by_bits) (auto simp: bit_bits_in_reg bit_take_bit_iff)

lemma mask_numerals:
  "define_mask 47 12 = 0xfffffffff000" "define_mask 47 21 = 0xffffffe00000"
  "define_mask 47 30 = 0xffffc0000000"
  by (simp_all add: define_mask_def)

lemma page_frame_and: "page_frame pa \<Longrightarrow> pa AND 0xfffffffff000 = pa"
  by (simp add: page_frame_def get_masked_def S2TTE_ADDR_BLK_L3_def mask_numerals)

lemmas tte_eval =
  s2tte_masks get_masked_value_or get_field_numeral get_low_numeral page_frame_field
  get_masked_def mask_numerals bit.conj_disj_distrib2 page_frame_and

lemma tte_consts:
  "bits_in_reg S2TTE_DESC_TYPE 3 = 3" "bits_in_reg S2TTE_DESC_TYPE L012_BLOCK = 1"
  "bits_in_reg S2TTE_MEMATTR NORMAL_FWB = 0x18" "bits_in_reg S2TTE_S2AP PERM_RW = 0xc0"
  "bits_in_reg S2TTE_SH SH_INNER = 0x300" "bits_in_reg S2TTE_AF 1 = 0x400"
  "bits_in_reg S2TTE_NS 1 = 0x80000000000000" "bits_in_reg S2TTE_XN 1 = 0x40000000000000"
  "bits_in_reg S2TTE_INVALID_HIPAS HIPAS_UNASSIGNED = 0"
  "bits_in_reg S2TTE_INVALID_HIPAS HIPAS_ASSIGNED = 4"
  "bits_in_reg S2TTE_INVALID_RIPAS RIPAS_EMPTY = 0" "bits_in_reg S2TTE_INVALID_RIPAS RIPAS_RAM = 0x20"
  "bits_in_reg S2TTE_INVALID_RIPAS RIPAS_DESTROYED = 0x40"
  by (simp_all add: s2tte_masks bits_in_low bits_in_reg_eq[of _ "numeral _"])

lemma data_tte_eq:
  "data_tte pa False ri = pa OR 0x7db" "data_tte pa u RIPAS_RAM = pa OR 0x7db"
  "data_tte pa True RIPAS_EMPTY = pa OR 4" "data_tte pa True RIPAS_DESTROYED = pa OR 0x44"
  unfolding data_tte_def tte_consts or.assoc by simp_all

lemma data_tte_ram:
  assumes "page_frame pa" and "\<not> u \<or> ri = RIPAS_RAM"
  shows "is_assigned_ram (data_tte pa u ri) 3"
    and "addr_as_block (data_tte pa u ri) 3 = Some pa"
    and "get_masked_value (data_tte pa u ri) S2TTE_S2AP = PERM_RW"
    and "get_masked_value (data_tte pa u ri) S2TTE_AF = 1"
    and "get_masked_value (data_tte pa u ri) S2TTE_NS = 0"
proof -
  have "data_tte pa u ri = pa OR 0x7db" using assms(2) by (cases u) (auto simp: data_tte_eq)
  then show "is_assigned_ram (data_tte pa u ri) 3"
    and "addr_as_block (data_tte pa u ri) 3 = Some pa"
    and "get_masked_value (data_tte pa u ri) S2TTE_S2AP = PERM_RW"
    and "get_masked_value (data_tte pa u ri) S2TTE_AF = 1"
    and "get_masked_value (data_tte pa u ri) S2TTE_NS = 0"
    using assms(1) by (simp_all add: is_assigned_ram_iff addr_as_block_def tte_eval)
qed

lemma ripas_cases: "ri \<le> (2 :: u64) \<Longrightarrow> ri = 0 \<or> ri = 1 \<or> ri = 2"
proof -
  assume "ri \<le> 2"
  then have "unat ri \<le> 2" by (simp add: word_le_nat_alt)
  then have "unat ri = 0 \<or> unat ri = 1 \<or> unat ri = 2" by linarith
  then show ?thesis by (simp add: word_unat_eq_iff)
qed

lemma data_tte_assigned:
  assumes "page_frame pa" and "ri \<noteq> RIPAS_RAM" and "ri \<le> 2"
  shows "is_assigned (data_tte pa True ri)" and "get_ripas (data_tte pa True ri) = ri"
    and "addr_as_block (data_tte pa True ri) 3 = Some pa"
  using ripas_cases[OF assms(3)] assms(1,2)
  by (auto simp: data_tte_eq is_assigned_def get_ripas_def addr_as_block_def tte_eval)

section \<open>Skipping non-live entries\<close>

lemma skip_loop_live:
  "skip_loop base ms bottom addr es = addr + ms * of_nat (length (takeWhile (\<lambda>x. \<not> is_live x) es))"
  if "\<not> bottom < base"
  using that by (induction es arbitrary: addr) (auto simp: algebra_simps)

lemma skip_loop_eq:
  assumes "unat bottom + k * unat ms < 2 ^ 64" and "0 < unat ms" and "k \<le> length es"
    and "base = bottom + of_nat k * ms"
  shows "skip_loop base ms bottom addr es
    = addr + ms * of_nat (length (takeWhile (\<lambda>x. \<not> is_live x) (drop k es)))"
  using assms
proof (induction es arbitrary: bottom k)
  case Nil
  then show ?case by simp
next
  case (Cons x es)
  show ?case
  proof (cases k)
    case 0
    then show ?thesis using Cons.prems skip_loop_live[of bottom base ms addr "x # es"] by simp
  next
    case (Suc j)
    have a: "unat bottom + unat ms + j * unat ms < 2 ^ 64" using Cons.prems(1) Suc by simp
    then have u: "unat (bottom + ms) = unat bottom + unat ms" by (simp add: unat_word_ariths)
    have km: "unat (of_nat k * ms) = k * unat ms"
      using Cons.prems(1) by (intro unat_of_nat_times) simp
    have "unat base = unat bottom + k * unat ms"
      using Cons.prems(1,4) km by (simp add: unat_word_ariths)
    then have "bottom < base" using Suc Cons.prems(2) by (simp add: word_less_nat_alt)
    moreover have "skip_loop base ms (bottom + ms) addr es
      = addr + ms * of_nat (length (takeWhile (\<lambda>x. \<not> is_live x) (drop j es)))"
      using Cons.IH[of "bottom + ms" j] Cons.prems a u Suc by (simp add: algebra_simps)
    ultimately show ?thesis using Suc by simp
  qed
qed

section \<open>The loops end\<close>

lemma s2_walk_no_hang: "s2_walk d m pages tbl g lv b \<noteq> Hang"
  by (induction d arbitrary: pages tbl) (auto simp: Let_def split: option.split)

lemma ends_get_s2tte: "ends (get_s2tte r ipa level e)"
  unfolding get_s2tte_def s2_table_def
proof (intro ends_rules)
  fix t
  show "ends (ipa_to_pte t ipa level)"
    using s2_walk_no_hang
    by (auto simp: ends_def ipa_to_pte_def Let_def split: option.splits outcome.splits prod.splits)
qed

lemma ends_s2_pte_set:
  assumes "iv = TlbiNone \<or> ipa mod 4096 = 0 \<and> ipa < - 4096"
  shows "ends (s2_pte_set r ipa level v iv)"
proof -
  have "iv = TlbiNone \<or> range_with_size ipa 4096 = Ok [ipa]"
    using assms range_one_page by metis
  then show ?thesis
    unfolding s2_pte_set_def s2_table_def ipa_to_pte_set_def
    using s2_walk_no_hang
    by (intro ends_rules)
      (auto simp: ends_def run Let_def tlbi_by_vmid_ipa_def tlbi_by_vmid_ipa_range_def set_dirty_def
        split: option.splits outcome.splits prod.splits tlbi.splits)
qed

text \<open>An address below the end of a table can be advanced by an entry.\<close>

lemma loop_advance:
  fixes addr fin ms :: usize
  assumes "addr < fin" and "unat fin + unat ms < 2 ^ 64" and "unat fin \<le> unat addr + n * unat ms"
  shows "unat (addr + ms) = unat addr + unat ms"
    and "\<exists>k. n = Suc k \<and> unat fin \<le> unat (addr + ms) + k * unat ms"
proof -
  show u: "unat (addr + ms) = unat addr + unat ms"
    using assms(1,2) by (simp add: word_less_nat_alt unat_word_ariths)
  show "\<exists>k. n = Suc k \<and> unat fin \<le> unat (addr + ms) + k * unat ms"
    using assms(1,3) u by (cases n) (simp_all add: word_less_nat_alt)
qed

lemma fuel_enough:
  assumes "0 < unat ms"
  shows "unat fin \<le> unat addr + ((unat fin - unat addr) div unat ms + 1) * unat ms"
proof -
  have "unat fin - unat addr < ((unat fin - unat addr) div unat ms + 1) * unat ms"
    using assms dividend_less_div_times[of "unat ms" "unat fin - unat addr"] by simp
  then show ?thesis by linarith
qed

lemma aligned_add:
  fixes a b :: usize
  assumes "a mod 4096 = 0" and "b mod 4096 = 0"
  shows "(a + b) mod 4096 = 0"
proof -
  have u: "x mod 4096 = 0 \<longleftrightarrow> unat x mod 4096 = 0" for x :: usize
    by (simp add: word_unat_eq_iff unat_mod)
  have "unat (a + b) mod 4096 = (unat a + unat b) mod 4096"
    by (simp add: unat_word_ariths mod_mod_cancel)
  also have "\<dots> = (unat a mod 4096 + unat b mod 4096) mod 4096" by (simp only: mod_add_eq)
  also have "\<dots> = 0" using assms unfolding u by (simp only: add_0_left mod_0)
  finally show ?thesis unfolding u .
qed

lemma ends_set_ripas_loop:
  assumes "unat table_top + unat ms < 2 ^ 64 - 4096" and "unat table_top \<le> unat addr + n * unat ms"
    and "addr mod 4096 = 0" and "ms mod 4096 = 0"
  shows "ends (set_ripas_loop (Suc n) r tp ri fl level ms table_top addr)"
  using assms
proof (induction n arbitrary: addr rule: less_induct)
  case (less n)
  show ?case
  proof (cases "addr < table_top \<and> addr < tp")
    case True
    obtain k where k: "n = Suc k" "unat table_top \<le> unat (addr + ms) + k * unat ms"
      using loop_advance[of addr table_top ms n] True less.prems(1,2) by auto
    have lim: "addr < - 4096" using True less.prems(1) by (simp add: word_less_nat_alt)
    have ih: "ends (set_ripas_loop n r tp ri fl level ms table_top (addr + ms))"
      using less.IH[of k "addr + ms"] less.prems aligned_add[OF less.prems(3,4)] k by simp
    have "ends (s2_pte_set r addr l v iv)" for l v iv
      using lim less.prems(3) by (intro ends_s2_pte_set) simp
    then have "ends (case d of RBreak \<Rightarrow> return addr
        | RSkip \<Rightarrow> set_ripas_loop n r tp ri fl level ms table_top (addr + ms)
        | RWrite new add_pa inval \<Rightarrow>
            seq (s2_pte_set r addr l (if add_pa then new OR pa else new)
                  (if inval then TlbiLeaf (rd_id r) else TlbiNone))
              (set_ripas_loop n r tp ri fl level ms table_top (addr + ms)))" for d l pa
      using ih by (cases d) (auto intro: ends_rules)
    then show ?thesis
      unfolding set_ripas_loop.simps by (intro ends_rules ends_get_s2tte)
  next
    case False
    then show ?thesis by (auto simp: ends_basic)
  qed
qed

lemma ends_init_ripas_loop:
  assumes "unat ta + unat ms < 2 ^ 64" and "unat ta \<le> unat addr + n * unat ms"
  shows "ends (init_ripas_loop (Suc n) e rdp tp ms ta addr)"
  using assms
proof (induction n arbitrary: addr rule: less_induct)
  case (less n)
  show ?case
  proof (cases "addr < ta")
    case True
    obtain k where k: "n = Suc k" "unat ta \<le> unat (addr + ms) + k * unat ms"
      using loop_advance[of addr ta ms n] True less.prems(1,2) by auto
    have ih: "ends (init_ripas_loop n e rdp tp ms ta (addr + ms))"
      using less.IH[of k "addr + ms"] less.prems k by simp
    have "ends (case measure_ripas_granule e a b r of
      Inl err \<Rightarrow> throw err | Inr r' \<Rightarrow> modify (\<lambda>s. s\<lparr> rds := (rds s)(rdp := r') \<rparr>))" for a b r
      by (auto split: sum.split intro: ends_basic)
    with ih show ?thesis
      unfolding init_ripas_loop.simps Let_def
      by (intro ends_rules ends_get_s2tte ends_s2_pte_set) simp_all
  next
    case False
    then show ?thesis by (auto simp: ends_basic)
  qed
qed

lemma mapping_size_cases:
  "mapping_size level = Some ms \<Longrightarrow> ms \<in> {0x1000, 0x200000, 0x40000000, 0x8000000000}"
  by (auto simp: mapping_size_def s2tte_masks trailing_zeros_mask split: if_splits)

lemma space_size_bound:
  assumes "s2_supported (s2_root_level t) (s2_root_pages t)" and "space_size t level = Some ss"
  shows "unat ss \<le> 2 ^ 53"
proof -
  let ?c = "if level = s2_root_level t then s2_root_pages t else 1"
  have c: "?c \<in> {1, 2, 4, 8, 16}" using assms(1) by (auto simp: s2_supported_def split: if_splits)
  have "ss = 0x1000000000000 * ?c \<or> (\<exists>ms \<in> {0x1000, 0x200000, 0x40000000, 0x8000000000}. ss = ms * ?c)"
    using assms(2) mapping_size_cases[of "level - 1"]
    by (auto simp: space_size_def Let_def split: if_splits)
  then show ?thesis using c by auto
qed

lemma table_top_bound:
  fixes base ss m :: usize
  assumes "unat base < 2 ^ 48" and "unat ss \<le> 2 ^ 53"
  shows "unat ((base AND m) + ss) \<le> 2 ^ 48 + 2 ^ 53"
proof -
  have "base AND m \<le> base" by (simp add: word_and_le1 word_and_le2)
  then have "unat (base AND m) \<le> unat base" by (simp add: word_le_nat_alt)
  with assms show ?thesis by (simp add: unat_word_ariths)
qed

lemma get_s2tte_state: "get_s2tte r ipa level e s = (x, t) \<Longrightarrow> t = s"
  by (auto simp: get_s2tte_def s2_table_def run ipa_to_pte_def Let_def
      split: option.splits outcome.splits prod.splits)

lemma aligned_mapping: "ms \<in> {0x1000, 0x200000, 0x40000000, 0x8000000000} \<Longrightarrow> ms mod 4096 = (0 :: usize)"
  by auto

lemma masked_aligned:
  assumes "ms \<in> {0x1000, 0x200000, 0x40000000, 0x8000000000 :: usize}" and "base AND NOT (ms - 1) = base"
  shows "base mod 4096 = 0"
proof -
  have "\<not> bit base n" if "n < 12" for n
  proof -
    have "ms - 1 \<in> {mask 12, mask 21, mask 30, mask 39}"
      using assms(1) by (auto simp: mask_eq_exp_minus_1)
    then have "bit (ms - 1) n" using that by (auto simp: bit_mask_iff)
    then have "\<not> bit (base AND NOT (ms - 1)) n" by (simp add: bit_and_iff bit_not_iff)
    then show ?thesis using assms(2) by simp
  qed
  then have "take_bit 12 base = 0" by (intro bit_word_eqI) (simp add: bit_take_bit_iff)
  then show ?thesis by (simp add: take_bit_eq_mod)
qed

text \<open>
  The loops of \<open>set_ripas\<close> and \<open>init_ripas\<close> end on every supported table, whatever its
  entries hold.
\<close>

lemma set_ripas_no_hang:
  assumes "rtt_tables s (rd_id r) = Some t" and "s2_supported (s2_root_level t) (s2_root_pages t)"
    and "unat base < 2 ^ 48"
  shows "fst (set_ripas r base tp ri fl s) \<noteq> Hang"
proof -
  have "fst (set_ripas_loop (loop_fuel ms ((base AND NOT (ss - 1)) + ss) base) r tp ri fl level ms
      ((base AND NOT (ss - 1)) + ss) base s) \<noteq> Hang"
    if ms: "mapping_size level = Some ms" and al: "base AND NOT (ms - 1) = base"
      and ss: "space_size t level = Some ss" for level ms ss
  proof -
    note ms' = mapping_size_cases[OF ms]
    have p: "0 < unat ms" "unat ms \<le> 2 ^ 39" using ms' by auto
    have tt: "unat ((base AND NOT (ss - 1)) + ss) \<le> 2 ^ 48 + 2 ^ 53"
      by (rule table_top_bound[OF assms(3) space_size_bound[OF assms(2) ss]])
    show ?thesis
      unfolding loop_fuel_def
      using ends_set_ripas_loop[OF _ fuel_enough[OF p(1)] masked_aligned[OF ms' al]
          aligned_mapping[OF ms'], of "(base AND NOT (ss - 1)) + ss" r tp ri fl level] tt p
      by (simp add: ends_def)
  qed
  then have loop: "set_ripas_loop (loop_fuel ms ((base AND NOT (ss - 1)) + ss) base) r tp ri fl level ms
      ((base AND NOT (ss - 1)) + ss) base s \<noteq> (Hang, u)"
    if "mapping_size level = Some ms" "base AND NOT (ms - 1) = base" "space_size t level = Some ss"
    for level ms ss u
    using that by (metis fst_conv)
  show ?thesis
  proof (cases "get_s2tte r base 3 (RmiErrorRtt 3) s")
    case (Pair x u)
    then have u: "u = s" by (rule get_s2tte_state)
    have "x \<noteq> Hang" using ends_get_s2tte[of r base 3 "RmiErrorRtt 3"] Pair by (auto simp: ends_def dest: spec[of _ s])
    then show ?thesis
      using Pair[unfolded u] assms(1) loop
      by (cases x) (auto simp: set_ripas_def level_space_size_def s2_table_def run Let_def
          split: prod.split outcome.split option.split)
  qed
qed

section \<open>The RIPAS loop returns\<close>

definition has_table :: "rd \<Rightarrow> s2table \<Rightarrow> rmm \<Rightarrow> bool" where
  "has_table r t s \<longleftrightarrow> (\<exists>b. rtt_tables s (rd_id r) = Some (t\<lparr> s2_dirty := b \<rparr>))"

lemma has_tableI: "rtt_tables s (rd_id r) = Some t \<Longrightarrow> has_table r t s"
  unfolding has_table_def by (rule exI[of _ "s2_dirty t"]) simp

lemma has_table_written: "has_table r t s \<Longrightarrow> has_table r t (s2_written rid loc v ipa level iv s)"
  unfolding has_table_def using s2_written_table by fastforce

lemma s2_covers_dirty [simp]: "s2_covers (t\<lparr> s2_dirty := b \<rparr>) g = s2_covers t g"
  by (simp add: s2_covers_def)

lemma has_table_get:
  assumes "has_table r t s" and "s2_covers t ipa" and "level \<le> 3"
  shows "\<exists>x l. get_s2tte r ipa level e s = (Ok (x, l), s) \<and> s2_root_level t \<le> l \<and> l \<le> 3"
proof -
  obtain b where b: "rtt_tables s (rd_id r) = Some (t\<lparr> s2_dirty := b \<rparr>)"
    using assms(1) by (auto simp: has_table_def)
  show ?thesis
    using s2_slot_total[of "t\<lparr> s2_dirty := b \<rparr>" ipa level s] assms(2,3) get_s2tte_run[OF b] by fastforce
qed

lemma has_table_set:
  assumes "has_table r t s" and "s2_covers t ipa" and "level \<le> 3" and "ipa mod 4096 = 0" and "ipa < - 4096"
  shows "\<exists>u. s2_pte_set r ipa level v iv s = (Ok (), u) \<and> has_table r t u"
proof -
  obtain b where b: "rtt_tables s (rd_id r) = Some (t\<lparr> s2_dirty := b \<rparr>)"
    using assms(1) by (auto simp: has_table_def)
  obtain loc l where "s2_slot (t\<lparr> s2_dirty := b \<rparr>) s ipa level = Some (loc, l)"
    using s2_slot_total[of "t\<lparr> s2_dirty := b \<rparr>" ipa level s] assms(2,3) by auto
  from s2_pte_set_run[OF b this assms(4,5)] show ?thesis using has_table_written[OF assms(1)] by blast
qed

lemma addr_as_block_level: "1 \<le> l \<Longrightarrow> l \<le> 3 \<Longrightarrow> \<exists>pa. addr_as_block x l = Some pa"
proof -
  assume "1 \<le> l" "l \<le> 3"
  then have "unat l \<in> {1, 2, 3}" by (auto simp: word_le_nat_alt)
  then have "l \<in> {1, 2, 3}" by (auto simp: word_unat_eq_iff)
  then show ?thesis by (auto simp: addr_as_block_def)
qed

lemma ripas_decide_total: "ri \<le> 1 \<Longrightarrow> \<exists>d. ripas_decide x (ucast (ri :: u8)) fl level = Some d"
proof -
  assume "ri \<le> 1"
  then have "unat ri = 0 \<or> unat ri = 1" by (auto simp: word_le_nat_alt)
  then have "ri = 0 \<or> ri = 1" by (auto simp: word_unat_eq_iff)
  then show ?thesis by (auto simp: ripas_decide_def Let_def)
qed

text \<open>Alignment to the size of a mapping, and a step of it that stays below an aligned bound.\<close>

lemma mask_aligned:
  assumes "ms \<in> {0x1000, 0x200000, 0x40000000, 0x8000000000 :: usize}"
  shows "a AND NOT (ms - 1) = a \<longleftrightarrow> unat ms dvd unat a"
proof -
  obtain k where k: "ms - 1 = mask k" "ms = 2 ^ k" "unat ms = 2 ^ k" "k < 64"
  proof -
    have "\<exists>k \<in> {12, 21, 30, 39}. ms = 2 ^ k" using assms by auto
    then obtain k where "k \<in> {12, 21, 30, 39}" "ms = 2 ^ k" by blast
    then show ?thesis by (intro that[of k]) (auto simp: mask_eq_exp_minus_1)
  qed
  have "a AND NOT (mask k) = a \<longleftrightarrow> (\<forall>n. bit a n \<longrightarrow> \<not> n < k)"
    by (simp add: bit_eq_iff[of "a AND NOT (mask k)"] bit_and_iff bit_not_iff bit_mask_iff)
      (use k(4) less_trans in blast)
  also have "\<dots> \<longleftrightarrow> take_bit k a = 0"
    by (simp add: bit_eq_iff[of "take_bit k a"] bit_take_bit_iff) (use k(4) less_trans in blast)
  also have "\<dots> \<longleftrightarrow> 2 ^ k dvd unat a"
    using k(4) by (simp add: word_unat_eq_iff unsigned_take_bit_eq take_bit_eq_0_iff)
  finally show ?thesis using k by simp
qed

lemma aligned_step:
  fixes a tp ms :: usize
  assumes "a < tp" and "unat ms dvd unat a" and "unat ms dvd unat tp" and "unat a + unat ms < 2 ^ 64"
  shows "a + ms \<le> tp" and "unat ms dvd unat (a + ms)"
proof -
  have u: "unat (a + ms) = unat a + unat ms" using assms(4) by (simp add: unat_word_ariths)
  then show "unat ms dvd unat (a + ms)" using assms(2) by simp
  obtain i j where "unat a = unat ms * i" "unat tp = unat ms * j" using assms(2,3) by (auto simp: dvd_def)
  moreover have "unat a < unat tp" using assms(1) by (simp add: word_less_nat_alt)
  ultimately have "i < j" by (metis mult_less_cancel1)
  then have "unat ms * Suc i \<le> unat ms * j" by (intro mult_le_mono2) simp
  then show "a + ms \<le> tp"
    using u \<open>unat a = _\<close> \<open>unat tp = _\<close> by (simp add: word_le_nat_alt)
qed

lemma set_ripas_iteration:
  assumes "has_table r t s" and "1 \<le> s2_root_level t" and "s2_covers t addr" and "ri \<le> 1"
    and "addr mod 4096 = 0" and "addr < - 4096"
  shows "\<exists>v. has_table r t v
    \<and> (set_ripas_loop (Suc n) r tp ri fl level ms table_top addr s = (Ok addr, s)
       \<or> set_ripas_loop (Suc n) r tp ri fl level ms table_top addr s
         = set_ripas_loop n r tp ri fl level ms table_top (addr + ms) v)"
proof -
  obtain x l where g: "get_s2tte r addr 3 (RmiErrorRtt level) s = (Ok (x, l), s)"
      "s2_root_level t \<le> l" "l \<le> 3"
    using has_table_get[OF assms(1,3), of 3 "RmiErrorRtt level"] by auto
  obtain pa where pa: "addr_as_block x l = Some pa"
    using addr_as_block_level[OF order_trans[OF assms(2) g(2)] g(3)] by blast
  obtain d where d: "ripas_decide x (ucast ri) fl l = Some d"
    using ripas_decide_total[OF assms(4)] by blast
  note step = g(1) pa d run
  show ?thesis
  proof (cases d)
    case (RWrite new ap inv)
    obtain v where v: "s2_pte_set r addr l (if ap then new OR pa else new)
        (if inv then TlbiLeaf (rd_id r) else TlbiNone) s = (Ok (), v)" "has_table r t v"
      using has_table_set[OF assms(1,3) g(3) assms(5,6)] by blast
    then show ?thesis by (intro exI[of _ v]) (simp add: step RWrite)
  qed (intro exI[of _ s]; simp add: step assms(1))+
qed

lemma set_ripas_loop_returns:
  assumes "has_table r t s" and "1 \<le> s2_root_level t" and "\<forall>x < tp. s2_covers t x" and "ri \<le> 1"
    and "unat table_top + unat ms < 2 ^ 64 - 4096" and "unat table_top \<le> unat addr + n * unat ms"
    and "ms \<in> {0x1000, 0x200000, 0x40000000, 0x8000000000}" and "unat ms dvd unat addr"
    and "unat ms dvd unat tp"
  shows "\<exists>a u. set_ripas_loop (Suc n) r tp ri fl level ms table_top addr s = (Ok a, u)
    \<and> (a = addr \<or> addr < a \<and> a \<le> tp)"
  using assms(1,6,8)
proof (induction n arbitrary: addr s rule: less_induct)
  case (less n)
  show ?case
  proof (cases "addr < table_top \<and> addr < tp")
    case False
    then show ?thesis by (auto simp: run)
  next
    case True
    obtain k where k: "n = Suc k" "unat table_top \<le> unat (addr + ms) + k * unat ms"
      and u: "unat (addr + ms) = unat addr + unat ms"
      using loop_advance[of addr table_top ms n] True assms(5) less.prems(2) by auto
    have nx: "addr + ms \<le> tp" "unat ms dvd unat (addr + ms)"
      using aligned_step[OF _ less.prems(3) assms(9)] True assms(5)
      by (simp_all add: word_less_nat_alt)
    have up: "addr < addr + ms" using u assms(7) by (auto simp: word_less_nat_alt)
    have ih: "\<exists>a w. set_ripas_loop n r tp ri fl level ms table_top (addr + ms) v = (Ok a, w)
        \<and> addr < a \<and> a \<le> tp" if "has_table r t v" for v
      using less.IH[of k v "addr + ms"] that k nx up by force
    have "addr mod 4096 = 0" "addr < - 4096"
      using less.prems(3) masked_aligned[OF assms(7)] mask_aligned[OF assms(7)] True assms(5)
      by (simp_all add: word_less_nat_alt)
    from set_ripas_iteration[OF less.prems(1) assms(2) _ assms(4) this, of n tp fl level ms table_top]
    show ?thesis using True assms(3) ih by (metis (no_types, lifting))
  qed
qed

lemma set_ripas_returns:
  assumes "rtt_tables s (rd_id r) = Some t" and "1 \<le> s2_root_level t" and "s2_covers t base"
    and "\<forall>x < tp. s2_covers t x" and "unat base < 2 ^ 48" and "ri \<le> 1"
  shows "(\<exists>a u. set_ripas r base tp ri fl s = (Ok a, u) \<and> base < a \<and> a \<le> tp)
    \<or> (\<exists>l u. set_ripas r base tp ri fl s = (Err (RmiErrorRtt l), u))"
proof -
  obtain x l where g: "get_s2tte r base 3 (RmiErrorRtt 3) s = (Ok (x, l), s)" "l \<le> 3"
    using has_table_get[OF has_tableI[OF assms(1)] assms(3), of 3 "RmiErrorRtt 3"] by auto
  have "unat l \<in> {0, 1, 2, 3}" using g(2) by (auto simp: word_le_nat_alt)
  then have l: "l \<in> {0, 1, 2, 3}" by (auto simp: word_unat_eq_iff)
  obtain ms where ms: "mapping_size l = Some ms" using l by (auto simp: mapping_size_def)
  obtain ss where ss: "space_size t l = Some ss"
    using l by (auto simp: space_size_def mapping_size_def Let_def)
  note ms' = mapping_size_cases[OF ms]
  let ?top = "(base AND NOT (ss - 1)) + ss"
  have bounds: "0 < unat ms" "unat ?top + unat ms < 2 ^ 64 - 4096"
    using ms' table_top_bound[OF assms(5), of ss "NOT (ss - 1)"] space_size_bound[OF _ ss] assms(3)
    by (auto simp: s2_covers_def)
  have "\<exists>a u. set_ripas_loop (loop_fuel ms ?top base) r tp ri fl l ms ?top base s = (Ok a, u)
      \<and> (a = base \<or> base < a \<and> a \<le> tp)"
    if "base AND NOT (ms - 1) = base" "tp AND NOT (ms - 1) = tp"
    unfolding loop_fuel_def
    using set_ripas_loop_returns[OF has_tableI[OF assms(1)] assms(2,4,6) bounds(2)
        fuel_enough[OF bounds(1)] ms'] that mask_aligned[OF ms']
    by blast
  then show ?thesis
    using g(1) ms ss assms(1)
    by (auto simp: set_ripas_def level_space_size_def s2_table_def run Let_def)
qed

section \<open>Mapping and unmapping a page of data\<close>

lemma page_aligned: "base mod 4096 = 0 \<Longrightarrow> base AND NOT (0x1000 - 1) = (base :: usize)"
  by (subst mask_aligned) (auto simp: aligned_unat mod_eq_0_iff_dvd)

lemma mapping_size_page [simp]: "mapping_size 3 = Some 0x1000"
  by (simp add: mapping_size_def s2tte_masks trailing_zeros_mask)

lemma skip_page_total:
  assumes "has_table r t s" and "s2_covers t base" and "base mod 4096 = 0"
  shows "\<exists>top. skip_non_live_entries r base 3 s = (Ok top, s)"
proof -
  obtain b where b: "rtt_tables s (rd_id r) = Some (t\<lparr> s2_dirty := b \<rparr>)"
    using assms(1) by (auto simp: has_table_def)
  let ?t = "t\<lparr> s2_dirty := b \<rparr>"
  have cov: "s2_covers ?t base" using assms(2) by simp
  obtain ss where ss: "space_size ?t 3 = Some ss"
    by (auto simp: space_size_def mapping_size_def Let_def)
  obtain es l where "s2_entries (s2_depth ?t) (mem s) (unat (s2_root_pages ?t)) (s2_base ?t)
      (align_down base 4096) 3 = Ok (es, l)"
    using s2_entries_total[OF s2_root_index(1)[OF cov], of 3 "mem s" "s2_base ?t"]
    by (auto simp: s2_depth_def)
  then show ?thesis
    using b ss page_aligned[OF assms(3)]
    by (simp add: skip_non_live_entries_def level_space_size_def s2_table_def run s2_table_entries_def Let_def)
qed

lemma page_frame_ripas: "page_frame pa \<Longrightarrow> pa AND define_mask 6 5 = 0"
  by (rule word_eq_by_bits) (auto simp: bit_and_iff bit_define_mask dest: page_frame_bit)

lemma data_tte_not_ram:
  assumes "page_frame pa" and "ri \<noteq> RIPAS_RAM" and "ri \<le> 2"
  shows "\<not> is_assigned_ram (data_tte pa True ri) 3"
    and "get_masked_value (data_tte pa True ri) S2TTE_INVALID_RIPAS = ri"
    and "get_masked (data_tte pa True ri) S2TTE_INVALID_RIPAS = bits_in_reg S2TTE_INVALID_RIPAS ri"
proof -
  have ri: "ri = 0 \<or> ri = 2" using ripas_cases[OF assms(3)] assms(2) by auto
  show "\<not> is_assigned_ram (data_tte pa True ri) 3"
    and "get_masked_value (data_tte pa True ri) S2TTE_INVALID_RIPAS = ri"
    using ri assms(1) by (auto simp: data_tte_eq is_assigned_ram_iff tte_eval)
  have "data_tte pa True ri AND define_mask 6 5 = bits_in_reg (define_mask 6 5) ri"
    using ri page_frame_ripas[OF assms(1)]
    by (auto simp: data_tte_eq bits_in_reg_eq bit.conj_disj_distrib2) (simp_all add: define_mask_def)
  then show "get_masked (data_tte pa True ri) S2TTE_INVALID_RIPAS = bits_in_reg S2TTE_INVALID_RIPAS ri"
    by (simp add: get_masked_def s2tte_masks)
qed

lemma unassigned_tte:
  assumes "ri \<le> 2"
  shows "is_unassigned (bits_in_reg S2TTE_INVALID_HIPAS HIPAS_UNASSIGNED OR bits_in_reg S2TTE_INVALID_RIPAS ri)"
    and "get_ripas (bits_in_reg S2TTE_INVALID_HIPAS HIPAS_UNASSIGNED OR bits_in_reg S2TTE_INVALID_RIPAS ri) = ri"
proof -
  have eq: "bits_in_reg S2TTE_INVALID_HIPAS HIPAS_UNASSIGNED OR bits_in_reg S2TTE_INVALID_RIPAS ri = 0x20 * ri"
    using ripas_cases[OF assms] by (auto simp: tte_consts simp del: One_nat_def)
  have "is_unassigned (0x20 * ri) \<and> get_ripas (0x20 * ri) = ri"
    using ripas_cases[OF assms] by (auto simp: is_unassigned_def get_ripas_def tte_eval)
  then show "is_unassigned (bits_in_reg S2TTE_INVALID_HIPAS HIPAS_UNASSIGNED OR bits_in_reg S2TTE_INVALID_RIPAS ri)"
    and "get_ripas (bits_in_reg S2TTE_INVALID_HIPAS HIPAS_UNASSIGNED OR bits_in_reg S2TTE_INVALID_RIPAS ri) = ri"
    unfolding eq by simp_all
qed

lemma data_create_at:
  assumes "s2_at r s ipa 3 loc 3" and "is_unassigned (mem s loc)"
  shows "data_create r ipa pa unknown s
    = (Ok (), s2_written (rd_id r) loc (data_tte pa unknown (get_ripas (mem s loc))) ipa 3 TlbiNone s)"
  using assms s2_pte_set_at[OF assms(1)]
  by (simp add: data_create_def run get_s2tte_at is_invalid_ripas_def is_unassigned_def)

lemma data_destroy_at:
  assumes "s2_at r s ipa 3 loc 3" and "has_table r t s" and "s2_covers t ipa"
    and "is_valid_tte (mem s loc) 3 False \<or> is_assigned (mem s loc)"
  shows "\<exists>top. data_destroy r ipa f s = (Ok (get_masked (mem s loc) S2TTE_ADDR_BLK_L3, top),
    s2_written (rd_id r) loc
      (bits_in_reg S2TTE_INVALID_HIPAS HIPAS_UNASSIGNED
       OR (if is_assigned_ram (mem s loc) 3 then bits_in_reg S2TTE_INVALID_RIPAS RIPAS_DESTROYED
           else get_masked (mem s loc) S2TTE_INVALID_RIPAS)) ipa 3
      (if is_assigned_ram (mem s loc) 3 then TlbiLeaf (rd_id r) else TlbiNone) s)"
proof -
  have al: "ipa mod 4096 = 0" using assms(1) by (auto elim: s2_atE)
  have skip: "\<exists>top. skip_non_live_entries r ipa 3 (s2_written (rd_id r) loc v ipa 3 iv s)
      = (Ok top, s2_written (rd_id r) loc v ipa 3 iv s)" for v iv
    by (rule skip_page_total[OF has_table_written[OF assms(2)] assms(3) al])
  show ?thesis
  proof (cases "is_assigned_ram (mem s loc) 3")
    case True
    then show ?thesis
      using skip[of "bits_in_reg S2TTE_INVALID_HIPAS HIPAS_UNASSIGNED
          OR bits_in_reg S2TTE_INVALID_RIPAS RIPAS_DESTROYED" "TlbiLeaf (rd_id r)"] assms(4)
      by (auto simp: data_destroy_def run get_s2tte_at[OF assms(1)] s2_pte_set_at[OF assms(1)]
          addr_as_block_def Let_def)
  next
    case False
    then show ?thesis
      using skip[of "bits_in_reg S2TTE_INVALID_HIPAS HIPAS_UNASSIGNED
          OR get_masked (mem s loc) S2TTE_INVALID_RIPAS" TlbiNone] assms(4)
      by (auto simp: data_destroy_def run get_s2tte_at[OF assms(1)] s2_pte_set_at[OF assms(1)]
          addr_as_block_def Let_def)
  qed
qed

section \<open>Splitting a block\<close>

lemma bit_of_nat_less:
  assumes "i < 512" and "bit (of_nat i :: u64) n"
  shows "n < 9"
proof -
  have "take_bit 9 i = i" using assms(1) by (simp add: take_bit_nat_eq_self)
  moreover have "bit i n" using assms(2) by (simp add: bit_of_nat_iff)
  ultimately show ?thesis using bit_take_bit_iff[of 9 i n] by simp
qed

lemma block_page:
  assumes "i < 512" and "pa = get_masked x S2TTE_ADDR_BLK_L2"
  shows "page_frame (pa + of_nat i * 0x1000)"
proof -
  have pa: "bit pa n \<Longrightarrow> 21 \<le> n \<and> n \<le> 47" for n
    by (simp add: assms(2) get_masked_def s2tte_masks bit_and_iff bit_define_mask)
  have i: "bit (push_bit 12 (of_nat i :: u64)) n \<Longrightarrow> 12 \<le> n \<and> n < 21" for n
    using bit_of_nat_less[OF assms(1), of "n - 12"] by (auto simp: bit_push_bit_iff)
  have "pa AND push_bit 12 (of_nat i) = 0"
    by (rule word_eq_by_bits) (use pa i in \<open>fastforce simp: bit_and_iff\<close>)
  then have "pa + push_bit 12 (of_nat i) = pa OR push_bit 12 (of_nat i)"
    using word_plus_and_or[of pa "push_bit 12 (of_nat i)"] by simp
  moreover have "push_bit 12 (of_nat i) = of_nat i * (0x1000 :: u64)" by (simp add: push_bit_eq_mult)
  moreover have "page_frame (pa OR push_bit 12 (of_nat i))"
    unfolding page_frame_def get_masked_def s2tte_masks
    by (rule word_eq_by_bits) (use pa i in \<open>fastforce simp: bit_and_iff bit_or_iff bit_define_mask\<close>)
  ultimately show ?thesis by simp
qed

lemma split_page:
  assumes "page_frame p"
    and "x = p OR (p OR (get_masked y (S2TTE_INVALID_HIPAS OR S2TTE_INVALID_RIPAS) OR block_or_page 3))"
  shows "is_assigned_ram x 3" and "addr_as_block x 3 = Some p" and "get_masked_value x S2TTE_AF = 0"
proof -
  let ?g = "get_masked y (S2TTE_INVALID_HIPAS OR S2TTE_INVALID_RIPAS)"
  have g: "bit ?g n \<Longrightarrow> 2 \<le> n \<and> n < 7" for n
    by (auto simp: get_masked_def s2tte_masks bit_and_iff bit_or_iff bit_define_mask)
  have three: "bit (3 :: u64) n \<longleftrightarrow> n < 2" for n
    using bit_mask_iff[of 2 n, where ?'a = "64 word"] by (auto simp: mask_eq_exp_minus_1)
  have x: "x = p OR (?g OR 3)"
    using assms(2) by (simp add: block_or_page_def tte_consts(1) or.left_commute)
  have f: "get_masked_value (?g OR 3) (define_mask e b) = 0" if "7 \<le> b" "b \<le> e" "e < 64" for e b
  proof (rule word_eq_by_bits)
    fix n
    have "\<not> bit (3 :: u64) (b + n)" unfolding three using that by simp
    moreover have "\<not> bit ?g (b + n)" using g[of "b + n"] that by auto
    ultimately show "bit (get_masked_value (?g OR 3) (define_mask e b)) n = bit (0 :: u64) n"
      using that by (simp add: bit_get_masked_value bit_or_iff)
  qed
  have "get_masked_value ?g (define_mask (Suc 0) 0) = 0"
    by (rule word_eq_by_bits) (use g in \<open>fastforce simp: bit_get_masked_value\<close>)
  then show "is_assigned_ram x 3" and "get_masked_value x S2TTE_AF = 0"
    using assms(1) f unfolding x
    by (simp_all add: is_assigned_ram_iff s2tte_masks get_masked_value_or page_frame_field get_low_numeral
        get_masked_value_or[of ?g 3])
  have "?g AND define_mask 47 12 = 0"
    by (rule word_eq_by_bits) (use g in \<open>fastforce simp: bit_and_iff bit_define_mask\<close>)
  then have "(?g OR 3) AND define_mask 47 12 = 0"
    by (simp add: bit.conj_disj_distrib2 mask_numerals)
  then show "addr_as_block x 3 = Some p"
    using assms(1) unfolding x
    by (simp add: addr_as_block_def get_masked_def page_frame_def s2tte_masks bit.conj_disj_distrib2)
qed

text \<open>Moving an entry's position to a memory that agrees on the way to it.\<close>

lemma s2_at_cong:
  assumes "s2_at r s ipa level loc l" and "rtt_tables s' (rd_id r) = rtt_tables s (rd_id r)"
    and "\<And>t a. rtt_tables s (rd_id r) = Some t \<Longrightarrow> a \<in> insert loc (set (s2_parents t s ipa level)) \<Longrightarrow>
      mem s' a = mem s a"
    and "\<not> (l < level \<and> s2e_points_to_table_or_page (mem s loc))"
  shows "s2_at r s' ipa level loc l"
proof -
  from assms(1) obtain t where t: "rtt_tables s (rd_id r) = Some t" "s2_slot t s ipa level = Some (loc, l)"
    "loc \<notin> set (s2_parents t s ipa level)" "ipa mod 4096 = 0" "ipa < - 4096"
    by (rule s2_atE)
  have same: "\<forall>a \<in> set (s2_parents t s ipa level). mem s' a = mem s a" "mem s' loc = mem s loc"
    using assms(3)[OF t(1)] by auto
  have "s2_slot t s' ipa level = Some (loc, l)" "s2_parents t s' ipa level = s2_parents t s ipa level"
    using s2_slot_cong[OF t(2) same(1)] s2_parents_cong[OF t(2) same(1)] assms(4) same(2) by auto
  then show ?thesis using assms(2) t by (simp add: s2_at_def)
qed

definition new_table :: "usize \<Rightarrow> u64 \<Rightarrow> usize \<Rightarrow> usize \<Rightarrow> rmm \<Rightarrow> rmm" where
  "new_table rtt_addr flags pa map_size s = s\<lparr> mem := (\<lambda>a.
     let off = a - rtt_addr; p = pa + (off div 8) * map_size
     in if off < 4096 \<and> off mod 8 = 0 then s2e_set p (p OR flags) else mem s a) \<rparr>"

lemma create_pgtbl_run:
  "rtt_addr \<noteq> 0 \<Longrightarrow> create_pgtbl_at rtt_addr flags pa ms s = (Ok (), new_table rtt_addr flags pa ms s)"
  by (simp add: create_pgtbl_at_def new_table_def run)

lemma new_table_entry:
  assumes "i < 512"
  shows "mem (new_table rtt_addr flags pa ms s) (entry_at rtt_addr i)
    = (pa + of_nat i * ms) OR ((pa + of_nat i * ms) OR flags)"
proof -
  have u: "unat (8 * of_nat i :: u64) = 8 * i" using assms by (simp add: unat_word_ariths unat_of_nat)
  then have "8 * of_nat i < (4096 :: u64)" "8 * of_nat i mod 8 = (0 :: u64)"
      "8 * of_nat i div 8 = (of_nat i :: u64)"
    using assms by (simp_all add: word_less_nat_alt word_unat_eq_iff unat_mod unat_div unat_of_nat)
  then show ?thesis by (simp add: new_table_def entry_at_def s2e_set_def Let_def)
qed

lemma new_table_other: "\<not> a - rtt_addr < 4096 \<Longrightarrow> mem (new_table rtt_addr flags pa ms s) a = mem s a"
  by (simp add: new_table_def Let_def)

text \<open>A page apart from an entry and from the tables' entries on the way to it.\<close>

definition apart :: "rd \<Rightarrow> rmm \<Rightarrow> usize \<Rightarrow> usize \<Rightarrow> usize \<Rightarrow> usize \<Rightarrow> bool" where
  "apart r s ipa level loc page \<longleftrightarrow> (\<forall>t. rtt_tables s (rd_id r) = Some t \<longrightarrow>
     (\<forall>a \<in> insert loc (set (s2_parents t s ipa level)). \<not> a - page < 4096))"

lemma rtt_create_ram:
  assumes at: "s2_at r s ipa 2 loc 2" and ram: "is_assigned_ram (mem s loc) 2" and "rtt_addr \<noteq> 0"
    and far: "apart r s ipa 2 loc rtt_addr"
  shows "rtt_create r rtt_addr ipa 3 s
    = (Ok (), s2_written (rd_id r) loc (rtt_addr OR bits_in_reg S2TTE_DESC_TYPE L012_TABLE) ipa 2
        (TlbiLeaf (rd_id r))
        (new_table rtt_addr (get_masked (mem s loc) (S2TTE_INVALID_HIPAS OR S2TTE_INVALID_RIPAS)
           OR block_or_page 3) (get_masked (mem s loc) S2TTE_ADDR_BLK_L2) 0x1000 s))"
proof -
  have at': "s2_at r (new_table rtt_addr fl pa ms s) ipa 2 loc 2" for fl pa ms
    by (rule s2_at_cong[OF at]) (use far new_table_other in \<open>auto simp: new_table_def apart_def\<close>)
  have "\<not> is_unassigned (mem s loc)" "\<not> is_assigned (mem s loc)" "\<not> is_table (mem s loc) 2"
    using ram by (auto simp: tte_predicates)
  then show ?thesis
    using ram assms(3)
    by (simp add: rtt_create_def run get_s2tte_at[OF at] s2_pte_set_at[OF at'] create_pgtbl_run
        addr_as_block_def)
qed

section \<open>Folding a table\<close>

lemma get_masked_0: "b \<le> e \<Longrightarrow> e < 64 \<Longrightarrow> get_masked_value x (define_mask e b) = 0 \<Longrightarrow> get_masked x (define_mask e b) = 0"
proof (rule word_eq_by_bits)
  fix n
  assume b: "b \<le> e" "e < 64" and "get_masked_value x (define_mask e b) = 0"
  then have "\<not> bit (get_masked_value x (define_mask e b)) (n - b)" by simp
  then show "bit (get_masked x (define_mask e b)) n = bit (0 :: u64) n"
    using b by (auto simp: bit_get_masked_value get_masked_def bit_and_iff bit_define_mask)
qed

lemma fold_tte_ram:
  assumes "is_assigned_ram x 3" and "addr_as_block x 3 = Some pa" and "pa AND NOT S2TTE_ADDR_BLK_L2 = 0"
  shows "\<exists>y. fold_tte r ipa 3 x = Some y \<and> is_assigned_ram y 2 \<and> addr_as_block y 2 = Some pa
    \<and> get_masked_value y S2TTE_S2AP = get_masked_value x S2TTE_S2AP
    \<and> get_masked_value y S2TTE_AF = 0"
proof -
  let ?f = "get_masked x (S2TTE_MEMATTR OR S2TTE_S2AP OR S2TTE_SH)"
  let ?y = "pa OR (?f OR 1)"
  have ns: "get_masked x S2TTE_NS = 0"
    using assms(1) get_masked_0[of 55 55 x] by (simp add: is_assigned_ram_iff s2tte_masks)
  have f: "bit ?f n \<Longrightarrow> 2 \<le> n \<and> n \<le> 9" for n
    by (auto simp: get_masked_def s2tte_masks bit_and_iff bit_or_iff bit_define_mask)
  have pa: "bit pa n \<Longrightarrow> 21 \<le> n \<and> n \<le> 47" for n
  proof -
    assume "bit pa n"
    moreover from this have "\<not> bit (NOT S2TTE_ADDR_BLK_L2) n"
      using assms(3) bit_and_iff[of pa "NOT S2TTE_ADDR_BLK_L2" n] by simp
    ultimately show ?thesis
      by (auto simp: bit_not_iff s2tte_masks bit_define_mask dest: bit_imp_le_length)
  qed
  have get: "get_masked_value ?y (define_mask e b) = get_masked_value (?f OR 1) (define_mask e b)"
    if "b \<le> e" "e < 12 \<or> 48 \<le> b" "e < 64" for e b
    by (rule word_eq_by_bits) (use that pa in \<open>fastforce simp: bit_get_masked_value bit_or_iff\<close>)
  have high: "get_masked_value (?f OR 1) (define_mask e b) = 0" if "10 \<le> b" "b \<le> e" "e < 64" for e b
    by (rule word_eq_by_bits) (use that f in \<open>fastforce simp: bit_get_masked_value bit_or_iff bit_1_iff\<close>)
  have low: "get_masked_value (?f OR 1) (define_mask (Suc 0) 0) = 1"
    by (rule word_eq_by_bits) (use f in \<open>fastforce simp: bit_get_masked_value bit_or_iff bit_1_iff\<close>)
  have ap: "get_masked_value (?f OR 1) (define_mask 7 6) = get_masked_value x (define_mask 7 6)"
    by (rule word_eq_by_bits)
      (auto simp: bit_get_masked_value bit_or_iff bit_1_iff get_masked_def bit_and_iff s2tte_masks bit_define_mask)
  have "?y AND define_mask 47 21 = pa"
    by (rule word_eq_by_bits) (use f pa in \<open>fastforce simp: bit_and_iff bit_or_iff bit_1_iff bit_define_mask\<close>)
  moreover have "fold_tte r ipa 3 x = Some ?y"
    using assms(1,2) ns by (simp add: fold_tte_def Let_def or.assoc)
  ultimately show ?thesis
    using low high[of 10 10] high[of 55 55] ap get[of 0 "Suc 0"] get[of 6 7] get[of 10 10] get[of 55 55]
    by (simp add: is_assigned_ram_iff addr_as_block_def s2tte_masks get_masked_def)
qed

lemma level_mask_block [simp]: "level_mask 2 = Some S2TTE_ADDR_BLK_L2"
  by (simp add: level_mask_def)

lemma rtt_fold_run:
  assumes at: "s2_at r s ipa 3 loc' 3" "s2_at r s ipa 2 loc 2" and tbl: "is_table (mem s loc) 2"
    and t: "rtt_tables s (rd_id r) = Some t"
    and rtt: "rtt = get_masked (mem s loc) S2TTE_ADDR_TBL_OR_PAGE" "validate_addr rtt"
      "gidx rtt \<notin> set (held s)" "g_state (gst s (gidx rtt)) = GS_RTT"
    and es: "s2_table_entries t ipa 3 (s\<lparr> held := gidx rtt # held s \<rparr>)
      = (Ok (es, l), s\<lparr> held := gidx rtt # held s \<rparr>)"
      "is_homogeneous es 3 = Some True" "fold_tte r ipa 3 (mem s loc') = Some y"
    and far: "page_base loc \<noteq> rtt"
  shows "\<exists>u. rtt_fold r ipa 3 s = (Ok rtt, u) \<and> mem u loc = y
    \<and> g_state (gst u (gidx rtt)) = Delegated \<and> held u = held s"
proof -
  have "s2_at r (s\<lparr> held := h \<rparr>) ipa 2 loc 2" for h
    using at(2) by (auto simp: s2_at_def s2_slot_def s2_parents_def split: option.splits)
  note at' = s2_pte_set_at[OF this]
  show ?thesis
    using tbl t rtt es far gaddr_gidx[OF rtt(2)]
    by (simp add: rtt_fold_def run get_s2tte_at[OF at(1)] get_s2tte_at[OF at(2)] at' s2_table_def
        get_granule_if_run Let_def zeroize_def)
qed

text \<open>The test accepts a table of contiguous pages.\<close>

lemma homog_rest_contiguous:
  assumes "h_desc_type v = 3" and "\<forall>i < length xs. is_assigned_ram (xs ! i) 3
      \<and> addr_as_block (xs ! i) 3 = Some (h_pa v + of_nat (Suc i) * ms)
      \<and> get_masked_value (xs ! i) S2TTE_INVALID_RIPAS = h_ripas v"
  shows "homog_rest ms 3 v xs = Some True"
  using assms
proof (induction xs arbitrary: v)
  case Nil
  then show ?case by simp
next
  case (Cons x xs)
  have x: "is_assigned_ram x 3" "addr_as_block x 3 = Some (h_pa v + ms)"
      "get_masked_value x S2TTE_INVALID_RIPAS = h_ripas v"
    using Cons.prems(2)[rule_format, of 0] by simp_all
  have "homog_next ms 3 x v = Some (Some (v\<lparr> h_pa := h_pa v + ms \<rparr>))"
    using x Cons.prems(1) by (auto simp: homog_next_def is_assigned_ram_iff is_assigned_ns_iff Let_def)
  moreover have "homog_rest ms 3 (v\<lparr> h_pa := h_pa v + ms \<rparr>) xs = Some True"
    using Cons.prems by (intro Cons.IH) (auto simp: algebra_simps dest: spec[of _ "Suc _"])
  ultimately show ?case by simp
qed

lemma new_table_homogeneous:
  assumes "pa = get_masked pa S2TTE_ADDR_BLK_L2"
    and "es = map (\<lambda>i. mem (new_table rtt 0x7db pa 0x1000 s) (entry_at rtt i)) [0..<512]"
  shows "is_homogeneous es 3 = Some True"
proof -
  let ?x = "\<lambda>i. data_tte (pa + of_nat i * 0x1000) False 0"
  have x: "is_assigned_ram (?x i) 3" "addr_as_block (?x i) 3 = Some (pa + of_nat i * 0x1000)"
      "get_masked_value (?x i) S2TTE_INVALID_RIPAS = 2" if "i < 512" for i
    using data_tte_ram[OF block_page[OF that assms(1)], of False 0]
    by (simp_all add: data_tte_eq s2tte_masks get_masked_value_or
        page_frame_field[OF block_page[OF that assms(1)]] get_field_numeral)
  have "es = map ?x [0..<512]"
    unfolding assms(2) by (intro map_cong refl) (simp add: new_table_entry data_tte_eq del: upt_rec_numeral)
  also have "\<dots> = ?x 0 # map ?x [1..<512]" by (simp add: upt_conv_Cons[of 0 512] del: upt_rec_numeral)
  finally have es: "es = ?x 0 # map ?x [1..<512]" .
  have "pa AND NOT S2TTE_ADDR_BLK_L2 = 0"
    by (subst assms(1)) (simp add: get_masked_def and.assoc)
  then obtain v where v: "homog_first (?x 0) 3 = Some (Some v)" "h_pa v = pa" "h_ripas v = 2" "h_desc_type v = 3"
    using x[of 0] by (auto simp: homog_first_def is_assigned_ram_iff Let_def)
  have "homog_rest 0x1000 3 v (map ?x [1..<512]) = Some True"
  proof (rule homog_rest_contiguous[OF v(4)], intro allI impI)
    fix i
    assume "i < length (map ?x [1..<512])"
    then have "Suc i < 512" "map ?x [1..<512] ! i = ?x (Suc i)"
      by (simp_all del: upt_rec_numeral of_nat_Suc)
    then show "is_assigned_ram (map ?x [1..<512] ! i) 3
        \<and> addr_as_block (map ?x [1..<512] ! i) 3 = Some (h_pa v + of_nat (Suc i) * 0x1000)
        \<and> get_masked_value (map ?x [1..<512] ! i) S2TTE_INVALID_RIPAS = h_ripas v"
      using x[of "Suc i"] v(2,3) by (simp del: upt_rec_numeral of_nat_Suc)
  qed
  then show ?thesis using v(1) by (simp add: is_homogeneous_def es del: upt_rec_numeral)
qed

section \<open>Properties\<close>

text \<open>
  C10. A change of RIPAS always returns: on a realm whose root table covers the range and
  starts below level 0, for a requested state EMPTY or RAM, the loop ends without a panic
  and either makes progress, returning an address after the base and at most the
  top, or fails with an RTT error.
\<close>

theorem ripas_change_returns:
  assumes "rtt_tables s (rd_id r) = Some t" and "1 \<le> s2_root_level t" and "s2_covers t base"
    and "\<forall>x < tp. s2_covers t x" and "unat base < 2 ^ 48" and "ri \<le> 1"
  shows "(\<exists>a u. set_ripas r base tp ri fl s = (Ok a, u) \<and> base < a \<and> a \<le> tp)
    \<or> (\<exists>l u. set_ripas r base tp ri fl s = (Err (RmiErrorRtt l), u))"
  using assms by (rule set_ripas_returns)

theorem ripas_change_returns_witness:
  "(\<exists>a u. set_ripas rd_zero 0 0x400000 1 0 (sample_state 0 (\<lambda>_. 0)) = (Ok a, u) \<and> 0 < a \<and> a \<le> 0x400000)
    \<or> (\<exists>l u. set_ripas rd_zero 0 0x400000 1 0 (sample_state 0 (\<lambda>_. 0)) = (Err (RmiErrorRtt l), u))"
proof (rule ripas_change_returns)
  show "\<forall>x < 0x400000. s2_covers sample_table x"
    by (auto simp: sample_table_def s2_covers_def s2_supported_def word_less_nat_alt)
qed (simp_all add: sample_state_def sample_table_def rd_zero_def rd_id_def s2_covers_def s2_supported_def)

text \<open>
  C11. The address that a destroying command returns is the next live entry: from the
  entry of the base on, \<open>skip_non_live_entries\<close> passes exactly the entries that are not
  live, up to the end of the table.
\<close>

theorem skip_finds_next_live:
  assumes "rtt_tables s (rd_id r) = Some t" and "mapping_size level = Some ms"
    and "space_size t level = Some ss" and "base AND NOT (ms - 1) = base"
    and "s2_table_entries t base level s = (Ok (es, l), s)" and "k \<le> length es"
    and "base = (base AND NOT (ss - 1)) + of_nat k * ms"
    and "unat (base AND NOT (ss - 1)) + k * unat ms < 2 ^ 64"
  shows "skip_non_live_entries r base level s
    = (Ok (base + ms * of_nat (length (takeWhile (\<lambda>x. \<not> is_live x) (drop k es)))), s)"
proof -
  have "0 < unat ms" using mapping_size_cases[OF assms(2)] by auto
  then show ?thesis
    using assms(1-5) skip_loop_eq[OF assms(8) _ assms(6,7), of base]
    by (simp add: skip_non_live_entries_def level_space_size_def s2_table_def run Let_def)
qed

theorem skip_finds_next_live_witness:
  "skip_non_live_entries rd_zero 0x200000 2 (sample_state 0 (\<lambda>a. if a = 0x88000018 then 3 else 0))
    = (Ok 0x600000, sample_state 0 (\<lambda>a. if a = 0x88000018 then 3 else 0))"
proof -
  let ?s = "sample_state 0 (\<lambda>a. if a = 0x88000018 then 3 else 0)"
  let ?es = "map (\<lambda>i. if entry_at 0x88000000 i = 0x88000018 then 3 else 0 :: u64) [0..<2048]"
  have es: "s2_table_entries sample_table 0x200000 2 ?s = (Ok (?es, 2), ?s)"
    by (simp add: s2_table_entries_def sample_state_def sample_table_def s2_depth_def Let_def
        del: upt_rec_numeral)
  have "[1..<2048] = 1 # 2 # 3 # [4..<2048]"
    using upt_conv_Cons[of 1 2048] upt_conv_Cons[of 2 2048] upt_conv_Cons[of 3 2048]
    by (simp add: numeral_2_eq_2[symmetric] del: upt_rec_numeral)
  then have tw: "takeWhile (\<lambda>x. \<not> is_live x) (drop 1 ?es) = [0, 0]"
    by (simp add: drop_map entry_at_def is_live_def is_assigned_empty_def is_assigned_destroyed_def
        is_assigned_def s2tte_masks get_low_numeral get_low get_masked_value_eq del: upt_rec_numeral)
  have "skip_non_live_entries rd_zero 0x200000 2 ?s
      = (Ok (0x200000 + 0x200000 * of_nat (length (takeWhile (\<lambda>x. \<not> is_live x) (drop 1 ?es)))), ?s)"
    by (rule skip_finds_next_live[OF _ _ _ _ es, where ss = "0x100000000"])
      (simp_all add: sample_state_def sample_table_def rd_zero_def rd_id_def mapping_size_def
        space_size_def s2tte_masks trailing_zeros_mask del: upt_rec_numeral)
  then show ?thesis unfolding tw by simp
qed

text \<open>
  C12. Data round trip.  Creating a data page at an unassigned entry succeeds, the entry
  then reads as assigned with the page's address and its RIPAS (RAM for a page with known
  content), and destroying it returns the same page and leaves the entry unassigned with
  RIPAS DESTROYED, or with its former RIPAS where the page had not become RAM.
\<close>

theorem data_create_destroy:
  assumes at: "s2_at r s ipa 3 loc 3" and t: "rtt_tables s (rd_id r) = Some t" "s2_covers t ipa"
    and x: "is_unassigned (mem s loc)" "get_ripas (mem s loc) \<le> 2" and pa: "page_frame pa"
  shows "\<exists>u v top. data_create r ipa pa unknown s = (Ok (), u)
    \<and> read_entry r ipa 3 u
      = (Ok [3, RMI_ASSIGNED, pa, if unknown then get_ripas (mem s loc) else RIPAS_RAM], u)
    \<and> data_destroy r ipa f u = (Ok (pa, top), v) \<and> is_unassigned (mem v loc)
    \<and> get_ripas (mem v loc) = (if unknown \<and> get_ripas (mem s loc) \<noteq> RIPAS_RAM
        then get_ripas (mem s loc) else RIPAS_DESTROYED)"
proof -
  let ?ri = "get_ripas (mem s loc)"
  let ?u = "s2_written (rd_id r) loc (data_tte pa unknown ?ri) ipa 3 TlbiNone s"
  note c = data_create_at[OF at x(1), of pa unknown]
  have u: "s2_at r ?u ipa 3 loc 3" "has_table r t ?u"
    using s2_at_written[OF at] has_table_written[OF has_tableI[OF t(1)]] by simp_all
  show ?thesis
  proof (cases "\<not> unknown \<or> ?ri = RIPAS_RAM")
    case True
    note ram = data_tte_ram[OF pa True]
    have "\<not> is_unassigned (data_tte pa unknown ?ri)" "\<not> is_assigned (data_tte pa unknown ?ri)"
        "\<not> is_table (data_tte pa unknown ?ri) 3" "is_valid_tte (data_tte pa unknown ?ri) 3 False"
        "get_masked (data_tte pa unknown ?ri) S2TTE_ADDR_BLK_L3 = pa"
      using ram(1,2) by (auto simp: tte_predicates is_valid_tte_def addr_as_block_def)
    then show ?thesis
      using c ram(1,2) True unassigned_tte[of RIPAS_DESTROYED] data_destroy_at[OF u t(2), of f]
      by (auto simp: read_entry_def run get_s2tte_at[OF u(1)])
  next
    case False
    then have un: "unknown = True" and "?ri \<noteq> RIPAS_RAM" by auto
    note as = data_tte_assigned[OF pa this(2) x(2)] data_tte_not_ram[OF pa this(2) x(2)]
    have "\<not> is_unassigned (data_tte pa True ?ri)"
        "get_masked (data_tte pa True ?ri) S2TTE_ADDR_BLK_L3 = pa"
      using as(1,3) by (auto simp: tte_predicates addr_as_block_def)
    then show ?thesis
      using c as False unassigned_tte[OF x(2)] data_destroy_at[OF u t(2), of f]
      unfolding un by (auto simp: read_entry_def run get_s2tte_at[OF u(1)[unfolded un]])
  qed
qed

definition sample_leaf_table :: "usize \<Rightarrow> u64" where
  "sample_leaf_table a = (if a = 0x88000000 then 0x88100003 else 0)"

theorem data_create_destroy_witness:
  "\<exists>u v top. data_create rd_zero 0x1000 0x88200000 False (sample_state 0 sample_leaf_table) = (Ok (), u)
    \<and> read_entry rd_zero 0x1000 3 u = (Ok [3, RMI_ASSIGNED, 0x88200000, RIPAS_RAM], u)
    \<and> data_destroy rd_zero 0x1000 (set_ret 2) u = (Ok (0x88200000, top), v)
    \<and> is_unassigned (mem v 0x88100008) \<and> get_ripas (mem v 0x88100008) = RIPAS_DESTROYED"
proof -
  have "s2_at rd_zero (sample_state 0 sample_leaf_table) 0x1000 3 0x88100008 3" by code_simp
  moreover have "rtt_tables (sample_state 0 sample_leaf_table) (rd_id rd_zero) = Some sample_table"
    by (simp add: sample_state_def rd_zero_def rd_id_def)
  moreover have "s2_covers sample_table 0x1000"
    by (simp add: sample_table_def s2_covers_def s2_supported_def)
  moreover have "page_frame 0x88200000"
      "is_unassigned (mem (sample_state 0 sample_leaf_table) 0x88100008)"
      "get_ripas (mem (sample_state 0 sample_leaf_table) 0x88100008) \<le> 2"
    by code_simp+
  ultimately show ?thesis
    using data_create_destroy[of rd_zero "sample_state 0 sample_leaf_table" "0x1000" "0x88100008"
        sample_table "0x88200000" False "set_ret 2"]
    by simp
qed




definition sample_folding :: rmm where
  "sample_folding = new_table 0x88100000 0x7db 0x88400000 0x1000
     ((sample_state 0 (\<lambda>a. if a = 0x88000008 then 0x88100003 else 0))
       \<lparr> gst := (\<lambda>i. granule_new\<lparr> g_state := GS_RTT \<rparr>) \<rparr>)"


end
