(* ===== verification/Rmi_Gpt.thy ===== *)
theory Rmi_Gpt
  imports Granule
begin

text \<open>
  Granule delegation, \<open>rmm/src/rmi/gpt.rs\<close>.  The granule protection table belongs to
  the firmware at EL3, which answers the calls \<open>MARK_REALM\<close> and \<open>MARK_NONSECURE\<close>; the
  hypothesis \<open>el3_gpt\<close> states its documented behaviour, and \<open>el3_mock\<close> is the stand-in
  that \<open>rmm/src/asm.rs\<close> uses for it in its test and model checking builds.
\<close>

abbreviation (input) MARK_REALM :: usize where "MARK_REALM \<equiv> 0xc40001b0"
abbreviation (input) MARK_NONSECURE :: usize where "MARK_NONSECURE \<equiv> 0xc40001b1"

section \<open>Handlers\<close>

definition GRANULE_DELEGATE :: "env \<Rightarrow> usize list \<Rightarrow> unit rmm_prog" where
  "GRANULE_DELEGATE e arg =
    bind (index_slice arg 0) (\<lambda>addr.
    get_granule_if addr Undelegated (\<lambda>granule.
      bind (smc e MARK_REALM [addr]) (\<lambda>r.
      bind (index_slice r 0) (\<lambda>r0.
      if r0 \<noteq> SMC_SUCCESS then throw RmiErrorInput
      else seq (pt_map addr True)
          (seq (set_granule granule Delegated)
               (pt_unmap addr))))))"

definition GRANULE_UNDELEGATE :: "env \<Rightarrow> usize list \<Rightarrow> unit rmm_prog" where
  "GRANULE_UNDELEGATE e arg =
    bind (index_slice arg 0) (\<lambda>addr.
    get_granule_if addr Delegated (\<lambda>granule.
      bind (smc e MARK_NONSECURE [addr]) (\<lambda>r.
      bind (index_slice r 0) (\<lambda>r0.
      if r0 \<noteq> SMC_SUCCESS then panic
      else seq (pt_map addr False)
          (seq (set_granule granule Undelegated)
               (pt_unmap addr))))))"

section \<open>The firmware\<close>

definition el3_gpt :: "env \<Rightarrow> bool" where
  "el3_gpt e \<longleftrightarrow>
    (\<forall>g a. (case e_smc e g (MARK_REALM # a # replicate 6 0) of (r, g') \<Rightarrow>
        length r = 8 \<and> (if g a = GPT_NS then r ! 0 = SMC_SUCCESS \<and> g' = g(a := GPT_REALM)
                         else r ! 0 \<noteq> SMC_SUCCESS \<and> g' = g)))
    \<and> (\<forall>g a. (case e_smc e g (MARK_NONSECURE # a # replicate 6 0) of (r, g') \<Rightarrow>
        length r = 8 \<and> (if g a = GPT_REALM then r ! 0 = SMC_SUCCESS \<and> g' = g(a := GPT_NS)
                         else r ! 0 \<noteq> SMC_SUCCESS \<and> g' = g)))"

definition el3_mock :: "(usize \<Rightarrow> gpt) \<Rightarrow> usize list \<Rightarrow> usize list \<times> (usize \<Rightarrow> gpt)" where
  "el3_mock g regs =
    (let cmd = regs ! 0; addr = regs ! 1
     in if cmd = MARK_REALM
        then if g addr \<noteq> GPT_NS then (regs[0 := 1], g)
             else (regs[0 := SMC_SUCCESS], g(addr := GPT_REALM))
        else if cmd = MARK_NONSECURE
        then if g addr \<noteq> GPT_REALM then (regs[0 := 1], g)
             else (regs[0 := SMC_SUCCESS], g(addr := GPT_NS))
        else (regs, g))"

lemma el3_mock_spec: "e_smc e = el3_mock \<Longrightarrow> el3_gpt e"
  by (simp add: el3_gpt_def el3_mock_def Let_def eval_nat_numeral)

lemma smc_mark_realm:
  assumes "el3_gpt e"
  shows "\<exists>r. smc e MARK_REALM [a] (s\<lparr> held := h \<rparr>) = (Ok r, s\<lparr> held := h, gpt := (if gpt s a = GPT_NS
      then (gpt s)(a := GPT_REALM) else gpt s) \<rparr>)
    \<and> length r = 8 \<and> (r ! 0 = SMC_SUCCESS) = (gpt s a = GPT_NS)"
proof -
  obtain r g where rg: "e_smc e (gpt s) (MARK_REALM # a # replicate 6 0) = (r, g)" by fastforce
  have "smc e MARK_REALM [a] (s\<lparr> held := h \<rparr>) = (Ok r, s\<lparr> held := h, gpt := g \<rparr>)"
    using rg by (simp add: smc_def Let_def)
  moreover have "length r = 8 \<and> (if gpt s a = GPT_NS then r ! 0 = 0 \<and> g = (gpt s)(a := GPT_REALM)
      else r ! 0 \<noteq> 0 \<and> g = gpt s)"
    using assms[unfolded el3_gpt_def, THEN conjunct1, rule_format, of "gpt s" a] rg by simp
  ultimately show ?thesis by (auto split: if_split_asm)
qed

lemma smc_mark_nonsecure:
  assumes "el3_gpt e"
  shows "\<exists>r. smc e MARK_NONSECURE [a] (s\<lparr> held := h \<rparr>) = (Ok r, s\<lparr> held := h, gpt := (if gpt s a = GPT_REALM
      then (gpt s)(a := GPT_NS) else gpt s) \<rparr>)
    \<and> length r = 8 \<and> (r ! 0 = SMC_SUCCESS) = (gpt s a = GPT_REALM)"
proof -
  obtain r g where rg: "e_smc e (gpt s) (MARK_NONSECURE # a # replicate 6 0) = (r, g)" by fastforce
  have "smc e MARK_NONSECURE [a] (s\<lparr> held := h \<rparr>) = (Ok r, s\<lparr> held := h, gpt := g \<rparr>)"
    using rg by (simp add: smc_def Let_def)
  moreover have "length r = 8 \<and> (if gpt s a = GPT_REALM then r ! 0 = 0 \<and> g = (gpt s)(a := GPT_NS)
      else r ! 0 \<noteq> 0 \<and> g = gpt s)"
    using assms[unfolded el3_gpt_def, THEN conjunct2, rule_format, of "gpt s" a] rg by simp
  ultimately show ?thesis by (auto split: if_split_asm)
qed

section \<open>Behaviour\<close>

lemma validate_addr_mappable:
  assumes "validate_addr a"
  shows "s1_mappable a"
proof -
  have "unat a mod 4096 = 0" "0x80000000 \<le> unat a" "unat a < 0x900000000"
    using assms by (auto simp: validate_addr_iff)
  then show ?thesis
    by (auto simp: s1_mappable_def aligned_unat word_less_nat_alt)
qed

lemma pt_map_run:
  assumes "validate_addr a"
  shows "pt_map a sec s = (Ok (), s\<lparr> s1_pt := s1_set_page 2 (s1_pt s) a a (s1_rmi_flags sec) \<rparr>)"
  using set_pages_mappable[OF validate_addr_mappable[OF assms]] by (simp add: pt_map_def)

text \<open>The state after the granule at \<open>a\<close> was wiped, marked and moved to state \<open>st\<close>.\<close>

definition regranted :: "usize \<Rightarrow> u8 \<Rightarrow> gpt \<Rightarrow> bool \<Rightarrow> rmm \<Rightarrow> rmm" where
  "regranted a st g sec s =
    upd_granule (gidx a) (\<lambda>x. x\<lparr> g_state := st \<rparr>) (zeroize (gidx a)
      (s\<lparr> gpt := (gpt s)(a := g),
         s1_pt := unset_pages_for_rmi a (s1_set_page 2 (s1_pt s) a a (s1_rmi_flags sec)) \<rparr>))"

lemma regranted_simps [simp]:
  "gst (regranted a st g sec s) = (gst s)(gidx a := (gst s (gidx a))\<lparr> g_state := st \<rparr>)"
  "held (regranted a st g sec s) = held s" "gpt (regranted a st g sec s) = (gpt s)(a := g)"
  "vmid_set (regranted a st g sec s) = vmid_set s"
  "rtt_tables (regranted a st g sec s) = rtt_tables s" "ret (regranted a st g sec s) = ret s"
  by (simp_all add: regranted_def)

lemma regranted_mem:
  assumes "validate_addr a"
  shows "mem (regranted a st g sec s) w = (if page_base w = a then 0 else mem s w)"
  using gaddr_gidx[OF assms] by (simp add: regranted_def zeroize_def Let_def)

lemma regranted_s1:
  assumes "validate_addr a" and "s1_pages_only 2 (s1_pt s)" and "s1_lookup (s1_pt s) a = None"
  shows "s1_lookup (s1_pt (regranted a st g sec s)) = s1_lookup (s1_pt s)"
  using s1.transparent_use[OF assms(2) validate_addr_mappable[OF assms(1)]
      set_pages_mappable[OF validate_addr_mappable[OF assms(1)]] assms(3)]
  by (simp add: regranted_def)

lemma delegate_run:
  assumes "el3_gpt e" and "gidx a \<notin> set (held s)"
  shows "GRANULE_DELEGATE e (a # rest) s =
    (if validate_addr a \<and> g_state (gst s (gidx a)) = Undelegated \<and> gpt s a = GPT_NS
     then (Ok (), regranted a Delegated GPT_REALM True s) else (Err RmiErrorInput, s))"
proof (cases "validate_addr a \<and> g_state (gst s (gidx a)) = Undelegated")
  case False
  then show ?thesis
    using assms(2)
    by (cases "validate_addr a") (auto simp: GRANULE_DELEGATE_def run get_granule_if_run)
next
  case True
  obtain r where r: "smc e MARK_REALM [a] (s\<lparr> held := gidx a # held s \<rparr>)
      = (Ok r, s\<lparr> held := gidx a # held s, gpt := (if gpt s a = GPT_NS
          then (gpt s)(a := GPT_REALM) else gpt s) \<rparr>)"
    "length r = 8" "(r ! 0 = SMC_SUCCESS) = (gpt s a = GPT_NS)"
    using smc_mark_realm[OF assms(1)] by blast
  show ?thesis
  proof (cases "gpt s a = GPT_NS")
    case ns: True
    show ?thesis
      using True ns r assms(2)
      by (simp add: GRANULE_DELEGATE_def run get_granule_if_run pt_map_run pt_unmap_def regranted_def
          upd_granule_def zeroize_def Let_def cong: if_cong)
  next
    case False
    then show ?thesis
      using True r assms(2) by (simp add: GRANULE_DELEGATE_def run get_granule_if_run)
  qed
qed

lemma undelegate_run:
  assumes "el3_gpt e" and "gidx a \<notin> set (held s)"
  shows "GRANULE_UNDELEGATE e (a # rest) s =
    (if validate_addr a \<and> g_state (gst s (gidx a)) = Delegated
     then if gpt s a = GPT_REALM then (Ok (), regranted a Undelegated GPT_NS False s)
          else (Panic, s\<lparr> held := gidx a # held s \<rparr>)
     else (Err RmiErrorInput, s))"
proof (cases "validate_addr a \<and> g_state (gst s (gidx a)) = Delegated")
  case False
  then show ?thesis
    using assms(2)
    by (cases "validate_addr a") (auto simp: GRANULE_UNDELEGATE_def run get_granule_if_run)
next
  case True
  obtain r where r: "smc e MARK_NONSECURE [a] (s\<lparr> held := gidx a # held s \<rparr>)
      = (Ok r, s\<lparr> held := gidx a # held s, gpt := (if gpt s a = GPT_REALM
          then (gpt s)(a := GPT_NS) else gpt s) \<rparr>)"
    "length r = 8" "(r ! 0 = SMC_SUCCESS) = (gpt s a = GPT_REALM)"
    using smc_mark_nonsecure[OF assms(1)] by blast
  show ?thesis
  proof (cases "gpt s a = GPT_REALM")
    case ns: True
    show ?thesis
      using True ns r assms(2)
      by (simp add: GRANULE_UNDELEGATE_def run get_granule_if_run pt_map_run pt_unmap_def
          regranted_def upd_granule_def zeroize_def Let_def cong: if_cong)
  next
    case False
    then show ?thesis
      using True r assms(2) by (simp add: GRANULE_UNDELEGATE_def run get_granule_if_run)
  qed
qed

section \<open>Consistency of the two tables\<close>

text \<open>
  The condition \<open>is_valid\<close> of \<open>rmm/src/granule/array/entry.rs\<close>: a granule is in the
  realm world exactly when its state is not \<open>Undelegated\<close>.
\<close>

definition gpt_consistent :: "rmm \<Rightarrow> bool" where
  "gpt_consistent s \<longleftrightarrow>
    (\<forall>i < 0xfc000. (g_state (gst s i) \<noteq> Undelegated) = (gpt s (gaddr i) = GPT_REALM))"

lemma gpt_consistent_addr:
  "gpt_consistent s \<Longrightarrow> validate_addr a \<Longrightarrow>
   (g_state (gst s (gidx a)) \<noteq> Undelegated) = (gpt s a = GPT_REALM)"
  using gidx_bound[of a] gaddr_gidx[of a] by (metis gpt_consistent_def)

lemma gpt_consistent_regranted:
  assumes "gpt_consistent s" and "validate_addr a" and "(st \<noteq> Undelegated) = (g = GPT_REALM)"
  shows "gpt_consistent (regranted a st g sec s)"
  unfolding gpt_consistent_def
proof (intro allI impI)
  fix i :: nat assume i: "i < 0xfc000"
  show "(g_state (gst (regranted a st g sec s) i) \<noteq> Undelegated)
      = (gpt (regranted a st g sec s) (gaddr i) = GPT_REALM)"
  proof (cases "i = gidx a")
    case True
    then show ?thesis using assms(2,3) by (simp add: index_to_addr_inverse)
  next
    case False
    then have "gaddr i \<noteq> a" using i gidx_gaddr by metis
    then show ?thesis using False assms(1) i by (simp add: gpt_consistent_def)
  qed
qed

lemma gpt_consistent_confined:
  assumes "confined A s t" and "Undelegated \<notin> A" and "gpt_consistent s"
  shows "gpt_consistent t"
  unfolding gpt_consistent_def
proof (intro allI impI)
  fix i :: nat assume "i < 0xfc000"
  moreover have "gpt t = gpt s" using assms(1) by (simp add: confined_def)
  moreover have "(g_state (gst t i) = Undelegated) = (g_state (gst s i) = Undelegated)"
    using assms(1,2) unfolding confined_def by metis
  ultimately show "(g_state (gst t i) \<noteq> Undelegated) = (gpt t (gaddr i) = GPT_REALM)"
    using assms(3) by (simp add: gpt_consistent_def)
qed

section \<open>Properties\<close>

abbreviation mock_env :: env where
  "mock_env \<equiv> env0\<lparr> e_smc := el3_mock \<rparr>"

lemma mock_el3: "el3_gpt mock_env"
  by (rule el3_mock_spec) simp

lemma dram_start: "validate_addr 0x80000000" "gidx 0x80000000 = 0"
  by (simp_all add: validate_addr_def in_dram0_def granule_addr_to_index_def)

lemma rmm0_simps [simp]:
  "gst rmm0 i = granule_new" "held rmm0 = []" "gpt rmm0 a = GPT_NS" "s1_pt rmm0 = (\<lambda>_. S1Desc 0)"
  by (simp_all add: rmm0_def)

text \<open>
  C4: \<open>GRANULE_DELEGATE\<close> succeeds exactly on a managed, undelegated, non-secure granule.
  It then moves this granule, and no other, to the realm world and to the state
  \<open>Delegated\<close>, with its content wiped and all other memory untouched; otherwise it fails
  with \<open>RMI_ERROR_INPUT\<close> and changes nothing.
\<close>

theorem granule_delegate_spec:
  assumes "el3_gpt e" and "gidx a \<notin> set (held s)"
  shows "if validate_addr a \<and> g_state (gst s (gidx a)) = Undelegated \<and> gpt s a = GPT_NS
    then \<exists>t. GRANULE_DELEGATE e [a] s = (Ok (), t)
      \<and> gst t = (gst s)(gidx a := (gst s (gidx a))\<lparr> g_state := Delegated \<rparr>)
      \<and> gpt t = (gpt s)(a := GPT_REALM) \<and> held t = held s
      \<and> (\<forall>w. mem t w = (if page_base w = a then 0 else mem s w))
    else GRANULE_DELEGATE e [a] s = (Err RmiErrorInput, s)"
  using delegate_run[OF assms, of "[]"] regranted_mem by simp

theorem granule_delegate_spec_witness:
  "\<exists>t. GRANULE_DELEGATE mock_env [0x80000000] rmm0 = (Ok (), t)
     \<and> g_state (gst t 0) = Delegated \<and> gpt t 0x80000000 = GPT_REALM"
  using granule_delegate_spec[OF mock_el3, of "0x80000000" rmm0]
  by (auto simp: dram_start granule_new_def)

text \<open>
  Delegation and undelegation keep the granule status table and the granule
  protection table consistent: a granule is in the realm world exactly when its state is
  not \<open>Undelegated\<close>.  While they are consistent, \<open>GRANULE_UNDELEGATE\<close> does not reach the
  panic that follows a refusal of the firmware.
\<close>

theorem delegation_keeps_gpt_consistent:
  assumes "el3_gpt e" and "gidx a \<notin> set (held s)" and "gpt_consistent s"
  shows "gpt_consistent (snd (GRANULE_DELEGATE e [a] s))
    \<and> gpt_consistent (snd (GRANULE_UNDELEGATE e [a] s))
    \<and> fst (GRANULE_UNDELEGATE e [a] s) \<in> {Ok (), Err RmiErrorInput}"
  using delegate_run[OF assms(1,2), of "[]"] undelegate_run[OF assms(1,2), of "[]"]
    gpt_consistent_regranted[OF assms(3), of a] gpt_consistent_addr[OF assms(3), of a] assms(3)
  by (auto split: if_splits)

theorem delegation_keeps_gpt_consistent_witness:
  "gpt_consistent (snd (GRANULE_DELEGATE mock_env [0x80000000] rmm0))
   \<and> fst (GRANULE_UNDELEGATE mock_env [0x80000000] rmm0) \<in> {Ok (), Err RmiErrorInput}"
proof -
  have "gpt_consistent rmm0" by (simp add: gpt_consistent_def granule_new_def)
  then show ?thesis
    using delegation_keeps_gpt_consistent[OF mock_el3, of "0x80000000" rmm0] by simp
qed

text \<open>
  C5: a granule that is delegated and undelegated again is back where it was: its
  state, the granule protection table and the translations of the monitor are as
  before, and nothing of what it held can be read.
\<close>

theorem delegate_undelegate_roundtrip:
  assumes "el3_gpt e" and "gidx a \<notin> set (held s)" and "validate_addr a"
    and "g_state (gst s (gidx a)) = Undelegated" and "gpt s a = GPT_NS"
    and "s1_pages_only 2 (s1_pt s)" and "s1_lookup (s1_pt s) a = None"
  shows "\<exists>t. bind (GRANULE_DELEGATE e [a]) (\<lambda>_. GRANULE_UNDELEGATE e [a]) s = (Ok (), t)
    \<and> gst t = gst s \<and> gpt t = gpt s \<and> held t = held s
    \<and> s1_lookup (s1_pt t) = s1_lookup (s1_pt s)
    \<and> (\<forall>w. mem t w = (if page_base w = a then 0 else mem s w))"
proof -
  let ?u = "regranted a Delegated GPT_REALM True s"
  have d: "GRANULE_DELEGATE e [a] s = (Ok (), ?u)"
    using delegate_run[OF assms(1,2), of "[]"] assms(3-5) by simp
  have u: "GRANULE_UNDELEGATE e [a] ?u = (Ok (), regranted a Undelegated GPT_NS False ?u)"
    using undelegate_run[OF assms(1), of a ?u "[]"] assms(2,3) by simp
  have l: "s1_lookup (s1_pt ?u) = s1_lookup (s1_pt s)"
    by (rule regranted_s1[OF assms(3,6,7)])
  have p: "s1_pages_only 2 (s1_pt ?u)"
    using assms(6) by (simp add: regranted_def s1_pages_only_set s1.invar_unmap)
  have "s1_lookup (s1_pt (regranted a Undelegated GPT_NS False ?u)) = s1_lookup (s1_pt s)"
    using regranted_s1[OF assms(3) p, of Undelegated GPT_NS False] l assms(7) by simp
  moreover have "(gst s (gidx a))\<lparr> g_state := Undelegated \<rparr> = gst s (gidx a)"
    using assms(4) by (cases "gst s (gidx a)") simp
  ultimately show ?thesis
    using d u assms(5) regranted_mem[OF assms(3)] by (auto simp: bind_run fun_upd_idem)
qed

theorem delegate_undelegate_roundtrip_witness:
  "\<exists>t. bind (GRANULE_DELEGATE mock_env [0x80000000])
      (\<lambda>_. GRANULE_UNDELEGATE mock_env [0x80000000]) rmm0 = (Ok (), t) \<and> gst t = gst rmm0"
proof -
  have "s1_pages_only 2 (s1_pt rmm0)" "s1_lookup (s1_pt rmm0) 0x80000000 = None"
    by (simp_all add: s1_lookup_def walk_empty eval_nat_numeral)
  then show ?thesis
    using delegate_undelegate_roundtrip[OF mock_el3, of "0x80000000" rmm0]
    by (auto simp: dram_start granule_new_def)
qed

end
