(* ===== verification/Rmi_Rtt.thy ===== *)
theory Rmi_Rtt
  imports Rtt Rmi_Gpt
begin

text \<open>
  The commands on realm translation tables and realm data, \<open>rmm/src/rmi/rtt.rs\<close>: one
  definition for every handler, its arguments the registers of the command, its
  results written to the return registers.
\<close>

section \<open>The owner of an execution context\<close>

definition rec_get_owner :: "rec \<Rightarrow> usize rmm_prog" where
  "rec_get_owner rc = ok_or RmiErrorRec (rec_owner rc)"

definition rec_realmid :: "rec \<Rightarrow> usize rmm_prog" where
  "rec_realmid rc = bind (rec_get_owner rc) (\<lambda>o'. gets (\<lambda>s. rd_id (rds s o')))"

definition rec_ipa_bits :: "rec \<Rightarrow> usize rmm_prog" where
  "rec_ipa_bits rc = bind (rec_get_owner rc) (\<lambda>o'. gets (\<lambda>s. rd_ipa_bits (rds s o')))"

section \<open>Handlers\<close>

definition is_valid_rtt_cmd :: "rd \<Rightarrow> usize \<Rightarrow> usize \<Rightarrow> bool" where
  "is_valid_rtt_cmd r ipa level =
    (if level > RTT_PAGE_LEVEL then False
     else if ipa \<ge> ipa_size r then False
     else (let m = (case level_mask level of None \<Rightarrow> 0 | Some m \<Rightarrow> m)
           in if ipa AND m \<noteq> ipa then False else True))"

definition validate_ipa :: "rd \<Rightarrow> usize \<Rightarrow> unit rmm_prog" where
  "validate_ipa r ipa =
    (if \<not> is_granule_aligned ipa then throw RmiErrorInput
     else if \<not> addr_in_par r ipa then throw RmiErrorInput
     else if \<not> is_valid_rtt_cmd r ipa RTT_PAGE_LEVEL then throw RmiErrorInput
     else return ())"

text \<open>The test of the level shared by the commands that take the level of a table.\<close>

definition rtt_level_ok :: "rd \<Rightarrow> usize \<Rightarrow> usize \<Rightarrow> bool" where
  "rtt_level_ok r ipa level =
    (let min_level = rd_s2_starting_level r + 1
     in \<not> (level < min_level \<or> level > RTT_PAGE_LEVEL \<or> \<not> is_valid_rtt_cmd r ipa (level - 1)))"

definition with_rd :: "usize \<Rightarrow> (rd \<Rightarrow> 'a rmm_prog) \<Rightarrow> 'a rmm_prog" where
  "with_rd a body = get_granule_if a GS_RD (\<lambda>_. bind (gets (\<lambda>s. rds s a)) body)"

definition RTT_CREATE :: "env \<Rightarrow> usize list \<Rightarrow> unit rmm_prog" where
  "RTT_CREATE e arg =
    bind (index_slice arg 0) (\<lambda>rdp.
    with_rd rdp (\<lambda>r.
      bind (index_slice arg 1) (\<lambda>rtt_addr.
      bind (index_slice arg 2) (\<lambda>ipa.
      bind (index_slice arg 3) (\<lambda>level.
        if \<not> rtt_level_ok r ipa level then throw RmiErrorInput
        else if rtt_addr = rdp then throw RmiErrorInput
        else get_granule_if rtt_addr Delegated (\<lambda>rtt_granule.
          seq (pt_map rtt_addr True)
          (seq (rtt_create r rtt_addr ipa level)
            (set_granule rtt_granule GS_RTT))))))))"

definition RTT_DESTROY :: "env \<Rightarrow> usize list \<Rightarrow> unit rmm_prog" where
  "RTT_DESTROY e arg =
    bind (index_slice arg 0) (\<lambda>rdp.
    with_rd rdp (\<lambda>r.
      bind (index_slice arg 1) (\<lambda>ipa.
      bind (index_slice arg 2) (\<lambda>level.
        if \<not> rtt_level_ok r ipa level then throw RmiErrorInput
        else bind (rtt_destroy r ipa level (set_ret 2)) (\<lambda>(rtt, walk_top).
          seq (set_ret 1 rtt) (set_ret 2 walk_top))))))"

definition RTT_INIT_RIPAS :: "env \<Rightarrow> usize list \<Rightarrow> unit rmm_prog" where
  "RTT_INIT_RIPAS e arg =
    bind (index_slice arg 0) (\<lambda>rdp.
    with_rd rdp (\<lambda>r.
      bind (index_slice arg 1) (\<lambda>base.
      bind (index_slice arg 2) (\<lambda>tp.
        if rd_state r \<noteq> New then throw (RmiErrorRealm 0)
        else if tp \<le> base then throw RmiErrorInput
        else if \<not> is_valid_rtt_cmd r base RTT_PAGE_LEVEL \<or> \<not> is_valid_rtt_cmd r tp RTT_PAGE_LEVEL
          \<or> \<not> addr_in_par r base \<or> \<not> addr_in_par r (tp - GRANULE_SIZE) then throw RmiErrorInput
        else bind (init_ripas e rdp base tp) (set_ret 1)))))"

definition RTT_SET_RIPAS :: "env \<Rightarrow> usize list \<Rightarrow> unit rmm_prog" where
  "RTT_SET_RIPAS e arg =
    bind (index_slice arg 2) (\<lambda>base.
    bind (index_slice arg 3) (\<lambda>tp.
    bind (index_slice arg 0) (\<lambda>rdp.
    bind (index_slice arg 1) (\<lambda>recp.
      if rdp = recp then throw RmiErrorInput
      else with_rd rdp (\<lambda>r.
        get_granule_if recp GS_Rec (\<lambda>_.
          bind (gets (\<lambda>s. recs s recp)) (\<lambda>rc.
          bind (rec_realmid rc) (\<lambda>rid.
            if rid \<noteq> rd_id r then throw RmiErrorRec
            else (let rp = rec_ripas rc in
              if ripas_addr rp \<noteq> base \<or> ripas_end rp < tp then throw RmiErrorInput
              else if \<not> is_granule_aligned base \<or> \<not> is_granule_aligned tp \<or> \<not> addr_in_par r base
                \<or> tp < GRANULE_SIZE \<or> \<not> addr_in_par r (tp - GRANULE_SIZE) then throw RmiErrorInput
              else bind (set_ripas r base tp (ripas_state rp) (ripas_flags rp)) (\<lambda>out_top.
                seq (set_ret 1 out_top)
                  (modify (\<lambda>s. s\<lparr> recs := (recs s)(recp := set_ripas_addr (recs s recp) out_top) \<rparr>))))))))))))"

definition RTT_READ_ENTRY :: "env \<Rightarrow> usize list \<Rightarrow> unit rmm_prog" where
  "RTT_READ_ENTRY e arg =
    bind (index_slice arg 0) (\<lambda>rdp.
    with_rd rdp (\<lambda>r.
      bind (index_slice arg 1) (\<lambda>ipa.
      bind (index_slice arg 2) (\<lambda>level.
        if \<not> is_valid_rtt_cmd r ipa level then throw RmiErrorInput
        else bind (read_entry r ipa level) (\<lambda>res.
          seq (set_ret 1 (res ! 0)) (seq (set_ret 2 (res ! 1))
            (seq (set_ret 3 (res ! 2)) (set_ret 4 (res ! 3)))))))))"

definition DATA_CREATE :: "env \<Rightarrow> usize list \<Rightarrow> unit rmm_prog" where
  "DATA_CREATE e arg =
    bind (index_slice arg 0) (\<lambda>rdp.
    bind (index_slice arg 1) (\<lambda>target_pa.
    bind (index_slice arg 2) (\<lambda>ipa.
    bind (index_slice arg 3) (\<lambda>src_pa.
    bind (index_slice arg 4) (\<lambda>flags.
      if target_pa = rdp \<or> target_pa = src_pa \<or> rdp = src_pa then throw RmiErrorInput
      else with_rd rdp (\<lambda>r.
        if \<not> at_state r New then throw (RmiErrorRealm 0)
        else seq (validate_ipa r ipa)
          (bind (is_not_in_realm src_pa) (\<lambda>ns.
            if \<not> ns then throw RmiErrorInput
            else get_granule_if target_pa Delegated (\<lambda>target_page_granule.
              seq (pt_map target_pa True)
              (seq (pt_map src_pa False)
              (seq (bind (copy_to_obj src_pa target_pa) (ok_or RmiErrorInput))
              (seq (pt_unmap src_pa)
              (seq (data_create r ipa target_pa False)
              (seq (bind (gets (\<lambda>s. (rds s rdp, read_page s target_pa))) (\<lambda>(r', page).
                     case measure_data_granule e page ipa flags r' of
                       Inl err \<Rightarrow> throw err
                     | Inr r2 \<Rightarrow> modify (\<lambda>s. s\<lparr> rds := (rds s)(rdp := r2) \<rparr>)))
                (set_granule target_page_granule GS_Data)))))))))))))))"

definition DATA_CREATE_UNKNOWN :: "env \<Rightarrow> usize list \<Rightarrow> unit rmm_prog" where
  "DATA_CREATE_UNKNOWN e arg =
    bind (index_slice arg 0) (\<lambda>rdp.
    with_rd rdp (\<lambda>r.
      bind (index_slice arg 1) (\<lambda>target_pa.
      bind (index_slice arg 2) (\<lambda>ipa.
        if target_pa = rdp then throw RmiErrorInput
        else seq (validate_ipa r ipa)
          (get_granule_if target_pa Delegated (\<lambda>target_page_granule.
            seq (pt_map target_pa True)
            (seq (data_create r ipa target_pa True)
              (set_granule target_page_granule GS_Data))))))))"

definition DATA_DESTROY :: "env \<Rightarrow> usize list \<Rightarrow> unit rmm_prog" where
  "DATA_DESTROY e arg =
    bind (index_slice arg 0) (\<lambda>rdp.
    with_rd rdp (\<lambda>r.
      bind (index_slice arg 1) (\<lambda>ipa.
        if \<not> addr_in_par r ipa \<or> \<not> is_valid_rtt_cmd r ipa RTT_PAGE_LEVEL then throw RmiErrorInput
        else bind (data_destroy r ipa (set_ret 2)) (\<lambda>(pa, tp).
          seq (get_granule pa (\<lambda>g. set_granule g Delegated))
          (seq (set_ret 1 pa) (set_ret 2 tp))))))"

definition RTT_MAP_UNPROTECTED :: "env \<Rightarrow> usize list \<Rightarrow> unit rmm_prog" where
  "RTT_MAP_UNPROTECTED e arg =
    bind (index_slice arg 1) (\<lambda>ipa.
    bind (index_slice arg 2) (\<lambda>level.
    bind (index_slice arg 3) (\<lambda>host_s2tte.
      if \<not> is_host_ns_valid host_s2tte level then throw RmiErrorInput
      else bind (index_slice arg 0) (\<lambda>rdp.
        with_rd rdp (\<lambda>r.
          if \<not> is_valid_rtt_cmd r ipa level then throw RmiErrorInput
          else map_unprotected r ipa level host_s2tte)))))"

definition RTT_UNMAP_UNPROTECTED :: "env \<Rightarrow> usize list \<Rightarrow> unit rmm_prog" where
  "RTT_UNMAP_UNPROTECTED e arg =
    bind (index_slice arg 0) (\<lambda>rdp.
    with_rd rdp (\<lambda>r.
      bind (index_slice arg 1) (\<lambda>ipa.
      bind (index_slice arg 2) (\<lambda>level.
        if level < RTT_MIN_BLOCK_LEVEL \<or> level > RTT_PAGE_LEVEL \<or> \<not> is_valid_rtt_cmd r ipa level
        then throw RmiErrorInput
        else bind (unmap_unprotected r ipa level (set_ret 1)) (set_ret 1)))))"

definition RTT_FOLD :: "env \<Rightarrow> usize list \<Rightarrow> unit rmm_prog" where
  "RTT_FOLD e arg =
    bind (index_slice arg 0) (\<lambda>rdp.
    with_rd rdp (\<lambda>r.
      bind (index_slice arg 1) (\<lambda>ipa.
      bind (index_slice arg 2) (\<lambda>level.
        if \<not> rtt_level_ok r ipa level then throw RmiErrorInput
        else bind (rtt_fold r ipa level) (set_ret 1)))))"

section \<open>Frame conditions\<close>

text \<open>
  Frames that also ignore the content of execution contexts, and those that ignore
  realm descriptors too.
\<close>

locale context_frame = table_frame +
  assumes Q_recs: "Q s (s\<lparr> recs := y \<rparr>)"
begin

lemma steps_set_recs: "steps (balanced Q) (modify (\<lambda>s. s\<lparr> recs := f s \<rparr>))"
  by (intro steps_modify Q_step Q_recs) simp

lemma steps_set_mem: "steps (balanced Q) (modify (\<lambda>s. s\<lparr> mem := f s \<rparr>))"
  by (intro steps_modify Q_step Q_mem) simp

lemma steps_write_page: "steps (balanced Q) (modify (\<lambda>s. write_page a (f s) s))"
  unfolding write_page_def Let_def by (rule steps_set_mem)

lemma steps_sum:
  "(\<And>a. steps R (f a)) \<Longrightarrow> (\<And>b. steps R (g b)) \<Longrightarrow> steps R (case x of Inl a \<Rightarrow> f a | Inr b \<Rightarrow> g b)"
  by (cases x) simp_all

lemma steps_option:
  "steps R f \<Longrightarrow> (\<And>b. steps R (g b)) \<Longrightarrow> steps R (case x of None \<Rightarrow> f | Some b \<Rightarrow> g b)"
  by (cases x) simp_all

lemma steps_with_rd: "(\<And>r. steps (balanced Q) (f r)) \<Longrightarrow> steps (balanced Q) (with_rd a f)"
  unfolding with_rd_def by (intro table_rules)

lemma steps_copy_to_obj: "steps (balanced Q) (copy_to_obj a b)"
  unfolding copy_to_obj_def by (intro table_rules steps_sum steps_write_page)

lemma steps_validate_ipa: "steps (balanced Q) (validate_ipa r ipa)"
  unfolding validate_ipa_def by (intro table_rules)

lemma steps_rec_fields:
  "steps (balanced Q) (rec_get_owner rc)" "steps (balanced Q) (rec_realmid rc)"
  "steps (balanced Q) (rec_ipa_bits rc)"
  unfolding rec_get_owner_def rec_realmid_def rec_ipa_bits_def by (intro table_rules)+

lemmas context_rules = table_rules steps_prod steps_with_rd steps_copy_to_obj steps_validate_ipa
  steps_rec_fields steps_set_recs steps_set_mem steps_write_page steps_sum steps_option

end

locale object_frame = context_frame +
  assumes Q_rds: "Q s (s\<lparr> rds := x \<rparr>)"
begin

lemma steps_set_rds: "steps (balanced Q) (modify (\<lambda>s. s\<lparr> rds := f s \<rparr>))"
  by (intro steps_modify Q_step Q_rds) simp

lemmas object_rules = context_rules steps_set_rds

lemma steps_RTT_SET_RIPAS: "steps (balanced Q) (RTT_SET_RIPAS e arg)"
  unfolding RTT_SET_RIPAS_def Let_def by (intro object_rules steps_set_ripas)

lemma steps_RTT_READ_ENTRY: "steps (balanced Q) (RTT_READ_ENTRY e arg)"
  unfolding RTT_READ_ENTRY_def by (intro object_rules steps_read_entry)

lemma steps_RTT_MAP_UNPROTECTED: "steps (balanced Q) (RTT_MAP_UNPROTECTED e arg)"
  unfolding RTT_MAP_UNPROTECTED_def by (intro object_rules steps_map_unprotected)

lemma steps_RTT_UNMAP_UNPROTECTED: "steps (balanced Q) (RTT_UNMAP_UNPROTECTED e arg)"
  unfolding RTT_UNMAP_UNPROTECTED_def by (intro object_rules steps_unmap_unprotected)

end

interpretation conf_objects: object_frame "confined A" for A
  by unfold_locales (simp_all add: confined_def)

lemma steps_RTT_INIT_RIPAS: "steps (balanced (confined A)) (RTT_INIT_RIPAS e arg)"
  unfolding RTT_INIT_RIPAS_def by (intro conf_objects.object_rules steps_init_ripas)

lemma steps_RTT_CREATE: "{Delegated, GS_RTT} \<subseteq> A \<Longrightarrow> steps (balanced (confined A)) (RTT_CREATE e arg)"
  unfolding RTT_CREATE_def
  by (intro conf_objects.steps_with_rd conf.steps_if conf.steps_bind
      conf.steps_index_slice conf.steps_throw steps_get_granule_if_at steps_at_bind
      conf.steps_pt_map conf_tables.steps_rtt_create steps_at_set_end) auto

lemma steps_RTT_DESTROY: "{Delegated, GS_RTT} \<subseteq> A \<Longrightarrow> steps (balanced (confined A)) (RTT_DESTROY e arg)"
  unfolding RTT_DESTROY_def
  by (intro conf_objects.object_rules steps_rtt_destroy) auto

lemma steps_RTT_FOLD: "{Delegated, GS_RTT} \<subseteq> A \<Longrightarrow> steps (balanced (confined A)) (RTT_FOLD e arg)"
  unfolding RTT_FOLD_def by (intro conf_objects.object_rules steps_rtt_fold) auto

lemma steps_DATA_CREATE:
  assumes "{Delegated, GS_Data} \<subseteq> A"
  shows "steps (balanced (confined A)) (DATA_CREATE e arg)"
  unfolding DATA_CREATE_def
  by (intro conf_objects.steps_with_rd conf.steps_if conf.steps_bind
      conf.steps_index_slice conf.steps_throw steps_get_granule_if_at steps_at_bind
      conf_objects.object_rules conf_tables.steps_data_create steps_at_set_end)
    (use assms in auto)

lemma steps_DATA_CREATE_UNKNOWN:
  assumes "{Delegated, GS_Data} \<subseteq> A"
  shows "steps (balanced (confined A)) (DATA_CREATE_UNKNOWN e arg)"
  unfolding DATA_CREATE_UNKNOWN_def
  by (intro conf_objects.steps_with_rd conf.steps_if conf.steps_bind
      conf.steps_index_slice conf.steps_throw steps_get_granule_if_at steps_at_bind
      conf_objects.object_rules conf_tables.steps_data_create steps_at_set_end)
    (use assms in auto)

lemma steps_set_granule_any: "steps (balanced (confined UNIV)) (set_granule i st)"
  by (rule stepsI; drule set_granule_frame) (auto simp: balanced_def confined_def)

lemma steps_DATA_DESTROY: "steps (balanced (confined UNIV)) (DATA_DESTROY e arg)"
  unfolding DATA_DESTROY_def
  by (intro conf_objects.object_rules conf_tables.steps_data_destroy steps_set_granule_any)

section \<open>Properties\<close>

lemma with_rd_Ok:
  assumes "with_rd a f s = (Ok x, t)"
  shows "validate_addr a \<and> gidx a \<notin> set (held s) \<and> g_state (gst s (gidx a)) = GS_RD
    \<and> (\<exists>t'. f (rds s a) (s\<lparr> held := gidx a # held s \<rparr>) = (Ok x, t') \<and> t = t'\<lparr> held := remove1 (gidx a) (held t') \<rparr>)"
  using get_granule_if_Ok[OF assms[unfolded with_rd_def]] by (auto simp: run)

text \<open>
  C27. The host changes the RIPAS of a range only as the realm has asked for.  If RTT_SET_RIPAS
  succeeds, the context belongs to the realm, the range starts where the realm's pending
  request stands and ends within it, the state and the flag are those of the request, the change
  makes progress within the range, and the request then stands at the address reached.
\<close>

theorem ripas_change_needs_request:
  assumes ok: "RTT_SET_RIPAS e [rdp, recp, base, tp] s = (Ok (), t)"
    and tab: "rtt_tables s (rd_id (rds s rdp)) = Some tb" "1 \<le> s2_root_level tb" "s2_covers tb base"
      "\<forall>x < tp. s2_covers tb x" "unat base < 2 ^ 48" "ripas_state (rec_ripas (recs s recp)) \<le> 1"
  shows "\<exists>ow a u. rec_owner (recs s recp) = Some ow \<and> rd_id (rds s ow) = rd_id (rds s rdp)
    \<and> ripas_addr (rec_ripas (recs s recp)) = base \<and> tp \<le> ripas_end (rec_ripas (recs s recp))
    \<and> addr_in_par (rds s rdp) base \<and> addr_in_par (rds s rdp) (tp - GRANULE_SIZE)
    \<and> set_ripas (rds s rdp) base tp (ripas_state (rec_ripas (recs s recp))) (ripas_flags (rec_ripas (recs s recp)))
        (s\<lparr> held := gidx recp # gidx rdp # held s \<rparr>) = (Ok a, u)
    \<and> base < a \<and> a \<le> tp \<and> ripas_addr (rec_ripas (recs t recp)) = a"
proof -
  let ?rp = "rec_ripas (recs s recp)" and ?s = "s\<lparr> held := gidx recp # gidx rdp # held s \<rparr>"
  have "rdp \<noteq> recp" using ok by (auto simp: RTT_SET_RIPAS_def run)
  with ok obtain x where "with_rd rdp x s = (Ok (), t)"
    and x: "x = (\<lambda>r. get_granule_if recp GS_Rec (\<lambda>_.
          bind (gets (\<lambda>s. recs s recp)) (\<lambda>rc. bind (rec_realmid rc) (\<lambda>rid.
            if rid \<noteq> rd_id r then throw RmiErrorRec
            else (let rp = rec_ripas rc in
              if ripas_addr rp \<noteq> base \<or> ripas_end rp < tp then throw RmiErrorInput
              else if \<not> is_granule_aligned base \<or> \<not> is_granule_aligned tp \<or> \<not> addr_in_par r base
                \<or> tp < GRANULE_SIZE \<or> \<not> addr_in_par r (tp - GRANULE_SIZE) then throw RmiErrorInput
              else bind (set_ripas r base tp (ripas_state rp) (ripas_flags rp)) (\<lambda>out_top.
                seq (set_ret 1 out_top)
                  (modify (\<lambda>s. s\<lparr> recs := (recs s)(recp := set_ripas_addr (recs s recp) out_top) \<rparr>))))))))"
    by (auto simp: RTT_SET_RIPAS_def run)
  from with_rd_Ok[OF this(1)] obtain t1 where t1: "x (rds s rdp) (s\<lparr> held := gidx rdp # held s \<rparr>) = (Ok (), t1)"
    and t: "t = t1\<lparr> held := remove1 (gidx rdp) (held t1) \<rparr>" by blast
  from get_granule_if_Ok[OF t1[unfolded x]] obtain ow a u where
      ow: "rec_owner (recs s recp) = Some ow" "rd_id (rds s ow) = rd_id (rds s rdp)"
        "ripas_addr ?rp = base" "tp \<le> ripas_end ?rp" "addr_in_par (rds s rdp) base" "addr_in_par (rds s rdp) (tp - GRANULE_SIZE)"
    and a: "set_ripas (rds s rdp) base tp (ripas_state ?rp) (ripas_flags ?rp) ?s = (Ok a, u)"
    and t1': "ripas_addr (rec_ripas (recs t1 recp)) = a"
    by (auto simp: run not_less rec_realmid_def rec_get_owner_def Let_def set_ret_def set_ripas_addr_def
        split: option.splits prod.splits outcome.splits if_splits)
  have "base < a \<and> a \<le> tp"
    using set_ripas_returns[of ?s, where r = "rds s rdp" and t = tb and base = base and tp = tp
        and ri = "ripas_state ?rp" and fl = "ripas_flags ?rp"] tab a by simp
  then show ?thesis using ow a t1' t by (intro exI[of _ ow] exI[of _ a] exI[of _ u]) simp
qed
lemma sample_slot: "s2_index 2 4 (align_down 0 4096) = 0"
  by code_simp

lemma sample_entry: "get_s2tte rd 0 3 err u = (Ok (mem u 0x88000000, 2), u)"
  if "rtt_tables u (rd_id rd) = Some t" "s2_base t = 0x88000000" "s2_root_level t = 2" "s2_root_pages t = 4"
     "\<not> s2e_points_to_table_or_page (mem u 0x88000000)"
  using that
  by (simp add: get_s2tte_def s2_table_def run ipa_to_pte_def s2_depth_def Let_def sample_slot entry_at_def)

lemma sample_decide: "ripas_decide 0 1 0 2 = Some (RWrite 0x20 False False)" "addr_as_block 0 2 = Some 0" "\<not> s2e_points_to_table_or_page 0" 
   "mapping_size 2 = Some 0x200000" "space_size sample_table 2 = Some 0x100000000"
  by code_simp+

lemma sample_set_ripas:
  assumes "rtt_tables u (rd_id rd) = Some sample_table" and "mem u 0x88000000 = 0"
  shows "\<exists>v. set_ripas rd 0 0x200000 1 0 u = (Ok 0x200000, v) \<and> ret v = ret u \<and> recs v = recs u \<and> held v = held u"
proof -
  have tab: "s2_base sample_table = 0x88000000" "s2_root_level sample_table = 2" "s2_root_pages sample_table = 4"
    by (simp_all add: sample_table_def)
  have e: "get_s2tte rd 0 3 err u = (Ok (0, 2), u)" for err
    using sample_entry[OF assms(1) tab] assms(2) sample_decide(3) by simp
  have w: "\<exists>v. s2_pte_set rd 0 2 x TlbiNone u = (Ok (), v) \<and> ret v = ret u \<and> recs v = recs u \<and> held v = held u" for x
    using assms tab
    by (simp add: s2_pte_set_def s2_table_def ipa_to_pte_set_def run s2_depth_def Let_def sample_slot entry_at_def)
  have l: "set_ripas_loop (Suc n) rd 0x200000 1 0 2 0x200000 0x100000000 0x200000 v = (Ok 0x200000, v)" for n v
    by (simp add: run)
  show ?thesis
    using w[of "0x20"] assms(1) l[of 2048]
    by (auto simp: set_ripas_def run e sample_decide Let_def level_space_size_def s2_table_def loop_fuel_def)
qed

definition sample_ripas :: rmm where
  "sample_ripas = (sample_state 0 (\<lambda>_. 0))\<lparr>
     gst := (\<lambda>i. if i = gidx 0x88010000 then granule_new\<lparr> g_state := GS_RD \<rparr> else granule_new\<lparr> g_state := GS_Rec \<rparr>),
     rds := (\<lambda>_. rd_zero\<lparr> rd_ipa_bits := 33 \<rparr>), ret := [0, 0],
     recs := (\<lambda>_. rec_wiped\<lparr> rec_owner := Some 0x88010000,
       rec_ripas := \<lparr> ripas_start = 0, ripas_end = 0x200000, ripas_addr = 0, ripas_state = 1, ripas_flags = 0 \<rparr> \<rparr>) \<rparr>"

theorem ripas_change_needs_request_witness:
  "\<exists>t. RTT_SET_RIPAS env0 [0x88010000, 0x88011000, 0, 0x200000] sample_ripas = (Ok (), t)
     \<and> ripas_addr (rec_ripas (recs t 0x88011000)) = 0x200000"
proof -
  have v: "validate_addr 0x88010000" "validate_addr 0x88011000" by code_simp+
  have idx: "gidx 0x88010000 = 32784" "gidx 0x88011000 = 32785" by (simp_all add: granule_index_dram0 in_dram0_def)
  let ?u = "sample_ripas\<lparr> held := [32785, 32784] \<rparr>" and ?rd = "rd_zero\<lparr> rd_ipa_bits := 33 \<rparr>"
  have s: "held sample_ripas = []" "rds sample_ripas = (\<lambda>_. ?rd)" "ret sample_ripas = [0, 0]"
      "rec_owner (recs sample_ripas a) = Some 0x88010000"
      "rec_ripas (recs sample_ripas a) = \<lparr> ripas_start = 0, ripas_end = 0x200000, ripas_addr = 0, ripas_state = 1, ripas_flags = 0 \<rparr>"
      "g_state (gst sample_ripas 32784) = GS_RD" "g_state (gst sample_ripas 32785) = GS_Rec"
      "rtt_tables sample_ripas (rd_id ?rd) = Some sample_table" "mem sample_ripas = (\<lambda>_. 0)" for a
    by (simp_all add: sample_ripas_def sample_state_def rmm0_def rd_id_def rd_zero_def idx granule_new_def)
  obtain w where w: "set_ripas ?rd 0 0x200000 1 0 ?u = (Ok 0x200000, w)" "ret w = [0, 0]" "recs w = recs ?u" "held w = held ?u"
    using sample_set_ripas[of ?u ?rd] s by auto
  have par: "addr_in_par ?rd 0" "addr_in_par ?rd 0x1ff000" by code_simp+
  have "\<exists>t. RTT_SET_RIPAS env0 [0x88010000, 0x88011000, 0, 0x200000] sample_ripas = (Ok (), t)"
    using w s par by (simp add: RTT_SET_RIPAS_def with_rd_def get_granule_if_run v idx run rec_realmid_def
        rec_get_owner_def is_granule_aligned_def set_ret_def Let_def)
  then obtain t where t: "RTT_SET_RIPAS env0 [0x88010000, 0x88011000, 0, 0x200000] sample_ripas = (Ok (), t)" ..
  have "\<forall>x < 0x200000. s2_covers sample_table x" "s2_covers sample_table 0"
    by (auto simp: sample_table_def s2_covers_def s2_supported_def word_less_nat_alt)
  with ripas_change_needs_request[OF t, of sample_table] s idx w
  have "ripas_addr (rec_ripas (recs t 0x88011000)) = 0x200000" by (auto simp: sample_table_def)
  with t show ?thesis by blast
qed

end
