(* ===== verification/Rmi_Realm.thy ===== *)
theory Rmi_Realm
  imports Rmi_Rtt
begin

text \<open>
  The realm commands, \<open>rmm/src/rmi/realm/mod.rs\<close> with the parameters of
  \<open>params.rs\<close>, the feature register and version of \<open>rmm/src/rmi/features.rs\<close> and
  \<open>version.rs\<close>, the realm metadata of \<open>rmm/src/rmi/metadata.rs\<close> and the registry of
  identifiers of \<open>rmm/src/realm/registry.rs\<close>.
\<close>

section \<open>Features and version\<close>

definition FeatureReg0_HASH_SHA_512 :: u64 where "FeatureReg0_HASH_SHA_512 = define_mask 29 29"
definition FeatureReg0_HASH_SHA_256 :: u64 where "FeatureReg0_HASH_SHA_256 = define_mask 28 28"
definition FeatureReg0_PMU_NUM_CTRS :: u64 where "FeatureReg0_PMU_NUM_CTRS = define_mask 27 23"
definition FeatureReg0_PMU_EN :: u64 where "FeatureReg0_PMU_EN = define_mask 22 22"
definition FeatureReg0_LPA2 :: u64 where "FeatureReg0_LPA2 = define_mask 8 8"
definition FeatureReg0_S2SZ :: u64 where "FeatureReg0_S2SZ = define_mask 7 0"

definition feat_reg0 :: u64 where
  "feat_reg0 =
    set_masked_value (set_masked_value (set_masked_value (set_masked_value (set_masked_value
      (set_masked_value 0 FeatureReg0_S2SZ 48) FeatureReg0_LPA2 0) FeatureReg0_PMU_EN 0)
      FeatureReg0_PMU_NUM_CTRS 0) FeatureReg0_HASH_SHA_256 1) FeatureReg0_HASH_SHA_512 1"

definition FEATURES :: "env \<Rightarrow> usize list \<Rightarrow> unit rmm_prog" where
  "FEATURES e arg =
    bind (index_slice arg 0) (\<lambda>i. if i \<noteq> 0 then set_ret 1 0 else set_ret 1 feat_reg0)"

definition features_validate :: "usize \<Rightarrow> bool" where
  "features_validate s2sz \<longleftrightarrow> 32 \<le> s2sz \<and> s2sz \<le> 48"

definition VERSION :: "env \<Rightarrow> usize list \<Rightarrow> unit rmm_prog" where
  "VERSION e arg =
    bind (index_slice arg 0) (\<lambda>req.
      seq (set_ret 1 encode_version) (seq (set_ret 2 encode_version)
        (let (req_major, req_minor) = decode_version req
         in if req_major \<noteq> ABI_MAJOR_VERSION \<or> req_minor \<noteq> ABI_MINOR_VERSION
            then throw RmiErrorInput else return ())))"

section \<open>Realm parameters\<close>

text \<open>A parameter page is given by its 512 words; a field at offset \<open>o\<close> is in the word \<open>o / 8\<close>.\<close>

definition RmiRealmFlags_Lpa2 :: u64 where "RmiRealmFlags_Lpa2 = define_mask 0 0"
definition RmiRealmFlags_Sve :: u64 where "RmiRealmFlags_Sve = define_mask 1 1"
definition RmiRealmFlags_Pmu :: u64 where "RmiRealmFlags_Pmu = define_mask 2 2"

definition rp_flags :: "(nat \<Rightarrow> u64) \<Rightarrow> u64" where "rp_flags pg = pg 0"
definition rp_s2sz :: "(nat \<Rightarrow> u64) \<Rightarrow> u8" where "rp_s2sz pg = ucast (pg 1)"
definition rp_sve_vl :: "(nat \<Rightarrow> u64) \<Rightarrow> u8" where "rp_sve_vl pg = ucast (pg 2)"
definition rp_hash_algo :: "(nat \<Rightarrow> u64) \<Rightarrow> u8" where "rp_hash_algo pg = ucast (pg 6)"
definition rp_rpv :: "(nat \<Rightarrow> u64) \<Rightarrow> u8 list" where "rp_rpv pg = page_slice pg 0x400 0x440"
definition rp_vmid :: "(nat \<Rightarrow> u64) \<Rightarrow> u16" where "rp_vmid pg = ucast (pg 0x100)"
definition rp_rtt_base :: "(nat \<Rightarrow> u64) \<Rightarrow> u64" where "rp_rtt_base pg = pg 0x101"
definition rp_rtt_level_start :: "(nat \<Rightarrow> u64) \<Rightarrow> u64" where "rp_rtt_level_start pg = pg 0x102"
definition rp_rtt_num_start :: "(nat \<Rightarrow> u64) \<Rightarrow> u32" where "rp_rtt_num_start pg = ucast (pg 0x103)"

definition rp_ipa_bits :: "(nat \<Rightarrow> u64) \<Rightarrow> usize" where
  "rp_ipa_bits pg = ucast (rp_s2sz pg)"

definition rp_sve_en :: "(nat \<Rightarrow> u64) \<Rightarrow> bool" where
  "rp_sve_en pg \<longleftrightarrow> get_masked_value (rp_flags pg) RmiRealmFlags_Sve = 1"

definition simd_validate :: "platform \<Rightarrow> bool \<Rightarrow> u64 \<Rightarrow> bool" where
  "simd_validate p en vl =
    (if en \<and> \<not> sve_en (p_simd p) then False
     else if vl > sve_vq (p_simd p) then False
     else True)"

text \<open>
  The number of root tables for an address size and a starting level; the arithmetic
  on \<open>usize\<close> wraps.
\<close>

definition min_ipa_bits :: "usize \<Rightarrow> usize" where
  "min_ipa_bits slvl = (RTT_PAGE_LEVEL - slvl) * RTT_STRIDE + GRANULE_SHIFT + 1"

definition max_ipa_bits :: "usize \<Rightarrow> usize" where
  "max_ipa_bits slvl = min_ipa_bits slvl + (RTT_STRIDE - 1) + 4"

definition sl_ipa_bits :: "usize \<Rightarrow> usize" where
  "sl_ipa_bits slvl = (RTT_PAGE_LEVEL - slvl) * RTT_STRIDE + GRANULE_SHIFT + RTT_STRIDE"

definition s2_num_root_rtts :: "usize \<Rightarrow> usize \<Rightarrow> u32" where
  "s2_num_root_rtts slvl bits =
    (if sl_ipa_bits slvl \<ge> bits then 1 else push_bit (unat (bits - sl_ipa_bits slvl) mod 32) 1)"

definition rp_verify_compliance :: "platform \<Rightarrow> (nat \<Rightarrow> u64) \<Rightarrow> usize \<Rightarrow> unit rmm_prog" where
  "rp_verify_compliance p pg rdp =
    (if rp_rtt_base pg = rdp then throw RmiErrorInput
     else if rp_rtt_base pg mod GRANULE_SIZE \<noteq> 0 then throw RmiErrorInput
     else if \<not> features_validate (ucast (rp_s2sz pg)) then throw RmiErrorInput
     else (let bits = rp_ipa_bits pg; slvl = rp_rtt_level_start pg
       in if bits < min_ipa_bits slvl \<or> bits > max_ipa_bits slvl then throw RmiErrorInput
          else if s2_num_root_rtts slvl bits \<noteq> rp_rtt_num_start pg then throw RmiErrorInput
          else if get_masked_value (rp_flags pg) RmiRealmFlags_Lpa2 \<noteq> 0 then throw RmiErrorInput
          else if \<not> simd_validate p (rp_sve_en pg) (ucast (rp_sve_vl pg)) then throw RmiErrorInput
          else if get_masked_value (rp_flags pg) RmiRealmFlags_Pmu \<noteq> 0 then throw RmiErrorInput
          else if rp_hash_algo pg = HASH_ALGO_SHA256 \<or> rp_hash_algo pg = HASH_ALGO_SHA512
          then return ()
          else throw RmiErrorInput))"

section \<open>Realm metadata\<close>

definition md_fmt_version :: "(nat \<Rightarrow> u64) \<Rightarrow> usize" where "md_fmt_version pg = pg 0"
definition md_realm_id :: "(nat \<Rightarrow> u64) \<Rightarrow> u8 list" where "md_realm_id pg = page_slice pg 0x8 0x88"
definition md_rim :: "(nat \<Rightarrow> u64) \<Rightarrow> u8 list" where "md_rim pg = page_slice pg 0x88 0xc8"
definition md_hash_algo :: "(nat \<Rightarrow> u64) \<Rightarrow> usize" where "md_hash_algo pg = pg 25"
definition md_svn :: "(nat \<Rightarrow> u64) \<Rightarrow> usize" where "md_svn pg = pg 26"
definition md_public_key :: "(nat \<Rightarrow> u64) \<Rightarrow> u8 list" where "md_public_key pg = page_slice pg 0xf0 0x150"
definition md_signature :: "(nat \<Rightarrow> u64) \<Rightarrow> u8 list" where "md_signature pg = page_slice pg 0x150 0x1b0"
definition md_header :: "(nat \<Rightarrow> u64) \<Rightarrow> u8 list" where "md_header pg = page_slice pg 0 0x150"

definition from_ns :: "usize \<Rightarrow> (nat \<Rightarrow> u64) rmm_prog" where
  "from_ns metadata_addr =
    get_granule_if metadata_addr Undelegated (\<lambda>_. gets (\<lambda>s. read_page s metadata_addr))"

text \<open>
  The checks of the key, of the encoding of the signature and of the signature are
  one function of the crate \<open>p384\<close>; each of them fails with the same error.
\<close>

definition md_verify_signature :: "env \<Rightarrow> (nat \<Rightarrow> u64) \<Rightarrow> unit rmm_prog" where
  "md_verify_signature e pg =
    (if e_p384_verify e (md_public_key pg) (md_signature pg) (md_header pg) then return ()
     else throw RmiErrorInput)"

definition is_printable_ascii :: "u8 \<Rightarrow> bool" where
  "is_printable_ascii c \<longleftrightarrow> 0x20 \<le> c \<and> c \<le> 0x7e"

definition md_validate :: "(nat \<Rightarrow> u64) \<Rightarrow> unit rmm_prog" where
  "md_validate pg =
    (if md_fmt_version pg \<noteq> 1 then throw RmiErrorInput
     else if md_svn pg = 0 then throw RmiErrorInput
     else if md_hash_algo pg \<noteq> 1 \<and> md_hash_algo pg \<noteq> 2 then throw RmiErrorInput
     else if \<not> list_all is_printable_ascii (takeWhile (\<lambda>c. c \<noteq> 0) (md_realm_id pg))
     then throw RmiErrorInput
     else return ())"

definition equal_rd_rim :: "(nat \<Rightarrow> u64) \<Rightarrow> u8 list \<Rightarrow> bool" where
  "equal_rd_rim pg rim \<longleftrightarrow> rim = md_rim pg"

definition equal_rd_hash_algo :: "(nat \<Rightarrow> u64) \<Rightarrow> u8 \<Rightarrow> bool option" where
  "equal_rd_hash_algo pg algo =
    (if algo = HASH_ALGO_SHA256 then Some (1 = md_hash_algo pg)
     else if algo = HASH_ALGO_SHA512 then Some (2 = md_hash_algo pg)
     else None)"

section \<open>Registry of identifiers\<close>

definition create_realm :: "usize \<Rightarrow> unit rmm_prog" where
  "create_realm vmid =
    bind (gets vmid_set) (\<lambda>vs. if vmid \<in> vs then throw RmiErrorInput
      else modify (\<lambda>s. s\<lparr> vmid_set := insert vmid (vmid_set s) \<rparr>))"

definition remove_realm :: "usize \<Rightarrow> unit rmm_prog" where
  "remove_realm vmid =
    bind (gets vmid_set) (\<lambda>vs. if vmid \<in> vs then modify (\<lambda>s. s\<lparr> vmid_set := vmid_set s - {vmid} \<rparr>)
      else throw RmiErrorInput)"

definition insert_rtt :: "usize \<Rightarrow> s2table \<Rightarrow> unit rmm_prog" where
  "insert_rtt vmid t = modify (\<lambda>s. s\<lparr> rtt_tables := (rtt_tables s)(vmid := Some t) \<rparr>)"

section \<open>Realm commands\<close>

definition upd_rd :: "usize \<Rightarrow> (rd \<Rightarrow> rd) \<Rightarrow> unit rmm_prog" where
  "upd_rd a f = modify (\<lambda>s. s\<lparr> rds := (rds s)(a := f (rds s a)) \<rparr>)"

definition measure_into :: "usize \<Rightarrow> (rd \<Rightarrow> error + rd) \<Rightarrow> unit rmm_prog" where
  "measure_into a f = bind (gets (\<lambda>s. f (rds s a))) (\<lambda>x. case x of
     Inl err \<Rightarrow> throw err | Inr r \<Rightarrow> upd_rd a (\<lambda>_. r))"

definition REALM_ACTIVATE :: "env \<Rightarrow> usize list \<Rightarrow> unit rmm_prog" where
  "REALM_ACTIVATE e arg =
    bind (index_slice arg 0) (\<lambda>rdp.
    with_rd rdp (\<lambda>r.
      seq (case rd_metadata r of
             None \<Rightarrow> return ()
           | Some meta \<Rightarrow> get_granule_if meta GS_Metadata (\<lambda>_.
               bind (gets (\<lambda>s. read_page s meta)) (\<lambda>pg.
                 if \<not> equal_rd_rim pg (rd_measurements r ! MEASUREMENTS_SLOT_RIM)
                 then throw (RmiErrorRealm 0)
                 else bind (unwrap (equal_rd_hash_algo pg (rd_hash_algo r))) (\<lambda>eq.
                   if \<not> eq then throw (RmiErrorRealm 0) else return ()))))
        (if \<not> at_state r New then throw (RmiErrorRealm 0)
         else upd_rd rdp (\<lambda>r. r\<lparr> rd_state := Active \<rparr>))))"

definition REALM_CREATE :: "env \<Rightarrow> usize list \<Rightarrow> unit rmm_prog" where
  "REALM_CREATE e arg =
    bind (index_slice arg 0) (\<lambda>rdp.
    bind (index_slice arg 1) (\<lambda>params_ptr.
      if rdp = params_ptr then throw RmiErrorInput
      else get_granule_if rdp Delegated (\<lambda>rd_granule.
        seq (pt_map rdp True)
        (seq (pt_map params_ptr False)
        (bind (bind (copy_from params_ptr) (ok_or RmiErrorInput)) (\<lambda>pg.
          seq (pt_unmap params_ptr)
          (seq (rp_verify_compliance (e_plat e) pg rdp)
          (let n = unat (rp_rtt_num_start pg); vmid = ucast (rp_vmid pg);
               rtts = map (\<lambda>i. rp_rtt_base pg + of_nat i * GRANULE_SIZE) [0..<n]
           in
           seq (for_each rtts (\<lambda>rtt.
                  seq (get_granule_if rtt Delegated (\<lambda>_. return ())) (pt_map rtt True)))
           (seq (create_realm vmid)
           (seq (bind (s2_new (rp_rtt_base pg) (rp_rtt_level_start pg) (ucast (rp_rtt_num_start pg)))
                  (insert_rtt vmid))
           (seq (upd_rd rdp (\<lambda>r. rd_init r (rp_vmid pg) (rp_rtt_base pg) (of_nat n) (rp_ipa_bits pg)
                    (rp_rtt_level_start pg) (rp_rpv pg) (rp_sve_en pg) (ucast (rp_sve_vl pg))))
           (seq (upd_rd rdp (\<lambda>r. r\<lparr> rd_hash_algo := rp_hash_algo pg \<rparr>))
           (seq (measure_into rdp (measure_realm_create e pg))
           (bind (attempt
                (seq (for_each rtts (\<lambda>rtt.
                        get_granule_if rtt Delegated (\<lambda>g. set_granule g GS_RTT)))
                  (set_granule rd_granule GS_RD)))
              (\<lambda>res. case res of
                 Inr _ \<Rightarrow> return ()
               | Inl err \<Rightarrow>
                   seq (pt_unmap rdp)
                   (bind (attempt (remove_realm vmid)) (\<lambda>rm. case rm of
                      Inl _ \<Rightarrow> panic
                    | Inr _ \<Rightarrow> throw err)))))))))))))))))"

definition REC_AUX_COUNT :: "env \<Rightarrow> usize list \<Rightarrow> unit rmm_prog" where
  "REC_AUX_COUNT e arg =
    bind (index_slice arg 0) (\<lambda>rdp.
      seq (get_granule_if rdp GS_RD (\<lambda>_. return ()))
        (set_ret 1 (of_nat MAX_REC_AUX_GRANULES)))"

definition REALM_DESTROY :: "env \<Rightarrow> usize list \<Rightarrow> unit rmm_prog" where
  "REALM_DESTROY e arg =
    bind (index_slice arg 0) (\<lambda>rdp.
    get_granule_if rdp GS_RD (\<lambda>rd_granule.
      bind (gets (\<lambda>s. num_children s rd_granule)) (\<lambda>children.
        if children > 0 then throw (RmiErrorRealm 0)
        else bind (gets (\<lambda>s. rds s rdp)) (\<lambda>r.
          let vmid = rd_id r;
              rtts = map (\<lambda>i. rd_rtt_base r + of_nat i * GRANULE_SIZE) [0..<unat (rd_rtt_num_start r)]
          in
          seq (case rd_metadata r of
                 None \<Rightarrow> return ()
               | Some meta \<Rightarrow>
                   seq (get_granule_if meta GS_Metadata (\<lambda>g. set_granule g Delegated))
                     (upd_rd rdp (\<lambda>r. r\<lparr> rd_metadata := None \<rparr>)))
          (seq (for_each rtts (\<lambda>rtt.
                  get_granule rtt (\<lambda>g. bind (gets (\<lambda>s. num_children s g)) (\<lambda>n.
                    if n > 0 then throw (RmiErrorRealm 0) else return ()))))
          (seq (for_each rtts (\<lambda>rtt. get_granule rtt (\<lambda>g. set_granule g Delegated)))
          (seq (set_granule rd_granule Delegated)
          (seq (pt_unmap rdp)
            (remove_realm vmid)))))))))"

definition ISLET_REALM_SET_METADATA :: "env \<Rightarrow> usize list \<Rightarrow> unit rmm_prog" where
  "ISLET_REALM_SET_METADATA e arg =
    bind (index_slice arg 0) (\<lambda>rd_addr.
    bind (index_slice arg 1) (\<lambda>mdg_addr.
    bind (index_slice arg 2) (\<lambda>meta_ptr.
    bind (from_ns meta_ptr) (\<lambda>md.
      seq (md_verify_signature e md)
      (seq (md_validate md)
      (with_rd rd_addr (\<lambda>r.
        if \<not> at_state r New then throw (RmiErrorRealm 0)
        else if rd_metadata r \<noteq> None then throw (RmiErrorRealm 0)
        else get_granule_if mdg_addr Delegated (\<lambda>g_metadata.
          seq (modify (write_page mdg_addr md))
          (seq (set_granule g_metadata GS_Metadata)
            (upd_rd rd_addr (\<lambda>r. r\<lparr> rd_metadata := Some mdg_addr \<rparr>)))))))))))"

section \<open>Frame conditions\<close>

text \<open>Blocks that change the state of a granule within a set it is known to be in.\<close>

definition steps_within :: "nat \<Rightarrow> u8 set \<Rightarrow> 'a rmm_prog \<Rightarrow> bool" where
  "steps_within i A m \<longleftrightarrow> (\<forall>st \<in> A. steps_at i st (balanced (confined A)) m)"

lemma steps_withinI:
  assumes "\<And>s a t. g_state (gst s i) \<in> A \<Longrightarrow> m s = (Ok a, t) \<Longrightarrow> balanced (confined A) s t"
    and "\<And>s e t. g_state (gst s i) \<in> A \<Longrightarrow> m s = (Err e, t) \<Longrightarrow> balanced (confined A) s t"
  shows "steps_within i A m"
  unfolding steps_within_def using assms by (blast intro: steps_atI)

lemma steps_within_Ok:
  "steps_within i A m \<Longrightarrow> g_state (gst s i) \<in> A \<Longrightarrow> m s = (Ok a, t) \<Longrightarrow> balanced (confined A) s t"
  unfolding steps_within_def by (blast intro: steps_at_Ok)

lemma steps_within_Err:
  "steps_within i A m \<Longrightarrow> g_state (gst s i) \<in> A \<Longrightarrow> m s = (Err e, t) \<Longrightarrow> balanced (confined A) s t"
  unfolding steps_within_def by (blast intro: steps_at_Err)

lemma confined_within:
  "balanced (confined A) s u \<Longrightarrow> g_state (gst s i) \<in> A \<Longrightarrow> g_state (gst u i) \<in> A"
  by (auto simp: balanced_def confined_def dest: spec[of _ i])

lemma steps_within_steps: "steps (balanced (confined A)) m \<Longrightarrow> steps_within i A m"
  by (simp add: steps_within_def steps_at_steps)

lemma steps_within_bind:
  assumes "steps_within i A m" and "\<And>x. steps_within i A (f x)"
  shows "steps_within i A (bind m f)"
proof (rule steps_withinI)
  fix s a t assume s: "g_state (gst s i) \<in> A" and "bind m f s = (Ok a, t)"
  then obtain x u where u: "m s = (Ok x, u)" "f x u = (Ok a, t)"
    by (auto simp: run split: prod.splits outcome.splits)
  note k = steps_within_Ok[OF assms(1) s u(1)]
  from balanced_confined_trans[OF k steps_within_Ok[OF assms(2) confined_within[OF k s] u(2)]]
  show "balanced (confined A) s t" .
next
  fix s e t assume s: "g_state (gst s i) \<in> A" and b: "bind m f s = (Err e, t)"
  then consider x u where "m s = (Ok x, u)" "f x u = (Err e, t)" | "m s = (Err e, t)"
    by (auto simp: run split: prod.splits outcome.splits)
  then show "balanced (confined A) s t"
  proof cases
    case (1 x u)
    note k = steps_within_Ok[OF assms(1) s 1(1)]
    from balanced_confined_trans[OF k steps_within_Err[OF assms(2) confined_within[OF k s] 1(2)]]
    show ?thesis .
  next
    case 2
    then show ?thesis by (rule steps_within_Err[OF assms(1) s])
  qed
qed

lemma steps_within_attempt: "steps_within i A m \<Longrightarrow> steps_within i A (attempt m)"
  by (rule steps_withinI)
    (auto simp: run split: prod.splits outcome.splits dest: steps_within_Ok steps_within_Err)

lemma steps_within_set: "st \<in> A \<Longrightarrow> steps_within i A (set_granule i st)"
  by (simp add: steps_within_def steps_at_set_end)

lemma steps_at_within: "steps_within i A m \<Longrightarrow> st \<in> A \<Longrightarrow> steps_at i st (balanced (confined A)) m"
  by (simp add: steps_within_def)

lemma steps_upd_rd: "steps (balanced (confined A)) (upd_rd a f)"
  unfolding upd_rd_def by (rule conf_objects.steps_set_rds)

lemma steps_measure_into: "steps (balanced (confined A)) (measure_into a f)"
  unfolding measure_into_def by (intro conf_objects.object_rules steps_upd_rd)

lemma steps_registry:
  "steps (balanced (confined A)) (create_realm v)" "steps (balanced (confined A)) (remove_realm v)"
  "steps (balanced (confined A)) (insert_rtt v t)"
  unfolding create_realm_def remove_realm_def insert_rtt_def
  by (intro conf_objects.object_rules conf.steps_modify; simp add: balanced_def confined_def)+

lemma steps_rp_verify: "steps (balanced (confined A)) (rp_verify_compliance p pg rdp)"
  unfolding rp_verify_compliance_def Let_def by (intro conf_objects.object_rules)

lemma steps_metadata:
  "steps (balanced (confined A)) (from_ns a)" "steps (balanced (confined A)) (md_verify_signature e pg)"
  "steps (balanced (confined A)) (md_validate pg)"
  unfolding from_ns_def md_verify_signature_def md_validate_def by (intro conf_objects.object_rules)+

lemma steps_REALM_ACTIVATE: "steps (balanced (confined A)) (REALM_ACTIVATE e arg)"
  unfolding REALM_ACTIVATE_def by (intro conf_objects.object_rules steps_upd_rd)

lemma steps_REC_AUX_COUNT: "steps (balanced (confined A)) (REC_AUX_COUNT e arg)"
  unfolding REC_AUX_COUNT_def by (intro conf_objects.object_rules)

lemma steps_FEATURES: "steps (balanced (confined A)) (FEATURES e arg)"
  unfolding FEATURES_def by (intro conf_objects.object_rules)

lemma steps_VERSION: "steps (balanced (confined A)) (VERSION e arg)"
  unfolding VERSION_def Let_def by (intro conf_objects.object_rules)

lemma steps_REALM_DESTROY: "steps (balanced (confined UNIV)) (REALM_DESTROY e arg)"
  unfolding REALM_DESTROY_def Let_def
  by (intro conf_objects.object_rules steps_upd_rd steps_registry steps_set_granule_any)

lemma steps_SET_METADATA:
  assumes "{Delegated, GS_Metadata} \<subseteq> A"
  shows "steps (balanced (confined A)) (ISLET_REALM_SET_METADATA e arg)"
  unfolding ISLET_REALM_SET_METADATA_def
  by (intro conf.steps_bind conf.steps_index_slice conf.steps_if conf.steps_throw steps_metadata
      conf_objects.steps_with_rd steps_get_granule_if_at steps_at_within steps_within_bind
      steps_within_set steps_within_steps[OF steps_upd_rd] steps_within_steps[OF conf_objects.steps_write_page])
    (use assms in auto)

lemma steps_REALM_CREATE:
  assumes "{Delegated, GS_RTT, GS_RD} \<subseteq> A"
  shows "steps (balanced (confined A)) (REALM_CREATE e arg)"
proof -
  have A: "Delegated \<in> A" "GS_RTT \<in> A" "GS_RD \<in> A" using assms by auto
  have rtt: "steps (balanced (confined A)) (get_granule_if a Delegated (\<lambda>g. set_granule g GS_RTT))" for a
    by (intro steps_get_granule_if_at steps_at_set_end A)
  have s2: "steps (balanced (confined A)) (s2_new b l p)" for b l p by (rule conf_tables.steps_s2_new)
  show ?thesis
    unfolding REALM_CREATE_def Let_def
    by (intro conf.steps_bind conf.steps_index_slice conf.steps_if conf.steps_throw
        steps_get_granule_if_at steps_at_within[OF _ A(1)] steps_within_bind steps_within_attempt
        steps_within_set A
        steps_within_steps[OF conf.steps_pt_map] steps_within_steps[OF conf.steps_pt_unmap]
        steps_within_steps[OF steps_rp_verify] steps_within_steps[OF conf.steps_for_each]
        steps_within_steps[OF conf.steps_read_host(1)] steps_within_steps[OF conf.steps_ok_or]
        steps_within_steps[OF steps_registry(1)] steps_within_steps[OF s2]
        steps_within_steps[OF steps_registry(3)] steps_within_steps[OF steps_upd_rd]
        steps_within_steps[OF steps_measure_into] steps_within_steps[OF conf_objects.steps_sum]
        rtt conf_objects.object_rules steps_registry)
qed

section \<open>Accepted parameters\<close>

lemma rp_verify_Ok:
  assumes "rp_verify_compliance p pg rdp s = (Ok (), t)"
  shows "t = s \<and> rp_rtt_base pg \<noteq> rdp \<and> rp_rtt_base pg mod 4096 = 0
    \<and> features_validate (ucast (rp_s2sz pg))
    \<and> min_ipa_bits (rp_rtt_level_start pg) \<le> rp_ipa_bits pg
    \<and> rp_ipa_bits pg \<le> max_ipa_bits (rp_rtt_level_start pg)
    \<and> rp_rtt_num_start pg = s2_num_root_rtts (rp_rtt_level_start pg) (rp_ipa_bits pg)
    \<and> simd_validate p (rp_sve_en pg) (ucast (rp_sve_vl pg))
    \<and> (rp_hash_algo pg = HASH_ALGO_SHA256 \<or> rp_hash_algo pg = HASH_ALGO_SHA512)"
  using assms by (simp add: rp_verify_compliance_def Let_def run not_less split: if_splits)

lemma supported_level:
  assumes "s2_supported l n"
  shows "l = 0 \<or> l = 1 \<or> l = 2"
  using assms by (auto simp: s2_supported_def split: if_splits)

lemma unat_exp32: "k < 32 \<Longrightarrow> unat (ucast (2 ^ k :: u32) :: usize) = 2 ^ k"
proof -
  assume k: "k < 32"
  have lt: "(2 :: nat) ^ k < 2 ^ 32" "(2 :: nat) ^ k < 2 ^ 64"
    using power_strict_increasing[OF k, of "2 :: nat"] by auto
  have "(2 ^ k :: u32) = of_nat (2 ^ k)" by simp
  then have "unat (2 ^ k :: u32) = 2 ^ k" using lt(1) by (simp only: unat_of_nat) simp
  then show ?thesis using lt(2) k by (simp add: unsigned_ucast_eq take_bit_nat_eq_self)
qed

lemma num_root_rtts_cover:
  assumes "l = 1 \<or> l = 2" and "bits \<le> 48" and "s2_num_root_rtts l bits = n"
  shows "2 ^ unat bits \<le> 512 * unat (ucast n :: usize) * 2 ^ (39 - 9 * unat l)"
proof -
  have sl: "unat (sl_ipa_bits l) = 48 - 9 * unat l" using assms(1) by (auto simp: sl_ipa_bits_def)
  have b: "unat bits \<le> 48" using assms(2) by (simp add: word_le_nat_alt)
  have e: "512 * 2 ^ (39 - 9 * unat l) = (2 :: nat) ^ (48 - 9 * unat l)" using assms(1) by auto
  show ?thesis
  proof (cases "bits \<le> sl_ipa_bits l")
    case True
    then have n: "n = 1" and "unat bits \<le> 48 - 9 * unat l"
      using assms(3) sl by (simp_all add: s2_num_root_rtts_def word_le_nat_alt)
    then have "2 ^ unat bits \<le> (2 :: nat) ^ (48 - 9 * unat l)" by (intro power_increasing) simp_all
    then show ?thesis using n e by simp
  next
    case False
    let ?d = "unat bits - (48 - 9 * unat l)"
    have d: "unat (bits - sl_ipa_bits l) = ?d"
      using False sl by (simp add: unat_sub_if' word_le_nat_alt)
    have d32: "?d < 32" using b assms(1) by auto
    have "n = push_bit ?d 1" using False assms(3) d d32 by (simp add: s2_num_root_rtts_def)
    then have n: "unat (ucast n :: usize) = 2 ^ ?d"
      using unat_exp32[OF d32] by simp
    have "(2 :: nat) ^ unat bits = 2 ^ ?d * 2 ^ (48 - 9 * unat l)"
      using False sl by (simp add: power_add[symmetric] word_le_nat_alt)
    then show ?thesis using n e by simp
  qed
qed

section \<open>Properties\<close>

text \<open>
  C15. The parameters that REALM_CREATE accepts fit together: for a root table that is supported
  at all, the root pages it asks for cover every address of the realm, so that no walk of
  the realm's tables leaves them.
\<close>

theorem accepted_realm_is_covered:
  assumes "rp_verify_compliance p pg rdp s = (Ok (), s')"
    and "s2_supported (rp_rtt_level_start pg) (ucast (rp_rtt_num_start pg))"
    and "unat ipa < 2 ^ unat (rp_ipa_bits pg)"
  shows "s2_covers \<lparr> s2_base = rp_rtt_base pg, s2_root_level = rp_rtt_level_start pg,
    s2_root_pages = ucast (rp_rtt_num_start pg), s2_dirty = d \<rparr> ipa"
proof -
  note ok = rp_verify_Ok[OF assms(1)]
  from ok have b: "rp_ipa_bits pg \<le> 48" by (simp add: features_validate_def rp_ipa_bits_def)
  show ?thesis
    using assms(2,3) supported_level[OF assms(2)] ok
      num_root_rtts_cover[OF _ b, of "rp_rtt_level_start pg" "rp_rtt_num_start pg"]
    by (auto simp: s2_covers_def)
qed

definition sample_params :: "u64 \<Rightarrow> u64 \<Rightarrow> u64 \<Rightarrow> nat \<Rightarrow> u64" where
  "sample_params s2sz level num = (\<lambda>_. 0)(1 := s2sz, 0x101 := 0x88000000, 0x102 := level, 0x103 := num)"

theorem accepted_realm_is_covered_witness:
  "s2_covers \<lparr> s2_base = 0x88000000, s2_root_level = 2, s2_root_pages = 4, s2_dirty = False \<rparr> 0xfffff000"
proof -
  let ?pg = "sample_params 32 2 4"
  have f: "rp_rtt_base ?pg = 0x88000000" "rp_rtt_level_start ?pg = 2" "rp_rtt_num_start ?pg = 4"
      "rp_ipa_bits ?pg = 32"
    by code_simp+
  have "fst (rp_verify_compliance platform0 ?pg 0x88010000 rmm0) = Ok ()" by code_simp
  then obtain s where s: "rp_verify_compliance platform0 ?pg 0x88010000 rmm0 = (Ok (), s)"
    by (metis prod.collapse)
  show ?thesis
    using accepted_realm_is_covered[OF s, of "0xfffff000" False] unfolding f
    by (simp add: s2_supported_def)
qed

text \<open>
  Some parameters are accepted that the tables do not support: for 41-bit addresses and a
  level 1 root of four pages the check passes and the construction of the tables panics.
\<close>

theorem accepted_params_can_panic:
  "fst (rp_verify_compliance platform0 (sample_params 41 1 4) 0x88010000 rmm0) = Ok ()
   \<and> fst (s2_new (rp_rtt_base (sample_params 41 1 4)) (rp_rtt_level_start (sample_params 41 1 4))
       (ucast (rp_rtt_num_start (sample_params 41 1 4))) rmm0) = Panic"
  by code_simp

definition metadata_matches :: "rmm \<Rightarrow> rd \<Rightarrow> bool" where
  "metadata_matches s r = (case rd_metadata r of
     None \<Rightarrow> True
   | Some m \<Rightarrow> equal_rd_rim (read_page s m) (rd_measurements r ! MEASUREMENTS_SLOT_RIM)
       \<and> equal_rd_hash_algo (read_page s m) (rd_hash_algo r) = Some True)"

text \<open>
  C16. Activation, on every branch.  A realm that is New becomes Active if it has no metadata or
  if its initial measurement and hash algorithm are those of its metadata; in every other
  case the command fails with a realm error and changes nothing.
\<close>

theorem realm_activate_spec:
  assumes rd: "validate_addr rdp" "gidx rdp \<notin> set (held s)" "g_state (gst s (gidx rdp)) = GS_RD"
    and meta: "\<forall>m. rd_metadata (rds s rdp) = Some m \<longrightarrow> validate_addr m \<and> m \<noteq> rdp
      \<and> gidx m \<notin> set (held s) \<and> g_state (gst s (gidx m)) = GS_Metadata"
    and algo: "rd_hash_algo (rds s rdp) \<in> {HASH_ALGO_SHA256, HASH_ALGO_SHA512}"
  shows "REALM_ACTIVATE e [rdp] s =
    (if metadata_matches s (rds s rdp) \<and> rd_state (rds s rdp) = New
     then (Ok (), s\<lparr> rds := (rds s)(rdp := (rds s rdp)\<lparr> rd_state := Active \<rparr>) \<rparr>)
     else (Err (RmiErrorRealm 0), s))"
proof (cases "rd_metadata (rds s rdp)")
  case None
  then show ?thesis
    using rd by (simp add: REALM_ACTIVATE_def with_rd_def get_granule_if_run run upd_rd_def at_state_def
        metadata_matches_def)
next
  case (Some m)
  then have m: "validate_addr m" "m \<noteq> rdp" "gidx m \<notin> set (held s)" "g_state (gst s (gidx m)) = GS_Metadata"
    using meta by auto
  have "gidx m \<noteq> gidx rdp" using gidx_eq_iff[OF m(1) rd(1)] m(2) by simp
  then show ?thesis
    using rd m Some algo
    by (auto simp: REALM_ACTIVATE_def with_rd_def get_granule_if_run run upd_rd_def at_state_def
        metadata_matches_def equal_rd_hash_algo_def read_page_def)
qed

theorem realm_activate_spec_witness:
  "REALM_ACTIVATE env0 [0x88000000] (rmm0\<lparr> gst := (\<lambda>i. granule_new\<lparr> g_state := GS_RD \<rparr>),
      rds := (\<lambda>a. rd_zero\<lparr> rd_state := New \<rparr>) \<rparr>)
    = (Ok (), rmm0\<lparr> gst := (\<lambda>i. granule_new\<lparr> g_state := GS_RD \<rparr>),
      rds := (\<lambda>a. rd_zero\<lparr> rd_state := New \<rparr>)(0x88000000 := rd_zero\<lparr> rd_state := Active \<rparr>) \<rparr>)"
proof -
  let ?s = "rmm0\<lparr> gst := (\<lambda>i. granule_new\<lparr> g_state := GS_RD \<rparr>), rds := (\<lambda>a. rd_zero\<lparr> rd_state := New \<rparr>) \<rparr>"
  have "validate_addr 0x88000000" by code_simp
  then show ?thesis
    using realm_activate_spec[of "0x88000000" ?s env0]
    by (simp add: rmm0_def rd_zero_def metadata_matches_def)
qed

end
