(* ===== verification/Rec_Run.thy ===== *)
theory Rec_Run
  imports Rmi_Rtt
begin

text \<open>
  What passes between the host, the core and an execution context when it is run:
  the page \<open>Run\<close> of \<open>rmm/src/rmi/rec/run.rs\<close>, the interrupt controller, timer and SIMD
  state of \<open>rmm/src/rec/gic.rs\<close>, \<open>timer.rs\<close> and \<open>simd.rs\<close>, the switch of
  \<open>rmm/src/rec/context.rs\<close>, the emulated accesses of \<open>rmm/src/mmio.rs\<close> and the stage 2
  control register of \<open>rmm/src/rmi/rec/vtcr.rs\<close>.

  An execution context is held by reference while it runs; the programs take its
  address.  The local copy of the page \<open>Run\<close> is the component \<open>run_page\<close> of the state, a
  field at offset \<open>o\<close> being in its word \<open>o / 8\<close>.
\<close>

definition rec_at :: "usize \<Rightarrow> rec rmm_prog" where
  "rec_at rp = gets (\<lambda>s. recs s rp)"

definition upd_rec :: "usize \<Rightarrow> (rec \<Rightarrow> rec) \<Rightarrow> unit rmm_prog" where
  "upd_rec rp f = modify (\<lambda>s. s\<lparr> recs := (recs s)(rp := f (recs s rp)) \<rparr>)"

definition upd_ctx :: "usize \<Rightarrow> (rec_ctx \<Rightarrow> rec_ctx) \<Rightarrow> unit rmm_prog" where
  "upd_ctx rp f = upd_rec rp (\<lambda>r. r\<lparr> rec_context := f (rec_context r) \<rparr>)"

definition upd_cpu :: "(cpu \<Rightarrow> cpu) \<Rightarrow> unit rmm_prog" where
  "upd_cpu f = modify (\<lambda>s. s\<lparr> cpu := f (cpu s) \<rparr>)"

definition set_reg :: "usize \<Rightarrow> usize \<Rightarrow> usize \<Rightarrow> unit rmm_prog" where
  "set_reg rp register val = bind (rec_at rp) (\<lambda>r. case set_reg_rec r register val of
     Inl err \<Rightarrow> throw err | Inr r' \<Rightarrow> upd_rec rp (\<lambda>_. r'))"

definition get_reg :: "usize \<Rightarrow> usize \<Rightarrow> usize rmm_prog" where
  "get_reg rp register = bind (rec_at rp) (\<lambda>r. case get_reg_rec r register of
     Inl err \<Rightarrow> throw err | Inr v \<Rightarrow> return v)"

section \<open>The page Run\<close>

abbreviation (input) NR_GPRS :: nat where "NR_GPRS \<equiv> 31"
abbreviation (input) REC_ENTRY_FLAG_EMUL_MMIO :: u64 where "REC_ENTRY_FLAG_EMUL_MMIO \<equiv> 1"
abbreviation (input) REC_ENTRY_FLAG_RIPAS_RESPONSE :: u64 where "REC_ENTRY_FLAG_RIPAS_RESPONSE \<equiv> 16"

definition entry_flags :: "(nat \<Rightarrow> u64) \<Rightarrow> u64" where "entry_flags pg = pg 0"
definition entry_gic_hcr :: "(nat \<Rightarrow> u64) \<Rightarrow> u64" where "entry_gic_hcr pg = pg 96"

definition entry_gic_lrs :: "(nat \<Rightarrow> u64) \<Rightarrow> u64 list" where
  "entry_gic_lrs pg = map (\<lambda>i. pg (97 + i)) [0..<16]"

definition entry_gpr :: "nat \<Rightarrow> u64 rmm_prog" where
  "entry_gpr idx = (if idx \<ge> NR_GPRS then throw RmiErrorInput else gets (\<lambda>s. run_page s (64 + idx)))"

definition run_put :: "nat \<Rightarrow> u64 \<Rightarrow> unit rmm_prog" where
  "run_put k v = modify (\<lambda>s. s\<lparr> run_page := (run_page s)(k := v) \<rparr>)"

text \<open>A field of one or two bytes leaves the padding of its word as it is.\<close>

definition put_u8 :: "u64 \<Rightarrow> u8 \<Rightarrow> u64" where
  "put_u8 w v = (w AND NOT 0xff) OR ucast v"

definition put_u16 :: "u64 \<Rightarrow> u16 \<Rightarrow> u64" where
  "put_u16 w v = (w AND NOT 0xffff) OR ucast v"

definition set_exit_reason :: "u8 \<Rightarrow> unit rmm_prog" where
  "set_exit_reason r = bind (gets run_page) (\<lambda>pg. run_put 256 (put_u8 (pg 256) r))"

definition set_imm :: "u16 \<Rightarrow> unit rmm_prog" where
  "set_imm imm = bind (gets run_page) (\<lambda>pg. run_put 448 (put_u16 (pg 448) imm))"

definition set_esr :: "u64 \<Rightarrow> unit rmm_prog" where "set_esr v = run_put 288 v"
definition set_far :: "u64 \<Rightarrow> unit rmm_prog" where "set_far v = run_put 289 v"
definition set_hpfar :: "u64 \<Rightarrow> unit rmm_prog" where "set_hpfar v = run_put 290 v"

definition set_gpr :: "nat \<Rightarrow> u64 \<Rightarrow> unit rmm_prog" where
  "set_gpr idx v = (if idx \<ge> NR_GPRS then throw RmiErrorInput else run_put (320 + idx) v)"

definition run_set_ripas :: "u64 \<Rightarrow> u64 \<Rightarrow> u8 \<Rightarrow> unit rmm_prog" where
  "run_set_ripas base sz st = seq (run_put 416 base) (seq (run_put 417 sz)
     (bind (gets run_page) (\<lambda>pg. run_put 418 (put_u8 (pg 418) st))))"

definition exit_reason :: "(nat \<Rightarrow> u64) \<Rightarrow> u8" where "exit_reason pg = ucast (pg 256)"
definition exit_gpr :: "(nat \<Rightarrow> u64) \<Rightarrow> nat \<Rightarrow> u64" where "exit_gpr pg i = pg (320 + i)"
definition exit_ripas :: "(nat \<Rightarrow> u64) \<Rightarrow> u64 \<times> u64" where "exit_ripas pg = (pg 416, pg 416 + pg 417)"

definition run_verify_compliance :: "(nat \<Rightarrow> u64) \<Rightarrow> unit rmm_prog" where
  "run_verify_compliance pg =
    (if \<exists>lr \<in> set (entry_gic_lrs pg). lr AND push_bit 61 1 \<noteq> 0 then throw RmiErrorRec else return ())"

section \<open>Interrupt controller\<close>

definition field :: "reg_field \<Rightarrow> u64 \<Rightarrow> u64" where
  "field f x = drop_bit (fld_shift f) x AND fld_mask f"

definition field_mask :: "reg_field \<Rightarrow> u64" where
  "field_mask f = push_bit (fld_shift f) (fld_mask f)"

text \<open>The values of \<open>ICH_VTR_EL2\<close> and \<open>ICC_CTLR_EL1\<close> determine the features.\<close>

definition read_gic_features :: "u64 \<Rightarrow> u64 \<Rightarrow> u64 \<Rightarrow> u64 \<Rightarrow> bool \<Rightarrow> gic_features" where
  "read_gic_features list_regs idbits prebits pribits ext =
    \<lparr> nr_lrs = unat list_regs,
      nr_aprs = unat (shl 1 (prebits + 1 - 5) - 1),
      pri_res0_mask = shl 1 (8 - (pribits + 1)) - 1,
      max_vintid = (if idbits = 0 then push_bit 16 1 - 1 else push_bit 24 1 - 1),
      ext_range = ext \<rparr>"

definition set_lr :: "nat \<Rightarrow> u64 \<Rightarrow> unit rmm_prog" where
  "set_lr i v = upd_cpu (\<lambda>c. c\<lparr> c_gic := (c_gic c)\<lparr> ich_lr_el2 :=
     if i \<le> 15 then (ich_lr_el2 (c_gic c))[i := v] else ich_lr_el2 (c_gic c) \<rparr> \<rparr>)"

definition set_ap0r :: "nat \<Rightarrow> u64 \<Rightarrow> unit rmm_prog" where
  "set_ap0r i v = upd_cpu (\<lambda>c. c\<lparr> c_gic := (c_gic c)\<lparr> ich_ap0r_el2 :=
     if i \<le> 3 then (ich_ap0r_el2 (c_gic c))[i := v] else ich_ap0r_el2 (c_gic c) \<rparr> \<rparr>)"

definition set_ap1r :: "nat \<Rightarrow> u64 \<Rightarrow> unit rmm_prog" where
  "set_ap1r i v = upd_cpu (\<lambda>c. c\<lparr> c_gic := (c_gic c)\<lparr> ich_ap1r_el2 :=
     if i \<le> 3 then (ich_ap1r_el2 (c_gic c))[i := v] else ich_ap1r_el2 (c_gic c) \<rparr> \<rparr>)"

definition get_lr :: "nat \<Rightarrow> u64 rmm_prog" where
  "get_lr i = (if i \<le> 15 then gets (\<lambda>s. ich_lr_el2 (c_gic (cpu s)) ! i) else panic)"

definition get_ap0r :: "nat \<Rightarrow> u64 rmm_prog" where
  "get_ap0r i = (if i \<le> 3 then gets (\<lambda>s. ich_ap0r_el2 (c_gic (cpu s)) ! i) else panic)"

definition get_ap1r :: "nat \<Rightarrow> u64 rmm_prog" where
  "get_ap1r i = (if i \<le> 3 then gets (\<lambda>s. ich_ap1r_el2 (c_gic (cpu s)) ! i) else panic)"

definition gic_restore_state :: "platform \<Rightarrow> usize \<Rightarrow> unit rmm_prog" where
  "gic_restore_state p rp =
    bind (rec_at rp) (\<lambda>r. let g = gic_state (rec_context r) in
      seq (for_each [0..<Suc (nr_lrs (p_gic p))] (\<lambda>i. bind (index_slice (ich_lr_el2 g) i) (set_lr i)))
      (seq (for_each [0..<Suc (nr_aprs (p_gic p))] (\<lambda>i.
             seq (bind (index_slice (ich_ap0r_el2 g) i) (set_ap0r i))
               (bind (index_slice (ich_ap1r_el2 g) i) (set_ap1r i))))
        (upd_cpu (\<lambda>c. c\<lparr> c_gic := (c_gic c)\<lparr> ich_vmcr_el2 := ich_vmcr_el2 g,
           ich_hcr_el2 := ich_hcr_el2 g \<rparr> \<rparr>))))"

definition upd_gic :: "usize \<Rightarrow> (gic_regs \<Rightarrow> gic_regs) \<Rightarrow> unit rmm_prog" where
  "upd_gic rp f = upd_ctx rp (\<lambda>c. c\<lparr> gic_state := f (gic_state c) \<rparr>)"

definition gic_save_state :: "platform \<Rightarrow> usize \<Rightarrow> unit rmm_prog" where
  "gic_save_state p rp =
    seq (for_each [0..<Suc (nr_lrs (p_gic p))] (\<lambda>i. bind (get_lr i) (\<lambda>v.
           upd_gic rp (\<lambda>g. g\<lparr> ich_lr_el2 := (ich_lr_el2 g)[i := v] \<rparr>))))
    (seq (for_each [0..<Suc (nr_aprs (p_gic p))] (\<lambda>i.
           seq (bind (get_ap0r i) (\<lambda>v. upd_gic rp (\<lambda>g. g\<lparr> ich_ap0r_el2 := (ich_ap0r_el2 g)[i := v] \<rparr>)))
             (bind (get_ap1r i) (\<lambda>v. upd_gic rp (\<lambda>g. g\<lparr> ich_ap1r_el2 := (ich_ap1r_el2 g)[i := v] \<rparr>)))))
      (bind (gets (\<lambda>s. c_gic (cpu s))) (\<lambda>h.
        seq (upd_gic rp (\<lambda>g. g\<lparr> ich_vmcr_el2 := ich_vmcr_el2 h, ich_hcr_el2 := ich_hcr_el2 h,
               ich_misr_el2 := ich_misr_el2 h \<rparr>))
          (upd_cpu (\<lambda>c. c\<lparr> c_gic := (c_gic c)\<lparr> ich_hcr_el2 := ich_hcr_el2 h AND NOT (p_hcr_en p) \<rparr> \<rparr>)))))"

definition gic_receive_state_from_host :: "platform \<Rightarrow> usize \<Rightarrow> unit rmm_prog" where
  "gic_receive_state_from_host p rp =
    bind (gets run_page) (\<lambda>pg. let n = nr_lrs (p_gic p) in
      if n > 16 then panic
      else upd_gic rp (\<lambda>g. g\<lparr>
        ich_lr_el2 := take n (entry_gic_lrs pg) @ drop n (ich_lr_el2 g),
        ich_hcr_el2 := (ich_hcr_el2 g AND NOT (p_hcr_ns_mask p)) OR (entry_gic_hcr pg AND p_hcr_ns_mask p) \<rparr>))"

definition hcr_eoi_count_mask :: "platform \<Rightarrow> u64" where
  "hcr_eoi_count_mask p = push_bit (p_hcr_eoi_count_shift p) (drop_bit (64 - 5) (- 1))"

definition gic_send_state_to_host :: "platform \<Rightarrow> usize \<Rightarrow> unit rmm_prog" where
  "gic_send_state_to_host p rp =
    bind (rec_at rp) (\<lambda>r. let g = gic_state (rec_context r); n = nr_lrs (p_gic p) in
      if n > 16 then panic
      else seq (for_each [0..<n] (\<lambda>i. run_put (353 + i) (ich_lr_el2 g ! i)))
        (seq (run_put 369 (ich_misr_el2 g)) (seq (run_put 370 (ich_vmcr_el2 g))
          (run_put 352 (ich_hcr_el2 g AND (hcr_eoi_count_mask p OR p_hcr_ns_mask p))))))"

definition valid_vintid :: "gic_features \<Rightarrow> u64 \<Rightarrow> bool" where
  "valid_vintid f intid =
    (if intid \<le> 1019 \<or> intid \<ge> 8192 \<and> intid \<le> max_vintid f then True
     else if ext_range f then intid \<ge> 1056 \<and> intid \<le> 1119 \<or> intid \<ge> 4096 \<and> intid \<le> 5119
     else False)"

text \<open>
  The two loops over the list registers of the host; \<open>None\<close> is an index out of range,
  which panics.
\<close>

fun no_duplicate :: "platform \<Rightarrow> u64 list \<Rightarrow> u64 \<Rightarrow> nat list \<Rightarrow> bool option" where
  "no_duplicate p lrs vintid [] = Some True"
| "no_duplicate p lrs vintid (j # js) =
    (if j \<ge> length lrs then None
     else if field (p_lr_state p) (lrs ! j) = p_lr_state_invalid p then no_duplicate p lrs vintid js
     else if vintid = field (p_lr_vintid p) (lrs ! j) then Some False
     else no_duplicate p lrs vintid js)"

definition lr_valid :: "platform \<Rightarrow> u64 \<Rightarrow> bool" where
  "lr_valid p lr =
    (let only_eoi = field_mask (p_lr_pintid p) AND NOT (field_mask (p_lr_eoi p))
     in \<not> (field (p_lr_hw p) lr \<noteq> 0
          \<or> field (p_lr_priority p) lr AND pri_res0_mask (p_gic p) \<noteq> 0
          \<or> lr AND only_eoi \<noteq> 0
          \<or> \<not> valid_vintid (p_gic p) (field (p_lr_vintid p) lr)))"

fun validate_lrs :: "platform \<Rightarrow> u64 list \<Rightarrow> nat list \<Rightarrow> bool option" where
  "validate_lrs p lrs [] = Some True"
| "validate_lrs p lrs (i # is) =
    (if i \<ge> length lrs then None
     else if field (p_lr_state p) (lrs ! i) = p_lr_state_invalid p then validate_lrs p lrs is
     else if \<not> lr_valid p (lrs ! i) then Some False
     else (case no_duplicate p lrs (field (p_lr_vintid p) (lrs ! i)) [i + 1..<Suc (nr_lrs (p_gic p))] of
         Some True \<Rightarrow> validate_lrs p lrs is
       | x \<Rightarrow> x))"

definition gic_validate_state :: "platform \<Rightarrow> (nat \<Rightarrow> u64) \<Rightarrow> bool option" where
  "gic_validate_state p pg =
    (if entry_gic_hcr pg AND NOT (p_hcr_ns_mask p) \<noteq> 0 then Some False
     else validate_lrs p (entry_gic_lrs pg) [0..<nr_lrs (p_gic p)])"

section \<open>Timer\<close>

definition timer_restore_state :: "usize \<Rightarrow> unit rmm_prog" where
  "timer_restore_state rp = bind (rec_at rp) (\<lambda>r.
     upd_cpu (\<lambda>c. c\<lparr> c_timer := timer (rec_context r) \<rparr>))"

definition timer_save_state :: "usize \<Rightarrow> unit rmm_prog" where
  "timer_save_state rp = bind (gets (\<lambda>s. c_timer (cpu s))) (\<lambda>t. upd_ctx rp (\<lambda>c. c\<lparr> timer := t \<rparr>))"

definition timer_send_state_to_host :: "usize \<Rightarrow> unit rmm_prog" where
  "timer_send_state_to_host rp = bind (rec_at rp) (\<lambda>r. let t = timer (rec_context r) in
     seq (run_put 386 (cntv_ctl_el0 t))
     (seq (run_put 387 (cntv_cval_el0 t - cntvoff_el2 t))
     (seq (run_put 384 (cntp_ctl_el0 t))
       (run_put 385 (cntp_cval_el0 t - cntpoff_el2 t)))))"

section \<open>SIMD\<close>

abbreviation (input) CPTR_TAM :: u64 where "CPTR_TAM \<equiv> push_bit 30 1"

text \<open>
  The assembly of \<open>restore_fpu\<close> names the register \<open>x0\<close> in its first instruction, which is
  not an operand of the block; what memory holds there is the parameter \<open>p_x0_quads\<close>.
\<close>

definition restore_fpu :: "platform \<Rightarrow> fpu_regs \<Rightarrow> unit rmm_prog" where
  "restore_fpu p f = upd_cpu (\<lambda>c. c\<lparr> c_fpu := f\<lparr> fpu_q :=
     (let (a, b) = p_x0_quads p (fpu_q f) in a # b # drop 2 (fpu_q f)) \<rparr> \<rparr>)"

definition simd_restore_state :: "usize \<Rightarrow> unit rmm_prog" where
  "simd_restore_state rp = bind (rec_at rp) (\<lambda>r. let d = simd (rec_context r) in
     seq (upd_cpu (\<lambda>c. c\<lparr> c_cptr_el2 := CPTR_TAM \<rparr>))
     (seq (if sve_en (simd_cfg d)
           then upd_cpu (\<lambda>c. c\<lparr> c_ns_simd := (c_ns_simd c)\<lparr> simd_zcr_el2 := c_zcr_el2 c \<rparr>,
                  c_zcr_el2 := simd_zcr_el2 d \<rparr>)
           else upd_cpu (\<lambda>c. c\<lparr> c_ns_simd := (c_ns_simd c)\<lparr> simd_fpu := c_fpu c \<rparr> \<rparr>))
       (upd_cpu (\<lambda>c. c\<lparr> c_ns_simd := (c_ns_simd c)\<lparr> simd_cptr_el2 := c_cptr_el2 c \<rparr>,
          c_cptr_el2 := simd_cptr_el2 d \<rparr>))))"

definition upd_simd :: "usize \<Rightarrow> (simd_regs \<Rightarrow> simd_regs) \<Rightarrow> unit rmm_prog" where
  "upd_simd rp f = upd_ctx rp (\<lambda>c. c\<lparr> simd := f (simd c) \<rparr>)"

definition simd_save_state :: "platform \<Rightarrow> usize \<Rightarrow> unit rmm_prog" where
  "simd_save_state p rp = bind (rec_at rp) (\<lambda>r. bind (gets (\<lambda>s. c_ns_simd (cpu s))) (\<lambda>ns.
     let d = simd (rec_context r) in
     seq (upd_cpu (\<lambda>c. c\<lparr> c_cptr_el2 := CPTR_TAM \<rparr>))
     (seq (if sve_en (simd_cfg d)
           then bind (gets cpu) (\<lambda>c.
             seq (upd_simd rp (\<lambda>d. d\<lparr> simd_zcr_el2 := c_zcr_el2 c, simd_zcr_el12 := c_zcr_el1 c \<rparr>))
             (seq (upd_cpu (\<lambda>c. c\<lparr> c_zcr_el2 := simd_zcr_el2 ns \<rparr>)) panic))
           else seq
             (only_if (simd_is_used d)
               (bind (gets cpu) (\<lambda>c. upd_simd rp (\<lambda>d. d\<lparr> simd_fpu := c_fpu c, simd_is_saved := True \<rparr>))))
             (restore_fpu p (simd_fpu ns)))
     (seq (upd_simd rp (\<lambda>d. d\<lparr> simd_is_used := False, simd_cptr_el2 := cptr_el2_traps \<rparr>))
       (upd_cpu (\<lambda>c. c\<lparr> c_cptr_el2 := simd_cptr_el2 ns \<rparr>))))))"

section \<open>The switch\<close>

definition into_current :: "platform \<Rightarrow> usize \<Rightarrow> unit rmm_prog" where
  "into_current p rp =
    seq (upd_cpu (\<lambda>c. c\<lparr> c_tpidr_el2 := rp \<rparr>))
    (seq (gic_restore_state p rp) (seq (timer_restore_state rp) (simd_restore_state rp)))"

definition from_current :: "platform \<Rightarrow> usize \<Rightarrow> unit rmm_prog" where
  "from_current p rp =
    seq (gic_save_state p rp) (seq (timer_save_state rp) (simd_save_state p rp))"

definition run_prepare :: "platform \<Rightarrow> usize \<Rightarrow> usize \<Rightarrow> unit rmm_prog" where
  "run_prepare p rp incr_pc =
    seq (only_if (incr_pc = 1) (upd_ctx rp (\<lambda>c. c\<lparr> elr := elr c + 4 \<rparr>))) (into_current p rp)"

definition prepare_vtcr :: "platform \<Rightarrow> rd \<Rightarrow> u64 rmm_prog" where
  "prepare_vtcr p r =
    (if \<not> (0 \<le> sint (rd_s2_starting_level r) \<and> sint (rd_s2_starting_level r) \<le> 3) then throw RmiErrorInput
     else if \<not> (rd_ipa_bits r > 0 \<and> rd_ipa_bits r \<le> 64) then throw RmiErrorInput
     else return (p_vtcr p (rd_s2_starting_level r) (64 - rd_ipa_bits r)))"

definition activate_stage2_mmu :: "usize \<Rightarrow> unit rmm_prog" where
  "activate_stage2_mmu rp = bind (rec_at rp) (\<lambda>r. upd_cpu (\<lambda>c. c\<lparr> c_vtcr_el2 := rec_vtcr r \<rparr>))"

section \<open>Emulated accesses\<close>

definition EsrEl2_EC :: u64 where "EsrEl2_EC = define_mask 31 26"
definition EsrEl2_ISV :: u64 where "EsrEl2_ISV = define_mask 24 24"
definition EsrEl2_SAS :: u64 where "EsrEl2_SAS = define_mask 23 22"
definition EsrEl2_SSE :: u64 where "EsrEl2_SSE = define_mask 21 21"
definition EsrEl2_SRT :: u64 where "EsrEl2_SRT = define_mask 20 16"
definition EsrEl2_SF :: u64 where "EsrEl2_SF = define_mask 15 15"
definition EsrEl2_SET :: u64 where "EsrEl2_SET = define_mask 12 11"
definition EsrEl2_FNV :: u64 where "EsrEl2_FNV = define_mask 10 10"
definition EsrEl2_EA :: u64 where "EsrEl2_EA = define_mask 9 9"
definition EsrEl2_WNR :: u64 where "EsrEl2_WNR = define_mask 6 6"
definition EsrEl2_DFSC :: u64 where "EsrEl2_DFSC = define_mask 5 0"

abbreviation (input) ESR_EL2_EC_DATA_ABORT :: u64 where "ESR_EL2_EC_DATA_ABORT \<equiv> 36"

definition get_access_size_mask :: "u64 \<Rightarrow> u64" where
  "get_access_size_mask esr =
    (let sas = get_masked_value esr EsrEl2_SAS
     in if sas = 0 then 0xff else if sas = 1 then 0xffff else if sas = 2 then 0xffffffff
        else 0xffffffffffffffff)"

definition emulate_mmio :: "usize \<Rightarrow> unit rmm_prog" where
  "emulate_mmio rp =
    bind (gets run_page) (\<lambda>pg.
      if entry_flags pg AND REC_ENTRY_FLAG_EMUL_MMIO = 0 then return ()
      else bind (rec_at rp) (\<lambda>r.
        let esr = sr_esr_el2 (sys_regs (rec_context r));
            ec = get_masked_value esr EsrEl2_EC;
            wnr = get_masked_value esr EsrEl2_WNR;
            rt = unat (get_masked_value esr EsrEl2_SRT)
        in if ec \<noteq> ESR_EL2_EC_DATA_ABORT \<or> rec_emulatable_abort r \<noteq> EmulatableAbort then throw RmiErrorRec
           else seq
             (only_if (wnr = 0 \<and> rt \<noteq> 31)
               (bind (entry_gpr 0) (\<lambda>g.
                 if get_masked_value esr EsrEl2_SSE \<noteq> 0 then panic
                 else upd_ctx rp (\<lambda>c. c\<lparr> gp_regs := (gp_regs c)[rt := g AND get_access_size_mask esr] \<rparr>))))
             (upd_ctx rp (\<lambda>c. c\<lparr> elr := elr c + 4 \<rparr>))))"

section \<open>Validation of the list registers\<close>

definition lr_active :: "platform \<Rightarrow> u64 \<Rightarrow> bool" where
  "lr_active p lr \<longleftrightarrow> field (p_lr_state p) lr \<noteq> p_lr_state_invalid p"

lemma no_duplicate_eq:
  assumes "\<forall>j \<in> set js. j < length lrs"
  shows "no_duplicate p lrs v js
    = Some (\<forall>j \<in> set js. lr_active p (lrs ! j) \<longrightarrow> v \<noteq> field (p_lr_vintid p) (lrs ! j))"
  using assms by (induction js) (auto simp: lr_active_def)

lemma validate_lrs_eq:
  assumes "\<forall>i \<in> set is. i < length lrs" and "nr_lrs (p_gic p) < length lrs"
  shows "validate_lrs p lrs is = Some (\<forall>i \<in> set is. lr_active p (lrs ! i) \<longrightarrow> lr_valid p (lrs ! i)
    \<and> (\<forall>j \<in> {i + 1..nr_lrs (p_gic p)}. lr_active p (lrs ! j) \<longrightarrow>
         field (p_lr_vintid p) (lrs ! i) \<noteq> field (p_lr_vintid p) (lrs ! j)))"
  using assms(1)
proof (induction "is")
  case Nil
  then show ?case by simp
next
  case (Cons i "is")
  have js: "set [i + 1..<Suc (nr_lrs (p_gic p))] = {i + 1..nr_lrs (p_gic p)}" by auto
  have "no_duplicate p lrs (field (p_lr_vintid p) (lrs ! i)) [i + 1..<Suc (nr_lrs (p_gic p))]
      = Some (\<forall>j \<in> {i + 1..nr_lrs (p_gic p)}. lr_active p (lrs ! j) \<longrightarrow>
          field (p_lr_vintid p) (lrs ! i) \<noteq> field (p_lr_vintid p) (lrs ! j))"
    using no_duplicate_eq[of "[i + 1..<Suc (nr_lrs (p_gic p))]" lrs p] assms(2) unfolding js by auto
  with Cons show ?case by (auto simp: lr_active_def split: option.splits bool.splits)
qed

section \<open>Properties\<close>

text \<open>
  C17. The validation of the host's interrupt state decides exactly what its comments say: no bit of the
  hypervisor control register outside the mask, and every active list register well
  formed and without a later active one for the same interrupt.
\<close>

theorem gic_validate_spec:
  assumes "nr_lrs (p_gic p) < 16"
  shows "gic_validate_state p pg = Some (entry_gic_hcr pg AND NOT (p_hcr_ns_mask p) = 0
    \<and> (\<forall>i < nr_lrs (p_gic p). let lr = entry_gic_lrs pg ! i in lr_active p lr \<longrightarrow> lr_valid p lr
       \<and> (\<forall>j. i < j \<and> j \<le> nr_lrs (p_gic p) \<and> lr_active p (entry_gic_lrs pg ! j) \<longrightarrow>
            field (p_lr_vintid p) lr \<noteq> field (p_lr_vintid p) (entry_gic_lrs pg ! j))))"
proof -
  have l: "length (entry_gic_lrs pg) = 16" by (simp add: entry_gic_lrs_def)
  show ?thesis
    using validate_lrs_eq[of "[0..<nr_lrs (p_gic p)]" "entry_gic_lrs pg" p] assms
    unfolding gic_validate_state_def l Let_def
    by (auto simp: Suc_le_eq)
qed

definition sample_gic :: platform where
  "sample_gic = platform0\<lparr> p_gic := (p_gic platform0)\<lparr> nr_lrs := 3 \<rparr>,
     p_lr_state := \<lparr> fld_shift = 62, fld_mask = 3 \<rparr>, p_lr_vintid := \<lparr> fld_shift = 0, fld_mask = 0xffffffff \<rparr> \<rparr>"

theorem gic_validate_spec_witness:
  "gic_validate_state sample_gic (\<lambda>k. if k = 97 \<or> k = 99 then 0x4000000000000020 else 0) = Some False"
proof -
  let ?pg = "\<lambda>k. if k = 97 \<or> k = 99 then 0x4000000000000020 else 0 :: u64"
  have lrs: "entry_gic_lrs ?pg ! 0 = 0x4000000000000020" "entry_gic_lrs ?pg ! 2 = 0x4000000000000020"
    by (simp_all add: entry_gic_lrs_def)
  have act: "lr_active sample_gic 0x4000000000000020" by code_simp
  have n: "nr_lrs (p_gic sample_gic) = 3" by code_simp
  let ?ok = "\<lambda>i. let lr = entry_gic_lrs ?pg ! i in lr_active sample_gic lr \<longrightarrow> lr_valid sample_gic lr
      \<and> (\<forall>j. i < j \<and> j \<le> 3 \<and> lr_active sample_gic (entry_gic_lrs ?pg ! j) \<longrightarrow>
           field (p_lr_vintid sample_gic) lr \<noteq> field (p_lr_vintid sample_gic) (entry_gic_lrs ?pg ! j))"
  have "\<not> ?ok 0" using act lrs by (auto simp: Let_def intro!: exI[of _ 2])
  then have no: "\<not> (\<forall>i < 3. ?ok i)" using zero_less_numeral by blast
  have "nr_lrs (p_gic sample_gic) < 16" unfolding n by simp
  from gic_validate_spec[OF this, of ?pg] show ?thesis
    unfolding n using no by (simp only: simp_thms)
qed



section \<open>Saving and restoring the registers of the core\<close>

lemma for_each_upt:
  assumes "s = F 0" and "\<And>i. i < n \<Longrightarrow> f i (F i) = (Ok (), F (Suc i))"
  shows "for_each [0..<n] f s = (Ok (), F n)"
proof -
  have "for_each [k..<n] f (F k) = (Ok (), F n)" if "k \<le> n" for k
    using that
  proof (induction rule: inc_induct)
    case base
    then show ?case by (simp add: run)
  next
    case (step i)
    then show ?case by (simp add: upt_conv_Cons run assms(2))
  qed
  then show ?thesis using assms(1) by blast
qed

lemma update_take_drop:
  assumes "i < length xs" and "length ys = length xs"
  shows "(take i xs @ drop i ys)[i := xs ! i] = take (Suc i) xs @ drop (Suc i) ys"
  using assms by (auto simp: list_update_append take_Suc_conv_app_nth Cons_nth_drop_Suc[symmetric])

definition gic_wf :: "gic_regs \<Rightarrow> bool" where
  "gic_wf g \<longleftrightarrow> length (ich_lr_el2 g) = 16 \<and> length (ich_ap0r_el2 g) = 4 \<and> length (ich_ap1r_el2 g) = 4"

text \<open>The first registers of one set, the others of another.\<close>

definition gic_merge :: "nat \<Rightarrow> nat \<Rightarrow> gic_regs \<Rightarrow> gic_regs \<Rightarrow> gic_regs" where
  "gic_merge n m h g = g\<lparr> ich_lr_el2 := take n (ich_lr_el2 h) @ drop n (ich_lr_el2 g),
     ich_ap0r_el2 := take m (ich_ap0r_el2 h) @ drop m (ich_ap0r_el2 g),
     ich_ap1r_el2 := take m (ich_ap1r_el2 h) @ drop m (ich_ap1r_el2 g) \<rparr>"

lemma gic_merge_0 [simp]: "gic_merge 0 0 h g = g"
  by (simp add: gic_merge_def)

lemma gic_merge_lr:
  assumes "gic_wf h" "gic_wf g" "n < 16"
  shows "(gic_merge n m h g)\<lparr> ich_lr_el2 := (ich_lr_el2 (gic_merge n m h g))[n := ich_lr_el2 h ! n] \<rparr>
    = gic_merge (Suc n) m h g"
  using assms update_take_drop[of n "ich_lr_el2 h" "ich_lr_el2 g"] by (simp add: gic_merge_def gic_wf_def)

lemma gic_merge_ap:
  assumes "gic_wf h" "gic_wf g" "m < 4"
  shows "(gic_merge n m h g)\<lparr> ich_ap0r_el2 := (ich_ap0r_el2 (gic_merge n m h g))[m := ich_ap0r_el2 h ! m],
      ich_ap1r_el2 := (ich_ap1r_el2 (gic_merge n m h g))[m := ich_ap1r_el2 h ! m] \<rparr>
    = gic_merge n (Suc m) h g"
  using assms update_take_drop[of m "ich_ap0r_el2 h" "ich_ap0r_el2 g"]
    update_take_drop[of m "ich_ap1r_el2 h" "ich_ap1r_el2 g"]
  by (simp add: gic_merge_def gic_wf_def)

definition with_gic :: "usize \<Rightarrow> gic_regs \<Rightarrow> rmm \<Rightarrow> rmm" where
  "with_gic rp g s = s\<lparr> recs := (recs s)(rp := (recs s rp)\<lparr> rec_context :=
     (rec_context (recs s rp))\<lparr> gic_state := g \<rparr> \<rparr>) \<rparr>"

lemma with_gic_simps [simp]:
  "gic_state (rec_context (recs (with_gic rp g s) rp)) = g" "cpu (with_gic rp g s) = cpu s"
  "with_gic rp g' (with_gic rp g s) = with_gic rp g' s"
  by (simp_all add: with_gic_def)

lemma with_gic_same [simp]: "with_gic rp (gic_state (rec_context (recs s rp))) s = s"
  by (simp add: with_gic_def)

lemma upd_gic_run: "upd_gic rp f s = (Ok (), with_gic rp (f (gic_state (rec_context (recs s rp)))) s)"
  by (simp add: upd_gic_def upd_ctx_def upd_rec_def with_gic_def run)

lemma gic_save_run:
  assumes "nr_lrs (p_gic p) < 16" and "nr_aprs (p_gic p) < 4"
    and h: "h = c_gic (cpu s)" "gic_wf h" and g: "g = gic_state (rec_context (recs s rp))" "gic_wf g"
  shows "gic_save_state p rp s = (Ok (), (with_gic rp ((gic_merge (Suc (nr_lrs (p_gic p))) (Suc (nr_aprs (p_gic p))) h g)
      \<lparr> ich_vmcr_el2 := ich_vmcr_el2 h, ich_hcr_el2 := ich_hcr_el2 h, ich_misr_el2 := ich_misr_el2 h \<rparr>) s)
      \<lparr> cpu := (cpu s)\<lparr> c_gic := h\<lparr> ich_hcr_el2 := ich_hcr_el2 h AND NOT (p_hcr_en p) \<rparr> \<rparr> \<rparr>)"
proof -
  let ?n = "Suc (nr_lrs (p_gic p))" and ?m = "Suc (nr_aprs (p_gic p))"
  have s0: "with_gic rp (gic_merge 0 0 h g) s = s" using g by simp
  have lr: "for_each [0..<?n] (\<lambda>i. bind (get_lr i) (\<lambda>v. upd_gic rp (\<lambda>g. g\<lparr> ich_lr_el2 := (ich_lr_el2 g)[i := v] \<rparr>))) s
      = (Ok (), with_gic rp (gic_merge ?n 0 h g) s)"
    using assms(1) s0
    by (intro for_each_upt[where F = "\<lambda>i. with_gic rp (gic_merge i 0 h g) s"])
      (simp_all add: get_lr_def run upd_gic_run gic_merge_lr[OF h(2) g(2)] flip: h(1))
  have ap: "for_each [0..<?m] (\<lambda>i.
           seq (bind (get_ap0r i) (\<lambda>v. upd_gic rp (\<lambda>g. g\<lparr> ich_ap0r_el2 := (ich_ap0r_el2 g)[i := v] \<rparr>)))
             (bind (get_ap1r i) (\<lambda>v. upd_gic rp (\<lambda>g. g\<lparr> ich_ap1r_el2 := (ich_ap1r_el2 g)[i := v] \<rparr>))))
        (with_gic rp (gic_merge ?n 0 h g) s) = (Ok (), with_gic rp (gic_merge ?n ?m h g) s)"
    using assms(2)
    by (intro for_each_upt[where F = "\<lambda>i. with_gic rp (gic_merge ?n i h g) s"])
      (simp_all add: get_ap0r_def get_ap1r_def run upd_gic_run gic_merge_ap[OF h(2) g(2)] flip: h(1))
  show ?thesis
    unfolding gic_save_state_def
    by (simp add: bind_run lr[unfolded h(1)] ap[unfolded h(1)] run upd_gic_run upd_cpu_def h(1) del: upt_Suc)
qed

definition with_cpu_gic :: "gic_regs \<Rightarrow> rmm \<Rightarrow> rmm" where
  "with_cpu_gic g s = s\<lparr> cpu := (cpu s)\<lparr> c_gic := g \<rparr> \<rparr>"

lemma gic_restore_run:
  assumes "nr_lrs (p_gic p) < 16" and "nr_aprs (p_gic p) < 4"
    and h: "h = gic_state (rec_context (recs s rp))" "gic_wf h" and g: "g = c_gic (cpu s)" "gic_wf g"
  shows "gic_restore_state p rp s = (Ok (), with_cpu_gic
      ((gic_merge (Suc (nr_lrs (p_gic p))) (Suc (nr_aprs (p_gic p))) h g)
        \<lparr> ich_vmcr_el2 := ich_vmcr_el2 h, ich_hcr_el2 := ich_hcr_el2 h \<rparr>) s)"
proof -
  let ?n = "Suc (nr_lrs (p_gic p))" and ?m = "Suc (nr_aprs (p_gic p))"
  have l: "length (ich_lr_el2 h) = 16" "length (ich_ap0r_el2 h) = 4" "length (ich_ap1r_el2 h) = 4"
    using h(2) by (simp_all add: gic_wf_def)
  have lr: "for_each [0..<?n] (\<lambda>i. bind (index_slice (ich_lr_el2 h) i) (set_lr i)) s
      = (Ok (), with_cpu_gic (gic_merge ?n 0 h g) s)"
    using assms(1) l g(1) gic_merge_lr[OF h(2) g(2)]
    by (intro for_each_upt[where F = "\<lambda>i. with_cpu_gic (gic_merge i 0 h g) s"])
      (simp_all add: set_lr_def run upd_cpu_def with_cpu_gic_def)
  have ap: "for_each [0..<?m] (\<lambda>i.
             seq (bind (index_slice (ich_ap0r_el2 h) i) (set_ap0r i))
               (bind (index_slice (ich_ap1r_el2 h) i) (set_ap1r i)))
        (with_cpu_gic (gic_merge ?n 0 h g) s) = (Ok (), with_cpu_gic (gic_merge ?n ?m h g) s)"
    using assms(2) l gic_merge_ap[OF h(2) g(2)]
    by (intro for_each_upt[where F = "\<lambda>i. with_cpu_gic (gic_merge ?n i h g) s"])
      (simp_all add: set_ap0r_def set_ap1r_def run upd_cpu_def with_cpu_gic_def)
  show ?thesis
    unfolding gic_restore_state_def rec_at_def Let_def
    by (simp add: bind_run run lr[unfolded h(1)] ap[unfolded h(1)] upd_cpu_def Let_def h(1) del: upt_Suc)
      (simp add: with_cpu_gic_def)
qed

lemma gic_merge_wf: "gic_wf h \<Longrightarrow> gic_wf g \<Longrightarrow> n \<le> 16 \<Longrightarrow> m \<le> 4 \<Longrightarrow> gic_wf (gic_merge n m h g)"
  by (simp add: gic_merge_def gic_wf_def min_def)

lemma gic_merge_merge:
  "gic_wf h \<Longrightarrow> gic_wf g \<Longrightarrow> gic_wf k \<Longrightarrow> n \<le> 16 \<Longrightarrow> m \<le> 4 \<Longrightarrow>
   gic_merge n m (gic_merge n m h g) k = gic_merge n m h k"
  by (simp add: gic_merge_def gic_wf_def min_def)

text \<open>The registers a realm can have used: the first list and active priority registers, \<open>VMCR\<close> and \<open>HCR\<close>.\<close>

definition gic_live :: "platform \<Rightarrow> gic_regs \<Rightarrow> u64 list \<times> u64 list \<times> u64 list \<times> u64 \<times> u64" where
  "gic_live p g = (take (Suc (nr_lrs (p_gic p))) (ich_lr_el2 g), take (Suc (nr_aprs (p_gic p))) (ich_ap0r_el2 g),
     take (Suc (nr_aprs (p_gic p))) (ich_ap1r_el2 g), ich_vmcr_el2 g, ich_hcr_el2 g)"



end
