(* ===== verification/Attestation.thy ===== *)
theory Attestation
  imports Rmi_Realm Rec_Run "HOL-Library.Countable"
begin

text \<open>
  The attestation token of a realm, \<open>rmm/src/rsi/attestation/mod.rs\<close> and \<open>claims.rs\<close>, and
  its sealing keys, \<open>rmm/src/rsi/sealing.rs\<close>.  The encoding as CBOR, the signature and
  the key derivation are those of the environment.
\<close>

section \<open>Claims\<close>

abbreviation (input) MAX_CCA_TOKEN_SIZE :: usize where "MAX_CCA_TOKEN_SIZE \<equiv> 4096"
abbreviation (input) CHALLENGE_LABEL :: u64 where "CHALLENGE_LABEL \<equiv> 10"
abbreviation (input) PERSONALIZATION_VALUE_LABEL :: u64 where "PERSONALIZATION_VALUE_LABEL \<equiv> 44235"
abbreviation (input) INITIAL_MEASUREMENT_LABEL :: u64 where "INITIAL_MEASUREMENT_LABEL \<equiv> 44238"
abbreviation (input) EXTENSIBLE_MEASUREMENTS_LABEL :: u64 where "EXTENSIBLE_MEASUREMENTS_LABEL \<equiv> 44239"
abbreviation (input) HASH_ALGO_ID_LABEL :: u64 where "HASH_ALGO_ID_LABEL \<equiv> 44236"
abbreviation (input) PUBLIC_KEY_LABEL :: u64 where "PUBLIC_KEY_LABEL \<equiv> 44237"
abbreviation (input) PUBLIC_KEY_HASH_ALGO_ID_LABEL :: u64 where "PUBLIC_KEY_HASH_ALGO_ID_LABEL \<equiv> 44240"
abbreviation (input) CCA_TOKEN_COLLECTION :: u64 where "CCA_TOKEN_COLLECTION \<equiv> 399"
abbreviation (input) CCA_PLATFORM_TOKEN :: u64 where "CCA_PLATFORM_TOKEN \<equiv> 44234"
abbreviation (input) CCA_REALM_DELEGATED_TOKEN :: u64 where "CCA_REALM_DELEGATED_TOKEN \<equiv> 44241"

text \<open>Collecting into an \<open>ArrayVec\<close> panics beyond its capacity.\<close>

definition array_vec :: "nat \<Rightarrow> 'a list \<Rightarrow> 'a list rmm_prog" where
  "array_vec n xs = (if length xs \<le> n then return xs else panic)"

definition hash_algo_id :: "u8 \<Rightarrow> string option" where
  "hash_algo_id algo =
    (if algo = HASH_ALGO_SHA256 then Some ''sha-256''
     else if algo = HASH_ALGO_SHA512 then Some ''sha-512'' else None)"

definition measurement_size :: "string \<Rightarrow> nat option" where
  "measurement_size name =
    (if name = ''sha-256'' then Some 32 else if name = ''sha-512'' then Some 64 else None)"

definition realm_claims ::
  "u8 list \<Rightarrow> u8 list \<Rightarrow> u8 list list \<Rightarrow> string \<Rightarrow> u8 list \<Rightarrow> string \<Rightarrow> (cbor \<times> cbor) list rmm_prog" where
  "realm_claims challenge rpv measurements algo key_pub key_pub_algo =
    bind (array_vec 64 challenge) (\<lambda>challenge'.
    bind (array_vec 64 rpv) (\<lambda>rpv'.
    bind (unwrap (measurement_size algo)) (\<lambda>sz.
    bind (index_slice measurements MEASUREMENTS_SLOT_RIM) (\<lambda>rim.
      if length measurements < MEASUREMENTS_SLOT_NR then panic
      else bind (array_vec 97 key_pub) (\<lambda>key_pub'.
        return [(CInt CHALLENGE_LABEL, CBytes challenge'),
          (CInt PERSONALIZATION_VALUE_LABEL, CBytes rpv'),
          (CInt INITIAL_MEASUREMENT_LABEL, CBytes (take sz rim)),
          (CInt EXTENSIBLE_MEASUREMENTS_LABEL,
            CArray (map (\<lambda>i. CBytes (take sz (measurements ! (i + 1)))) [0..<MEASUREMENTS_SLOT_NR - 1])),
          (CInt HASH_ALGO_ID_LABEL, CText algo),
          (CInt PUBLIC_KEY_LABEL, CBytes key_pub'),
          (CInt PUBLIC_KEY_HASH_ALGO_ID_LABEL, CText key_pub_algo)])))))"

definition create_realm_token ::
  "env \<Rightarrow> u8 list \<Rightarrow> u8 list \<Rightarrow> u8 list list \<Rightarrow> u8 list \<Rightarrow> u8 \<Rightarrow> u8 list rmm_prog" where
  "create_realm_token e rak challenge measurements rpv hash_algo =
    bind (unwrap (hash_algo_id hash_algo)) (\<lambda>algo.
    bind (unwrap (e_p384_public e rak)) (\<lambda>public_key.
    bind (realm_claims challenge rpv measurements algo public_key ''sha-256'') (\<lambda>claims.
      return (e_cose_sign1 e rak (e_cbor e (CMap claims))))))"

definition create_attestation_token ::
  "env \<Rightarrow> u8 list \<Rightarrow> u8 list \<Rightarrow> u8 list \<Rightarrow> u8 list list \<Rightarrow> u8 list \<Rightarrow> u8 \<Rightarrow> u8 list rmm_prog" where
  "create_attestation_token e plat_token rak challenge measurements rpv hash_algo =
    bind (create_realm_token e rak challenge measurements rpv hash_algo) (\<lambda>realm_token.
      return (e_cbor e (CTag CCA_TOKEN_COLLECTION (CMap
        [(CInt CCA_PLATFORM_TOKEN, CBytes plat_token),
         (CInt CCA_REALM_DELEGATED_TOKEN, CBytes realm_token)]))))"

definition get_token :: "env \<Rightarrow> u8 list \<Rightarrow> u8 list list \<Rightarrow> u8 list \<Rightarrow> u8 \<Rightarrow> u8 list rmm_prog" where
  "get_token e challenge measurements rpv hash_algo =
    bind (array_vec 2048 (e_plat_token e)) (\<lambda>plat.
    bind (array_vec 48 (e_rak e)) (\<lambda>rak.
      create_attestation_token e plat rak challenge measurements rpv hash_algo))"

section \<open>Sealing keys\<close>

abbreviation (input) RSI_ISLET_USE_VHUK_M :: usize where "RSI_ISLET_USE_VHUK_M \<equiv> 1"
abbreviation (input) RSI_ISLET_SLK_RIM :: usize where "RSI_ISLET_SLK_RIM \<equiv> 2"
abbreviation (input) RSI_ISLET_SLK_REALM_ID :: usize where "RSI_ISLET_SLK_REALM_ID \<equiv> 4"
abbreviation (input) RSI_ISLET_SLK_SVN :: usize where "RSI_ISLET_SLK_SVN \<equiv> 8"
abbreviation (input) SEALING_KEY_SIZE :: nat where "SEALING_KEY_SIZE \<equiv> 32"

definition SALT :: "u8 list" where
  "SALT = [0xd5, 0x77, 0x5f, 0x52, 0x4a, 0xce, 0x32, 0x21, 0xce, 0x77, 0x1e, 0xd2, 0x74, 0xbb, 0x74, 0xa4,
    0x60, 0xce, 0x3f, 0xb9, 0x74, 0x9c, 0xe3, 0x7d, 0x0a, 0xe6, 0xd2, 0xe9, 0x07, 0xf8, 0xb5, 0x4b]"

record kdf_info =
  ki_public_key :: "u8 list"
  ki_realm_id :: "u8 list"
  ki_rpv :: "u8 list"
  ki_flags :: usize
  ki_rim :: "u8 list"
  ki_hash_algo :: u8
  ki_svn :: usize

definition kdf_info_new :: kdf_info where
  "kdf_info_new = \<lparr> ki_public_key = replicate 96 0, ki_realm_id = replicate 128 0, ki_rpv = replicate 64 0,
     ki_flags = 0, ki_rim = replicate 64 0, ki_hash_algo = 0, ki_svn = 0 \<rparr>"

text \<open>The structure is packed.\<close>

definition kdf_info_bytes :: "kdf_info \<Rightarrow> u8 list" where
  "kdf_info_bytes i = ki_public_key i @ ki_realm_id i @ ki_rpv i @ le_bytes 8 (ki_flags i) @ ki_rim i
     @ [ki_hash_algo i] @ le_bytes 8 (ki_svn i)"

definition derive_sealing_key :: "env \<Rightarrow> kdf_info \<Rightarrow> bool \<Rightarrow> u8 list rmm_prog" where
  "derive_sealing_key e i use_vhuk_m =
    ok_or RmiErrorInput (e_hkdf e SALT (if use_vhuk_m then e_vhuk_m e else e_vhuk_a e)
      (kdf_info_bytes i) SEALING_KEY_SIZE)"

definition sealing_info :: "rd \<Rightarrow> usize \<Rightarrow> usize \<Rightarrow> kdf_info rmm_prog" where
  "sealing_info r flags svn =
    (let info = kdf_info_new\<lparr> ki_rpv := rd_rpv r, ki_flags := flags \<rparr> in
     bind (case rd_metadata r of
         None \<Rightarrow> return info
       | Some meta_addr \<Rightarrow> get_granule_if meta_addr GS_Metadata (\<lambda>_.
           bind (gets (\<lambda>s. read_page s meta_addr)) (\<lambda>md.
             if flags AND RSI_ISLET_SLK_SVN \<noteq> 0 \<and> md_svn md < svn then throw RmiErrorInput
             else return (info\<lparr> ki_public_key := md_public_key md,
                ki_realm_id := (if flags AND RSI_ISLET_SLK_REALM_ID \<noteq> 0 then md_realm_id md
                                else ki_realm_id info),
                ki_svn := (if flags AND RSI_ISLET_SLK_SVN \<noteq> 0 then svn else ki_svn info) \<rparr>))))
      (\<lambda>info. if flags AND RSI_ISLET_SLK_RIM \<noteq> 0 \<or> rd_metadata r = None
         then (case measurement_read r MEASUREMENTS_SLOT_RIM of
             Inl err \<Rightarrow> throw (error_of_rsi err)
           | Inr rim \<Rightarrow> return (info\<lparr> ki_rim := rim \<rparr>))
         else return info))"

definition realm_sealing_key :: "env \<Rightarrow> rd \<Rightarrow> usize \<Rightarrow> usize \<Rightarrow> u8 list rmm_prog" where
  "realm_sealing_key e r flags svn =
    bind (sealing_info r flags svn) (\<lambda>info.
      derive_sealing_key e info (flags AND RSI_ISLET_USE_VHUK_M \<noteq> 0))"

section \<open>Properties\<close>

text \<open>The token of a realm, with the number of bytes of a digest.\<close>

definition token_of :: "env \<Rightarrow> u8 list \<Rightarrow> u8 list \<Rightarrow> u8 list list \<Rightarrow> nat \<Rightarrow> string \<Rightarrow> u8 list \<Rightarrow> u8 list" where
  "token_of e c rpv ms sz algo pk = e_cbor e (CTag CCA_TOKEN_COLLECTION (CMap
     [(CInt CCA_PLATFORM_TOKEN, CBytes (e_plat_token e)),
      (CInt CCA_REALM_DELEGATED_TOKEN, CBytes (e_cose_sign1 e (e_rak e) (e_cbor e (CMap
        [(CInt CHALLENGE_LABEL, CBytes c), (CInt PERSONALIZATION_VALUE_LABEL, CBytes rpv),
         (CInt INITIAL_MEASUREMENT_LABEL, CBytes (take sz (ms ! 0))),
         (CInt EXTENSIBLE_MEASUREMENTS_LABEL, CArray (map (\<lambda>i. CBytes (take sz (ms ! (i + 1)))) [0..<4])),
         (CInt HASH_ALGO_ID_LABEL, CText algo), (CInt PUBLIC_KEY_LABEL, CBytes pk),
         (CInt PUBLIC_KEY_HASH_ALGO_ID_LABEL, CText ''sha-256'')]))))]))"

lemma get_token_claims:
  assumes "get_token e c ms rpv h s = (Ok tok, t)"
  obtains algo sz pk where "hash_algo_id h = Some algo" and "measurement_size algo = Some sz"
    and "tok = token_of e c rpv ms sz algo pk" and "e_p384_public e (e_rak e) = Some pk"
proof -
  note defs = get_token_def create_attestation_token_def create_realm_token_def array_vec_def run
  obtain algo where a: "hash_algo_id h = Some algo"
    using assms by (cases "hash_algo_id h") (auto simp: defs split: if_splits)
  obtain sz where z: "measurement_size algo = Some sz"
    using a by (auto simp: hash_algo_id_def measurement_size_def split: if_splits)
  obtain pk where p: "e_p384_public e (e_rak e) = Some pk"
    using assms a by (cases "e_p384_public e (e_rak e)") (auto simp: defs split: if_splits)
  show thesis
    by (rule that[OF a z _ p])
      (use assms a z p in \<open>auto simp: defs realm_claims_def token_of_def split: if_splits\<close>)
qed

text \<open>
  C25. The attestation token commits to the realm.  If the encoding of CBOR values and the COSE envelope lose
  nothing, two equal tokens have the same challenge, the same personalization value and hash algorithm, and
  the same initial and extensible measurements, as far as the digests of that algorithm are long.
\<close>

theorem token_commits:
  assumes cbor: "inj (e_cbor e)" and cose: "inj (e_cose_sign1 e (e_rak e))"
    and t: "get_token e c ms rpv h s = (Ok tok, t)" and t': "get_token e c' ms' rpv' h' s' = (Ok tok, t')"
  shows "c = c' \<and> rpv = rpv' \<and> h = h'
    \<and> (\<exists>sz. Option.bind (hash_algo_id h) measurement_size = Some sz
         \<and> (\<forall>i < MEASUREMENTS_SLOT_NR. take sz (ms ! i) = take sz (ms' ! i)))"
proof -
  obtain algo sz pk where 1: "hash_algo_id h = Some algo" "measurement_size algo = Some sz"
    "tok = token_of e c rpv ms sz algo pk" using get_token_claims[OF t] by metis
  obtain algo' sz' pk' where 2: "hash_algo_id h' = Some algo'" "measurement_size algo' = Some sz'"
    "tok = token_of e c' rpv' ms' sz' algo' pk'" using get_token_claims[OF t'] by metis
  from 1(3) 2(3) have claims: "c = c'" "rpv = rpv'" "algo = algo'" "take sz (ms ! 0) = take sz' (ms' ! 0)"
      and rem: "\<forall>i \<in> set [0..<4]. take sz (ms ! (i + 1)) = take sz' (ms' ! (i + 1))"
    by (simp_all add: token_of_def inj_eq[OF cbor] inj_eq[OF cose])
  have sz: "sz = sz'" using claims(3) 1(2) 2(2) by simp
  moreover have "h = h'" using claims(3) 1(1) 2(1) by (auto simp: hash_algo_id_def split: if_splits)
  moreover have "take sz (ms ! i) = take sz' (ms' ! i)" if "i < 5" for i
    using claims(4) rem that by (cases i) auto
  ultimately show ?thesis using claims 1 by auto
qed

instance cbor :: countable
  by countable_datatype

definition env_cbor :: env where
  "env_cbor = env0\<lparr> e_cbor := (\<lambda>c. replicate (to_nat c) 0), e_plat_token := [1, 2] \<rparr>"

theorem token_commits_witness:
  "fst (get_token env_cbor (replicate 64 1) (replicate 5 measurement_empty) (replicate 64 0) 0 rmm0)
   \<noteq> fst (get_token env_cbor (replicate 64 2) (replicate 5 measurement_empty) (replicate 64 0) 0 rmm0)"
proof
  let ?tok = "\<lambda>b. get_token env_cbor (replicate 64 b) (replicate 5 measurement_empty) (replicate 64 0) 0 rmm0"
  assume "fst (?tok 1) = fst (?tok 2)"
  have inj: "inj (e_cbor env_cbor)" "inj (e_cose_sign1 env_cbor (e_rak env_cbor))"
    by (simp_all add: env_cbor_def env0_def inj_on_def)
  have "\<exists>tok. ?tok b = (Ok tok, rmm0)" for b
    by (simp add: get_token_def create_attestation_token_def create_realm_token_def realm_claims_def array_vec_def
        run env_cbor_def env0_def hash_algo_id_def measurement_size_def)
  then obtain tok tok' where "?tok 1 = (Ok tok, rmm0)" "?tok 2 = (Ok tok', rmm0)" by blast
  with \<open>fst (?tok 1) = fst (?tok 2)\<close> token_commits[OF inj, of "replicate 64 1" _ _ _ _ _ _ "replicate 64 2"]
  have "replicate 64 (1 :: u8) = replicate 64 2" by simp blast
  then show False by (simp add: replicate_eq_replicate)
qed

definition sealed_for :: "rmm \<Rightarrow> rd \<Rightarrow> usize \<Rightarrow> usize \<Rightarrow> kdf_info \<Rightarrow> bool" where
  "sealed_for s r flags svn i \<longleftrightarrow> ki_flags i = flags \<and> ki_rpv i = rd_rpv r
     \<and> (flags AND RSI_ISLET_SLK_RIM \<noteq> 0 \<or> rd_metadata r = None \<longrightarrow> ki_rim i = rd_measurements r ! 0)
     \<and> (\<forall>m. rd_metadata r = Some m \<longrightarrow> ki_public_key i = md_public_key (read_page s m)
          \<and> (flags AND RSI_ISLET_SLK_REALM_ID \<noteq> 0 \<longrightarrow> ki_realm_id i = md_realm_id (read_page s m))
          \<and> (flags AND RSI_ISLET_SLK_SVN \<noteq> 0 \<longrightarrow> ki_svn i = svn \<and> svn \<le> md_svn (read_page s m)))"

definition kdf_sized :: "kdf_info \<Rightarrow> bool" where
  "kdf_sized i \<longleftrightarrow> length (ki_public_key i) = 96 \<and> length (ki_realm_id i) = 128 \<and> length (ki_rpv i) = 64
     \<and> length (ki_rim i) = 64"

lemma kdf_info_bytes_inj:
  assumes "kdf_sized i" and "kdf_sized j" and "kdf_info_bytes i = kdf_info_bytes j"
  shows "i = (j :: kdf_info)"
  using assms le_bytes_inj by (auto simp: kdf_sized_def kdf_info_bytes_def intro!: kdf_info.equality)

lemma sealing_info_fields:
  assumes info: "sealing_info r flags svn s = (Ok i, t)" and "length (rd_rpv r) = 64"
    and "\<forall>m \<in> set (rd_measurements r). length m = 64"
  shows "sealed_for s r flags svn i \<and> kdf_sized i"
proof (cases "rd_metadata r")
  case None
  then show ?thesis using assms
    by (auto simp: sealing_info_def sealed_for_def kdf_sized_def kdf_info_new_def measurement_read_def run Let_def
        split: if_splits sum.splits)
next
  case (Some m)
  have page: "read_page (s\<lparr> held := h \<rparr>) m = read_page s m" for h by (simp add: read_page_def)
  show ?thesis
    using info Some assms(2,3)
    by (cases "validate_addr m") (auto simp: sealing_info_def get_granule_if_run run page sealed_for_def kdf_sized_def
        measurement_read_def kdf_info_new_def md_public_key_def md_realm_id_def page_slice_def Let_def
        split: if_splits sum.splits)
qed

text \<open>
  C26. Sealing keys keep realms apart.  Two requests that derive a key from the same input have the same
  flags, hence the same master key, and the same personalization value; when the flags bind them,
  or the realm has no metadata, the same initial measurement, realm identity and security
  version; a realm with metadata also shares the author's public key with the other and
  never gets a key for a version above its own.
\<close>

theorem sealing_key_separates:
  assumes "sealing_info r flags svn s = (Ok i, t)" and "sealing_info r' flags' svn' s' = (Ok i', t')"
    and "kdf_info_bytes i = kdf_info_bytes i'"
    and "length (rd_rpv r) = 64" and "\<forall>m \<in> set (rd_measurements r). length m = 64"
    and "length (rd_rpv r') = 64" and "\<forall>m \<in> set (rd_measurements r'). length m = 64"
  shows "flags = flags' \<and> rd_rpv r = rd_rpv r' \<and> sealed_for s r flags svn i \<and> sealed_for s' r' flags' svn' i"
proof -
  note a = sealing_info_fields[OF assms(1,4,5)] and b = sealing_info_fields[OF assms(2,6,7)]
  have "i = i'" using kdf_info_bytes_inj a b assms(3) by blast
  then show ?thesis using a b by (auto simp: sealed_for_def)
qed

theorem sealing_key_separates_witness:
  "\<exists>i t. sealing_info rd_zero 2 0 rmm0 = (Ok i, t) \<and> sealed_for rmm0 rd_zero 2 0 i"
proof -
  have "\<exists>i t. sealing_info rd_zero 2 0 rmm0 = (Ok i, t)"
    by (simp add: sealing_info_def rd_zero_def measurement_read_def run Let_def)
  then obtain i t where i: "sealing_info rd_zero 2 0 rmm0 = (Ok i, t)" by blast
  have "length (rd_rpv rd_zero) = 64" "\<forall>m \<in> set (rd_measurements rd_zero). length m = 64"
    by (simp_all add: rd_zero_def measurement_empty_def)
  from sealing_key_separates[OF i i refl this this] show ?thesis using i by blast
qed

end
