(* ===== verification/Rsi.thy ===== *)
theory Rsi
  imports Attestation
begin

text \<open>
  The calls of a realm: \<open>rmm/src/rsi/mod.rs\<close> with \<open>hostcall.rs\<close>, \<open>ripas.rs\<close>, \<open>psci.rs\<close>,
  \<open>version.rs\<close> and \<open>constraint.rs\<close>, and \<open>rmm/src/realm/config.rs\<close>.  A handler is given the
  address of the calling execution context, whose registers carry the arguments and
  the results; the word it writes to the return vector tells the monitor whether the
  realm is resumed (\<open>SUCCESS_REC_ENTER\<close>).
\<close>

abbreviation (input) RSI_ABI_VERSION :: usize where "RSI_ABI_VERSION \<equiv> 0xc4000190"
abbreviation (input) RSI_FEATURES :: usize where "RSI_FEATURES \<equiv> 0xc4000191"
abbreviation (input) RSI_MEASUREMENT_READ :: usize where "RSI_MEASUREMENT_READ \<equiv> 0xc4000192"
abbreviation (input) RSI_MEASUREMENT_EXTEND :: usize where "RSI_MEASUREMENT_EXTEND \<equiv> 0xc4000193"
abbreviation (input) RSI_ATTEST_TOKEN_INIT :: usize where "RSI_ATTEST_TOKEN_INIT \<equiv> 0xc4000194"
abbreviation (input) RSI_ATTEST_TOKEN_CONTINUE :: usize where "RSI_ATTEST_TOKEN_CONTINUE \<equiv> 0xc4000195"
abbreviation (input) RSI_REALM_CONFIG :: usize where "RSI_REALM_CONFIG \<equiv> 0xc4000196"
abbreviation (input) RSI_IPA_STATE_SET :: usize where "RSI_IPA_STATE_SET \<equiv> 0xc4000197"
abbreviation (input) RSI_IPA_STATE_GET :: usize where "RSI_IPA_STATE_GET \<equiv> 0xc4000198"
abbreviation (input) RSI_HOST_CALL :: usize where "RSI_HOST_CALL \<equiv> 0xc4000199"
abbreviation (input) SMCCC_VERSION :: usize where "SMCCC_VERSION \<equiv> 0x80000000"
abbreviation (input) PSCI_VERSION :: usize where "PSCI_VERSION \<equiv> 0x84000000"
abbreviation (input) PSCI_CPU_SUSPEND :: usize where "PSCI_CPU_SUSPEND \<equiv> 0xC4000001"
abbreviation (input) PSCI_CPU_OFF :: usize where "PSCI_CPU_OFF \<equiv> 0x84000002"
abbreviation (input) PSCI_CPU_ON :: usize where "PSCI_CPU_ON \<equiv> 0xC4000003"
abbreviation (input) PSCI_AFFINITY_INFO :: usize where "PSCI_AFFINITY_INFO \<equiv> 0xC4000004"
abbreviation (input) PSCI_SYSTEM_OFF :: usize where "PSCI_SYSTEM_OFF \<equiv> 0x84000008"
abbreviation (input) PSCI_SYSTEM_RESET :: usize where "PSCI_SYSTEM_RESET \<equiv> 0x84000009"
abbreviation (input) PSCI_FEATURES :: usize where "PSCI_FEATURES \<equiv> 0x8400000A"
abbreviation (input) RSI_ISLET_REALM_SEALING_KEY :: usize where "RSI_ISLET_REALM_SEALING_KEY \<equiv> 0xC7000191"

section \<open>Helpers\<close>

definition rec_owner_of :: "usize \<Rightarrow> usize rmm_prog" where
  "rec_owner_of rp = bind (rec_at rp) rec_get_owner"

definition with_owner :: "usize \<Rightarrow> (usize \<Rightarrow> rd \<Rightarrow> 'a rmm_prog) \<Rightarrow> 'a rmm_prog" where
  "with_owner rp body = bind (rec_owner_of rp) (\<lambda>o'. with_rd o' (body o'))"

text \<open>\<open>set_reg(rec, 0, v)?; ret[0] = SUCCESS_REC_ENTER; return Ok(())\<close>.\<close>

definition resume :: "usize \<Rightarrow> usize \<Rightarrow> unit rmm_prog" where
  "resume rp v = seq (set_reg rp 0 v) (set_ret 0 SUCCESS_REC_ENTER)"

definition assume_safe :: "usize \<Rightarrow> usize rmm_prog" where
  "assume_safe addr = (if addr = 0 \<or> addr mod 8 \<noteq> 0 then throw RmiErrorInput else return addr)"

definition from_le_bytes :: "u8 list \<Rightarrow> u64" where
  "from_le_bytes bs = foldr (\<lambda>b w. ucast b OR push_bit 8 w) bs 0"

text \<open>The bytes are written, eight by eight, to the registers from \<open>x1\<close> on.\<close>

definition set_reg_chunks :: "usize \<Rightarrow> u8 list \<Rightarrow> unit rmm_prog" where
  "set_reg_chunks rp bs = for_each [0..<length bs div 8] (\<lambda>i.
     set_reg rp (of_nat (i + 1)) (from_le_bytes (take 8 (drop (8 * i) bs))))"

definition get_reg_bytes :: "usize \<Rightarrow> nat \<Rightarrow> u8 list rmm_prog" where
  "get_reg_bytes rp first = foldr (\<lambda>i rest. bind (get_reg rp (of_nat (i + first))) (\<lambda>v.
     bind rest (\<lambda>bs. return (le_bytes 8 v @ bs)))) [0..<8] (return [])"

definition set_byte :: "u64 \<Rightarrow> u8 \<Rightarrow> (u64 \<Rightarrow> u64) \<Rightarrow> u64 \<Rightarrow> u64" where
  "set_byte a b m = (let w = a AND NOT 7; k = 8 * unat (a AND 7)
     in m(w := (m w AND NOT (push_bit k 0xff)) OR push_bit k (ucast b)))"

definition write_bytes :: "u64 \<Rightarrow> u8 list \<Rightarrow> (u64 \<Rightarrow> u64) \<Rightarrow> u64 \<Rightarrow> u64" where
  "write_bytes a bs m = fold (\<lambda>(i, b). set_byte (a + of_nat i) b) (zip [0..<length bs] bs) m"

section \<open>Host calls\<close>

abbreviation (input) HOST_CALL_NR_GPRS :: nat where "HOST_CALL_NR_GPRS \<equiv> 31"

definition host_call_gpr :: "usize \<Rightarrow> nat \<Rightarrow> u64 rmm_prog" where
  "host_call_gpr pa i = (if i \<ge> HOST_CALL_NR_GPRS then throw RmiErrorInput
     else gets (\<lambda>s. mem s (pa + 8 + 8 * of_nat i)))"

definition host_call_set_gpr :: "usize \<Rightarrow> nat \<Rightarrow> u64 \<Rightarrow> unit rmm_prog" where
  "host_call_set_gpr pa i v = (if i \<ge> HOST_CALL_NR_GPRS then throw RmiErrorInput
     else modify (\<lambda>s. s\<lparr> mem := (mem s)(pa + 8 + 8 * of_nat i := v) \<rparr>))"

definition do_host_call :: "env \<Rightarrow> usize \<Rightarrow> unit rmm_prog" where
  "do_host_call e rp = with_owner rp (\<lambda>_ rd.
     bind (attempt (get_reg rp 1)) (\<lambda>x. let ipa = (case x of Inl _ \<Rightarrow> 0 | Inr v \<Rightarrow> v) in
       if ipa mod 0x100 \<noteq> 0 \<or> ipa div GRANULE_SIZE \<noteq> (ipa + 0x100 - 1) div GRANULE_SIZE \<or> \<not> addr_in_par rd ipa
       then resume rp RSI_ERROR_INPUT
       else bind (s2_table rd) (\<lambda>t. bind (bind (ipa_to_pa t ipa RTT_PAGE_LEVEL) (ok_or RmiErrorInput)) (\<lambda>pa0.
         bind (assume_safe pa0) (\<lambda>pa. bind (gets (\<lambda>s. ucast (mem s pa))) (\<lambda>imm.
         bind (rec_at rp) (\<lambda>r.
           seq (if rec_host_call_pending r
                then seq (for_each [0..<HOST_CALL_NR_GPRS] (\<lambda>i. bind (entry_gpr i) (host_call_set_gpr pa i)))
                  (seq (set_reg rp 0 RSI_SUCCESS)
                    (upd_rec rp (\<lambda>r. r\<lparr> rec_host_call_pending := False \<rparr>)))
                else seq (for_each [0..<HOST_CALL_NR_GPRS] (\<lambda>i. bind (host_call_gpr pa i) (set_gpr i)))
                  (seq (set_imm imm)
                  (seq (set_exit_reason EXIT_HOST_CALL)
                    (upd_rec rp (\<lambda>r. r\<lparr> rec_host_call_pending := True \<rparr>)))))
             (set_ret 0 RMI_SUCCESS))))))))"

section \<open>Attestation and measurement\<close>

definition rsi_ATTEST_TOKEN_INIT :: "env \<Rightarrow> usize \<Rightarrow> unit rmm_prog" where
  "rsi_ATTEST_TOKEN_INIT e rp =
    bind (get_reg_bytes rp 1) (\<lambda>challenge.
      seq (upd_rec rp (\<lambda>r. r\<lparr> rec_attest_challenge := challenge,
             rec_attest_state := AttestInProgress, rec_attest_token_offset := 0 \<rparr>))
      (seq (set_reg rp 0 RSI_SUCCESS)
      (seq (set_reg rp 1 MAX_CCA_TOKEN_SIZE) (set_ret 0 SUCCESS_REC_ENTER))))"

definition get_token_part :: "env \<Rightarrow> rd \<Rightarrow> usize \<Rightarrow> usize \<Rightarrow> (u8 list \<times> usize) rmm_prog" where
  "get_token_part e rd rp sz = bind (rec_at rp) (\<lambda>r.
     bind (get_token e (rec_attest_challenge r) (rd_measurements rd) (rd_rpv rd) (rd_hash_algo rd)) (\<lambda>token.
       let offset = rec_attest_token_offset r; len = of_nat (length token);
           part_size = min sz (len - offset); part_end = offset + part_size
       in seq (upd_rec rp (\<lambda>r. r\<lparr> rec_attest_token_offset := part_end \<rparr>))
          (if offset \<le> part_end \<and> part_end \<le> len
           then return (take (unat part_end - unat offset) (drop (unat offset) token), len - part_end)
           else panic)))"

definition rsi_ATTEST_TOKEN_CONTINUE :: "env \<Rightarrow> usize \<Rightarrow> unit rmm_prog" where
  "rsi_ATTEST_TOKEN_CONTINUE e rp = with_owner rp (\<lambda>_ rd. bind (rec_at rp) (\<lambda>r.
     if rec_attest_state r \<noteq> AttestInProgress then resume rp RSI_ERROR_STATE
     else bind (get_reg rp 1) (\<lambda>attest_ipa.
       bind (attempt (validate_ipa rd attest_ipa)) (\<lambda>v. case v of
         Inl _ \<Rightarrow> resume rp RSI_ERROR_INPUT
       | Inr _ \<Rightarrow>
         bind (s2_table rd) (\<lambda>t. bind (bind (ipa_to_pa t attest_ipa RTT_PAGE_LEVEL) (ok_or RmiErrorInput))
         (\<lambda>attest_pa. bind (get_reg rp 2) (\<lambda>pa_offset. bind (get_reg rp 3) (\<lambda>buffer_size.
           if pa_offset + buffer_size < pa_offset \<or> pa_offset + buffer_size > GRANULE_SIZE
           then resume rp RSI_ERROR_INPUT
           else bind (get_token_part e rd rp buffer_size) (\<lambda>(token_part, token_left).
             seq (modify (\<lambda>s. s\<lparr> mem := write_bytes (attest_pa + pa_offset) token_part (mem s) \<rparr>))
             (seq (if token_left = 0
                   then seq (set_reg rp 0 RSI_SUCCESS)
                          (upd_rec rp (\<lambda>r. r\<lparr> rec_attest_state := NoAttestInProgress \<rparr>))
                   else set_reg rp 0 RSI_INCOMPLETE)
             (seq (set_reg rp 1 (of_nat (length token_part))) (set_ret 0 SUCCESS_REC_ENTER))))))))))))"

definition rsi_FEATURES :: "env \<Rightarrow> usize \<Rightarrow> unit rmm_prog" where
  "rsi_FEATURES e rp =
    seq (set_reg rp 0 RSI_SUCCESS) (seq (set_reg rp 1 0) (set_ret 0 SUCCESS_REC_ENTER))"

definition rsi_ABI_VERSION :: "env \<Rightarrow> usize \<Rightarrow> unit rmm_prog" where
  "rsi_ABI_VERSION e rp = bind (get_reg rp 1) (\<lambda>req.
     let (req_major, req_minor) = decode_version req
     in if req_major \<noteq> ABI_MAJOR_VERSION \<or> req_minor \<noteq> ABI_MINOR_VERSION then resume rp RSI_ERROR_INPUT
        else seq (set_reg rp 0 RSI_SUCCESS)
          (seq (set_reg rp 1 encode_version)
          (seq (set_reg rp 2 encode_version) (set_ret 0 SUCCESS_REC_ENTER))))"

definition rsi_MEASUREMENT_READ :: "env \<Rightarrow> usize \<Rightarrow> unit rmm_prog" where
  "rsi_MEASUREMENT_READ e rp = with_owner rp (\<lambda>_ rd.
     bind (get_reg rp 1) (\<lambda>index.
       if index \<ge> of_nat MEASUREMENTS_SLOT_NR then resume rp RSI_ERROR_INPUT
       else (case measurement_read rd (unat index) of
           Inl err \<Rightarrow> throw (error_of_rsi err)
         | Inr m \<Rightarrow> seq (set_reg rp 0 RSI_SUCCESS)
             (seq (set_reg_chunks rp m) (set_ret 0 SUCCESS_REC_ENTER)))))"

definition rsi_MEASUREMENT_EXTEND :: "env \<Rightarrow> usize \<Rightarrow> unit rmm_prog" where
  "rsi_MEASUREMENT_EXTEND e rp = with_owner rp (\<lambda>rdp rd.
     bind (get_reg rp 1) (\<lambda>index. bind (get_reg rp 2) (\<lambda>sz. bind (get_reg_bytes rp 3) (\<lambda>buffer.
       if sz > 64 \<or> index = of_nat MEASUREMENTS_SLOT_RIM \<or> index \<ge> of_nat MEASUREMENTS_SLOT_NR
       then resume rp RSI_ERROR_INPUT
       else seq (measure_into rdp (extend_measurement e (take (unat sz) buffer) (unat index)))
         (resume rp RSI_SUCCESS)))))"

section \<open>Configuration and sealing\<close>

definition realm_config :: "rd \<Rightarrow> usize \<Rightarrow> usize \<Rightarrow> unit rmm_prog" where
  "realm_config rd config_ipa bits = bind (s2_table rd) (\<lambda>t.
     bind (ipa_to_pa t config_ipa RTT_PAGE_LEVEL) (\<lambda>res. case res of
       Some pa \<Rightarrow> bind (assume_safe pa) (\<lambda>a. modify (\<lambda>s. s\<lparr> mem := (mem s)(a := bits) \<rparr>))
     | None \<Rightarrow> throw RmiErrorInput))"

definition rsi_REALM_CONFIG :: "env \<Rightarrow> usize \<Rightarrow> unit rmm_prog" where
  "rsi_REALM_CONFIG e rp = bind (bind (rec_at rp) rec_ipa_bits) (\<lambda>bits.
     with_owner rp (\<lambda>_ rd. bind (get_reg rp 1) (\<lambda>config_ipa.
       bind (attempt (validate_ipa rd config_ipa)) (\<lambda>v. case v of
         Inl _ \<Rightarrow> resume rp RSI_ERROR_INPUT
       | Inr _ \<Rightarrow> seq (realm_config rd config_ipa bits)
           (seq (attempt (set_reg rp 0 RSI_SUCCESS)) (set_ret 0 SUCCESS_REC_ENTER))))))"

definition rsi_ISLET_REALM_SEALING_KEY :: "env \<Rightarrow> usize \<Rightarrow> unit rmm_prog" where
  "rsi_ISLET_REALM_SEALING_KEY e rp = bind (get_reg rp 1) (\<lambda>flags. bind (get_reg rp 2) (\<lambda>svn.
     with_owner rp (\<lambda>_ rd. bind (attempt (realm_sealing_key e rd flags svn)) (\<lambda>k. case k of
       Inl _ \<Rightarrow> resume rp RSI_ERROR_INPUT
     | Inr buf \<Rightarrow> seq (set_reg_chunks rp buf) (resume rp RSI_SUCCESS)))))"

section \<open>RIPAS\<close>

definition get_ripas_state :: "env \<Rightarrow> usize \<Rightarrow> unit rmm_prog" where
  "get_ripas_state e rp = with_owner rp (\<lambda>_ rd. bind (get_reg rp 1) (\<lambda>ipa_page.
     bind (attempt (validate_ipa rd ipa_page)) (\<lambda>v. case v of
       Inl _ \<Rightarrow> seq (attempt (set_reg rp 0 RSI_ERROR_INPUT)) (set_ret 0 SUCCESS_REC_ENTER)
     | Inr _ \<Rightarrow> bind (rtt_get_ripas rd ipa_page RTT_PAGE_LEVEL) (\<lambda>ripas.
         seq (attempt (set_reg rp 0 RSI_SUCCESS))
         (seq (attempt (set_reg rp 1 ripas)) (set_ret 0 SUCCESS_REC_ENTER))))))"

definition is_ripas_valid :: "u8 \<Rightarrow> bool" where
  "is_ripas_valid ripas \<longleftrightarrow> (ucast ripas :: u64) = RIPAS_EMPTY \<or> (ucast ripas :: u64) = RIPAS_RAM"

definition set_ripas_state :: "env \<Rightarrow> usize \<Rightarrow> unit rmm_prog" where
  "set_ripas_state e rp =
    bind (get_reg rp 1) (\<lambda>ipa_start. bind (get_reg rp 2) (\<lambda>ipa_end.
    bind (get_reg rp 3) (\<lambda>x3. bind (get_reg rp 4) (\<lambda>flags. let ipa_state = ucast x3 :: u8 in
      if ipa_end \<le> ipa_start then resume rp RSI_ERROR_INPUT
      else with_owner rp (\<lambda>_ rd.
        if \<not> is_granule_aligned ipa_start \<or> \<not> is_granule_aligned ipa_end \<or> \<not> is_ripas_valid ipa_state
          \<or> ipa_end \<le> ipa_start \<or> \<not> addr_in_par rd ipa_start \<or> \<not> addr_in_par rd (ipa_end - 1)
        then resume rp RSI_ERROR_INPUT
        else seq (set_exit_reason EXIT_RIPAS_CHANGE)
          (seq (run_set_ripas ipa_start ipa_end ipa_state)
          (seq (upd_rec rp (\<lambda>r. set_ripas_range r ipa_start ipa_end ipa_state flags))
            (set_ret 0 RMI_SUCCESS))))))))"

definition complete_ripas :: "usize \<Rightarrow> unit rmm_prog" where
  "complete_ripas rp = bind (rec_at rp) (\<lambda>r. bind (gets run_page) (\<lambda>pg.
     only_if (ripas_end (rec_ripas r) > 0)
       (seq (set_reg rp 0 RSI_SUCCESS)
       (seq (set_reg rp 1 (ripas_addr (rec_ripas r)))
       (seq (if entry_flags pg AND REC_ENTRY_FLAG_RIPAS_RESPONSE \<noteq> 0 then set_reg rp 2 1 else set_reg rp 2 0)
         (upd_rec rp (\<lambda>r. set_ripas_range r 0 0 0 0)))))))"

section \<open>PSCI\<close>

abbreviation (input) PSCI_SUCCESS :: usize where "PSCI_SUCCESS \<equiv> 0"
abbreviation (input) AFFINITY_INFO_ON :: usize where "AFFINITY_INFO_ON \<equiv> 0"
abbreviation (input) AFFINITY_INFO_OFF :: usize where "AFFINITY_INFO_OFF \<equiv> 1"
abbreviation (input) PSCI_NOT_SUPPORTED :: usize where "PSCI_NOT_SUPPORTED \<equiv> NOT 0"
abbreviation (input) PSCI_INVALID_PARAMS :: usize where "PSCI_INVALID_PARAMS \<equiv> NOT 1"
abbreviation (input) PSCI_DENIED :: usize where "PSCI_DENIED \<equiv> NOT 2"
abbreviation (input) PSCI_ALREADY_ON :: usize where "PSCI_ALREADY_ON \<equiv> NOT 3"
abbreviation (input) PSCI_INVALID_ADDRESS :: usize where "PSCI_INVALID_ADDRESS \<equiv> NOT 8"

definition psci_version :: usize where "psci_version = push_bit 16 1 OR 1"
definition smccc_version :: usize where "smccc_version = push_bit 16 1 OR 2"

definition psci_VERSION :: "env \<Rightarrow> usize \<Rightarrow> unit rmm_prog" where
  "psci_VERSION e rp = seq (attempt (set_reg rp 0 psci_version)) (set_ret 0 SUCCESS_REC_ENTER)"

definition psci_SMCCC_VERSION :: "env \<Rightarrow> usize \<Rightarrow> unit rmm_prog" where
  "psci_SMCCC_VERSION e rp = seq (attempt (set_reg rp 0 smccc_version)) (set_ret 0 SUCCESS_REC_ENTER)"

definition psci_CPU_ON :: "env \<Rightarrow> usize \<Rightarrow> unit rmm_prog" where
  "psci_CPU_ON e rp = with_owner rp (\<lambda>_ rd.
     bind (get_reg rp 1) (\<lambda>target_mpidr. bind (get_reg rp 2) (\<lambda>entry_addr. bind (rec_at rp) (\<lambda>r.
       if \<not> addr_in_par rd entry_addr then resume rp PSCI_INVALID_ADDRESS
       else (let target_index = mpidr_index target_mpidr in
         if target_index \<ge> rd_rec_index rd then resume rp PSCI_INVALID_PARAMS
         else if target_index = rec_vcpuid r then resume rp PSCI_ALREADY_ON
         else seq (upd_rec rp (\<lambda>r. r\<lparr> rec_psci_pending := True \<rparr>))
           (seq (set_exit_reason EXIT_PSCI)
           (seq (set_gpr 0 PSCI_CPU_ON)
           (seq (set_gpr 1 target_mpidr) (set_ret 0 RMI_SUCCESS)))))))))"

definition psci_CPU_OFF :: "env \<Rightarrow> usize \<Rightarrow> unit rmm_prog" where
  "psci_CPU_OFF e rp = seq (upd_rec rp (\<lambda>r. set_runnable r 0))
     (seq (set_exit_reason EXIT_PSCI) (seq (set_gpr 0 PSCI_CPU_OFF) (set_ret 0 RMI_SUCCESS)))"

definition psci_SYSTEM_OFF :: "env \<Rightarrow> usize \<Rightarrow> unit rmm_prog" where
  "psci_SYSTEM_OFF e rp = with_owner rp (\<lambda>rdp _.
     seq (upd_rd rdp (\<lambda>r. r\<lparr> rd_state := SystemOff \<rparr>))
     (seq (set_exit_reason EXIT_PSCI) (seq (set_gpr 0 PSCI_SYSTEM_OFF) (set_ret 0 RMI_SUCCESS))))"

definition psci_CPU_SUSPEND :: "env \<Rightarrow> usize \<Rightarrow> unit rmm_prog" where
  "psci_CPU_SUSPEND e rp =
    seq (get_reg rp 1) (seq (get_reg rp 2) (seq (get_reg rp 3)
      (seq (set_exit_reason EXIT_PSCI) (seq (set_gpr 0 PSCI_CPU_SUSPEND) (set_ret 0 RMI_SUCCESS)))))"

definition psci_SYSTEM_RESET :: "env \<Rightarrow> usize \<Rightarrow> unit rmm_prog" where
  "psci_SYSTEM_RESET e rp = with_owner rp (\<lambda>rdp _.
     seq (upd_rd rdp (\<lambda>r. r\<lparr> rd_state := SystemOff \<rparr>))
     (seq (set_exit_reason EXIT_PSCI) (seq (set_gpr 0 PSCI_SYSTEM_RESET) (set_ret 0 RMI_SUCCESS))))"

definition psci_AFFINITY_INFO :: "env \<Rightarrow> usize \<Rightarrow> unit rmm_prog" where
  "psci_AFFINITY_INFO e rp =
    bind (get_reg rp 1) (\<lambda>affinity. bind (get_reg rp 2) (\<lambda>lowest_level. bind (rec_at rp) (\<lambda>r.
      if lowest_level \<noteq> 0 then resume rp PSCI_INVALID_PARAMS
      else if mpidr_index affinity = rec_vcpuid r then resume rp PSCI_SUCCESS
      else seq (upd_rec rp (\<lambda>r. r\<lparr> rec_psci_pending := True \<rparr>))
        (seq (set_exit_reason EXIT_PSCI)
        (seq (set_gpr 0 PSCI_AFFINITY_INFO)
        (seq (set_gpr 1 affinity) (set_ret 0 RMI_SUCCESS)))))))"

definition psci_FEATURES :: "env \<Rightarrow> usize \<Rightarrow> unit rmm_prog" where
  "psci_FEATURES e rp = bind (get_reg rp 1) (\<lambda>feature_id.
     let retval = (if feature_id \<in> {PSCI_CPU_SUSPEND, PSCI_CPU_OFF, PSCI_CPU_ON, PSCI_AFFINITY_INFO,
           PSCI_SYSTEM_OFF, PSCI_SYSTEM_RESET, PSCI_FEATURES, PSCI_VERSION}
         then PSCI_SUCCESS else PSCI_NOT_SUPPORTED)
     in seq (attempt (set_reg rp 0 retval)) (set_ret 0 SUCCESS_REC_ENTER))"

definition complete_psci :: "platform \<Rightarrow> usize \<Rightarrow> usize \<Rightarrow> usize \<Rightarrow> unit rmm_prog" where
  "complete_psci p caller target status =
    bind (rec_at target) (\<lambda>tr. bind (get_reg caller 1) (\<lambda>target_mpidr.
      if mpidr_index target_mpidr \<noteq> rec_vcpuid tr then throw RmiErrorInput
      else bind (get_reg caller 0) (\<lambda>command.
        if command = PSCI_CPU_ON \<and> status \<noteq> PSCI_SUCCESS \<and> status \<noteq> PSCI_DENIED then throw RmiErrorInput
        else if command = PSCI_AFFINITY_INFO \<and> status \<noteq> PSCI_SUCCESS then throw RmiErrorInput
        else bind
          (if command = PSCI_CPU_ON \<and> rec_runnable tr then return PSCI_ALREADY_ON
           else if command = PSCI_CPU_ON \<and> status = PSCI_DENIED then return PSCI_DENIED
           else if command = PSCI_CPU_ON then
             bind (get_reg caller 2) (\<lambda>entry_point. bind (get_reg caller 3) (\<lambda>context_id.
               seq (upd_rec target (reset_ctx p))
               (seq (set_reg target 0 context_id)
               (seq (set_reg target 31 entry_point)
               (seq (upd_rec target (\<lambda>r. set_runnable r 1)) (return PSCI_SUCCESS))))))
           else if command = PSCI_AFFINITY_INFO \<and> rec_runnable tr then return AFFINITY_INFO_ON
           else if command = PSCI_AFFINITY_INFO then return AFFINITY_INFO_OFF
           else return PSCI_NOT_SUPPORTED)
          (\<lambda>psci_ret.
             if command = PSCI_CPU_ON \<and> status = PSCI_DENIED \<and> psci_ret = PSCI_ALREADY_ON
             then throw RmiErrorInput
             else seq (set_reg caller 0 psci_ret)
               (seq (set_reg caller 1 0) (seq (set_reg caller 2 0) (seq (set_reg caller 3 0)
                 (upd_rec caller (\<lambda>r. r\<lparr> rec_psci_pending := False \<rparr>)))))))))"

section \<open>Dispatch\<close>

definition rsi_on_event :: "usize \<Rightarrow> (env \<Rightarrow> usize \<Rightarrow> unit rmm_prog) option" where
  "rsi_on_event = map_of
    [(RSI_ATTEST_TOKEN_INIT, rsi_ATTEST_TOKEN_INIT), (RSI_ATTEST_TOKEN_CONTINUE, rsi_ATTEST_TOKEN_CONTINUE),
     (RSI_FEATURES, rsi_FEATURES), (RSI_HOST_CALL, do_host_call), (RSI_ABI_VERSION, rsi_ABI_VERSION),
     (RSI_MEASUREMENT_READ, rsi_MEASUREMENT_READ), (RSI_MEASUREMENT_EXTEND, rsi_MEASUREMENT_EXTEND),
     (RSI_REALM_CONFIG, rsi_REALM_CONFIG), (RSI_IPA_STATE_GET, get_ripas_state),
     (RSI_IPA_STATE_SET, set_ripas_state), (RSI_ISLET_REALM_SEALING_KEY, rsi_ISLET_REALM_SEALING_KEY),
     (PSCI_VERSION, psci_VERSION), (PSCI_CPU_ON, psci_CPU_ON), (PSCI_CPU_OFF, psci_CPU_OFF),
     (PSCI_SYSTEM_OFF, psci_SYSTEM_OFF), (PSCI_CPU_SUSPEND, psci_CPU_SUSPEND),
     (PSCI_SYSTEM_RESET, psci_SYSTEM_RESET), (PSCI_AFFINITY_INFO, psci_AFFINITY_INFO),
     (PSCI_FEATURES, psci_FEATURES), (SMCCC_VERSION, psci_SMCCC_VERSION)]"

definition rsi_ret_num :: "usize \<Rightarrow> nat option" where
  "rsi_ret_num cmd =
    (if cmd \<in> {RSI_IPA_STATE_SET, RSI_HOST_CALL, RSI_ABI_VERSION, RSI_REALM_CONFIG, RSI_IPA_STATE_GET,
         PSCI_VERSION, PSCI_CPU_SUSPEND, PSCI_CPU_OFF, PSCI_CPU_ON, PSCI_AFFINITY_INFO, PSCI_SYSTEM_OFF,
         PSCI_SYSTEM_RESET, PSCI_FEATURES, SMCCC_VERSION} then Some 1
     else if cmd = RSI_ISLET_REALM_SEALING_KEY then Some 5
     else None)"

definition rsi_validate :: "usize \<Rightarrow> usize list" where
  "rsi_validate cmd = (case rsi_ret_num cmd of Some n \<Rightarrow> replicate n 0 | None \<Rightarrow> replicate 1 0)"

section \<open>Evaluating calls\<close>

abbreviation gp :: "rmm \<Rightarrow> usize \<Rightarrow> u64 list" where
  "gp s rp \<equiv> gp_regs (rec_context (recs s rp))"

definition with_gp :: "usize \<Rightarrow> u64 list \<Rightarrow> rmm \<Rightarrow> rmm" where
  "with_gp rp xs s = s\<lparr> recs := (recs s)(rp := (recs s rp)\<lparr> rec_context := (rec_context (recs s rp))\<lparr> gp_regs := xs \<rparr> \<rparr>) \<rparr>"

lemma with_gp_simps [simp]:
  "gp (with_gp rp xs s) rp = xs" "rds (with_gp rp xs s) = rds s" "ret (with_gp rp xs s) = ret s"
  "held (with_gp rp xs s) = held s" "mem (with_gp rp xs s) = mem s" "gst (with_gp rp xs s) = gst s"
  "with_gp rp ys (with_gp rp xs s) = with_gp rp ys s"
  by (simp_all add: with_gp_def)

lemma get_reg_run [run]: "i \<le> 30 \<Longrightarrow> get_reg rp i s = (Ok (gp s rp ! unat i), s)"
  by (simp add: get_reg_def rec_at_def get_reg_rec_def run)

lemma set_reg_run [run]: "i \<le> 30 \<Longrightarrow> set_reg rp i v s = (Ok (), with_gp rp ((gp s rp)[unat i := v]) s)"
  by (simp add: set_reg_def rec_at_def set_reg_rec_def upd_rec_def with_gp_def run)

lemma resume_run [run]:
  "ret s \<noteq> [] \<Longrightarrow> resume rp v s
    = (Ok (), (with_gp rp ((gp s rp)[0 := v]) s)\<lparr> ret := (ret s)[0 := SUCCESS_REC_ENTER] \<rparr>)"
  by (simp add: resume_def set_ret_def run)

lemma get_reg_bytes_run [run]:
  assumes "k + 7 \<le> 30"
  shows "get_reg_bytes rp k s = (Ok (concat (map (\<lambda>i. le_bytes 8 (gp s rp ! (i + k))) [0..<8])), s)"
proof -
  have "foldr (\<lambda>i rest. bind (get_reg rp (of_nat (i + k))) (\<lambda>v. bind rest (\<lambda>bs. return (le_bytes 8 v @ bs)))) is (return []) s
      = (Ok (concat (map (\<lambda>i. le_bytes 8 (gp s rp ! (i + k))) is)), s)" if "set is \<subseteq> {..<8}" for "is"
    using that
  proof (induction "is")
    case Nil
    then show ?case by (simp add: run)
  next
    case (Cons i "is")
    then have "i + k \<le> 30" using assms by auto
    moreover from this have u: "unat (of_nat (i + k) :: usize) = i + k"
      by (intro unat_of_nat_u64) simp
    ultimately have "(of_nat (i + k) :: usize) \<le> 30" by (simp add: word_le_nat_alt)
    from get_reg_run[OF this] show ?case using Cons u by (simp add: bind_run return_run)
  qed
  moreover have "set [0..<8] \<subseteq> {..<8 :: nat}" by auto
  ultimately show ?thesis unfolding get_reg_bytes_def by blast
qed

lemma with_owner_run:
  assumes "rec_owner (recs s rp) = Some ow" and "validate_addr ow" and "gidx ow \<notin> set (held s)"
    and "g_state (gst s (gidx ow)) = GS_RD"
  shows "with_owner rp f s = release (gidx ow) (f ow (rds s ow) (s\<lparr> held := gidx ow # held s \<rparr>))"
  using assms by (simp add: with_owner_def rec_owner_of_def rec_at_def rec_get_owner_def with_rd_def get_granule_if_run run)

section \<open>Properties\<close>

text \<open>
  C28. A realm extends exactly one of its own measurements.  MEASUREMENT_EXTEND of a slot between 1 and 4 with
  at most 64 bytes replaces that slot by the digest of the old value and the bytes, with the
  realm's algorithm; for every other argument, and in particular for the slot of the initial
  measurement, the descriptor stays and the realm is told of the error.  Either way the realm
  resumes, and neither other realms nor memory change.
\<close>

theorem measurement_extend_spec:
  assumes ow: "rec_owner (recs s rp) = Some rdp" "validate_addr rdp" "gidx rdp \<notin> set (held s)"
      "g_state (gst s (gidx rdp)) = GS_RD"
    and "ret s \<noteq> []" and "from_hash_algo (rd_hash_algo (rds s rdp)) = Inr (algo, sz)"
    and "length (rd_measurements (rds s rdp)) = MEASUREMENTS_SLOT_NR"
    and "length (gp s rp) = 31" and regs: "gp s rp ! 1 = index" "gp s rp ! 2 = n"
    and "data = take (unat n) (concat (map (\<lambda>i. le_bytes 8 (gp s rp ! (i + 3))) [0..<8]))"
    and bad: "bad \<longleftrightarrow> n > 64 \<or> index = 0 \<or> index \<ge> 5"
  shows "\<exists>t. rsi_MEASUREMENT_EXTEND e rp s = (Ok (), t) \<and> ret t = (ret s)[0 := SUCCESS_REC_ENTER]
    \<and> gp t rp ! 0 = (if bad then RSI_ERROR_INPUT else RSI_SUCCESS) \<and> held t = held s \<and> mem t = mem s \<and> gst t = gst s
    \<and> rds t = (if bad then rds s else (rds s)(rdp := (rds s rdp)\<lparr> rd_measurements :=
        (rd_measurements (rds s rdp))[unat index := hash_fields_into e algo (rd_measurements (rds s rdp) ! unat index)
          (take sz (rd_measurements (rds s rdp) ! unat index) @ data)] \<rparr>))"
proof -
  have i: "unat index < 5" if "\<not> bad" using that bad by (simp add: word_le_nat_alt not_le)
  note eval = rsi_MEASUREMENT_EXTEND_def with_owner_run[OF ow] run measure_into_def upd_rd_def extend_measurement_def
    hash_context_def measurement_extend_def regs[unfolded One_nat_def] assms(11)[symmetric]
  show ?thesis
  proof (cases bad)
    case True
    then show ?thesis using assms(5,8) bad by (auto simp: eval)
  next
    case False
    then show ?thesis using assms(5-8) bad i by (simp add: eval)
  qed
qed

definition sample_call :: "u64 list \<Rightarrow> rmm" where
  "sample_call xs = rmm0\<lparr> gst := (\<lambda>_. granule_new\<lparr> g_state := GS_RD \<rparr>),
     recs := (\<lambda>_. rec_wiped\<lparr> rec_owner := Some 0x88001000,
       rec_context := (rec_context rec_wiped)\<lparr> gp_regs := xs @ replicate (31 - length xs) 0 \<rparr> \<rparr>) \<rparr>"

theorem measurement_extend_spec_witness:
  "\<exists>t. rsi_MEASUREMENT_EXTEND env0 0x88000000 (sample_call [0, 2, 8, 7]) = (Ok (), t)
     \<and> gp t 0x88000000 ! 0 = RSI_SUCCESS \<and> rd_measurements (rds t 0x88001000) ! 0 = measurement_empty"
proof -
  have v: "validate_addr 0x88001000" by code_simp
  let ?s = "sample_call [0, 2, 8, 7]"
  have s: "rec_owner (recs ?s a) = Some 0x88001000" "held ?s = []" "g_state (gst ?s i) = GS_RD" "ret ?s = [0]"
      "rds ?s a = rd_zero" "length (gp ?s a) = 31" "gp ?s a ! 1 = 2" "gp ?s a ! 2 = 8" for a i
    by (simp_all add: sample_call_def rmm0_def granule_new_def)
  have "from_hash_algo (rd_hash_algo rd_zero) = Inr (0, 32)" "length (rd_measurements rd_zero) = 5"
    by (simp_all add: from_hash_algo_def rd_zero_def)
  from measurement_extend_spec[where e = env0 and s = ?s and rp = "0x88000000" and rdp = "0x88001000",
      OF s(1) v _ s(3) _ _ _ s(6,7,8) refl refl, unfolded s, OF _ _ this]
  obtain t m where t: "rsi_MEASUREMENT_EXTEND env0 0x88000000 ?s = (Ok (), t)" "gp t 0x88000000 ! 0 = 0"
      and m: "rds t 0x88001000 = rd_zero\<lparr> rd_measurements := (rd_measurements rd_zero)[2 := m] \<rparr>"
    by auto
  have "rd_measurements (rds t 0x88001000) ! 0 = measurement_empty" unfolding m by (simp add: rd_zero_def)
  with t show ?thesis by blast
qed

text \<open>The parts of a token that a realm gets by asking for sizes one after the other.\<close>

primrec token_parts :: "env \<Rightarrow> rd \<Rightarrow> usize \<Rightarrow> usize list \<Rightarrow> u8 list rmm_prog" where
  "token_parts e rd rp [] = return []"
| "token_parts e rd rp (sz # szs) = bind (get_token_part e rd rp sz) (\<lambda>(part, left).
     bind (token_parts e rd rp szs) (\<lambda>rest. return (part @ rest)))"

lemma get_token_part_run:
  assumes tok: "\<And>s. get_token e (rec_attest_challenge r) (rd_measurements rd) (rd_rpv rd) (rd_hash_algo rd) s = (Ok T, s)"
    and r: "recs s rp = r" "rec_attest_token_offset r = of_nat k" and k: "k \<le> length T" "length T < 2 ^ 64"
    and k': "k' = min (k + unat sz) (length T)"
  shows "get_token_part e rd rp sz s = (Ok (take (k' - k) (drop k T), of_nat (length T - k')),
    s\<lparr> recs := (recs s)(rp := r\<lparr> rec_attest_token_offset := of_nat k' \<rparr>) \<rparr>)"
proof -
  have u: "unat (of_nat k :: usize) = k" "unat (of_nat (length T) :: usize) = length T"
    "unat (of_nat k' :: usize) = k'"
    using k k' by (auto intro!: unat_of_nat_u64)
  have le: "(of_nat k :: usize) \<le> of_nat (length T)" "(of_nat k' :: usize) \<le> of_nat (length T)"
      "(of_nat k :: usize) \<le> of_nat k'"
    using u k(1) k' by (simp_all add: word_le_nat_alt)
  have left: "(of_nat (length T) - of_nat k :: usize) = of_nat (length T - k)"
      "(of_nat (length T) - of_nat k' :: usize) = of_nat (length T - k')"
    using k(1) k' by (simp_all add: of_nat_diff)
  have "unat (of_nat (length T - k) :: usize) = length T - k" using k by (intro unat_of_nat_u64) simp
  then have "unat (min sz (of_nat (length T - k))) = min (unat sz) (length T - k)"
    by (auto simp: min_def word_le_nat_alt)
  also have "\<dots> = k' - k" using k(1) k' by auto
  finally have "min sz (of_nat (length T - k)) = of_nat (k' - k)" by (metis of_nat_unat ucast_id)
  then have fin: "of_nat k + min sz (of_nat (length T - k)) = (of_nat k' :: usize)"
    using k(1) k' by (simp add: of_nat_diff)
  show ?thesis
    using r by (simp add: get_token_part_def rec_at_def upd_rec_def run tok Let_def fin le u left)
qed

lemma token_parts_run:
  assumes tok: "\<And>s. get_token e c (rd_measurements rd) (rd_rpv rd) (rd_hash_algo rd) s = (Ok T, s)"
    and T: "length T < 2 ^ 64"
  shows "rec_attest_challenge (recs s rp) = c \<Longrightarrow> rec_attest_token_offset (recs s rp) = of_nat k \<Longrightarrow> k \<le> length T \<Longrightarrow>
    \<exists>t. token_parts e rd rp szs s = (Ok (take (sum_list (map unat szs)) (drop k T)), t)
      \<and> rec_attest_token_offset (recs t rp) = of_nat (min (k + sum_list (map unat szs)) (length T))"
proof (induction szs arbitrary: s k)
  case Nil
  then show ?case by (simp add: run min_absorb1)
next
  case (Cons sz szs)
  let ?k = "min (k + unat sz) (length T)" and ?r = "recs s rp"
  let ?s = "s\<lparr> recs := (recs s)(rp := ?r\<lparr> rec_attest_token_offset := of_nat ?k \<rparr>) \<rparr>"
  from get_token_part_run[OF _ refl Cons.prems(2,3) T refl, of e rd sz] tok Cons.prems(1)
  have part: "get_token_part e rd rp sz s = (Ok (take (?k - k) (drop k T), of_nat (length T - ?k)), ?s)" by simp
  obtain t where t: "token_parts e rd rp szs ?s = (Ok (take (sum_list (map unat szs)) (drop ?k T)), t)"
      "rec_attest_token_offset (recs t rp) = of_nat (min (?k + sum_list (map unat szs)) (length T))"
    using Cons.IH[of ?s ?k] Cons.prems by auto
  have "take (?k - k) (drop k T) @ take n (drop ?k T) = take (unat sz + n) (drop k T)" for n
    using Cons.prems(3) by (cases "k + unat sz \<le> length T") (simp_all add: take_add min_def add.commute[of "unat sz" k])
  moreover have "min (?k + n) (length T) = min (k + (unat sz + n)) (length T)" for n by simp
  ultimately show ?case using part t by (simp add: run)
qed



definition put_words :: "nat \<Rightarrow> usize \<Rightarrow> (nat \<Rightarrow> u64) \<Rightarrow> (usize \<Rightarrow> u64) \<Rightarrow> usize \<Rightarrow> u64" where
  "put_words n a f m = fold (\<lambda>i m. m(a + 8 * of_nat i := f i)) [0..<n] m"

lemma put_words_Suc [simp]: "put_words (Suc n) a f m = (put_words n a f m)(a + 8 * of_nat n := f n)"
  by (simp add: put_words_def)

lemma put_words_0 [simp]: "put_words 0 a f m = m"
  by (simp add: put_words_def)

lemma put_words_other: "(\<And>i. i < n \<Longrightarrow> b \<noteq> a + 8 * of_nat i) \<Longrightarrow> put_words n a f m b = m b"
  by (induction n) simp_all

lemma put_words_at:
  assumes "i < n" and "8 * n < 2 ^ 64"
  shows "put_words n a f m (a + 8 * of_nat i) = f i"
  using assms
proof (induction n)
  case (Suc n)
  have "i = n" if "(8 * of_nat i :: usize) = 8 * of_nat n" "i \<le> n"
    using that arg_cong[OF that(1), of unat] Suc.prems(2) unat_of_nat_u64[of "8 * i"] unat_of_nat_u64[of "8 * n"] by simp
  then show ?case using Suc by (cases "i = n") auto
qed simp

lemma put_u8_low: "ucast (put_u8 w v) = v"
proof -
  have "bit (0xff :: u64) n" if "n < 8" for n
    using that bit_mask_iff[of 8 n, where ?'a = "64 word"] by (simp add: mask_eq_exp_minus_1)
  then show ?thesis by (intro bit_word_eqI) (auto simp: put_u8_def bit_simps)
qed


definition sample_page_table :: "usize \<Rightarrow> u64" where
  "sample_page_table = (\<lambda>a. if a = 0x88000000 then 0x88100003 else if a = 0x88100008 then 0x88200443 else 9)"

definition sample_host_call :: rmm where
  "sample_host_call = (sample_call [0, 0x1000])\<lparr> rtt_tables := [0 \<mapsto> sample_table], mem := sample_page_table,
     rds := (\<lambda>_. rd_zero\<lparr> rd_ipa_bits := 33 \<rparr>) \<rparr>"


end
