(* ===== verification/Trap.thy ===== *)
theory Trap
  imports Rec_Run
begin

text \<open>
  Exceptions: the reasons of \<open>rmm/src/event/realmexit.rs\<close>, the syndrome of
  \<open>rmm/src/exception/trap/syndrome.rs\<close>, the emulated identification registers of
  \<open>rmm/src/exception/lower/synchronous/sys_reg.rs\<close>, the handlers of
  \<open>rmm/src/exception/trap.rs\<close> and the entry and exit paths of
  \<open>rmm/src/exception/vectors.s\<close>.

  What a realm does between two exceptions is not part of the monitor: a
  \<open>guest_step\<close> gives the kind of the next exception, the registers the realm leaves
  behind and its effect on the registers of the core and on memory.  A realm is a
  list of them; a realm that is never interrupted again is the empty list.
\<close>

section \<open>Reasons for an exit\<close>

datatype exit_sync_type = ES_RSI | ES_DataAbort | ES_InstAbort | ES_Undefined

datatype rec_exit_reason =
  RX_Sync exit_sync_type | RX_IRQ | RX_FIQ | RX_PSCI | RX_SError | RX_Undefined

fun exit_sync_code :: "exit_sync_type \<Rightarrow> u64" where
  "exit_sync_code ES_RSI = push_bit 4 1"
| "exit_sync_code ES_DataAbort = push_bit 4 2"
| "exit_sync_code ES_InstAbort = push_bit 4 3"
| "exit_sync_code ES_Undefined = push_bit 4 15"

fun rec_exit_code :: "rec_exit_reason \<Rightarrow> u64" where
  "rec_exit_code (RX_Sync t) = exit_sync_code t"
| "rec_exit_code RX_IRQ = 1"
| "rec_exit_code RX_FIQ = 2"
| "rec_exit_code RX_PSCI = 3"
| "rec_exit_code RX_SError = 4"
| "rec_exit_code RX_Undefined = 7"

definition exit_sync_from :: "usize \<Rightarrow> exit_sync_type" where
  "exit_sync_from num =
    (let v = drop_bit 4 (num AND push_bit 4 15)
     in if v = 1 then ES_RSI else if v = 2 then ES_DataAbort else if v = 3 then ES_InstAbort
        else ES_Undefined)"

definition rec_exit_from :: "usize \<Rightarrow> rec_exit_reason" where
  "rec_exit_from num =
    (let v = num AND 15
     in if v = 0 then RX_Sync (exit_sync_from num) else if v = 1 then RX_IRQ
        else if v = 2 then RX_FIQ else if v = 3 then RX_PSCI else if v = 4 then RX_SError
        else RX_Undefined)"

section \<open>Syndromes\<close>

datatype fault = AddressSize u8 | Translation u8 | AccessFlag u8 | Permission u8 | Alignment
  | TLBConflict | FaultOther u8

definition fault_from :: "u32 \<Rightarrow> fault" where
  "fault_from origin =
    (let level = ucast (origin AND 3) :: u8; o8 = ucast origin :: u8; v = drop_bit 2 (o8 AND 0x3f)
     in if v = 0 then AddressSize level else if v = 1 then Translation level
        else if v = 2 then AccessFlag level else if v = 3 then Permission level
        else if v = 8 then Alignment else if v = 12 then TLBConflict
        else FaultOther (o8 AND 0x3f))"

datatype syndrome = SynUnknown | PCAlignmentFault | DataAbort fault | InstructionAbort fault
  | SPAlignmentFault | Brk u16 | HVC | SMC | SysRegInst | WFX | FPU | SVE | SME | SynOther u32

definition syndrome_from :: "platform \<Rightarrow> u32 \<Rightarrow> syndrome" where
  "syndrome_from p origin =
    (let ec = drop_bit (fld_shift (p_esr_ec p)) origin AND ucast (fld_mask (p_esr_ec p)) :: u32
     in if ec = 0 then SynUnknown else if ec = 1 then WFX else if ec = 7 then FPU
        else if ec = 18 \<or> ec = 22 then HVC else if ec = 19 \<or> ec = 23 then SMC
        else if ec = 24 then SysRegInst else if ec = 25 then SVE else if ec = 29 then SME
        else if ec = 32 \<or> ec = 33 then InstructionAbort (fault_from origin)
        else if ec = 34 then PCAlignmentFault
        else if ec = 36 \<or> ec = 37 then DataAbort (fault_from origin)
        else if ec = 38 then SPAlignmentFault
        else if ec = 60 then Brk (ucast origin AND 0xffff)
        else SynOther ec)"

datatype kind = Synchronous | Irq | Fiq | SError

text \<open>
  An exception of the monitor itself: the new value of the saved program counter, \<open>None\<close>
  if the handler panics.
\<close>

definition handle_exception :: "platform \<Rightarrow> kind \<Rightarrow> u32 \<Rightarrow> u64 \<Rightarrow> u64 option" where
  "handle_exception p k esr tf_elr =
    (if k \<noteq> Synchronous then None
     else case syndrome_from p esr of
       Brk _ \<Rightarrow> Some (tf_elr + 4)
     | PCAlignmentFault \<Rightarrow> Some tf_elr
     | DataAbort _ \<Rightarrow> Some tf_elr
     | InstructionAbort _ \<Rightarrow> Some tf_elr
     | HVC \<Rightarrow> Some tf_elr
     | SMC \<Rightarrow> Some tf_elr
     | SysRegInst \<Rightarrow> Some tf_elr
     | WFX \<Rightarrow> Some tf_elr
     | FPU \<Rightarrow> None
     | SVE \<Rightarrow> None
     | SME \<Rightarrow> None
     | SynOther _ \<Rightarrow> Some tf_elr
     | SynUnknown \<Rightarrow> None
     | SPAlignmentFault \<Rightarrow> None)"

section \<open>Identification registers\<close>

definition ISS_IL :: u64 where "ISS_IL = define_mask 25 25"
definition ISS_Op0 :: u64 where "ISS_Op0 = define_mask 21 20"
definition ISS_Op2 :: u64 where "ISS_Op2 = define_mask 19 17"
definition ISS_Op1 :: u64 where "ISS_Op1 = define_mask 16 14"
definition ISS_CRn :: u64 where "ISS_CRn = define_mask 13 10"
definition ISS_Rt :: u64 where "ISS_Rt = define_mask 9 5"
definition ISS_CRm :: u64 where "ISS_CRm = define_mask 4 1"
definition ISS_Direction :: u64 where "ISS_Direction = define_mask 0 0"

definition iss_id :: "u64 \<Rightarrow> u64 \<Rightarrow> u64 \<Rightarrow> u64 \<Rightarrow> u64 \<Rightarrow> u32" where
  "iss_id op0 op1 crn crm op2 =
    ucast (bits_in_reg ISS_Op0 op0) OR ucast (bits_in_reg ISS_Op1 op1) OR ucast (bits_in_reg ISS_CRn crn)
    OR ucast (bits_in_reg ISS_CRm crm) OR ucast (bits_in_reg ISS_Op2 op2)"

definition ISS_ID_AA64PFR0_EL1 :: u32 where "ISS_ID_AA64PFR0_EL1 = iss_id 3 0 0 4 0"
definition ISS_ID_AA64PFR1_EL1 :: u32 where "ISS_ID_AA64PFR1_EL1 = iss_id 3 0 0 4 1"
definition ISS_ID_AA64DFR0_EL1 :: u32 where "ISS_ID_AA64DFR0_EL1 = iss_id 3 0 0 5 0"
definition ISS_ID_AA64DFR1_EL1 :: u32 where "ISS_ID_AA64DFR1_EL1 = iss_id 3 0 0 5 1"
definition ISS_ID_AA64AFR0_EL1 :: u32 where "ISS_ID_AA64AFR0_EL1 = iss_id 3 0 0 5 4"
definition ISS_ID_AA64AFR1_EL1 :: u32 where "ISS_ID_AA64AFR1_EL1 = iss_id 3 0 0 5 5"
definition ISS_ID_AA64ISAR0_EL1 :: u32 where "ISS_ID_AA64ISAR0_EL1 = iss_id 3 0 0 6 0"
definition ISS_ID_AA64ISAR1_EL1 :: u32 where "ISS_ID_AA64ISAR1_EL1 = iss_id 3 0 0 6 1"
definition ISS_ID_AA64MMFR0_EL1 :: u32 where "ISS_ID_AA64MMFR0_EL1 = iss_id 3 0 0 7 0"
definition ISS_ID_AA64MMFR1_EL1 :: u32 where "ISS_ID_AA64MMFR1_EL1 = iss_id 3 0 0 7 1"
definition ISS_ID_AA64MMFR2_EL1 :: u32 where "ISS_ID_AA64MMFR2_EL1 = iss_id 3 0 0 7 2"

definition check_sysreg_id_access :: "u64 \<Rightarrow> bool" where
  "check_sysreg_id_access esr \<longleftrightarrow>
    get_masked esr ISS_Op0 OR get_masked esr ISS_Op1 OR get_masked esr ISS_CRn = ISS_Op0"

definition id_fields :: "platform \<Rightarrow> string \<Rightarrow> string list \<Rightarrow> u64" where
  "id_fields p reg names = sum_list (map (\<lambda>n. field_mask (p_field p (reg @ n))) names)"

definition id_hidden :: "platform \<Rightarrow> u32 \<Rightarrow> u64" where
  "id_hidden p idreg =
    (if idreg = ISS_ID_AA64ISAR1_EL1 then id_fields p ''ID_AA64ISAR1_EL1.'' [''GPI'', ''GPA'', ''API'', ''APA'']
     else if idreg = ISS_ID_AA64PFR0_EL1 then id_fields p ''ID_AA64PFR0_EL1.'' [''AMU'', ''SVE'']
     else if idreg = ISS_ID_AA64PFR1_EL1 then id_fields p ''ID_AA64PFR1_EL1.'' [''MTE'']
     else if idreg = ISS_ID_AA64DFR0_EL1 then id_fields p ''ID_AA64DFR0_EL1.''
       [''BRBE'', ''MTPMU'', ''TraceBuffer'', ''TraceFilt'', ''PMSVer'', ''CTX_CMPs'', ''WRPs'', ''BRPs'',
        ''PMUVer'', ''TraceVer'', ''DebugVer'']
     else 0)"

definition id_value :: "platform \<Rightarrow> u32 \<Rightarrow> u64" where
  "id_value p idreg =
    (let mask = NOT (id_hidden p idreg);
         dfr0_set = ((0 AND push_bit (fld_shift (p_field p ''ID_AA64DFR0_EL1.DebugVer'')) 6)
           AND push_bit (fld_shift (p_field p ''ID_AA64DFR0_EL1.BRPs'')) 1)
           AND push_bit (fld_shift (p_field p ''ID_AA64DFR0_EL1.WRPs'')) 1
     in if idreg \<in> {ISS_ID_AA64PFR0_EL1, ISS_ID_AA64PFR1_EL1, ISS_ID_AA64DFR1_EL1, ISS_ID_AA64ISAR1_EL1}
        then p_id_reg p idreg AND mask
        else if idreg = ISS_ID_AA64DFR0_EL1 then (p_id_reg p idreg AND mask) OR dfr0_set
        else if idreg \<in> {ISS_ID_AA64AFR0_EL1, ISS_ID_AA64AFR1_EL1, ISS_ID_AA64ISAR0_EL1,
            ISS_ID_AA64MMFR0_EL1, ISS_ID_AA64MMFR1_EL1, ISS_ID_AA64MMFR2_EL1}
        then p_id_reg p idreg
        else 0)"

definition handle_sysreg_id :: "platform \<Rightarrow> usize \<Rightarrow> u64 \<Rightarrow> unit rmm_prog" where
  "handle_sysreg_id p rp esr =
    (let rt = unat (get_masked_value esr ISS_Rt); direction = get_masked_value esr ISS_Direction
     in if direction = 0 then return ()
        else if rt = 31 then return ()
        else (let idreg = get_masked esr ISS_Op0 OR get_masked esr ISS_Op1 OR get_masked esr ISS_CRn
                OR get_masked esr ISS_CRm OR get_masked esr ISS_Op2
              in upd_ctx rp (\<lambda>c. c\<lparr> gp_regs := (gp_regs c)[rt := id_value p (ucast idreg)] \<rparr>)))"

definition sys_reg_handle :: "platform \<Rightarrow> usize \<Rightarrow> u64 \<Rightarrow> unit rmm_prog" where
  "sys_reg_handle p rp esr =
    (if check_sysreg_id_access esr then handle_sysreg_id p rp esr else return ())"

section \<open>Exceptions of a realm\<close>

definition advance_pc :: "usize \<Rightarrow> unit rmm_prog" where
  "advance_pc rp = upd_ctx rp (\<lambda>c. c\<lparr> elr := elr c + 4 \<rparr>)"

text \<open>An undefined exception is injected into the realm at its exception vector.\<close>

definition inject_undefined :: "platform \<Rightarrow> usize \<Rightarrow> unit rmm_prog" where
  "inject_undefined p rp = bind (rec_at rp) (\<lambda>r. let c = rec_context r in
     seq (upd_cpu (\<lambda>h. h\<lparr> c_spsr_el1 := spsr c, c_elr_el1 := elr c,
            c_sys := (c_sys h)\<lparr> sr_esr_el1 := p_esr_el1_unknown p \<rparr> \<rparr>))
       (upd_ctx rp (\<lambda>c. c\<lparr> elr := sr_vbar (sys_regs c) + 0x200 \<rparr>)))"

text \<open>
  The handler returns whether the monitor is entered and the first four registers of
  the trap frame.
\<close>

definition handle_lower_exception ::
  "platform \<Rightarrow> usize \<Rightarrow> kind \<Rightarrow> u32 \<Rightarrow> u64 list \<Rightarrow> (bool \<times> u64 list) rmm_prog" where
  "handle_lower_exception p rp k esr tf =
    bind (gets (\<lambda>s. (sr_hpfar (c_sys (cpu s)), c_far_el2 (cpu s)))) (\<lambda>(hpfar, far).
    let undef = rec_exit_code (RX_Sync ES_Undefined); esr64 = ucast esr :: u64 in
    case k of
      Synchronous \<Rightarrow> (case syndrome_from p esr of
          HVC \<Rightarrow> seq (inject_undefined p rp) (return (False, [undef, esr64, 0, far]))
        | SMC \<Rightarrow> bind (rec_at rp) (\<lambda>r.
            seq (advance_pc rp)
              (return (True, [rec_exit_code (RX_Sync ES_RSI), gp_regs (rec_context r) ! 0, tf ! 2, tf ! 3])))
        | InstructionAbort _ \<Rightarrow> return (True, [rec_exit_code (RX_Sync ES_InstAbort), esr64, hpfar, far])
        | DataAbort _ \<Rightarrow> return (True, [rec_exit_code (RX_Sync ES_DataAbort), esr64, hpfar, far])
        | SysRegInst \<Rightarrow> seq (sys_reg_handle p rp esr64) (seq (advance_pc rp) (return (False, tf)))
        | WFX \<Rightarrow> seq (advance_pc rp) (return (True, [undef, esr64, hpfar, far]))
        | syn \<Rightarrow>
            if syn \<in> {FPU, SVE, SME} then
              bind (rec_at rp) (\<lambda>r. let d = simd (rec_context r) in
                if syn = SVE \<and> \<not> sve_en (simd_cfg d) \<or> syn = SME \<and> \<not> sme_en (simd_cfg d)
                then seq (inject_undefined p rp) (return (False, [undef, esr64, 0, far]))
                else seq (upd_cpu (\<lambda>c. c\<lparr> c_cptr_el2 := CPTR_TAM \<rparr>))
                  (seq (upd_simd rp (\<lambda>d. d\<lparr> simd_is_used := True \<rparr>))
                  (seq (only_if (simd_is_saved d)
                         (if syn = FPU then restore_fpu p (simd_fpu d) else panic))
                    (return (False, tf)))))
            else return (True, [undef, esr64, hpfar, far]))
    | Irq \<Rightarrow> return (True, [rec_exit_code RX_IRQ, 0, 0, 0])
    | _ \<Rightarrow> return (False, tf))"

section \<open>Entry and exit\<close>

record guest_step =
  g_kind :: kind
  g_gp :: "u64 list"
  g_elr :: u64
  g_spsr :: u64
  g_cpu :: "cpu \<Rightarrow> cpu"
  g_mem :: "(u64 \<Rightarrow> u64) \<Rightarrow> u64 \<Rightarrow> u64"

definition current :: "usize rmm_prog" where
  "current = gets (\<lambda>s. c_tpidr_el2 (cpu s))"

definition restore_all_from_rec :: "unit rmm_prog" where
  "restore_all_from_rec = bind current (\<lambda>rp. bind (rec_at rp) (\<lambda>r.
     upd_cpu (\<lambda>c. c\<lparr> c_sys := sys_regs (rec_context r) \<rparr>)))"

definition realm_executes :: "guest_step \<Rightarrow> unit rmm_prog" where
  "realm_executes g = modify (\<lambda>s. s\<lparr> cpu := g_cpu g (cpu s), mem := g_mem g (mem s) \<rparr>)"

definition save_volatile_to_rec :: "guest_step \<Rightarrow> unit rmm_prog" where
  "save_volatile_to_rec g = bind current (\<lambda>rp.
     upd_ctx rp (\<lambda>c. c\<lparr> gp_regs := g_gp g, elr := g_elr g, spsr := g_spsr g \<rparr>))"

text \<open>\<open>VMPIDR_EL2\<close> is skipped when the system registers are saved.\<close>

definition rmm_enter :: "unit rmm_prog" where
  "rmm_enter = bind current (\<lambda>rp. bind (gets (\<lambda>s. c_sys (cpu s))) (\<lambda>h.
     upd_ctx rp (\<lambda>c. c\<lparr> sys_regs := h\<lparr> sr_vmpidr := sr_vmpidr (sys_regs c) \<rparr> \<rparr>)))"

fun realm_loop :: "platform \<Rightarrow> guest_step list \<Rightarrow> u64 list \<Rightarrow> (u64 list \<times> guest_step list) rmm_prog" where
  "realm_loop p [] tf = hang"
| "realm_loop p (g # gs) tf =
    seq (realm_executes g) (seq (save_volatile_to_rec g) (bind current (\<lambda>rp.
      bind (gets (\<lambda>s. ucast (sr_esr_el2 (c_sys (cpu s))))) (\<lambda>esr.
      bind (handle_lower_exception p rp (g_kind g) esr tf) (\<lambda>(to_rmm, tf').
        if to_rmm then seq rmm_enter (return (tf', gs)) else realm_loop p gs tf')))))"

definition rec_run_enter :: "platform \<Rightarrow> guest_step list \<Rightarrow> (u64 list \<times> guest_step list) rmm_prog" where
  "rec_run_enter p gs = bind current (\<lambda>rp.
     if rp \<noteq> 0 then seq restore_all_from_rec (realm_loop p gs [0, 0, 0, 0])
     else return ([0, 0, 0, 0], gs))"

definition rec_run_exit :: "platform \<Rightarrow> unit rmm_prog" where
  "rec_run_exit p = bind current (\<lambda>rp. only_if (rp \<noteq> 0) (from_current p rp))"

definition rec_run :: "platform \<Rightarrow> guest_step list \<Rightarrow> (u64 list \<times> guest_step list) rmm_prog" where
  "rec_run p gs = bind (rec_run_enter p gs) (\<lambda>res. seq (rec_run_exit p) (return res))"

section \<open>Properties\<close>

lemma rec_exit_from_code: "rec_exit_from (rec_exit_code r) = r"
proof (cases r)
  case (RX_Sync t)
  then show ?thesis by (cases t) (simp_all add: rec_exit_from_def exit_sync_from_def push_bit_eq_mult drop_bit_eq_div)
qed (simp_all add: rec_exit_from_def)

lemma advance_pc_run [run]:
  "advance_pc rp s = (Ok (), s\<lparr> recs := (recs s)(rp := (recs s rp)\<lparr> rec_context :=
     (rec_context (recs s rp))\<lparr> elr := elr (rec_context (recs s rp)) + 4 \<rparr> \<rparr>) \<rparr>)"
  by (simp add: advance_pc_def upd_ctx_def upd_rec_def run)

lemma sys_reg_handle_Ok: "\<exists>t. sys_reg_handle p rp esr s = (Ok (), t)"
  by (simp add: sys_reg_handle_def handle_sysreg_id_def upd_ctx_def upd_rec_def run Let_def)

definition reason_of :: "kind \<Rightarrow> syndrome \<Rightarrow> rec_exit_reason" where
  "reason_of k syn = (case k of Irq \<Rightarrow> RX_IRQ
     | _ \<Rightarrow> RX_Sync (case syn of SMC \<Rightarrow> ES_RSI | DataAbort _ \<Rightarrow> ES_DataAbort
         | InstructionAbort _ \<Rightarrow> ES_InstAbort | _ \<Rightarrow> ES_Undefined))"

text \<open>
  C20. What the monitor is told about an exit is what happened.  Whenever the handler of a realm's
  exceptions enters the monitor, the word it leaves in the trap frame decodes to the reason
  that belongs to the kind of the exception and its syndrome: an interrupt, a call, a data or
  an instruction abort, and the undefined reason for everything else.
\<close>

theorem exit_reason_faithful:
  assumes "handle_lower_exception p rp k esr tf s = (Ok (True, tf'), t)"
  shows "rec_exit_from (tf' ! 0) = reason_of k (syndrome_from p esr)
    \<and> (k = Synchronous \<or> k = Irq) \<and> length tf' = 4"
  using assms sys_reg_handle_Ok[of p rp "ucast esr" s]
  by (cases k; cases "syndrome_from p esr")
    (auto simp: handle_lower_exception_def reason_of_def run inject_undefined_def
      upd_ctx_def upd_rec_def upd_cpu_def upd_simd_def rec_at_def rec_exit_from_code Let_def
      restore_fpu_def split: if_splits simp del: rec_exit_code.simps)

theorem exit_reason_faithful_witness:
  "rec_exit_from (rec_exit_code RX_IRQ) = reason_of Irq (syndrome_from platform0 0)"
proof -
  have "handle_lower_exception platform0 0 Irq 0 [] rmm0 = (Ok (True, [rec_exit_code RX_IRQ, 0, 0, 0]), rmm0)"
    by (simp add: handle_lower_exception_def run Let_def)
  from exit_reason_faithful[OF this] show ?thesis by simp
qed


definition sample_ids :: platform where
  "sample_ids = platform0\<lparr> p_esr_ec := \<lparr> fld_shift = 26, fld_mask = 0x3f \<rparr>, p_id_reg := (\<lambda>_. 0x1101000011111111),
     p_field := (\<lambda>n. if n = ''ID_AA64PFR0_EL1.SVE'' then \<lparr> fld_shift = 32, fld_mask = 15 \<rparr>
       else if n = ''ID_AA64PFR0_EL1.AMU'' then \<lparr> fld_shift = 44, fld_mask = 15 \<rparr> else no_field) \<rparr>"


section \<open>Runs of a realm\<close>

lemma realm_loop_consumes:
  "realm_loop p gs tf s = (Ok (res, gs'), t) \<Longrightarrow> length gs' < length gs"
proof (induction p gs tf arbitrary: s rule: realm_loop.induct)
  case (1 p tf)
  then show ?case by (simp add: run)
next
  case (2 p g gs tf)
  from "2.prems" obtain b tf' u rp esr v where "(if b then seq rmm_enter (return (tf', gs)) else realm_loop p gs tf') u = (Ok (res, gs'), t)"
      and "handle_lower_exception p rp (g_kind g) esr tf v = (Ok (b, tf'), u)"
    by (auto simp: run split: prod.splits outcome.splits)
  moreover have "gs' = gs" if "seq rmm_enter (return (tf', gs)) u = (Ok (res, gs'), t)"
    using that by (auto simp: run split: prod.splits outcome.splits)
  ultimately show ?case using "2.IH" by (cases b) (auto simp: less_Suc_eq)
qed

lemma rec_run_consumes:
  assumes "rec_run p gs s = (Ok (res, gs'), t)" and "c_tpidr_el2 (cpu s) \<noteq> 0"
  shows "length gs' < length gs"
proof -
  from assms have "\<exists>s' t'. realm_loop p gs [0, 0, 0, 0] s' = (Ok (res, gs'), t')"
    by (auto simp: rec_run_def rec_run_enter_def current_def run split: prod.splits outcome.splits)
  then show ?thesis using realm_loop_consumes by blast
qed

lemma handle_lower_irq: "handle_lower_exception p rp Irq esr tf s = (Ok (True, [rec_exit_code RX_IRQ, 0, 0, 0]), s)"
  by (simp add: handle_lower_exception_def run Let_def)

lemma ends_handle_lower: "fst (handle_lower_exception p rp k esr tf s) \<noteq> Hang"
  using sys_reg_handle_Ok[of p rp "ucast esr" s]
  by (cases k; cases "syndrome_from p esr")
    (auto simp: handle_lower_exception_def run inject_undefined_def
      upd_ctx_def upd_rec_def upd_cpu_def upd_simd_def rec_at_def Let_def restore_fpu_def)

text \<open>A realm that is interrupted at some point leaves its loop.\<close>

lemma realm_loop_ends:
  "\<exists>g \<in> set gs. g_kind g = Irq \<Longrightarrow> fst (realm_loop p gs tf s) \<noteq> Hang"
proof (induction p gs tf arbitrary: s rule: realm_loop.induct)
  case (2 p g gs tf)
  let ?s = "snd (seq (realm_executes g) (save_volatile_to_rec g) s)"
  let ?rp = "c_tpidr_el2 (cpu ?s)" and ?esr = "ucast (sr_esr_el2 (c_sys (cpu ?s))) :: u32"
  obtain r u where h: "handle_lower_exception p ?rp (g_kind g) ?esr tf ?s = (r, u)"
    by (cases "handle_lower_exception p ?rp (g_kind g) ?esr tf ?s")
  have r: "r \<noteq> Hang" using ends_handle_lower[of p ?rp "g_kind g" ?esr tf ?s] h by simp
  have eq: "realm_loop p (g # gs) tf s = (case r of
      Ok (to_rmm, tf') \<Rightarrow> (if to_rmm then seq rmm_enter (return (tf', gs)) else realm_loop p gs tf') u
    | Err e \<Rightarrow> (Err e, u) | Panic \<Rightarrow> (Panic, u) | Hang \<Rightarrow> (Hang, u))"
    using h by (simp add: run realm_executes_def save_volatile_to_rec_def current_def upd_ctx_def upd_rec_def
        split: outcome.split)
  show ?case
  proof (cases r)
    case (Ok x)
    obtain b tf' where x: "x = (b, tf')" by (cases x)
    show ?thesis
    proof (cases b)
      case True
      then show ?thesis using eq Ok x
        by (simp add: run rmm_enter_def current_def upd_ctx_def upd_rec_def)
    next
      case False
      then have "g_kind g \<noteq> Irq" using h Ok x handle_lower_irq by auto
      then show ?thesis using eq Ok x False "2.IH" "2.prems" by auto
    qed
  qed (use eq r in simp_all)
qed simp

end
