(* ===== verification/Realm_Exit.thy ===== *)
theory Realm_Exit
  imports Rsi Trap
begin

text \<open>
  What the monitor does when a realm exits: \<open>rmm/src/rmi/rec/exit.rs\<close>, with the dispatch of
  realm calls in \<open>rmm/src/event/mod.rs\<close> (\<open>do_rsi\<close>) and \<open>rmm/src/monitor.rs\<close> (\<open>handle_rsi\<close>).
  The return vector of a realm call is its own; the one of the enclosing command is
  put back when the call is done.
\<close>

definition do_rsi :: "unit rmm_prog \<Rightarrow> usize list \<Rightarrow> usize list rmm_prog" where
  "do_rsi handler ret0 = bind (gets ret) (\<lambda>outer.
     seq (modify (\<lambda>s. s\<lparr> ret := ret0 \<rparr>))
     (seq (set_ret 0 RSI_SUCCESS)
     (bind (attempt handler) (\<lambda>res.
       seq (case res of Inl code \<Rightarrow> set_ret 0 (error_code code) | Inr _ \<Rightarrow> return ())
       (bind (gets ret) (\<lambda>r. seq (modify (\<lambda>s. s\<lparr> ret := outer \<rparr>)) (return r)))))))"

definition handle_rsi :: "env \<Rightarrow> usize \<Rightarrow> usize \<Rightarrow> (bool \<times> usize list) rmm_prog" where
  "handle_rsi e cmd rp = (case rsi_on_event cmd of
     Some handler \<Rightarrow> bind (do_rsi (handler e rp) (rsi_validate cmd)) (\<lambda>r. return (True, r))
   | None \<Rightarrow> seq (attempt (set_reg rp 0 (NOT 0))) (return (False, [NOT 0])))"

definition is_non_emulatable_data_abort :: "rd \<Rightarrow> usize \<Rightarrow> u64 \<Rightarrow> bool rmm_prog" where
  "is_non_emulatable_data_abort rd fault_ipa esr =
    bind (get_s2tte rd fault_ipa RTT_PAGE_LEVEL (RmiErrorRtt 0)) (\<lambda>(x, _).
      return (if addr_in_par rd fault_ipa then is_unassigned x \<or> is_destroyed x
        else is_unassigned x \<and> esr AND EsrEl2_ISV = 0 \<or> is_assigned x))"

definition get_write_val :: "usize \<Rightarrow> u64 \<Rightarrow> u64 rmm_prog" where
  "get_write_val rp esr = (let rt = get_masked_value esr EsrEl2_SRT in
     if rt = 31 then return 0
     else bind (get_reg rp rt) (\<lambda>v. return (v AND get_access_size_mask esr)))"

definition NON_EMULATABLE_ABORT_MASK :: u64 where
  "NON_EMULATABLE_ABORT_MASK = EsrEl2_EC OR EsrEl2_SET OR EsrEl2_FNV OR EsrEl2_EA OR EsrEl2_DFSC"

definition EMULATABLE_ABORT_MASK :: u64 where
  "EMULATABLE_ABORT_MASK =
    NON_EMULATABLE_ABORT_MASK OR EsrEl2_ISV OR EsrEl2_SAS OR EsrEl2_SF OR EsrEl2_WNR"

definition fault_ipa_of :: "platform \<Rightarrow> u64 \<Rightarrow> usize" where
  "fault_ipa_of p hpfar = push_bit 8 (hpfar AND field_mask (p_hpfar_fipa p))"

definition handle_data_abort :: "env \<Rightarrow> usize list \<Rightarrow> usize \<Rightarrow> usize rmm_prog" where
  "handle_data_abort e res rp = with_owner rp (\<lambda>_ rd.
     let esr = res ! 1; hpfar = res ! 2; far = res ! 3 in
     seq (set_exit_reason EXIT_SYNC)
     (seq (set_hpfar hpfar)
     (bind (is_non_emulatable_data_abort rd (fault_ipa_of (e_plat e) hpfar) esr) (\<lambda>non_emulatable.
       bind (if non_emulatable
             then seq (upd_rec rp (\<lambda>r. r\<lparr> rec_emulatable_abort := NotEmulatableAbort \<rparr>))
               (return (esr AND NON_EMULATABLE_ABORT_MASK, 0))
             else seq (only_if (esr AND EsrEl2_WNR \<noteq> 0) (bind (get_write_val rp esr) (set_gpr 0)))
               (seq (upd_rec rp (\<lambda>r. r\<lparr> rec_emulatable_abort := EmulatableAbort \<rparr>))
                 (return (esr AND EMULATABLE_ABORT_MASK, far AND NOT GRANULE_MASK))))
         (\<lambda>(exit_esr, exit_far).
           seq (set_esr exit_esr) (seq (set_far exit_far) (return RMI_SUCCESS)))))))"

definition handle_realm_exit :: "env \<Rightarrow> usize list \<Rightarrow> usize \<Rightarrow> (bool \<times> usize) rmm_prog" where
  "handle_realm_exit e res rp = (case rec_exit_from (res ! 0) of
     RX_Sync ES_RSI \<Rightarrow> bind (handle_rsi e (res ! 1) rp) (\<lambda>(registered, r).
       if registered then bind (index_slice r 0) (\<lambda>r0. return (r0 \<noteq> SUCCESS_REC_ENTER, r0))
       else return (False, RMI_SUCCESS))
   | RX_Sync ES_DataAbort \<Rightarrow> bind (handle_data_abort e res rp) (\<lambda>v. return (True, v))
   | RX_IRQ \<Rightarrow> seq (set_exit_reason EXIT_IRQ) (seq (set_esr (res ! 1)) (seq (set_hpfar (res ! 2))
       (seq (set_far (res ! 3)) (return (True, RMI_SUCCESS)))))
   | RX_Sync ES_InstAbort \<Rightarrow> seq (set_exit_reason EXIT_SYNC) (seq (set_esr (res ! 1))
       (seq (set_hpfar (res ! 2)) (return (True, RMI_SUCCESS))))
   | RX_Sync ES_Undefined \<Rightarrow> seq (set_exit_reason EXIT_SYNC) (seq (set_esr (res ! 1))
       (seq (set_hpfar (res ! 2)) (return (True, RMI_SUCCESS))))
   | _ \<Rightarrow> return (True, RMI_SUCCESS))"

end
