(* ===== verification/Rmi_Rec.thy ===== *)
theory Rmi_Rec
  imports Realm_Exit
begin

text \<open>
  The commands on execution contexts, \<open>rmm/src/rmi/rec/handlers.rs\<close>, with their
  parameters of \<open>rmm/src/rmi/rec/params.rs\<close>.

  \<open>REC_ENTER\<close> takes what the realm does as a list of guest steps.  Every run of the realm
  takes at least one of them, so the loop around it ends after at most as many
  iterations as the list has elements, or the realm never exits and the command does
  not return.
\<close>

section \<open>Parameters\<close>

definition recp_flags :: "(nat \<Rightarrow> u64) \<Rightarrow> u64" where "recp_flags pg = pg 0"
definition recp_mpidr :: "(nat \<Rightarrow> u64) \<Rightarrow> u64" where "recp_mpidr pg = pg 32"
definition recp_pc :: "(nat \<Rightarrow> u64) \<Rightarrow> u64" where "recp_pc pg = pg 64"
definition recp_gprs :: "(nat \<Rightarrow> u64) \<Rightarrow> u64 list" where "recp_gprs pg = map (\<lambda>i. pg (96 + i)) [0..<8]"
definition recp_num_aux :: "(nat \<Rightarrow> u64) \<Rightarrow> u64" where "recp_num_aux pg = pg 256"
definition recp_aux :: "(nat \<Rightarrow> u64) \<Rightarrow> u64 list" where "recp_aux pg = map (\<lambda>i. pg (257 + i)) [0..<16]"

definition recp_verify_compliance :: "(nat \<Rightarrow> u64) \<Rightarrow> usize \<Rightarrow> usize \<Rightarrow> usize \<Rightarrow> unit rmm_prog" where
  "recp_verify_compliance pg rec rd params_ptr =
    (if \<not> mpidr_validate (recp_mpidr pg) \<or> recp_num_aux pg \<noteq> of_nat MAX_REC_AUX_GRANULES then throw RmiErrorInput
     else (let aux = sort (recp_aux pg) in
       for_each [0..<unat (recp_num_aux pg)] (\<lambda>idx. bind (index_slice aux idx) (\<lambda>addr.
         if addr = rec \<or> addr = rd \<or> addr = params_ptr then throw RmiErrorInput
         else if idx \<noteq> 0 \<and> aux ! (idx - 1) = aux ! idx then throw RmiErrorInput
         else get_granule_if addr Delegated (\<lambda>_. return ())))))"

definition prepare_args :: "platform \<Rightarrow> usize \<Rightarrow> u64 \<Rightarrow> (usize \<times> u64 \<times> u64) rmm_prog" where
  "prepare_args p rdp mpidr = bind (gets (\<lambda>s. rds s rdp)) (\<lambda>r. bind (s2_table r) (\<lambda>t.
     let vttbr = bits_in_reg (field_mask (p_vttbr_vmid p)) (rd_id r)
           OR bits_in_reg (field_mask (p_vttbr_baddr p)) (drop_bit 1 (s2_base t));
         vmpidr = mpidr OR field_mask (p_mpidr_res1 p)
     in seq (upd_rd rdp (\<lambda>r. r\<lparr> rd_vcpu_index := rd_vcpu_index r + 1 \<rparr>))
          (return (rd_vcpu_index r, vttbr, vmpidr))))"

section \<open>Creation and destruction\<close>

definition rec_init_at :: "platform \<Rightarrow> usize \<Rightarrow> usize \<Rightarrow> usize \<Rightarrow> u64 \<Rightarrow> u64 list \<Rightarrow> u64 \<Rightarrow> u64 \<Rightarrow> unit rmm_prog" where
  "rec_init_at p recp owner vcpuid flags aux vttbr vmpidr =
    bind (gets (\<lambda>s. rec_init p (rds s) (recs s recp) owner vcpuid flags aux vttbr vmpidr)) (\<lambda>x. case x of
      Inl err \<Rightarrow> throw err | Inr r \<Rightarrow> upd_rec recp (\<lambda>_. r))"

definition REC_CREATE :: "env \<Rightarrow> usize list \<Rightarrow> unit rmm_prog" where
  "REC_CREATE e arg =
    bind (index_slice arg 0) (\<lambda>rdp. bind (index_slice arg 1) (\<lambda>recp. bind (index_slice arg 2) (\<lambda>params_ptr.
      if recp = rdp then throw RmiErrorInput
      else seq (pt_map params_ptr False)
        (bind (bind (copy_from params_ptr) (ok_or RmiErrorInput)) (\<lambda>pg.
        seq (pt_unmap params_ptr)
        (seq (recp_verify_compliance pg recp rdp params_ptr)
        (get_granule_if rdp GS_RD (\<lambda>rd_granule. bind (gets (\<lambda>s. rds s rdp)) (\<lambda>rd.
          if \<not> at_state rd New then throw (RmiErrorRealm 0)
          else if mpidr_index (recp_mpidr pg) \<noteq> rd_rec_index rd then throw RmiErrorInput
          else get_granule_if recp Delegated (\<lambda>rec_granule.
            seq (pt_map recp True)
            (seq (upd_rec recp (\<lambda>_. rec_new (e_plat e)))
            (bind (attempt (prepare_args (e_plat e) rdp (recp_mpidr pg))) (\<lambda>x. case x of
                Inl _ \<Rightarrow> throw RmiErrorInput
              | Inr (vcpuid, vttbr, vmpidr) \<Rightarrow>
                seq (set_ret 1 vcpuid)
                (seq (rec_init_at (e_plat e) recp rdp vcpuid (recp_flags pg) (recp_aux pg) vttbr vmpidr)
                (seq (for_each [0..<8] (\<lambda>idx. map_err (\<lambda>_. RmiErrorInput)
                       (set_reg recp (of_nat idx) (recp_gprs pg ! idx))))
                (seq (map_err (\<lambda>_. RmiErrorInput) (set_reg recp 31 (recp_pc pg)))
                (seq (bind (bind (gets (\<lambda>s. rds s rdp)) (prepare_vtcr (e_plat e))) (\<lambda>v.
                       upd_rec recp (\<lambda>r. r\<lparr> rec_vtcr := v \<rparr>)))
                (seq (upd_rd rdp inc_rec_index)
                (seq (measure_into rdp (measure_rec_params e pg))
                (seq (for_each [0..<MAX_REC_AUX_GRANULES] (\<lambda>i. bind (rec_at recp) (\<lambda>r.
                       bind (index_slice (rec_aux r) i) (\<lambda>rec_aux.
                         seq (pt_map rec_aux True)
                           (get_granule_if rec_aux Delegated (\<lambda>g. set_granule g GS_RecAux))))))
                (seq (inc_count rd_granule)
                  (set_granule rec_granule GS_Rec))))))))))))))))))))))"

definition REC_DESTROY :: "env \<Rightarrow> usize list \<Rightarrow> unit rmm_prog" where
  "REC_DESTROY e arg =
    bind (index_slice arg 0) (\<lambda>recp. get_granule_if recp GS_Rec (\<lambda>rec_granule. bind (rec_at recp) (\<lambda>r.
      if rec_state r = Running then throw RmiErrorRec
      else seq (for_each [0..<MAX_REC_AUX_GRANULES] (\<lambda>i. bind (index_slice (rec_aux r) i) (\<lambda>rec_aux.
             seq (get_granule_if rec_aux GS_RecAux (\<lambda>g. set_granule g Delegated)) (pt_unmap rec_aux))))
        (bind (rec_get_owner r) (\<lambda>rdp.
          get_granule_if rdp GS_RD (\<lambda>rd_granule.
            seq (dec_count rd_granule)
            (seq (set_granule rec_granule Delegated) (pt_unmap recp))))))))"

section \<open>Entry\<close>

definition set_rec_state :: "usize \<Rightarrow> rec_state \<Rightarrow> unit rmm_prog" where
  "set_rec_state rp st = upd_rec rp (\<lambda>r. r\<lparr> rec_state := st \<rparr>)"

fun rec_enter_loop :: "nat \<Rightarrow> env \<Rightarrow> usize \<Rightarrow> guest_step list \<Rightarrow> unit rmm_prog" where
  "rec_enter_loop 0 e rp gs = hang"
| "rec_enter_loop (Suc n) e rp gs =
    seq (set_imm 0)
    (seq (set_rec_state rp Running)
    (seq (with_owner rp (\<lambda>_ rd.
           seq (upd_rec rp (\<lambda>r. r\<lparr> rec_emulatable_abort := NotEmulatableAbort \<rparr>))
             (run_prepare (e_plat e) rp 0)))
    (bind (rec_run (e_plat e) gs) (\<lambda>(res, gs').
     bind (handle_realm_exit e res rp) (\<lambda>(ret_ns, r0).
       seq (set_ret 0 r0)
       (seq (set_rec_state rp Ready)
         (if ret_ns then return () else rec_enter_loop n e rp gs')))))))"

definition REC_ENTER :: "env \<Rightarrow> guest_step list \<Rightarrow> usize list \<Rightarrow> unit rmm_prog" where
  "REC_ENTER e gs arg =
    bind (index_slice arg 1) (\<lambda>run_pa. bind (index_slice arg 0) (\<lambda>rp.
      get_granule_if rp GS_Rec (\<lambda>_.
        seq (pt_map run_pa False)
        (bind (bind (copy_from run_pa) (ok_or RmiErrorInput)) (\<lambda>pg.
        seq (modify (\<lambda>s. s\<lparr> run_page := pg \<rparr>))
        (seq (pt_unmap run_pa)
        (seq (run_verify_compliance pg)
        (seq (with_owner rp (\<lambda>_ rd. case rd_state rd of
                Active \<Rightarrow> return ()
              | New \<Rightarrow> throw (RmiErrorRealm 0)
              | SystemOff \<Rightarrow> throw (RmiErrorRealm 1)
              | Null \<Rightarrow> panic))
        (bind (rec_at rp) (\<lambda>r.
          if \<not> rec_runnable r then throw RmiErrorRec
          else if rec_state r = Running then throw RmiErrorRec
          else if rec_psci_pending r then throw RmiErrorRec
          else bind (unwrap (gic_validate_state (e_plat e) pg)) (\<lambda>valid.
            if \<not> valid then throw RmiErrorRec
            else seq (only_if (rec_host_call_pending r) (do_host_call e rp))
              (seq (gic_receive_state_from_host (e_plat e) rp)
              (seq (emulate_mmio rp)
              (seq (complete_ripas rp)
              (seq (activate_stage2_mmu rp)
              (seq (rec_enter_loop (Suc (length gs)) e rp gs)
              (seq (gic_send_state_to_host (e_plat e) rp)
              (seq (timer_send_state_to_host rp)
              (seq (pt_map run_pa False)
              (bind (bind (gets run_page) (\<lambda>out. copy_to_ptr out run_pa)) (\<lambda>x.
                seq (pt_unmap run_pa) (ok_or RmiErrorInput x))))))))))))))))))))))"

definition PSCI_COMPLETE :: "env \<Rightarrow> usize list \<Rightarrow> unit rmm_prog" where
  "PSCI_COMPLETE e arg =
    bind (index_slice arg 0) (\<lambda>caller_pa. bind (index_slice arg 1) (\<lambda>target_pa.
      if caller_pa = target_pa then throw RmiErrorInput
      else get_granule_if caller_pa GS_Rec (\<lambda>_. get_granule_if target_pa GS_Rec (\<lambda>_.
        bind (index_slice arg 2) (\<lambda>status.
        bind (rec_at caller_pa) (\<lambda>caller. bind (rec_at target_pa) (\<lambda>target.
          if \<not> rec_psci_pending caller then throw RmiErrorInput
          else bind (rec_realmid caller) (\<lambda>a. bind (rec_realmid target) (\<lambda>b.
            if a \<noteq> b then throw RmiErrorInput
            else complete_psci (e_plat e) caller_pa target_pa status)))))))))"

section \<open>Properties\<close>

definition entry_refusal :: "platform \<Rightarrow> rd \<Rightarrow> rec \<Rightarrow> (nat \<Rightarrow> u64) \<Rightarrow> error option" where
  "entry_refusal p rd r pg =
    (if rd_state rd = New then Some (RmiErrorRealm 0)
     else if rd_state rd = SystemOff then Some (RmiErrorRealm 1)
     else if \<not> rec_runnable r \<or> rec_state r = Running \<or> rec_psci_pending r \<or> gic_validate_state p pg = Some False
     then Some RmiErrorRec else None)"

lemma rec_enter_refused:
  assumes "held s = []" and "validate_addr rp" and "g_state (gst s (gidx rp)) = GS_Rec"
    and "rec_owner (recs s rp) = Some ow" and "validate_addr ow" and "ow \<noteq> rp" and "g_state (gst s (gidx ow)) = GS_RD"
    and "validate_addr run_pa" and "s1_mappable run_pa" and "g_state (gst s (gidx run_pa)) = Undelegated"
    and "run_pa \<noteq> rp" and pg: "read_page s run_pa = pg" and "run_verify_compliance pg = return ()"
    and "rd_state (rds s ow) \<noteq> Null" and "entry_refusal (e_plat e) (rds s ow) (recs s rp) pg = Some err"
  shows "REC_ENTER e gs [rp, run_pa] s = (Err err, s\<lparr> run_page := pg,
    s1_pt := unset_pages_for_rmi run_pa (s1_set_page 2 (s1_pt s) run_pa run_pa (s1_rmi_flags False)) \<rparr>)"
proof -
  have idx: "gidx run_pa \<noteq> gidx rp" "gidx ow \<noteq> gidx rp" using assms gidx_eq_iff by blast+
  have pg': "read_page (u\<lparr> held := h \<rparr>) a = read_page u a" "read_page (u\<lparr> s1_pt := q \<rparr>) a = read_page u a" for u h q a
    by (simp_all add: read_page_def)
  have owner: "with_owner rp f u = release (gidx ow) (f ow (rds u ow) (u\<lparr> held := gidx ow # held u \<rparr>))"
    if "recs u = recs s" "gst u = gst s" "held u = [gidx rp]" for u and f :: "usize \<Rightarrow> rd \<Rightarrow> unit rmm_prog"
    using that assms(4,5,7) idx
    by (simp add: with_owner_def rec_owner_of_def rec_at_def rec_get_owner_def with_rd_def get_granule_if_run run)
  have same: "u\<lparr> held := [] \<rparr> = u" if "held u = []" for u :: rmm
    using that[symmetric] by simp
  note prefix = same get_granule_if_run pt_map_def set_pages_mappable copy_from_def pg' pt_unmap_def owner
  consider "rd_state (rds s ow) = New" | "rd_state (rds s ow) = SystemOff" | "rd_state (rds s ow) = Active"
    using assms(14) by (cases "rd_state (rds s ow)") simp_all
  then show ?thesis
  proof cases
    case 1
    then show ?thesis using assms idx unfolding REC_ENTER_def entry_refusal_def by (simp add: run prefix)
  next
    case 2
    then show ?thesis using assms idx unfolding REC_ENTER_def entry_refusal_def by (simp add: run prefix)
  next
    case 3
    then show ?thesis using assms idx unfolding REC_ENTER_def entry_refusal_def
      by (auto simp: run prefix rec_at_def split: if_splits)
  qed
qed

text \<open>
  C22. REC_ENTER refuses a context that may not run.  If the realm is New or off, or the context is not
  runnable, is already running, waits for the completion of a PSCI call, or the host's interrupt
  state is invalid, the command returns the error of the specification, and contexts,
  descriptors, memory, granules and the core are as before.
\<close>

theorem rec_enter_refuses:
  assumes "held s = []" and "validate_addr rp" and "g_state (gst s (gidx rp)) = GS_Rec"
    and "rec_owner (recs s rp) = Some ow" and "validate_addr ow" and "ow \<noteq> rp" and "g_state (gst s (gidx ow)) = GS_RD"
    and "validate_addr run_pa" and "s1_mappable run_pa" and "g_state (gst s (gidx run_pa)) = Undelegated"
    and "run_pa \<noteq> rp" and "run_verify_compliance (read_page s run_pa) = return ()" and "rd_state (rds s ow) \<noteq> Null"
    and "entry_refusal (e_plat e) (rds s ow) (recs s rp) (read_page s run_pa) = Some err"
  shows "\<exists>t. REC_ENTER e gs [rp, run_pa] s = (Err err, t) \<and> held t = [] \<and> gst t = gst s \<and> recs t = recs s
    \<and> rds t = rds s \<and> mem t = mem s \<and> cpu t = cpu s \<and> gpt t = gpt s"
  using rec_enter_refused[OF assms(1-11) refl assms(12-14)] assms(1) by simp

definition sample_run :: rmm where
  "sample_run = rmm0\<lparr>
     gst := (\<lambda>i. if i = gidx 0x88000000 then granule_new\<lparr> g_state := GS_Rec \<rparr>
       else if i = gidx 0x88001000 then granule_new\<lparr> g_state := GS_RD \<rparr> else granule_new),
     rds := (\<lambda>_. rd_zero\<lparr> rd_vmid := 1, rd_state := New \<rparr>),
     recs := (\<lambda>_. rec_wiped\<lparr> rec_owner := Some 0x88001000, rec_runnable := True \<rparr>) \<rparr>"

definition irq_step :: guest_step where
  "irq_step = \<lparr> g_kind = Irq, g_gp = replicate 31 7, g_elr = 0, g_spsr = 0, g_cpu = (\<lambda>c. c), g_mem = (\<lambda>m. m) \<rparr>"

lemma sample_addrs: "validate_addr 0x88000000" "validate_addr 0x88001000" "validate_addr 0x80001000"
  by code_simp+

lemma sample_idx: "gidx 0x88000000 = 32768" "gidx 0x88001000 = 32769" "gidx 0x80001000 = 1"
  by (simp_all add: granule_index_dram0 in_dram0_def)

lemma sample_mappable: "s1_mappable 0x80001000" "s1_mappable 0x88000000"
  by (simp_all add: s1_mappable_def)

lemma sample_run_fields:
  "held sample_run = []" "g_state (gst sample_run (gidx 0x88000000)) = GS_Rec"
  "rec_owner (recs sample_run 0x88000000) = Some 0x88001000" "g_state (gst sample_run (gidx 0x88001000)) = GS_RD"
  "g_state (gst sample_run (gidx 0x80001000)) = Undelegated" "rd_state (rds sample_run 0x88001000) = New"
  "run_verify_compliance (read_page sample_run 0x80001000) = return ()" "rd_metadata (rds sample_run a) = None"
  by (simp_all add: sample_run_def rmm0_def sample_idx granule_new_def run_verify_compliance_def
      entry_gic_lrs_def read_page_def rd_zero_def)

theorem rec_enter_refuses_witness:
  "\<exists>t. REC_ENTER env0 [irq_step] [0x88000000, 0x80001000] sample_run = (Err (RmiErrorRealm 0), t)
     \<and> recs t = recs sample_run"
  using rec_enter_refuses[OF sample_run_fields(1) sample_addrs(1) sample_run_fields(2,3) sample_addrs(2) _
      sample_run_fields(4) sample_addrs(3) sample_mappable(1) sample_run_fields(5) _ sample_run_fields(7),
      where e = env0 and err = "RmiErrorRealm 0" and gs = "[irq_step]"]
  by (auto simp: entry_refusal_def sample_run_fields(6))

text \<open>
  REC_ENTER takes the lock of the context before it reads the host's page, and the read
  takes the lock of the page: a host that passes the context itself as the page stops the
  core for good.
\<close>

theorem rec_enter_own_page_hangs:
  assumes "validate_addr rp" and "gidx rp \<notin> set (held s)" and "g_state (gst s (gidx rp)) = GS_Rec"
    and "s1_mappable rp"
  shows "fst (REC_ENTER e gs [rp, rp] s) = Hang"
  using assms
  by (simp add: REC_ENTER_def run get_granule_if_run pt_map_def set_pages_mappable copy_from_def)

theorem rec_enter_own_page_hangs_witness:
  "fst (REC_ENTER env0 [irq_step] [0x88000000, 0x88000000] sample_run) = Hang"
  using rec_enter_own_page_hangs[OF sample_addrs(1) _ sample_run_fields(2) sample_mappable(2)]
  by (simp add: sample_run_fields(1))

definition psci_answer :: "usize \<Rightarrow> rec \<Rightarrow> rec" where
  "psci_answer v r = r\<lparr> rec_context := (rec_context r)\<lparr> gp_regs := (gp_regs (rec_context r))[0 := v, 1 := 0, 2 := 0, 3 := 0] \<rparr>,
     rec_psci_pending := False \<rparr>"

text \<open>The context that CPU_ON starts: at the entry point, with the context identifier in the first register.\<close>

definition powered_on :: "platform \<Rightarrow> usize \<Rightarrow> usize \<Rightarrow> rec \<Rightarrow> rec" where
  "powered_on p pc ident r = (reset_ctx p r)\<lparr> rec_context := (rec_context (reset_ctx p r))\<lparr>
     gp_regs := (gp_regs (rec_context r))[0 := ident], elr := pc \<rparr>, rec_runnable := True \<rparr>"

text \<open>
  C31. A virtual CPU is started only with the consent of both sides.  When the host completes a pending CPU_ON: a
  status other than success or denial is refused, and so is a denial for a CPU that already runs; a
  denial starts nothing and the caller is told; for a CPU that runs the caller is told that it does, and
  the target stays as it is; otherwise the target becomes runnable at the entry point and with the
  context identifier that the caller gave, and the caller's call is complete.
\<close>

theorem psci_cpu_on_completes:
  assumes "validate_addr c" and "validate_addr t" and "c \<noteq> t" and "held s = []"
    and "g_state (gst s (gidx c)) = GS_Rec" and "g_state (gst s (gidx t)) = GS_Rec"
    and "rec_psci_pending (recs s c)" and "rec_owner (recs s c) = Some oc" and "rec_owner (recs s t) = Some ot"
    and "rd_id (rds s oc) = rd_id (rds s ot)" and "gp s c ! 0 = PSCI_CPU_ON"
    and "mpidr_index (gp s c ! 1) = rec_vcpuid (recs s t)"
  shows "PSCI_COMPLETE e [c, t, status] s =
    (if status \<noteq> PSCI_SUCCESS \<and> status \<noteq> PSCI_DENIED \<or> rec_runnable (recs s t) \<and> status = PSCI_DENIED
     then (Err RmiErrorInput, s)
     else (Ok (), s\<lparr> recs := (recs s)(
         t := (if rec_runnable (recs s t) \<or> status = PSCI_DENIED then recs s t
               else powered_on (e_plat e) (gp s c ! 2) (gp s c ! 3) (recs s t)),
         c := psci_answer (if rec_runnable (recs s t) then PSCI_ALREADY_ON else status) (recs s c)) \<rparr>))"
proof -
  have idx: "gidx c \<noteq> gidx t" using gidx_eq_iff assms(1-3) by blast
  have same: "u\<lparr> held := [] \<rparr> = u" if "held u = []" for u :: rmm
    using that[symmetric] by simp
  note eval = PSCI_COMPLETE_def get_granule_if_run run rec_at_def rec_realmid_def rec_get_owner_def complete_psci_def upd_rec_def
    set_reg_def set_reg_rec_def set_runnable_def with_gp_def
  show ?thesis
    using assms idx by (simp add: eval same psci_answer_def powered_on_def reset_ctx_def)
qed

definition sample_psci :: rmm where
  "sample_psci = sample_run\<lparr> gst := (\<lambda>_. granule_new\<lparr> g_state := GS_Rec \<rparr>),
     recs := (\<lambda>a. rec_wiped\<lparr> rec_owner := Some 0x80001000, rec_psci_pending := True,
       rec_vcpuid := (if a = 0x88001000 then 1 else 0),
       rec_context := (rec_context rec_wiped)\<lparr> gp_regs := [PSCI_CPU_ON, 1, 0x1000, 7] @ replicate 27 0 \<rparr> \<rparr>) \<rparr>"

theorem psci_cpu_on_completes_witness:
  "\<exists>s'. PSCI_COMPLETE env0 [0x88000000, 0x88001000, PSCI_SUCCESS] sample_psci = (Ok (), s')
     \<and> rec_runnable (recs s' 0x88001000) \<and> elr (rec_context (recs s' 0x88001000)) = 0x1000
     \<and> \<not> rec_psci_pending (recs s' 0x88000000)"
proof -
  have idx: "mpidr_index 1 = 1" by code_simp
  have f: "held sample_psci = []" "g_state (gst sample_psci i) = GS_Rec" "rec_psci_pending (recs sample_psci a)"
    "rec_owner (recs sample_psci a) = Some 0x80001000" "gp sample_psci a ! 0 = PSCI_CPU_ON" "gp sample_psci a ! 1 = 1"
    "gp sample_psci a ! 2 = 0x1000" "\<not> rec_runnable (recs sample_psci a)" "rec_vcpuid (recs sample_psci 0x88001000) = 1" for i a
    by (simp_all add: sample_psci_def sample_run_def rmm0_def granule_new_def rec_wiped_def rec_new_def)
  have "mpidr_index (gp sample_psci 0x88000000 ! 1) = rec_vcpuid (recs sample_psci 0x88001000)" by (simp only: f idx)
  from psci_cpu_on_completes[OF sample_addrs(1,2) _ f(1) f(2) f(2) f(3) f(4) f(4) refl f(5) this, of env0 PSCI_SUCCESS]
  show ?thesis by (simp add: f powered_on_def psci_answer_def)
qed

end
