(* ===== verification/Realm_Frame.thy ===== *)
theory Realm_Frame
  imports Rmi_Rec
begin

text \<open>
  What running a realm leaves alone.  Frame conditions of the operations of \<open>Rec_Run\<close>,
  \<open>Trap\<close>, \<open>Rsi\<close>, \<open>Realm_Exit\<close> and \<open>Rmi_Rec\<close>: they change execution contexts, memory, the
  registers of the core and the structures shared with the host, and of a realm's
  descriptor only its state, when the realm turns itself off, and its extensible
  measurements.
\<close>

section \<open>Registers, the run structure and the core\<close>

context context_frame
begin

lemma steps_set_run: "steps (balanced Q) (modify (\<lambda>s. s\<lparr> run_page := f s \<rparr>))"
  by (intro steps_modify Q_step Q_run) simp

lemma steps_set_ret_vector: "steps (balanced Q) (modify (\<lambda>s. s\<lparr> ret := f s \<rparr>))"
  by (intro steps_modify Q_step Q_ret) simp

lemma steps_upd_cpu: "steps (balanced Q) (upd_cpu f)"
  unfolding upd_cpu_def by (intro steps_modify Q_step Q_cpu) simp

lemma steps_upd_rec:
  "steps (balanced Q) (upd_rec rp f)" "steps (balanced Q) (upd_ctx rp g)" "steps (balanced Q) (upd_gic rp h)"
  "steps (balanced Q) (upd_simd rp d)" "steps (balanced Q) (rec_at rp)"
  unfolding upd_simd_def upd_gic_def upd_ctx_def upd_rec_def rec_at_def by (intro context_rules)+

lemma steps_regs: "steps (balanced Q) (set_reg rp i v)" "steps (balanced Q) (get_reg rp i)"
  unfolding set_reg_def get_reg_def by (intro context_rules steps_upd_rec)+

lemma steps_run_put: "steps (balanced Q) (run_put k v)"
  unfolding run_put_def by (rule steps_set_run)

lemma steps_run_fields:
  "steps (balanced Q) (set_exit_reason a)" "steps (balanced Q) (set_imm b)" "steps (balanced Q) (set_esr v)"
  "steps (balanced Q) (set_far v)" "steps (balanced Q) (set_hpfar v)" "steps (balanced Q) (set_gpr i v)"
  "steps (balanced Q) (run_set_ripas v w a)" "steps (balanced Q) (entry_gpr i)"
  "steps (balanced Q) (run_verify_compliance pg)"
  unfolding set_exit_reason_def set_imm_def set_esr_def set_far_def set_hpfar_def set_gpr_def run_set_ripas_def
    entry_gpr_def run_verify_compliance_def
  by (intro context_rules steps_run_put steps_set_run)+

lemma steps_lrs:
  "steps (balanced Q) (set_lr i v)" "steps (balanced Q) (set_ap0r i v)" "steps (balanced Q) (set_ap1r i v)"
  "steps (balanced Q) (get_lr i)" "steps (balanced Q) (get_ap0r i)" "steps (balanced Q) (get_ap1r i)"
  unfolding set_lr_def set_ap0r_def set_ap1r_def get_lr_def get_ap0r_def get_ap1r_def
  by (intro context_rules steps_upd_cpu)+

lemmas run_rules = context_rules steps_set_run steps_set_ret_vector steps_upd_cpu steps_upd_rec steps_regs
  steps_run_put steps_run_fields steps_lrs

lemma steps_gic:
  "steps (balanced Q) (gic_restore_state p rp)" "steps (balanced Q) (gic_save_state p rp)"
  "steps (balanced Q) (gic_receive_state_from_host p rp)" "steps (balanced Q) (gic_send_state_to_host p rp)"
  unfolding gic_restore_state_def gic_save_state_def gic_receive_state_from_host_def gic_send_state_to_host_def Let_def
  by (intro run_rules)+

lemma steps_timer:
  "steps (balanced Q) (timer_restore_state rp)" "steps (balanced Q) (timer_save_state rp)"
  "steps (balanced Q) (timer_send_state_to_host rp)"
  unfolding timer_restore_state_def timer_save_state_def timer_send_state_to_host_def Let_def
  by (intro run_rules)+

lemma steps_simd:
  "steps (balanced Q) (simd_restore_state rp)" "steps (balanced Q) (simd_save_state p rp)"
  "steps (balanced Q) (restore_fpu p fpu)"
  unfolding simd_restore_state_def simd_save_state_def restore_fpu_def Let_def
  by (intro run_rules)+

lemma steps_switch:
  "steps (balanced Q) (into_current p rp)" "steps (balanced Q) (from_current p rp)"
  "steps (balanced Q) (run_prepare p rp v)" "steps (balanced Q) (activate_stage2_mmu rp)"
  "steps (balanced Q) (prepare_vtcr p rd)"
  unfolding into_current_def from_current_def run_prepare_def activate_stage2_mmu_def prepare_vtcr_def Let_def
  by (intro run_rules steps_gic steps_timer steps_simd)+

lemma steps_emulate_mmio: "steps (balanced Q) (emulate_mmio rp)"
  unfolding emulate_mmio_def Let_def by (intro run_rules)

end

section \<open>Exceptions\<close>

context context_frame
begin

lemma steps_inject:
  "steps (balanced Q) (advance_pc rp)" "steps (balanced Q) (inject_undefined p rp)"
  "steps (balanced Q) (sys_reg_handle p rp esr)"
  unfolding advance_pc_def inject_undefined_def sys_reg_handle_def handle_sysreg_id_def Let_def
  by (intro run_rules)+

lemma steps_handle_lower: "steps (balanced Q) (handle_lower_exception p rp k esr tf)"
  unfolding handle_lower_exception_def Let_def
  by (cases k; cases "syndrome_from p esr")
    (simp_all split del: if_split, (intro run_rules steps_inject steps_simd | simp split del: if_split)+)

lemma steps_save_restore:
  "steps (balanced Q) current" "steps (balanced Q) restore_all_from_rec"
  "steps (balanced Q) (save_volatile_to_rec g)" "steps (balanced Q) rmm_enter"
  unfolding current_def restore_all_from_rec_def save_volatile_to_rec_def rmm_enter_def
  by (intro run_rules)+

lemma steps_realm_executes: "steps (balanced Q) (realm_executes g)"
  unfolding realm_executes_def
  by (rule steps_modify) (auto simp: balanced_def intro: Q_trans[OF Q_cpu Q_mem[of "s\<lparr> cpu := c \<rparr>" for s c], simplified])

lemma steps_realm_loop: "steps (balanced Q) (realm_loop p gs tf)"
proof (induction p gs tf rule: realm_loop.induct)
  case (1 p tf)
  then show ?case by (simp add: steps_hang)
next
  case (2 p g gs tf)
  then show ?case unfolding realm_loop.simps
    by (intro run_rules steps_realm_executes steps_save_restore steps_handle_lower) auto
qed

lemma steps_rec_run: "steps (balanced Q) (rec_run p gs)"
  unfolding rec_run_def rec_run_enter_def rec_run_exit_def
  by (intro run_rules steps_save_restore steps_realm_loop steps_switch)

end

section \<open>Calls of a realm\<close>

text \<open>
  A realm may turn itself off and extend the measurements behind the initial one.
\<close>

locale realm_frame = context_frame +
  assumes Q_off: "Q s (s\<lparr> rds := (rds s)(a := (rds s a)\<lparr> rd_state := SystemOff \<rparr>) \<rparr>)"
    and Q_extend: "0 < i \<Longrightarrow>
      Q s (s\<lparr> rds := (rds s)(a := (rds s a)\<lparr> rd_measurements := (rd_measurements (rds s a))[i := m] \<rparr>) \<rparr>)"
begin

lemma steps_turn_off: "steps (balanced Q) (upd_rd a (\<lambda>r. r\<lparr> rd_state := SystemOff \<rparr>))"
  unfolding upd_rd_def by (intro steps_modify Q_step Q_off) simp

lemma steps_extend:
  assumes "0 < i"
  shows "steps (balanced Q) (measure_into a (extend_measurement e b i))"
proof (rule stepsI)
  fix s x t assume "measure_into a (extend_measurement e b i) s = (Ok x, t)"
  then show "balanced Q s t"
    by (auto simp: measure_into_def upd_rd_def extend_measurement_def hash_context_def measurement_extend_def run
        split: sum.splits prod.splits if_splits intro!: Q_step Q_extend[OF assms])
next
  fix s x t assume "measure_into a (extend_measurement e b i) s = (Err x, t)"
  then show "balanced Q s t"
    by (auto simp: measure_into_def upd_rd_def run balanced_def Q_refl split: sum.splits)
qed

lemma steps_rsi_helpers:
  "(\<And>o' rd. steps (balanced Q) (f o' rd)) \<Longrightarrow> steps (balanced Q) (with_owner rp f)"
  "steps (balanced Q) (resume rp v)" "steps (balanced Q) (assume_safe a)"
  "steps (balanced Q) (set_reg_chunks rp bs)"
  unfolding with_owner_def rec_owner_of_def resume_def assume_safe_def set_reg_chunks_def
  by (intro run_rules; assumption?)+

lemma steps_get_reg_bytes: "steps (balanced Q) (get_reg_bytes rp k)"
proof -
  have "steps (balanced Q) (foldr (\<lambda>i rest. bind (get_reg rp (of_nat (i + k))) (\<lambda>v.
     bind rest (\<lambda>bs. return (le_bytes 8 v @ bs)))) is (return []))" for "is"
    by (induction "is") (auto intro!: steps_bind steps_regs steps_return)
  then show ?thesis unfolding get_reg_bytes_def .
qed

lemmas rsi_rules = run_rules steps_rsi_helpers steps_get_reg_bytes

lemma steps_do_host_call: "steps (balanced Q) (do_host_call e rp)"
  unfolding do_host_call_def host_call_gpr_def host_call_set_gpr_def Let_def by (intro rsi_rules)

lemma steps_get_token: "steps (balanced Q) (get_token e c ms rpv h)"
  unfolding get_token_def create_attestation_token_def create_realm_token_def realm_claims_def array_vec_def
  by (intro rsi_rules)

lemma steps_attest:
  "steps (balanced Q) (rsi_ATTEST_TOKEN_INIT e rp)" "steps (balanced Q) (rsi_ATTEST_TOKEN_CONTINUE e rp)"
  unfolding rsi_ATTEST_TOKEN_INIT_def rsi_ATTEST_TOKEN_CONTINUE_def get_token_part_def Let_def
  by (intro rsi_rules steps_get_token)+

lemma steps_sealing: "steps (balanced Q) (rsi_ISLET_REALM_SEALING_KEY e rp)"
  unfolding rsi_ISLET_REALM_SEALING_KEY_def realm_sealing_key_def sealing_info_def derive_sealing_key_def Let_def
  by (intro rsi_rules)

lemma steps_info:
  "steps (balanced Q) (rsi_FEATURES e rp)" "steps (balanced Q) (rsi_ABI_VERSION e rp)"
  "steps (balanced Q) (rsi_MEASUREMENT_READ e rp)" "steps (balanced Q) (rsi_REALM_CONFIG e rp)"
  unfolding rsi_FEATURES_def rsi_ABI_VERSION_def rsi_MEASUREMENT_READ_def rsi_REALM_CONFIG_def realm_config_def Let_def
  by (intro rsi_rules)+

lemma steps_MEASUREMENT_EXTEND: "steps (balanced Q) (rsi_MEASUREMENT_EXTEND e rp)"
  unfolding rsi_MEASUREMENT_EXTEND_def
  by (intro rsi_rules steps_extend) (auto simp: word_less_nat_alt unat_gt_0)

lemma steps_ripas_calls:
  "steps (balanced Q) (get_ripas_state e rp)" "steps (balanced Q) (set_ripas_state e rp)"
  "steps (balanced Q) (complete_ripas rp)"
  unfolding get_ripas_state_def set_ripas_state_def complete_ripas_def Let_def
  by (intro rsi_rules steps_rtt_get_ripas)+

lemma steps_psci_queries:
  "steps (balanced Q) (psci_VERSION e rp)" "steps (balanced Q) (psci_SMCCC_VERSION e rp)"
  "steps (balanced Q) (psci_FEATURES e rp)" "steps (balanced Q) (psci_AFFINITY_INFO e rp)"
  unfolding psci_VERSION_def psci_SMCCC_VERSION_def psci_FEATURES_def psci_AFFINITY_INFO_def Let_def
  by (intro rsi_rules)+

lemma steps_psci_power:
  "steps (balanced Q) (psci_CPU_ON e rp)" "steps (balanced Q) (psci_CPU_OFF e rp)"
  "steps (balanced Q) (psci_SYSTEM_OFF e rp)" "steps (balanced Q) (psci_SYSTEM_RESET e rp)"
  "steps (balanced Q) (psci_CPU_SUSPEND e rp)" "steps (balanced Q) (complete_psci p c t st)"
  unfolding psci_CPU_ON_def psci_CPU_OFF_def psci_SYSTEM_OFF_def psci_SYSTEM_RESET_def psci_CPU_SUSPEND_def
    complete_psci_def Let_def
  by (intro rsi_rules steps_turn_off)+

lemma steps_rsi: "rsi_on_event cmd = Some h \<Longrightarrow> steps (balanced Q) (h e rp)"
  by (auto simp: rsi_on_event_def split: if_splits
      intro: steps_attest steps_sealing steps_info steps_MEASUREMENT_EXTEND steps_ripas_calls
        steps_psci_queries steps_psci_power steps_do_host_call)

end

section \<open>Exits and entries\<close>

context realm_frame
begin

lemma steps_handle_rsi: "steps (balanced Q) (handle_rsi e cmd rp)"
proof (cases "rsi_on_event cmd")
  case None
  then show ?thesis unfolding handle_rsi_def by simp (intro rsi_rules)
next
  case (Some h)
  from steps_rsi[OF this] Some show ?thesis
    unfolding handle_rsi_def do_rsi_def by simp (intro rsi_rules; assumption?)
qed

lemma steps_data_abort: "steps (balanced Q) (handle_data_abort e res rp)"
  unfolding handle_data_abort_def is_non_emulatable_data_abort_def get_write_val_def Let_def
  by (intro rsi_rules)

lemma steps_realm_exit: "steps (balanced Q) (handle_realm_exit e res rp)"
proof -
  obtain x where x: "rec_exit_from (res ! 0) = x" by blast
  show ?thesis
  proof (cases x)
    case (RX_Sync t)
    then show ?thesis unfolding handle_realm_exit_def using x
      by (cases t; simp split del: if_split) (intro rsi_rules steps_handle_rsi steps_data_abort)+
  qed (simp_all add: handle_realm_exit_def x, (intro rsi_rules)+)
qed

lemma steps_rec_enter_loop: "steps (balanced Q) (rec_enter_loop n e rp gs)"
proof (induction n arbitrary: gs)
  case 0
  then show ?case by (simp add: steps_hang)
next
  case (Suc n)
  then show ?case unfolding rec_enter_loop.simps set_rec_state_def
    by (intro rsi_rules steps_rec_run steps_realm_exit steps_switch)
qed

lemma steps_realm_state:
  "steps R a \<Longrightarrow> steps R b \<Longrightarrow> steps R c \<Longrightarrow> steps R d \<Longrightarrow>
   steps R (case st of Active \<Rightarrow> a | New \<Rightarrow> b | SystemOff \<Rightarrow> c | Null \<Rightarrow> d)"
  by (cases st) simp_all

lemma steps_copy_to_ptr: "steps (balanced Q) (copy_to_ptr pg a)"
  unfolding copy_to_ptr_def by (intro rsi_rules)

lemma steps_REC_ENTER: "steps (balanced Q) (REC_ENTER e gs arg)"
  unfolding REC_ENTER_def
  by (intro rsi_rules steps_realm_state steps_do_host_call steps_gic steps_timer steps_emulate_mmio
      steps_ripas_calls steps_switch steps_rec_enter_loop steps_copy_to_ptr)

lemma steps_PSCI_COMPLETE: "steps (balanced Q) (PSCI_COMPLETE e arg)"
  unfolding PSCI_COMPLETE_def by (intro rsi_rules steps_psci_power)

end

text \<open>The monitor keeps what identifies a realm while the realm runs.\<close>

definition rd_core :: "rd \<Rightarrow> rd" where
  "rd_core r = r\<lparr> rd_state := Null, rd_measurements := take 1 (rd_measurements r) \<rparr>"

definition realms_kept :: "rmm \<Rightarrow> rmm \<Rightarrow> bool" where
  "realms_kept s t \<longleftrightarrow> gst s = gst t \<and> gpt s = gpt t \<and> vmid_set s = vmid_set t
     \<and> (\<forall>a. rd_core (rds s a) = rd_core (rds t a)
          \<and> (rd_state (rds t a) = rd_state (rds s a) \<or> rd_state (rds t a) = SystemOff))"

interpretation kept: realm_frame realms_kept
proof unfold_locales
  show "realms_kept s s" for s by (simp add: realms_kept_def)
  show "realms_kept s u" if "realms_kept s t" "realms_kept t u" for s t u
    using that unfolding realms_kept_def by metis
  show "realms_kept (s\<lparr> held := x \<rparr>) (t\<lparr> held := y \<rparr>) \<longleftrightarrow> realms_kept s t" for s t x y
    by (simp add: realms_kept_def)
  show "realms_kept s (s\<lparr> rds := (rds s)(a := (rds s a)\<lparr> rd_measurements := (rd_measurements (rds s a))[i := m] \<rparr>) \<rparr>)"
    if "0 < i" for s a i m
    using that by (auto simp: realms_kept_def rd_core_def)
qed (simp_all add: realms_kept_def rd_core_def)

interpretation conf_realm: realm_frame "confined A" for A
  by unfold_locales (simp_all add: confined_def)

section \<open>Properties\<close>

text \<open>
  C23. A realm that runs changes nothing of what identifies it.  Whatever the realm and the host
  do during REC_ENTER, and whether the command succeeds or fails, every lock taken is
  released, no granule changes its state or its reference count, firmware assignments stay, and
  every realm descriptor keeps its VMID, tables, address space, personalization value, hash
  algorithm, metadata, number of contexts and initial measurement; its state changes to
  SystemOff at most.
\<close>

theorem running_keeps_realms:
  assumes "REC_ENTER e gs arg s = (r, t)" and "r \<noteq> Panic" and "r \<noteq> Hang"
  shows "held t = held s \<and> realms_kept s t"
  using steps_returns[OF kept.steps_REC_ENTER assms] by (simp add: balanced_def)

theorem running_keeps_realms_witness:
  "\<exists>t. REC_ENTER env0 [irq_step] [0x88000000, 0x80001000] sample_run = (Err (RmiErrorRealm 0), t)
     \<and> held t = [] \<and> realms_kept sample_run t"
proof -
  have "entry_refusal (e_plat env0) (rds sample_run 0x88001000) (recs sample_run 0x88000000)
      (read_page sample_run 0x80001000) = Some (RmiErrorRealm 0)"
    by (simp add: entry_refusal_def sample_run_fields(6))
  from rec_enter_refused[OF sample_run_fields(1) sample_addrs(1) sample_run_fields(2,3) sample_addrs(2) _
      sample_run_fields(4) sample_addrs(3) sample_mappable(1) sample_run_fields(5) _ refl sample_run_fields(7) _ this,
      where gs = "[irq_step]"]
  obtain t where t: "REC_ENTER env0 [irq_step] [0x88000000, 0x80001000] sample_run = (Err (RmiErrorRealm 0), t)"
    by (auto simp: sample_run_fields(6))
  from running_keeps_realms[OF t] t show ?thesis using sample_run_fields(1) by (intro exI[of _ t]) simp
qed

section \<open>Creation and destruction of contexts\<close>

text \<open>
  \<open>REC_CREATE\<close> and \<open>REC_DESTROY\<close> move granules only between the states delegated, context and
  auxiliary granule: they change the state of a granule they hold and whose state they have checked.
\<close>

lemma steps_within_sum:
  "(\<And>a. steps_within i A (f a)) \<Longrightarrow> (\<And>b. steps_within i A (g b)) \<Longrightarrow>
    steps_within i A (case x of Inl a \<Rightarrow> f a | Inr b \<Rightarrow> g b)"
  by (cases x) simp_all

lemma steps_within_prod: "(\<And>a b. steps_within i A (f a b)) \<Longrightarrow> steps_within i A (case x of (a, b) \<Rightarrow> f a b)"
  by (cases x) simp

lemma steps_count: "steps (balanced (confined A)) (inc_count i)" "steps (balanced (confined A)) (dec_count i)"
  unfolding inc_count_def dec_count_def
  by (intro conf_realm.rsi_rules conf.steps_modify; simp add: balanced_def confined_def)+

lemma steps_recp_verify: "steps (balanced (confined A)) (recp_verify_compliance pg r d p)"
  unfolding recp_verify_compliance_def Let_def by (intro conf_realm.rsi_rules)

lemma steps_prepare:
  "steps (balanced (confined A)) (prepare_args p rdp m)" "steps (balanced (confined A)) (prepare_vtcr p r)"
  "steps (balanced (confined A)) (rec_init_at p recp ow v f a b c)"
  unfolding prepare_args_def prepare_vtcr_def rec_init_at_def Let_def
  by (intro conf_realm.rsi_rules steps_upd_rd)+

lemma steps_REC_CREATE:
  assumes "{Delegated, GS_Rec, GS_RecAux} \<subseteq> A"
  shows "steps (balanced (confined A)) (REC_CREATE e arg)"
proof -
  have A: "Delegated \<in> A" "GS_Rec \<in> A" "GS_RecAux \<in> A" using assms by auto
  have aux: "steps (balanced (confined A)) (get_granule_if a Delegated (\<lambda>g. set_granule g GS_RecAux))" for a
    by (intro steps_get_granule_if_at steps_at_set_end A)
  note leaves = conf_realm.rsi_rules steps_upd_rd steps_count steps_recp_verify steps_prepare aux steps_measure_into
  note within = steps_within_bind steps_within_sum steps_within_prod steps_within_set[OF A(2)] steps_within_attempt
    steps_within_steps[OF conf.steps_pt_map] steps_within_steps[OF conf_objects.steps_upd_rec(1)]
    steps_within_steps[OF steps_prepare(1)] steps_within_steps[OF steps_prepare(2)] steps_within_steps[OF steps_prepare(3)]
    steps_within_steps[OF conf.steps_throw] steps_within_steps[OF conf.steps_set_ret] steps_within_steps[OF conf.steps_gets]
    steps_within_steps[OF conf.steps_for_each] steps_within_steps[OF conf.steps_map_err] steps_within_steps[OF steps_upd_rd]
    steps_within_steps[OF steps_measure_into] steps_within_steps[OF steps_count(1)]
  show ?thesis
    unfolding REC_CREATE_def Let_def
    by (intro conf.steps_bind conf.steps_index_slice conf.steps_if conf.steps_throw steps_recp_verify conf.steps_pt_map
        conf.steps_pt_unmap conf.steps_read_host conf.steps_ok_or conf.steps_gets
        conf.steps_get_granule_if[where st = GS_RD] steps_get_granule_if_at[where st = Delegated] steps_at_within[OF _ A(1)]
        within leaves)
qed

lemma get_granule_if_returns:
  assumes "get_granule_if a st body s = (r, t)" and "r \<noteq> Panic" and "r \<noteq> Hang"
  shows "t = s \<or> (\<exists>t'. body (gidx a) (s\<lparr> held := gidx a # held s \<rparr>) = (r, t') \<and> t = t'\<lparr> held := remove1 (gidx a) (held t') \<rparr>)"
proof (cases "validate_addr a")
  case True
  obtain r' t' where "body (gidx a) (s\<lparr> held := gidx a # held s \<rparr>) = (r', t')"
    by (cases "body (gidx a) (s\<lparr> held := gidx a # held s \<rparr>)")
  then show ?thesis using assms True by (cases r') (auto simp: get_granule_if_run split: if_splits)
qed (use assms in \<open>simp add: run\<close>)

lemma steps_within_get_granule_if:
  assumes "\<And>j. steps_within i A (body j)"
  shows "steps_within i A (get_granule_if a st body)"
proof -
  have "balanced (confined A) s t"
    if st: "g_state (gst s i) \<in> A" and ret: "get_granule_if a st body s = (r, t)" "r \<noteq> Panic" "r \<noteq> Hang" for s r t
    using get_granule_if_returns[OF ret]
  proof (elim disjE exE conjE)
    fix t' assume b: "body (gidx a) (s\<lparr> held := gidx a # held s \<rparr>) = (r, t')"
      and t: "t = t'\<lparr> held := remove1 (gidx a) (held t') \<rparr>"
    have "balanced (confined A) (s\<lparr> held := gidx a # held s \<rparr>) t'"
    proof (cases r)
      case (Ok x)
      show ?thesis by (rule steps_within_Ok[OF assms _ b[unfolded Ok]]) (simp add: st)
    next
      case (Err x)
      show ?thesis by (rule steps_within_Err[OF assms _ b[unfolded Err]]) (simp add: st)
    qed (use ret in simp_all)
    then show ?thesis unfolding t by (rule conf.lock_frame)
  qed (simp add: conf.R_refl)
  then show ?thesis by (blast intro: steps_withinI)
qed

lemma steps_REC_DESTROY:
  assumes "{Delegated, GS_Rec, GS_RecAux} \<subseteq> A"
  shows "steps (balanced (confined A)) (REC_DESTROY e arg)"
proof -
  have A: "Delegated \<in> A" "GS_Rec \<in> A" "GS_RecAux \<in> A" using assms by auto
  have aux: "steps (balanced (confined A)) (get_granule_if a GS_RecAux (\<lambda>g. set_granule g Delegated))" for a
    by (intro steps_get_granule_if_at steps_at_set_end A)
  have own: "steps (balanced (confined A)) (rec_get_owner r)" for r
    unfolding rec_get_owner_def by (intro conf_realm.rsi_rules)
  have iff: "steps_within i A m \<Longrightarrow> steps_within i A n \<Longrightarrow> steps_within i A (if c then m else n)"
    for i c and m n :: "'a rmm_prog" by simp
  show ?thesis
    unfolding REC_DESTROY_def
    by (intro conf.steps_bind conf.steps_index_slice
        steps_get_granule_if_at[where st = GS_Rec] steps_at_within[OF _ A(2)] iff
        steps_within_bind steps_within_get_granule_if[where st = GS_RD] steps_within_set[OF A(1)]
        steps_within_steps[OF conf_objects.steps_upd_rec(5)] steps_within_steps[OF conf.steps_throw]
        steps_within_steps[OF conf.steps_for_each] steps_within_steps[OF own] steps_within_steps[OF steps_count(2)]
        steps_within_steps[OF conf.steps_pt_unmap] aux conf.steps_pt_unmap)
qed

end
