(* ===== verification/Realm_Live.thy ===== *)
theory Realm_Live
  imports Realm_Frame
begin

text \<open>
  A realm that is interrupted comes back to the host.  \<open>live\<close> is the calculus of programs
  that do not hang while an execution context runs: the locks held are known and include
  neither the realm's descriptor nor its metadata, and the context keeps its owner.
  Every operation on the way from \<open>REC_ENTER\<close> to the realm and back is such a program.
\<close>

section \<open>Programs that do not hang while a context runs\<close>

definition anchored :: "usize \<Rightarrow> usize \<Rightarrow> nat list \<Rightarrow> rmm \<Rightarrow> bool" where
  "anchored rp ow L s \<longleftrightarrow> held s = L \<and> rec_owner (recs s rp) = Some ow
     \<and> (\<forall>m. rd_metadata (rds s ow) = Some m \<longrightarrow> gidx m \<notin> insert (gidx ow) (set L))"

definition live :: "usize \<Rightarrow> usize \<Rightarrow> nat list \<Rightarrow> 'a rmm_prog \<Rightarrow> bool" where
  "live rp ow L m \<longleftrightarrow> (\<forall>s r t. anchored rp ow L s \<longrightarrow> m s = (r, t) \<longrightarrow>
     r \<noteq> Hang \<and> (r = Panic \<or> anchored rp ow L t))"

lemma liveI:
  assumes "\<And>s r t. anchored rp ow L s \<Longrightarrow> m s = (r, t) \<Longrightarrow> r \<noteq> Hang \<and> (r = Panic \<or> anchored rp ow L t)"
  shows "live rp ow L m"
  using assms by (simp add: live_def)

lemma liveD: "live rp ow L m \<Longrightarrow> anchored rp ow L s \<Longrightarrow> m s = (r, t) \<Longrightarrow> r \<noteq> Hang \<and> (r = Panic \<or> anchored rp ow L t)"
  by (simp add: live_def)

lemma live_basic:
  "live rp ow L (return a)" "live rp ow L (throw e)" "live rp ow L panic" "live rp ow L (gets f)"
  "live rp ow L (ok_or e x)" "live rp ow L (unwrap x)" "live rp ow L (index_slice xs i)"
  by (auto simp: live_def run split: option.splits if_splits)

lemma live_modify: "(\<And>s. anchored rp ow L s \<Longrightarrow> anchored rp ow L (f s)) \<Longrightarrow> live rp ow L (modify f)"
  by (simp add: live_def run)

lemma live_bind:
  assumes m: "live rp ow L m" and f: "\<And>a. live rp ow L (f a)"
  shows "live rp ow L (bind m f)"
proof (rule liveI)
  fix s r t assume s: "anchored rp ow L s" and b: "bind m f s = (r, t)"
  obtain x u where x: "m s = (x, u)" by (cases "m s")
  from liveD[OF m s x] liveD[OF f] b x show "r \<noteq> Hang \<and> (r = Panic \<or> anchored rp ow L t)"
    by (cases x) (auto simp: run)
qed

lemma live_attempt:
  assumes m: "live rp ow L m"
  shows "live rp ow L (attempt m)" "live rp ow L (map_err h m)"
proof -
  have "r \<noteq> Hang \<and> (r = Panic \<or> anchored rp ow L t)"
    if s: "anchored rp ow L s" and a: "attempt m s = (r, t)" for s r t
  proof -
    obtain x u where x: "m s = (x, u)" by (cases "m s")
    from liveD[OF m s x] a x show ?thesis by (cases x) (auto simp: run)
  qed
  then show "live rp ow L (attempt m)" by (intro liveI) blast
  have "r \<noteq> Hang \<and> (r = Panic \<or> anchored rp ow L t)"
    if s: "anchored rp ow L s" and a: "map_err h m s = (r, t)" for s r t
  proof -
    obtain x u where x: "m s = (x, u)" by (cases "m s")
    from liveD[OF m s x] a x show ?thesis by (cases x) (auto simp: run)
  qed
  then show "live rp ow L (map_err h m)" by (intro liveI) blast
qed

lemma live_only_if: "(c \<Longrightarrow> live rp ow L m) \<Longrightarrow> live rp ow L (only_if c m)"
  by (simp add: only_if_def live_basic)

lemma live_if: "(c \<Longrightarrow> live rp ow L m) \<Longrightarrow> (\<not> c \<Longrightarrow> live rp ow L n) \<Longrightarrow> live rp ow L (if c then m else n)"
  by simp

lemma live_for_each: "(\<And>x. x \<in> set xs \<Longrightarrow> live rp ow L (f x)) \<Longrightarrow> live rp ow L (for_each xs f)"
  by (induction xs) (auto intro: live_basic live_bind)

lemma live_sum:
  "(\<And>a. live rp ow L (f a)) \<Longrightarrow> (\<And>b. live rp ow L (g b)) \<Longrightarrow> live rp ow L (case x of Inl a \<Rightarrow> f a | Inr b \<Rightarrow> g b)"
  by (cases x) simp_all

lemma live_option:
  "live rp ow L m \<Longrightarrow> (\<And>b. live rp ow L (k b)) \<Longrightarrow> live rp ow L (case y of None \<Rightarrow> m | Some b \<Rightarrow> k b)"
  by (cases y) simp_all

lemma live_prod: "(\<And>a b. live rp ow L (h a b)) \<Longrightarrow> live rp ow L (case z of (a, b) \<Rightarrow> h a b)"
  by (cases z) simp

lemmas live_rules = live_basic live_bind live_attempt live_only_if live_if live_for_each
  live_sum live_option live_prod

lemma anchored_lock: "anchored rp ow L s \<Longrightarrow> i \<notin> set L \<Longrightarrow> (\<And>m. rd_metadata (rds s ow) = Some m \<Longrightarrow> gidx m \<noteq> i)
    \<Longrightarrow> anchored rp ow (i # L) (s\<lparr> held := i # held s \<rparr>)"
  by (auto simp: anchored_def)

lemma anchored_unlock: "anchored rp ow (i # L) t \<Longrightarrow> anchored rp ow L (t\<lparr> held := remove1 i (held t) \<rparr>)"
  by (simp add: anchored_def)

lemma live_with_owner:
  assumes "gidx ow \<notin> set L"
    and "\<And>rd. (\<forall>m. rd_metadata rd = Some m \<longrightarrow> gidx m \<notin> insert (gidx ow) (set L)) \<Longrightarrow> live rp ow (gidx ow # L) (f ow rd)"
  shows "live rp ow L (with_owner rp f)"
proof (rule liveI)
  fix s r t assume s: "anchored rp ow L s" and w: "with_owner rp f s = (r, t)"
  let ?s = "s\<lparr> held := gidx ow # held s \<rparr>"
  have o': "rec_owner (recs s rp) = Some ow" "held s = L" using s by (simp_all add: anchored_def)
  show "r \<noteq> Hang \<and> (r = Panic \<or> anchored rp ow L t)"
  proof (cases "validate_addr ow")
    case True
    obtain x u where x: "f ow (rds s ow) ?s = (x, u)" by (cases "f ow (rds s ow) ?s")
    have a: "anchored rp ow (gidx ow # L) ?s" using s assms(1) by (intro anchored_lock) (auto simp: anchored_def)
    have "live rp ow (gidx ow # L) (f ow (rds s ow))" using s by (intro assms(2)) (auto simp: anchored_def)
    from liveD[OF this a x] anchored_unlock[of rp ow "gidx ow" L u] show ?thesis
      using w x o' s assms(1) True
      by (cases x) (auto simp: with_owner_def rec_owner_of_def rec_at_def rec_get_owner_def with_rd_def
          get_granule_if_run run split: if_splits)
  next
    case False
    then show ?thesis using w o' s
      by (auto simp: with_owner_def rec_owner_of_def rec_at_def rec_get_owner_def with_rd_def run)
  qed
qed

section \<open>Registers, the run structure and the core\<close>

lemma anchored_frame [simp]:
  "anchored rp ow L (s\<lparr> mem := m \<rparr>) = anchored rp ow L s" "anchored rp ow L (s\<lparr> cpu := c \<rparr>) = anchored rp ow L s"
  "anchored rp ow L (s\<lparr> run_page := g \<rparr>) = anchored rp ow L s" "anchored rp ow L (s\<lparr> ret := v \<rparr>) = anchored rp ow L s"
  "anchored rp ow L (s\<lparr> s1_pt := p \<rparr>) = anchored rp ow L s"
  by (simp_all add: anchored_def)

lemma live_upd_rec: "(\<And>r. rec_owner (f r) = rec_owner r) \<Longrightarrow> live rp ow L (upd_rec a f)"
  unfolding upd_rec_def by (intro live_modify) (auto simp: anchored_def)

lemma live_updates:
  "live rp ow L (upd_cpu g)" "live rp ow L (upd_ctx a h)" "live rp ow L (upd_gic a k)"
  "live rp ow L (upd_simd a d)" "live rp ow L (rec_at a)" "live rp ow L (run_put n v)"
  "live rp ow L (modify (\<lambda>s. s\<lparr> run_page := F s \<rparr>))" "live rp ow L (modify (\<lambda>s. s\<lparr> mem := G s \<rparr>))"
  "live rp ow L (modify (\<lambda>s. s\<lparr> ret := K s \<rparr>))" "live rp ow L (set_ret n v)"
  unfolding upd_simd_def upd_gic_def upd_ctx_def rec_at_def upd_cpu_def run_put_def set_ret_def
  by (intro live_upd_rec live_modify live_rules; simp)+

lemma set_reg_owner: "set_reg_rec r i v = Inr r' \<Longrightarrow> rec_owner r' = rec_owner r"
  by (auto simp: set_reg_rec_def split: if_splits)

lemma live_regs: "live rp ow L (set_reg a i v)" "live rp ow L (get_reg a i)"
proof -
  show "live rp ow L (set_reg a i v)"
    by (rule liveI) (auto simp: set_reg_def rec_at_def upd_rec_def run anchored_def set_reg_owner split: sum.splits)
  show "live rp ow L (get_reg a i)"
    unfolding get_reg_def by (intro live_rules live_updates)
qed

lemma live_run_fields:
  "live rp ow L (set_exit_reason a)" "live rp ow L (set_imm b)" "live rp ow L (set_esr v)"
  "live rp ow L (set_far v)" "live rp ow L (set_hpfar v)" "live rp ow L (set_gpr i v)"
  "live rp ow L (run_set_ripas v w a)" "live rp ow L (entry_gpr i)" "live rp ow L (run_verify_compliance pg)"
  unfolding set_exit_reason_def set_imm_def set_esr_def set_far_def set_hpfar_def set_gpr_def run_set_ripas_def
    entry_gpr_def run_verify_compliance_def
  by (intro live_rules live_updates)+

lemma live_lrs:
  "live rp ow L (set_lr i v)" "live rp ow L (set_ap0r i v)" "live rp ow L (set_ap1r i v)"
  "live rp ow L (get_lr i)" "live rp ow L (get_ap0r i)" "live rp ow L (get_ap1r i)"
  unfolding set_lr_def set_ap0r_def set_ap1r_def get_lr_def get_ap0r_def get_ap1r_def
  by (intro live_rules live_updates)+

lemmas live_run = live_rules live_updates live_regs live_run_fields live_lrs

lemma live_gic:
  "live rp ow L (gic_restore_state p a)" "live rp ow L (gic_save_state p a)"
  "live rp ow L (gic_receive_state_from_host p a)" "live rp ow L (gic_send_state_to_host p a)"
  unfolding gic_restore_state_def gic_save_state_def gic_receive_state_from_host_def gic_send_state_to_host_def Let_def
  by (intro live_run)+

lemma live_timer_simd:
  "live rp ow L (timer_restore_state a)" "live rp ow L (timer_save_state a)"
  "live rp ow L (timer_send_state_to_host a)" "live rp ow L (simd_restore_state a)"
  "live rp ow L (simd_save_state p a)" "live rp ow L (restore_fpu p fpu)"
  unfolding timer_restore_state_def timer_save_state_def timer_send_state_to_host_def
    simd_restore_state_def simd_save_state_def restore_fpu_def Let_def
  by (intro live_run)+

lemma live_switch:
  "live rp ow L (into_current p a)" "live rp ow L (from_current p a)"
  "live rp ow L (run_prepare p a v)" "live rp ow L (activate_stage2_mmu a)"
  unfolding into_current_def from_current_def run_prepare_def activate_stage2_mmu_def Let_def
  by (intro live_run live_gic live_timer_simd)+

lemma live_emulate_mmio: "live rp ow L (emulate_mmio a)"
  unfolding emulate_mmio_def Let_def by (intro live_run)

section \<open>Exceptions\<close>

lemma live_inject:
  "live rp ow L (advance_pc a)" "live rp ow L (inject_undefined p a)" "live rp ow L (sys_reg_handle p a esr)"
  unfolding advance_pc_def inject_undefined_def sys_reg_handle_def handle_sysreg_id_def Let_def
  by (intro live_run)+

lemma live_handle_lower: "live rp ow L (handle_lower_exception p a k esr tf)"
  unfolding handle_lower_exception_def Let_def
  by (cases k; cases "syndrome_from p esr")
    (simp_all split del: if_split, (intro live_run live_inject live_timer_simd | simp split del: if_split)+)

lemma live_save_restore:
  "live rp ow L current" "live rp ow L restore_all_from_rec" "live rp ow L (save_volatile_to_rec g)"
  "live rp ow L rmm_enter" "live rp ow L (realm_executes g)"
  unfolding current_def restore_all_from_rec_def save_volatile_to_rec_def rmm_enter_def realm_executes_def
  by (intro live_run live_modify; simp)+

section \<open>Calls of a realm\<close>

lemma live_walk:
  "live rp ow L (s2_table rd)" "live rp ow L (ipa_to_pa t ipa level)" "live rp ow L (ipa_to_pte t ipa level)"
proof -
  show "live rp ow L (s2_table rd)" unfolding s2_table_def by (intro live_rules)
  show "live rp ow L (ipa_to_pa t ipa level)"
    using s2_walk_no_hang by (intro liveI) (auto simp: ipa_to_pa_def Let_def split: outcome.splits option.splits)
  show "live rp ow L (ipa_to_pte t ipa level)"
    using s2_walk_no_hang by (intro liveI) (auto simp: ipa_to_pte_def Let_def split: outcome.splits option.splits)
qed

lemma live_get_s2tte: "live rp ow L (get_s2tte rd ipa level err)" "live rp ow L (rtt_get_ripas rd ipa level)"
  unfolding rtt_get_ripas_def get_s2tte_def by (intro live_rules live_walk)+

lemma live_read_granule:
  assumes "gidx a \<notin> set L" and body: "\<And>s. snd (body (gidx a) s) = s \<and> fst (body (gidx a) s) \<noteq> Hang"
  shows "live rp ow L (get_granule_if a st body)"
proof (rule liveI)
  fix s r t assume s: "anchored rp ow L s" and g: "get_granule_if a st body s = (r, t)"
  let ?s = "s\<lparr> held := gidx a # held s \<rparr>"
  obtain x u where x: "body (gidx a) ?s = (x, u)" by (cases "body (gidx a) ?s")
  with body[of ?s] have "u = ?s" "x \<noteq> Hang" by auto
  then show "r \<noteq> Hang \<and> (r = Panic \<or> anchored rp ow L t)"
    using g s x assms(1)
    by (cases "validate_addr a"; cases x) (auto simp: get_granule_if_run run anchored_def split: if_splits)
qed

lemma live_rsi_helpers:
  "live rp ow L (resume a v)" "live rp ow L (assume_safe b)" "live rp ow L (set_reg_chunks a bs)"
  "live rp ow L (validate_ipa rd ipa)" "live rp ow L (rec_get_owner rc)" "live rp ow L (rec_ipa_bits rc)"
  "live rp ow L (host_call_gpr b i)" "live rp ow L (host_call_set_gpr b i v)"
  unfolding resume_def assume_safe_def set_reg_chunks_def validate_ipa_def rec_ipa_bits_def rec_get_owner_def
    host_call_gpr_def host_call_set_gpr_def
  by (intro live_run)+

lemma live_get_reg_bytes: "live rp ow L (get_reg_bytes a k)"
proof -
  have "live rp ow L (foldr (\<lambda>i rest. bind (get_reg a (of_nat (i + k))) (\<lambda>v.
     bind rest (\<lambda>bs. return (le_bytes 8 v @ bs)))) is (return []))" for "is"
    by (induction "is") (auto intro!: live_rules live_regs)
  then show ?thesis unfolding get_reg_bytes_def .
qed

lemma live_owner_kept:
  "live rp ow L (upd_rec a (\<lambda>r. r\<lparr> rec_host_call_pending := b \<rparr>))"
  "live rp ow L (upd_rec a (\<lambda>r. r\<lparr> rec_psci_pending := b \<rparr>))"
  "live rp ow L (upd_rec a (\<lambda>r. r\<lparr> rec_emulatable_abort := em \<rparr>))"
  "live rp ow L (upd_rec a (\<lambda>r. r\<lparr> rec_attest_state := ast \<rparr>))"
  "live rp ow L (upd_rec a (\<lambda>r. r\<lparr> rec_attest_token_offset := off \<rparr>))"
  "live rp ow L (upd_rec a (\<lambda>r. r\<lparr> rec_attest_challenge := ch, rec_attest_state := ast,
     rec_attest_token_offset := off \<rparr>))"
  "live rp ow L (upd_rec a (\<lambda>r. set_ripas_range r u v w x))"
  "live rp ow L (upd_rec a (\<lambda>r. set_runnable r u))" "live rp ow L (set_rec_state a st)"
  unfolding set_rec_state_def by (intro live_upd_rec; simp add: set_ripas_range_def set_runnable_def)+

lemmas live_rsi = live_run live_walk live_get_s2tte live_rsi_helpers live_get_reg_bytes live_owner_kept

lemma live_do_host_call:
  assumes "gidx ow \<notin> set L"
  shows "live rp ow L (do_host_call e rp)"
  unfolding do_host_call_def Let_def by (intro live_rsi live_with_owner assms)

lemma live_get_token: "live rp ow L (get_token e c ms rpv h)"
  unfolding get_token_def create_attestation_token_def create_realm_token_def realm_claims_def array_vec_def
  by (intro live_rules)

lemma live_attest:
  assumes "gidx ow \<notin> set L"
  shows "live rp ow L (rsi_ATTEST_TOKEN_INIT e rp)" "live rp ow L (rsi_ATTEST_TOKEN_CONTINUE e rp)"
  unfolding rsi_ATTEST_TOKEN_INIT_def rsi_ATTEST_TOKEN_CONTINUE_def get_token_part_def Let_def
  by (intro live_rsi live_get_token live_with_owner assms)+

lemma live_sealing_info:
  assumes "\<forall>m. rd_metadata rd = Some m \<longrightarrow> gidx m \<notin> set L"
  shows "live rp ow L (sealing_info rd flags svn)"
proof (cases "rd_metadata rd")
  case None
  then show ?thesis unfolding sealing_info_def Let_def by simp (intro live_rules)
next
  case (Some m)
  then have "gidx m \<notin> set L" using assms by blast
  then show ?thesis unfolding sealing_info_def Let_def Some option.case
    by (intro live_rules live_read_granule) (simp_all add: run)
qed

lemma live_sealing:
  assumes "gidx ow \<notin> set L"
  shows "live rp ow L (rsi_ISLET_REALM_SEALING_KEY e rp)"
  unfolding rsi_ISLET_REALM_SEALING_KEY_def realm_sealing_key_def derive_sealing_key_def
  by (intro live_rsi live_with_owner live_sealing_info assms) auto

lemma live_descriptor:
  "live rp ow L (upd_rd a (\<lambda>r. r\<lparr> rd_state := st \<rparr>))" "live rp ow L (measure_into a (extend_measurement e b i))"
proof -
  show "live rp ow L (upd_rd a (\<lambda>r. r\<lparr> rd_state := st \<rparr>))"
    unfolding upd_rd_def by (intro live_modify) (auto simp: anchored_def split: if_splits)
  show "live rp ow L (measure_into a (extend_measurement e b i))"
    by (rule liveI) (auto simp: measure_into_def upd_rd_def extend_measurement_def hash_context_def
        measurement_extend_def run anchored_def split: sum.splits prod.splits if_splits)
qed

lemma live_info:
  assumes "gidx ow \<notin> set L"
  shows "live rp ow L (rsi_FEATURES e rp)" "live rp ow L (rsi_ABI_VERSION e rp)"
    "live rp ow L (rsi_MEASUREMENT_READ e rp)" "live rp ow L (rsi_MEASUREMENT_EXTEND e rp)"
    "live rp ow L (rsi_REALM_CONFIG e rp)"
  unfolding rsi_FEATURES_def rsi_ABI_VERSION_def rsi_MEASUREMENT_READ_def rsi_MEASUREMENT_EXTEND_def
    rsi_REALM_CONFIG_def realm_config_def Let_def
  by (intro live_rsi live_with_owner live_descriptor assms)+

lemma live_ripas_calls:
  assumes "gidx ow \<notin> set L"
  shows "live rp ow L (get_ripas_state e rp)" "live rp ow L (set_ripas_state e rp)"
    "live rp ow L (complete_ripas rp)"
  unfolding get_ripas_state_def set_ripas_state_def complete_ripas_def Let_def
  by (intro live_rsi live_with_owner assms)+

lemma live_psci:
  assumes "gidx ow \<notin> set L"
  shows "live rp ow L (psci_VERSION e rp)" "live rp ow L (psci_SMCCC_VERSION e rp)"
    "live rp ow L (psci_FEATURES e rp)" "live rp ow L (psci_AFFINITY_INFO e rp)" "live rp ow L (psci_CPU_ON e rp)"
    "live rp ow L (psci_CPU_OFF e rp)" "live rp ow L (psci_SYSTEM_OFF e rp)" "live rp ow L (psci_SYSTEM_RESET e rp)"
    "live rp ow L (psci_CPU_SUSPEND e rp)"
  unfolding psci_VERSION_def psci_SMCCC_VERSION_def psci_FEATURES_def psci_AFFINITY_INFO_def psci_CPU_ON_def
    psci_CPU_OFF_def psci_SYSTEM_OFF_def psci_SYSTEM_RESET_def psci_CPU_SUSPEND_def Let_def
  by (intro live_rsi live_with_owner live_descriptor assms)+

lemma live_rsi_handler:
  "rsi_on_event cmd = Some h \<Longrightarrow> gidx ow \<notin> set L \<Longrightarrow> live rp ow L (h e rp)"
  by (auto simp: rsi_on_event_def split: if_splits
      intro: live_attest live_sealing live_info live_ripas_calls live_psci live_do_host_call)

section \<open>Exits and entries\<close>

lemma live_handle_rsi:
  assumes "gidx ow \<notin> set L"
  shows "live rp ow L (handle_rsi e cmd rp)"
proof (cases "rsi_on_event cmd")
  case None
  then show ?thesis unfolding handle_rsi_def by simp (intro live_rsi)
next
  case (Some h)
  from live_rsi_handler[OF this assms] Some show ?thesis
    unfolding handle_rsi_def do_rsi_def by simp (intro live_rsi; assumption?)
qed

lemma live_realm_exit:
  assumes "gidx ow \<notin> set L"
  shows "live rp ow L (handle_realm_exit e res rp)"
proof -
  obtain x where x: "rec_exit_from (res ! 0) = x" by blast
  have "live rp ow L (handle_data_abort e res rp)"
    unfolding handle_data_abort_def is_non_emulatable_data_abort_def get_write_val_def Let_def
    by (intro live_rsi live_with_owner assms)
  note rules = live_rsi live_handle_rsi[OF assms] this
  show ?thesis
  proof (cases x)
    case (RX_Sync t)
    then show ?thesis unfolding handle_realm_exit_def using x
      by (cases t; simp split del: if_split) (intro rules)+
  qed (simp_all add: handle_realm_exit_def x, (intro rules)+)
qed

lemma handle_lower_Irq:
  "handle_lower_exception p a Irq esr tf = return (True, [rec_exit_code RX_IRQ, 0, 0, 0])"
  by (rule ext) (simp add: handle_lower_irq run)

lemma realm_loop_irq:
  "realm_loop p gs tf s = (Ok (res, gs'), t) \<Longrightarrow> \<exists>g \<in> set gs. g_kind g = Irq \<Longrightarrow>
   (\<exists>g \<in> set gs'. g_kind g = Irq) \<or> rec_exit_from (res ! 0) = RX_IRQ"
proof (induction p gs tf arbitrary: s rule: realm_loop.induct)
  case (2 p g gs tf)
  from "2.prems"(1) obtain b tf' u a esr v
    where l: "(if b then seq rmm_enter (return (tf', gs)) else realm_loop p gs tf') u = (Ok (res, gs'), t)"
      and h: "handle_lower_exception p a (g_kind g) esr tf v = (Ok (b, tf'), u)"
    by (auto simp: run split: prod.splits outcome.splits)
  show ?case
  proof (cases b)
    case True
    then have "gs' = gs" "res = tf'" using l by (auto simp: run split: prod.splits outcome.splits)
    moreover have "rec_exit_from (tf' ! 0) = RX_IRQ" if "g_kind g = Irq"
      using h that rec_exit_from_code[of RX_IRQ] by (auto simp: handle_lower_Irq run simp del: rec_exit_code.simps)
    ultimately show ?thesis using "2.prems"(2) by auto
  next
    case False
    then have "g_kind g \<noteq> Irq" using h by (auto simp: handle_lower_Irq run)
    then show ?thesis using l False "2.IH" "2.prems"(2) by auto
  qed
qed simp

lemma live_realm_loop:
  "\<exists>g \<in> set gs. g_kind g = Irq \<Longrightarrow> live rp ow L (realm_loop p gs tf)"
proof (induction p gs tf rule: realm_loop.induct)
  case (2 p g gs tf)
  show ?case
  proof (cases "g_kind g = Irq")
    case True
    then show ?thesis unfolding realm_loop.simps
      by (simp only: handle_lower_Irq bind_return prod.case if_True) (intro live_run live_save_restore)
  next
    case False
    then have "\<exists>g \<in> set gs. g_kind g = Irq" using "2.prems" by auto
    then show ?thesis unfolding realm_loop.simps using "2.IH"
      by (intro live_run live_save_restore live_handle_lower) auto
  qed
qed simp

lemma live_rec_run: "\<exists>g \<in> set gs. g_kind g = Irq \<Longrightarrow> live rp ow L (rec_run p gs)"
  unfolding rec_run_def rec_run_enter_def rec_run_exit_def
  by (intro live_run live_save_restore live_realm_loop live_switch)

lemma rec_run_result:
  assumes "rec_run p gs s = (Ok (res, gs'), t)" and irq: "\<exists>g \<in> set gs. g_kind g = Irq"
  shows "rec_exit_from (res ! 0) \<in> {RX_IRQ, RX_Sync ES_Undefined}
    \<or> length gs' < length gs \<and> (\<exists>g \<in> set gs'. g_kind g = Irq)"
proof -
  from assms(1) have "(\<exists>s' t'. realm_loop p gs [0, 0, 0, 0] s' = (Ok (res, gs'), t')) \<or> res = [0, 0, 0, 0]"
    by (auto simp: rec_run_def rec_run_enter_def current_def run split: prod.splits outcome.splits if_splits)
  then show ?thesis
  proof
    assume "\<exists>s' t'. realm_loop p gs [0, 0, 0, 0] s' = (Ok (res, gs'), t')"
    then show ?thesis using realm_loop_consumes realm_loop_irq[OF _ irq] by blast
  next
    assume "res = [0, 0, 0, 0]"
    then show ?thesis by (simp add: rec_exit_from_def exit_sync_from_def)
  qed
qed

lemma exit_leaves:
  assumes "handle_realm_exit e res rp s = (Ok (b, v), t)"
    and "rec_exit_from (res ! 0) \<in> {RX_IRQ, RX_Sync ES_Undefined}"
  shows b
  using assms by (auto simp: handle_realm_exit_def run set_exit_reason_def set_esr_def set_hpfar_def
      set_far_def run_put_def)

lemma live_turn:
  assumes "gidx ow \<notin> set L" and irq: "\<exists>g \<in> set gs. g_kind g = Irq"
    and loop: "\<And>gs'. length gs' < length gs \<Longrightarrow> \<exists>g \<in> set gs'. g_kind g = Irq \<Longrightarrow> live rp ow L (loop gs')"
  shows "live rp ow L (bind (rec_run (e_plat e) gs) (\<lambda>(res, gs').
     bind (handle_realm_exit e res rp) (\<lambda>(ret_ns, r0).
       seq (set_ret 0 r0) (seq (set_rec_state rp Ready) (if ret_ns then return () else loop gs')))))"
    (is "live rp ow L ?turn")
proof (rule liveI)
  fix s r t assume s: "anchored rp ow L s" and b: "?turn s = (r, t)"
  obtain x u where x: "rec_run (e_plat e) gs s = (x, u)" by (cases "rec_run (e_plat e) gs s")
  note xl = liveD[OF live_rec_run[OF irq] s x]
  show "r \<noteq> Hang \<and> (r = Panic \<or> anchored rp ow L t)"
  proof (cases x)
    case (Ok y)
    obtain res gs' where y: "y = (res, gs')" by (cases y)
    obtain z v where z: "handle_realm_exit e res rp u = (z, v)" by (cases "handle_realm_exit e res rp u")
    note zl = liveD[OF live_realm_exit[OF assms(1)] _ z]
    show ?thesis
    proof (cases z)
      case z': (Ok w)
      obtain q r0 where w: "w = (q, r0)" by (cases w)
      have "live rp ow L (seq (set_ret 0 r0) (seq (set_rec_state rp Ready) (if q then return () else loop gs')))"
      proof (intro live_rsi)
        assume "\<not> q"
        with rec_run_result[OF x[unfolded Ok y] irq] exit_leaves[OF z[unfolded z' w]]
        show "live rp ow L (loop gs')" by (intro loop) auto
      qed
      from liveD[OF this, of v r t] show ?thesis using b x z Ok y z' w xl zl by (auto simp: run)
    qed (use b x z Ok y xl zl in \<open>auto simp: run\<close>)
  qed (use b x xl in \<open>auto simp: run\<close>)
qed

lemma live_rec_enter_loop:
  assumes ow: "gidx ow \<notin> set L"
  shows "\<exists>g \<in> set gs. g_kind g = Irq \<Longrightarrow> length gs < n \<Longrightarrow> live rp ow L (rec_enter_loop n e rp gs)"
proof (induction n arbitrary: gs)
  case (Suc n)
  from Suc.prems(2) have turn: "live rp ow L (bind (rec_run (e_plat e) gs) (\<lambda>(res, gs').
     bind (handle_realm_exit e res rp) (\<lambda>(ret_ns, r0).
       seq (set_ret 0 r0) (seq (set_rec_state rp Ready) (if ret_ns then return () else rec_enter_loop n e rp gs')))))"
    by (intro live_turn ow Suc.prems(1) Suc.IH) auto
  show ?case unfolding rec_enter_loop.simps
    by (rule live_bind[OF _ live_bind[OF _ live_bind[OF _ turn]]]) (intro live_rsi live_with_owner ow live_switch)+
qed simp

lemma live_pt_map: "s1_mappable a \<Longrightarrow> live rp ow L (pt_map a sec)"
  by (intro liveI) (auto simp: pt_map_def set_pages_mappable)

lemma live_host_page:
  assumes "validate_addr a \<longrightarrow> gidx a \<notin> set L"
  shows "live rp ow L (copy_from a)" "live rp ow L (copy_to_ptr pg a)" "live rp ow L (pt_unmap a)"
proof -
  have "live rp ow L (get_granule_if a Undelegated (\<lambda>_. return ()))"
  proof (cases "validate_addr a")
    case True
    then show ?thesis using assms by (intro live_read_granule) (simp_all add: run)
  next
    case False
    then show ?thesis by (intro liveI) (auto simp: run)
  qed
  then show "live rp ow L (copy_from a)" "live rp ow L (copy_to_ptr pg a)"
    unfolding copy_from_def copy_to_ptr_def write_page_def by (intro live_run; assumption)+
  show "live rp ow L (pt_unmap a)" unfolding pt_unmap_def by (intro live_modify) simp
qed

lemma live_realm_state:
  "live rp ow L a \<Longrightarrow> live rp ow L b \<Longrightarrow> live rp ow L c \<Longrightarrow> live rp ow L d \<Longrightarrow>
   live rp ow L (case st of Active \<Rightarrow> a | New \<Rightarrow> b | SystemOff \<Rightarrow> c | Null \<Rightarrow> d)"
  by (cases st) simp_all

lemma no_hang_locked:
  assumes "validate_addr a" and "gidx a \<notin> set (held s)"
    and "anchored rp ow L (s\<lparr> held := gidx a # held s \<rparr>)" and "live rp ow L (body (gidx a))"
  shows "fst (get_granule_if a st body s) \<noteq> Hang"
proof -
  let ?s = "s\<lparr> held := gidx a # held s \<rparr>"
  obtain x u where x: "body (gidx a) ?s = (x, u)" by (cases "body (gidx a) ?s")
  from liveD[OF assms(4,3) x] show ?thesis using assms(1,2) x by (cases x) (auto simp: get_granule_if_run)
qed

section \<open>Properties\<close>

text \<open>
  C24. An interrupt brings the core back to the host.  If the realm is interrupted at any point, whatever it
  and its calls do before, REC_ENTER does not hang: for a context that is not its realm's descriptor or
  metadata and a host page that can be mapped and is not the context itself.
\<close>

theorem interrupted_realm_returns:
  assumes "held s = []" and "validate_addr rp" and "rec_owner (recs s rp) = Some ow" and "validate_addr ow" and "ow \<noteq> rp"
    and "\<forall>m. rd_metadata (rds s ow) = Some m \<longrightarrow> validate_addr m \<and> m \<noteq> rp \<and> m \<noteq> ow"
    and "s1_mappable run_pa" and "run_pa \<noteq> rp" and irq: "\<exists>g \<in> set gs. g_kind g = Irq"
  shows "fst (REC_ENTER e gs [rp, run_pa] s) \<noteq> Hang"
proof -
  let ?L = "[gidx rp]" and ?s = "s\<lparr> held := [gidx rp] \<rparr>"
  have ow: "gidx ow \<notin> set ?L" using gidx_eq_iff assms(2,4,5) by simp
  have run: "validate_addr run_pa \<longrightarrow> gidx run_pa \<notin> set ?L" using gidx_eq_iff assms(2,8) by simp
  have "gidx m \<notin> insert (gidx ow) (set ?L)" if "rd_metadata (rds s ow) = Some m" for m
    using assms(6) that gidx_eq_iff assms(2,4) by auto
  then have anchor: "anchored rp ow ?L ?s" using assms(3) by (simp add: anchored_def)
  show ?thesis
    unfolding REC_ENTER_def
    by (simp add: bind_run index_slice_run, rule no_hang_locked[where rp = rp and ow = ow and L = ?L])
      (use assms(1,2) anchor in \<open>simp_all\<close>,
       intro live_rsi live_pt_map[OF assms(7)] live_host_page[OF run] live_with_owner[OF ow] live_realm_state
         live_do_host_call[OF ow] live_gic live_timer_simd live_emulate_mmio live_ripas_calls[OF ow]
         live_switch live_rec_enter_loop[OF ow irq] lessI)
qed

theorem interrupted_realm_returns_witness:
  "fst (REC_ENTER env0 [irq_step] [0x88000000, 0x80001000]
     (sample_run\<lparr> rds := (\<lambda>_. rd_zero\<lparr> rd_state := Active \<rparr>) \<rparr>)) \<noteq> Hang"
  by (rule interrupted_realm_returns[where ow = "0x88001000"])
    (simp_all add: sample_run_fields sample_addrs sample_mappable irq_step_def rd_zero_def)

end
