(* ===== verification/Monitor.thy ===== *)
theory Monitor
  imports Realm_Live
begin

text \<open>
  The monitor: the command context of \<open>rmm/src/event/mod.rs\<close>, the numbers of registers of
  \<open>rmm/src/rmi/constraint.rs\<close>, the table of handlers of \<open>rmm/src/event/rmihandle.rs\<close>, the
  main loop of \<open>rmm/src/event/mainloop.rs\<close> and \<open>rmm/src/monitor.rs\<close>.
\<close>

section \<open>Commands\<close>

record ctx =
  ctx_cmd :: usize
  ctx_arg :: "usize list"
  ctx_ret :: "usize list"

definition context_of :: "usize \<Rightarrow> ctx" where
  "context_of cmd = \<lparr> ctx_cmd = cmd, ctx_arg = [], ctx_ret = [] \<rparr>"

definition init_arg :: "usize list \<Rightarrow> ctx \<Rightarrow> ctx" where
  "init_arg arg c = c\<lparr> ctx_arg := arg \<rparr>"

definition resize_ret :: "nat \<Rightarrow> ctx \<Rightarrow> ctx" where
  "resize_ret n c = c\<lparr> ctx_ret := replicate n 0 \<rparr>"

text \<open>The number of arguments, the identifier of the command included, and of results.\<close>

definition rmi_pick :: "usize \<Rightarrow> (nat \<times> nat) option" where
  "rmi_pick = map_of
    [(RMI_VERSION, (2, 3)), (RMI_GRANULE_DELEGATE, (2, 1)), (RMI_GRANULE_UNDELEGATE, (2, 1)),
     (RMI_DATA_CREATE, (6, 1)), (RMI_DATA_CREATE_UNKNOWN, (4, 1)), (RMI_DATA_DESTROY, (3, 3)),
     (RMI_REALM_ACTIVATE, (2, 1)), (RMI_REALM_CREATE, (3, 2)), (RMI_REALM_DESTROY, (2, 1)),
     (RMI_REC_CREATE, (4, 2)), (RMI_REC_DESTROY, (4, 1)), (RMI_REC_ENTER, (3, 1)),
     (RMI_RTT_MAP_UNPROTECTED, (5, 1)), (RMI_RTT_UNMAP_UNPROTECTED, (4, 2)), (RMI_RTT_READ_ENTRY, (4, 5)),
     (RMI_FEATURES, (2, 2)), (RMI_REC_AUX_COUNT, (2, 2)), (RMI_RTT_CREATE, (5, 1)),
     (RMI_RTT_DESTROY, (4, 3)), (RMI_RTT_INIT_RIPAS, (4, 2)), (RMI_RTT_SET_RIPAS, (5, 2)),
     (RMI_RTT_FOLD, (4, 2)), (RMI_REQ_COMPLETE, (4, 2)), (RMI_PSCI_COMPLETE, (4, 1)),
     (RMI_ISLET_REALM_SET_METADATA, (4, 1))]"

definition rmi_validate :: "usize \<Rightarrow> usize list \<Rightarrow> ctx rmm_prog" where
  "rmi_validate cmd arg = (case rmi_pick cmd of
     Some (arg_num, ret_num) \<Rightarrow>
       if arg_num \<le> length arg then return (resize_ret ret_num (init_arg (take arg_num arg) (context_of cmd)))
       else panic
   | None \<Rightarrow> return (context_of NOT_SUPPORTED_YET))"

type_synonym handler = "env \<Rightarrow> guest_step list \<Rightarrow> usize list \<Rightarrow> unit rmm_prog"

definition plain :: "(env \<Rightarrow> usize list \<Rightarrow> unit rmm_prog) \<Rightarrow> handler" where
  "plain h = (\<lambda>e gs. h e)"

definition rmi_on_event :: "usize \<Rightarrow> handler option" where
  "rmi_on_event = map_of
    [(RMI_FEATURES, plain FEATURES),
     (RMI_GRANULE_DELEGATE, plain GRANULE_DELEGATE), (RMI_GRANULE_UNDELEGATE, plain GRANULE_UNDELEGATE),
     (RMI_REALM_ACTIVATE, plain REALM_ACTIVATE), (RMI_REALM_CREATE, plain REALM_CREATE),
     (RMI_REC_AUX_COUNT, plain REC_AUX_COUNT), (RMI_REALM_DESTROY, plain REALM_DESTROY),
     (RMI_ISLET_REALM_SET_METADATA, plain ISLET_REALM_SET_METADATA),
     (RMI_REC_CREATE, plain REC_CREATE), (RMI_REC_DESTROY, plain REC_DESTROY),
     (RMI_REC_ENTER, REC_ENTER), (RMI_PSCI_COMPLETE, plain PSCI_COMPLETE),
     (RMI_RTT_CREATE, plain RTT_CREATE), (RMI_RTT_DESTROY, plain RTT_DESTROY),
     (RMI_RTT_INIT_RIPAS, plain RTT_INIT_RIPAS), (RMI_RTT_SET_RIPAS, plain RTT_SET_RIPAS),
     (RMI_RTT_READ_ENTRY, plain RTT_READ_ENTRY), (RMI_DATA_CREATE, plain DATA_CREATE),
     (RMI_DATA_CREATE_UNKNOWN, plain DATA_CREATE_UNKNOWN), (RMI_DATA_DESTROY, plain DATA_DESTROY),
     (RMI_RTT_MAP_UNPROTECTED, plain RTT_MAP_UNPROTECTED),
     (RMI_RTT_UNMAP_UNPROTECTED, plain RTT_UNMAP_UNPROTECTED), (RMI_RTT_FOLD, plain RTT_FOLD),
     (RMI_VERSION, plain VERSION)]"

section \<open>The loop\<close>

definition handle_rmi :: "env \<Rightarrow> guest_step list \<Rightarrow> ctx \<Rightarrow> ctx rmm_prog" where
  "handle_rmi e gs c =
    bind (case rmi_on_event (ctx_cmd c) of
        Some handler \<Rightarrow>
          seq (modify (\<lambda>s. s\<lparr> ret := ctx_ret c \<rparr>))
          (bind (attempt (handler e gs (ctx_arg c))) (\<lambda>res.
            seq (case res of Inl code \<Rightarrow> set_ret 0 (error_code code) | Inr _ \<Rightarrow> return ())
            (bind (gets ret) (\<lambda>r. return (c\<lparr> ctx_ret := r, ctx_arg := r \<rparr>)))))
      | None \<Rightarrow> return (init_arg [RET_FAIL] c))
    (\<lambda>c. return (c\<lparr> ctx_cmd := RMI_REQ_COMPLETE \<rparr>))"

definition dispatch :: "env \<Rightarrow> ctx \<Rightarrow> ctx rmm_prog" where
  "dispatch e c =
    bind (smc e (ctx_cmd c) (ctx_arg c)) (\<lambda>r. bind (index_slice r 0) (\<lambda>cmd. rmi_validate cmd (drop 1 r)))"

definition boot_complete :: "env \<Rightarrow> ctx rmm_prog" where
  "boot_complete e = dispatch e (init_arg [BOOT_SUCCESS] (context_of RMI_BOOT_COMPLETE))"

text \<open>
  The infinite loop of \<open>run\<close>, up to a number of commands; the environment of every turn
  is its own, since the host and the firmware change from one command to the next.
\<close>

fun monitor_run :: "(env \<times> guest_step list) list \<Rightarrow> ctx \<Rightarrow> ctx rmm_prog" where
  "monitor_run [] c = return c"
| "monitor_run ((e, gs) # turns) c =
    bind (handle_rmi e gs c) (\<lambda>c'. bind (dispatch e c') (\<lambda>c''. monitor_run turns c''))"

section \<open>The frame of a command\<close>

abbreviation (input) in_use :: "u8 set" where "in_use \<equiv> UNIV - {Undelegated}"

text \<open>
  Delegation and undelegation change the protection table.  Of the other commands, all but two change
  the state of granules only among the states of granules in use; \<open>DATA_DESTROY\<close> and \<open>REALM_DESTROY\<close> set
  the state of a granule, which a table or the realm names, without a look at the one it has.
\<close>

lemma handler_confined:
  assumes "rmi_on_event cmd = Some h"
    and "cmd \<notin> {RMI_GRANULE_DELEGATE, RMI_GRANULE_UNDELEGATE, RMI_DATA_DESTROY, RMI_REALM_DESTROY}"
  shows "steps (balanced (confined in_use)) (h e gs arg)"
proof -
  have "{Delegated, GS_RTT} \<subseteq> in_use" "{Delegated, GS_Data} \<subseteq> in_use" "{Delegated, GS_RTT, GS_RD} \<subseteq> in_use"
    "{Delegated, GS_Metadata} \<subseteq> in_use" "{Delegated, GS_Rec, GS_RecAux} \<subseteq> in_use"
    by simp_all
  note frames = conf_objects.steps_RTT_SET_RIPAS conf_objects.steps_RTT_READ_ENTRY
    conf_objects.steps_RTT_MAP_UNPROTECTED conf_objects.steps_RTT_UNMAP_UNPROTECTED
    steps_RTT_INIT_RIPAS steps_RTT_CREATE[OF this(1)] steps_RTT_DESTROY[OF this(1)] steps_RTT_FOLD[OF this(1)]
    steps_DATA_CREATE[OF this(2)] steps_DATA_CREATE_UNKNOWN[OF this(2)] steps_REALM_ACTIVATE
    steps_REALM_CREATE[OF this(3)] steps_SET_METADATA[OF this(4)] steps_REC_AUX_COUNT steps_FEATURES steps_VERSION
    conf_realm.steps_REC_ENTER conf_realm.steps_PSCI_COMPLETE steps_REC_CREATE[OF this(5)] steps_REC_DESTROY[OF this(5)]
  show ?thesis
    using assms by (auto simp: rmi_on_event_def plain_def frames split: if_splits)
qed

lemma handler_consistent:
  assumes "rmi_on_event cmd = Some h" and "cmd \<notin> {RMI_DATA_DESTROY, RMI_REALM_DESTROY}" and "el3_gpt e"
    and "held s = []" and "gpt_consistent s" and "h e gs arg s = (r, t)" and "r \<noteq> Panic" and "r \<noteq> Hang"
  shows "held t = [] \<and> gpt_consistent t"
proof (cases "cmd \<in> {RMI_GRANULE_DELEGATE, RMI_GRANULE_UNDELEGATE}")
  case True
  then have h: "h = plain GRANULE_DELEGATE \<or> h = plain GRANULE_UNDELEGATE"
    using assms(1) by (auto simp: rmi_on_event_def)
  then obtain a rest where arg: "arg = a # rest"
    using assms(6,7) by (cases arg) (auto simp: plain_def GRANULE_DELEGATE_def GRANULE_UNDELEGATE_def run)
  have "gidx a \<notin> set (held s)" using assms(4) by simp
  note delegate_run[OF assms(3) this, of rest] undelegate_run[OF assms(3) this, of rest]
    gpt_consistent_regranted[OF assms(5), of a]
  then show ?thesis
    using h assms(4-8) unfolding arg by (auto simp: plain_def regranted_def split: if_splits)
next
  case False
  then have "steps (balanced (confined in_use)) (h e gs arg)"
    using assms(1,2) by (intro handler_confined) auto
  from steps_returns[OF this assms(6-8)] have "held s = held t" "confined in_use s t"
    by (simp_all add: balanced_def)
  then show ?thesis using assms(4,5) gpt_consistent_confined by force
qed

lemma gpt_consistent_cong: "gst t = gst s \<Longrightarrow> gpt t = gpt s \<Longrightarrow> gpt_consistent t = gpt_consistent s"
  by (simp add: gpt_consistent_def)

lemma handle_rmi_Some:
  assumes "handle_rmi e gs c s = (Ok c', t)" and "rmi_on_event (ctx_cmd c) = Some h"
  shows "\<exists>r u. h e gs (ctx_arg c) (s\<lparr> ret := ctx_ret c \<rparr>) = (r, u) \<and> r \<noteq> Panic \<and> r \<noteq> Hang
    \<and> gst t = gst u \<and> gpt t = gpt u \<and> held t = held u"
proof -
  obtain r u where "h e gs (ctx_arg c) (s\<lparr> ret := ctx_ret c \<rparr>) = (r, u)" by fastforce
  then show ?thesis
    using assms by (cases r) (auto simp: handle_rmi_def run set_ret_def split: if_splits)
qed

lemma handle_rmi_None:
  "rmi_on_event (ctx_cmd c) = None \<Longrightarrow> handle_rmi e gs c s = (Ok c', t) \<Longrightarrow> t = s"
  by (simp add: handle_rmi_def run)

lemma handle_rmi_consistent:
  assumes "handle_rmi e gs c s = (Ok c', t)" and "ctx_cmd c \<notin> {RMI_DATA_DESTROY, RMI_REALM_DESTROY}" and "el3_gpt e"
    and "held s = []" and "gpt_consistent s"
  shows "held t = [] \<and> gpt_consistent t \<and> ctx_cmd c' = RMI_REQ_COMPLETE"
proof -
  have c': "ctx_cmd c' = RMI_REQ_COMPLETE"
    using assms(1) by (auto simp: handle_rmi_def bind_def return_def split: prod.splits outcome.splits)
  show ?thesis
  proof (cases "rmi_on_event (ctx_cmd c)")
    case None
    then show ?thesis using handle_rmi_None[OF _ assms(1)] assms(4,5) c' by simp
  next
    case (Some h)
    from handle_rmi_Some[OF assms(1) Some] obtain r u where
      u: "h e gs (ctx_arg c) (s\<lparr> ret := ctx_ret c \<rparr>) = (r, u)" "r \<noteq> Panic" "r \<noteq> Hang"
      and t: "gst t = gst u" "gpt t = gpt u" "held t = held u" by blast
    have "held u = [] \<and> gpt_consistent u"
      using handler_consistent[OF Some assms(2,3) _ _ u] assms(4,5) gpt_consistent_cong[of "s\<lparr> ret := ctx_ret c \<rparr>" s] by simp
    then show ?thesis using t c' gpt_consistent_cong[OF t(1,2)] by simp
  qed
qed

section \<open>The invariant of the loop\<close>

text \<open>
  What the monitor relies on while the host runs, between the completion of a command and the next one:
  firmware moves no page into or out of the realm world, which it does on the monitor's request only.  The
  set \<open>C\<close> has the commands that the host may ask for.
\<close>

definition host_turn :: "usize set \<Rightarrow> env \<Rightarrow> bool" where
  "host_turn C e \<longleftrightarrow> el3_gpt e
     \<and> (\<forall>g regs. regs ! 0 = RMI_REQ_COMPLETE \<longrightarrow>
          (case e_smc e g regs of (r, g') \<Rightarrow>
             r ! 0 \<in> C \<and> (\<forall>a. (g' a = GPT_REALM) = (g a = GPT_REALM))))"

lemma host_turnD:
  "host_turn C e \<Longrightarrow> regs ! 0 = RMI_REQ_COMPLETE \<Longrightarrow>
     fst (e_smc e g regs) ! 0 \<in> C \<and> (\<forall>a. (snd (e_smc e g regs) a = GPT_REALM) = (g a = GPT_REALM))"
  unfolding host_turn_def by (metis (mono_tags, lifting) case_prod_beta')

lemma rmi_validate_cmd:
  "rmi_validate cmd arg s = (Ok c, t) \<Longrightarrow> t = s \<and> ctx_cmd c \<in> {cmd, NOT_SUPPORTED_YET}"
  by (auto simp: rmi_validate_def run context_of_def init_arg_def resize_ret_def split: option.splits if_splits)

lemma dispatch_consistent:
  assumes "dispatch e c s = (Ok c', t)" and "ctx_cmd c = RMI_REQ_COMPLETE" and "host_turn C e"
    and "held s = []" and "gpt_consistent s"
  shows "held t = [] \<and> gpt_consistent t \<and> ctx_cmd c' \<in> C \<union> {0, NOT_SUPPORTED_YET}"
proof (cases "1 + length (ctx_arg c) > 7")
  case True
  then show ?thesis
    using assms by (auto simp: dispatch_def smc_def run dest!: rmi_validate_cmd)
next
  case False
  define regs where "regs = RMI_REQ_COMPLETE # ctx_arg c @ replicate (7 - length (ctx_arg c)) 0"
  obtain r g where rg: "e_smc e (gpt s) regs = (r, g)" by fastforce
  have h: "r ! 0 \<in> C" "(g a = GPT_REALM) = (gpt s a = GPT_REALM)" for a
    using host_turnD[OF assms(3), of regs "gpt s"] rg by (simp_all add: regs_def)
  have "rmi_validate (r ! 0) (drop 1 r) (s\<lparr> gpt := g \<rparr>) = (Ok c', t)"
    using assms(1,2) False rg
    by (simp add: dispatch_def smc_def run Let_def regs_def split: if_splits)
  from rmi_validate_cmd[OF this] show ?thesis
    using h assms(4,5) by (auto simp: gpt_consistent_def)
qed

text \<open>
  C3. The loop of the monitor keeps the granule status table and the granule protection table of the
  firmware consistent, and leaves no lock held, through every sequence of commands, whatever realms run
  and do in between: at the end of every turn a granule is in the realm world exactly when its
  state is not \<open>Undelegated\<close>.  The two commands left out are \<open>DATA_DESTROY\<close> and \<open>REALM_DESTROY\<close>.
\<close>

theorem monitor_keeps_worlds:
  assumes "\<forall>turn \<in> set turns. host_turn (- {RMI_DATA_DESTROY, RMI_REALM_DESTROY}) (fst turn)"
    and "ctx_cmd c \<notin> {RMI_DATA_DESTROY, RMI_REALM_DESTROY}" and "held s = []" and "gpt_consistent s"
    and "monitor_run turns c s = (Ok c', t)"
  shows "held t = [] \<and> gpt_consistent t"
  using assms
proof (induction turns arbitrary: c s)
  case Nil
  then show ?case by (simp add: run)
next
  case (Cons turn turns)
  obtain e gs where turn: "turn = (e, gs)" by fastforce
  from Cons.prems(5) obtain c1 s1 c2 s2 where
    one: "handle_rmi e gs c s = (Ok c1, s1)" and two: "dispatch e c1 s1 = (Ok c2, s2)"
    and rest: "monitor_run turns c2 s2 = (Ok c', t)"
    unfolding turn by (auto simp: bind_def split: prod.splits outcome.splits)
  have e: "host_turn (- {RMI_DATA_DESTROY, RMI_REALM_DESTROY}) e" using Cons.prems(1) turn by simp
  then have "el3_gpt e" by (simp add: host_turn_def)
  from handle_rmi_consistent[OF one Cons.prems(2) this Cons.prems(3,4)]
  have "held s1 = []" "gpt_consistent s1" "ctx_cmd c1 = RMI_REQ_COMPLETE" by simp_all
  from dispatch_consistent[OF two this(3) e this(1,2)]
  show ?case using Cons.IH[OF _ _ _ _ rest] Cons.prems(1) by auto
qed

definition host_mock :: "(usize \<Rightarrow> gpt) \<Rightarrow> usize list \<Rightarrow> usize list \<times> (usize \<Rightarrow> gpt)" where
  "host_mock g regs = (if regs ! 0 = RMI_REQ_COMPLETE then (RMI_GRANULE_DELEGATE # 0x80000000 # replicate 6 0, g)
     else el3_mock g regs)"

lemma host_mock_turn: "host_turn (- {RMI_DATA_DESTROY, RMI_REALM_DESTROY}) (env0\<lparr> e_smc := host_mock \<rparr>)"
proof -
  have "el3_gpt (env0\<lparr> e_smc := host_mock \<rparr>)"
    using mock_el3 by (simp add: el3_gpt_def host_mock_def)
  then show ?thesis by (simp add: host_turn_def host_mock_def)
qed

theorem monitor_keeps_worlds_witness:
  "\<exists>e c c' t. monitor_run [(e, []), (e, [])] c rmm0 = (Ok c', t) \<and> ctx_cmd c' = RMI_GRANULE_DELEGATE
     \<and> g_state (gst t 0) = Delegated \<and> held t = [] \<and> gpt_consistent t"
proof -
  define e where "e = env0\<lparr> e_smc := host_mock \<rparr>"
  define c where "c = resize_ret 1 (init_arg [0x80000000, 0] (context_of RMI_GRANULE_DELEGATE))"
  have e: "host_turn (- {RMI_DATA_DESTROY, RMI_REALM_DESTROY}) e" unfolding e_def by (rule host_mock_turn)
  have el3: "el3_gpt e" using e by (simp add: host_turn_def)
  note d = delegate_run[OF el3, of "0x80000000" _ "[0]"]
  have h: "rmi_on_event RMI_GRANULE_DELEGATE = Some (plain GRANULE_DELEGATE)" "rmi_pick RMI_GRANULE_DELEGATE = Some (2, 1)"
    by (simp_all add: rmi_on_event_def rmi_pick_def)
  have smc: "smc e RMI_REQ_COMPLETE [v] s = (Ok (RMI_GRANULE_DELEGATE # 0x80000000 # replicate 6 0), s)" for v s
    by (simp add: smc_def e_def host_mock_def)
  have "\<exists>c' t. monitor_run [(e, []), (e, [])] c rmm0 = (Ok c', t) \<and> ctx_cmd c' = RMI_GRANULE_DELEGATE \<and> g_state (gst t 0) = Delegated"
    by (simp add: handle_rmi_def dispatch_def rmi_validate_def run h smc d plain_def c_def
        context_of_def init_arg_def resize_ret_def dram_start regranted_def set_ret_def granule_new_def)
  then obtain c' t where run: "monitor_run [(e, []), (e, [])] c rmm0 = (Ok c', t)"
    and t: "ctx_cmd c' = RMI_GRANULE_DELEGATE" "g_state (gst t 0) = Delegated" by blast
  have "gpt_consistent rmm0" by (simp add: gpt_consistent_def granule_new_def)
  moreover have "ctx_cmd c = RMI_GRANULE_DELEGATE" by (simp add: c_def context_of_def init_arg_def resize_ret_def)
  ultimately have "held t = [] \<and> gpt_consistent t"
    using e by (intro monitor_keeps_worlds[OF _ _ _ _ run]) simp_all
  then show ?thesis using run t by blast
qed

end
