(* ===== verification/Hes_Boot.thy ===== *)
theory Hes_Boot
  imports Islet_Prelude
begin

text \<open>
  The measured boot store of the hardware enforced security component,
  \<open>hes/islet-hes/src/measured_boot/\<close> with the hardware data of \<open>hes/islet-hes/src/hw/mod.rs\<close>.
  A slot keeps a measurement that software components extend until one of them locks it.  The
  digests of the crate \<open>sha2\<close> are fields of the component's environment.

  The store is shown to implement a log: each slot is determined by the accepted requests, in
  their order.  A string is the list of its bytes read as characters.
\<close>

section \<open>Environment\<close>

text \<open>
  The crates the component calls: \<open>sha2\<close>, \<open>aes\<close> (one block), \<open>hkdf\<close> (extract and expand with
  SHA-256 and no salt), the order, key parsing, public points and signatures of the curves
  \<open>p256\<close> and \<open>p384\<close>, the CBOR writer and the COSE builder.
\<close>

datatype curve = NistP256 | NistP384

record 'c hes_env =
  he_sha256 :: "u8 list \<Rightarrow> u8 list"
  he_sha384 :: "u8 list \<Rightarrow> u8 list"
  he_sha512 :: "u8 list \<Rightarrow> u8 list"
  he_aes_block :: "u8 list \<Rightarrow> u8 list \<Rightarrow> u8 list"
  he_hkdf :: "u8 list \<Rightarrow> u8 list \<Rightarrow> nat \<Rightarrow> u8 list option"
  he_order :: "curve \<Rightarrow> nat"
  he_order_bits :: "curve \<Rightarrow> nat"
  he_from_slice :: "curve \<Rightarrow> u8 list \<Rightarrow> nat option"
  he_sec1 :: "curve \<Rightarrow> nat \<Rightarrow> u8 list"
  he_sign :: "nat \<Rightarrow> u8 list \<Rightarrow> u8 list option"
  he_cbor :: "'c \<Rightarrow> u8 list option"
  he_tbs :: "u8 list \<Rightarrow> u8 list"
  he_tagged :: "u8 list \<Rightarrow> u8 list \<Rightarrow> u8 list option"

section \<open>Strings\<close>

definition utf8_cont :: "u8 \<Rightarrow> bool" where
  "utf8_cont b \<longleftrightarrow> 0x80 \<le> b \<and> b \<le> 0xBF"

fun utf8_valid :: "u8 list \<Rightarrow> bool" where
  "utf8_valid [] = True"
| "utf8_valid (a # bs) =
    (if a < 0x80 then utf8_valid bs
     else if 0xC2 \<le> a \<and> a \<le> 0xDF then (case bs of b # r \<Rightarrow> utf8_cont b \<and> utf8_valid r | _ \<Rightarrow> False)
     else if 0xE0 \<le> a \<and> a \<le> 0xEF then (case bs of b # c # r \<Rightarrow>
         (if a = 0xE0 then 0xA0 \<le> b \<and> b \<le> 0xBF else if a = 0xED then 0x80 \<le> b \<and> b \<le> 0x9F else utf8_cont b)
         \<and> utf8_cont c \<and> utf8_valid r | _ \<Rightarrow> False)
     else if 0xF0 \<le> a \<and> a \<le> 0xF4 then (case bs of b # c # d # r \<Rightarrow>
         (if a = 0xF0 then 0x90 \<le> b \<and> b \<le> 0xBF else if a = 0xF4 then 0x80 \<le> b \<and> b \<le> 0x8F else utf8_cont b)
         \<and> utf8_cont c \<and> utf8_cont d \<and> utf8_valid r | _ \<Rightarrow> False)
     else False)"

definition from_utf8 :: "u8 list \<Rightarrow> string option" where
  "from_utf8 bs = (if utf8_valid bs then Some (map (\<lambda>b. char_of (unat b)) bs) else None)"

definition as_bytes :: "string \<Rightarrow> u8 list" where
  "as_bytes s = map (\<lambda>c. of_nat (of_char c)) s"

section \<open>Measurements\<close>

abbreviation (input) MEASUREMENT_VALUE_MIN_SIZE :: nat where "MEASUREMENT_VALUE_MIN_SIZE \<equiv> 32"
abbreviation (input) MEASUREMENT_VALUE_MAX_SIZE :: nat where "MEASUREMENT_VALUE_MAX_SIZE \<equiv> 64"
abbreviation (input) SIGNER_ID_MIN_SIZE :: nat where "SIGNER_ID_MIN_SIZE \<equiv> 32"
abbreviation (input) SIGNER_ID_MAX_SIZE :: nat where "SIGNER_ID_MAX_SIZE \<equiv> 64"
abbreviation (input) VERSION_MAX_SIZE :: nat where "VERSION_MAX_SIZE \<equiv> 14"
abbreviation (input) SW_TYPE_MAX_SIZE :: nat where "SW_TYPE_MAX_SIZE \<equiv> 20"

datatype boot_error = InvalidArgument | NotPermitted | DoesNotExist | BadState | InvalidData string

datatype measurement_type = Sha256 | Sha384 | Sha512

definition measurement_type_try_from :: "u16 \<Rightarrow> ('s, boot_error, measurement_type) prog" where
  "measurement_type_try_from v =
    (if v = 0 then return Sha256 else if v = 1 then return Sha384 else if v = 2 then return Sha512
     else throw (InvalidData ''MeasurementType''))"

fun hash_len :: "measurement_type \<Rightarrow> nat" where
  "hash_len Sha256 = 32"
| "hash_len Sha384 = 48"
| "hash_len Sha512 = 64"

record measurement_meta =
  mm_signer_id :: "u8 list"
  mm_sw_version :: string
  mm_algorithm :: measurement_type
  mm_sw_type :: string

record sw_measurement =
  sm_metadata :: measurement_meta
  sm_value :: "u8 list"

record boot_metadata =
  bm_type :: u16
  bm_signer_id :: "u8 list"
  bm_sw_type :: "u8 list"
  bm_sw_version :: "u8 list"

record boot_measurement =
  bm_metadata :: boot_metadata
  bm_value :: "u8 list"

definition measurement_try_from :: "boot_measurement \<Rightarrow> ('s, boot_error, sw_measurement) prog" where
  "measurement_try_from v =
    (let md = bm_metadata v in
     if length (bm_signer_id md) < SIGNER_ID_MIN_SIZE \<or> SIGNER_ID_MAX_SIZE < length (bm_signer_id md)
     then throw (InvalidData ''SignerIdSize'')
     else if VERSION_MAX_SIZE < length (bm_sw_version md) then throw (InvalidData ''SWVersionSize'')
     else if SW_TYPE_MAX_SIZE < length (bm_sw_type md) then throw (InvalidData ''SWTypeSize'')
     else if length (bm_value v) < MEASUREMENT_VALUE_MIN_SIZE \<or> MEASUREMENT_VALUE_MAX_SIZE < length (bm_value v)
     then throw (InvalidData ''MeasurementValueSize'')
     else bind (ok_or (InvalidData ''SWVersionNotUtf8'') (from_utf8 (bm_sw_version md))) (\<lambda>sw_version.
       bind (ok_or (InvalidData ''SWTypeNotUtf8'') (from_utf8 (bm_sw_type md))) (\<lambda>sw_type.
       bind (measurement_type_try_from (bm_type md)) (\<lambda>algorithm.
         return \<lparr> sm_metadata = \<lparr> mm_signer_id = bm_signer_id md, mm_sw_version = sw_version,
             mm_algorithm = algorithm, mm_sw_type = sw_type \<rparr>, sm_value = bm_value v \<rparr>))))"

section \<open>Slots\<close>

record measurement_slot =
  sl_measurement :: sw_measurement
  sl_is_locked :: bool
  sl_is_populated :: bool

definition measurement_default :: sw_measurement where
  "measurement_default = \<lparr> sm_metadata = \<lparr> mm_signer_id = [], mm_sw_version = [], mm_algorithm = Sha256,
     mm_sw_type = [] \<rparr>, sm_value = [] \<rparr>"

definition slot_default :: measurement_slot where
  "slot_default = \<lparr> sl_measurement = measurement_default, sl_is_locked = False, sl_is_populated = False \<rparr>"

abbreviation sl_meta :: "measurement_slot \<Rightarrow> measurement_meta" where
  "sl_meta sl \<equiv> sm_metadata (sl_measurement sl)"

abbreviation sl_value :: "measurement_slot \<Rightarrow> u8 list" where
  "sl_value sl \<equiv> sm_value (sl_measurement sl)"

type_synonym 'a slot_prog = "(measurement_slot, boot_error, 'a) prog"

definition set_meta :: "measurement_meta \<Rightarrow> unit slot_prog" where
  "set_meta md = modify (\<lambda>sl. sl\<lparr> sl_measurement := (sl_measurement sl)\<lparr> sm_metadata := md \<rparr> \<rparr>)"

definition set_value :: "u8 list \<Rightarrow> unit slot_prog" where
  "set_value v = modify (\<lambda>sl. sl\<lparr> sl_measurement := (sl_measurement sl)\<lparr> sm_value := v \<rparr> \<rparr>)"

definition sha_of :: "('c, 'x) hes_env_scheme \<Rightarrow> measurement_type \<Rightarrow> u8 list \<Rightarrow> u8 list" where
  "sha_of e t = (case t of Sha256 \<Rightarrow> he_sha256 e | Sha384 \<Rightarrow> he_sha384 e | Sha512 \<Rightarrow> he_sha512 e)"

definition extend_metadata :: "measurement_meta \<Rightarrow> unit slot_prog" where
  "extend_metadata md = bind (gets sl_meta) (\<lambda>old.
     set_meta (old\<lparr> mm_sw_type := mm_sw_type md, mm_sw_version := mm_sw_version md \<rparr>))"

text \<open>The slices panic when the value of the slot is shorter than the digest.\<close>

definition extend_value :: "('c, 'x) hes_env_scheme \<Rightarrow> u8 list \<Rightarrow> bool \<Rightarrow> unit slot_prog" where
  "extend_value e value lock =
    bind (gets (\<lambda>sl. mm_algorithm (sl_meta sl))) (\<lambda>algorithm.
    bind (gets sl_value) (\<lambda>current.
      let n = hash_len algorithm in
      if length current < n then panic
      else let temp = take n current @ value; result = sha_of e algorithm temp in
        if length current < length result then panic
        else bind (set_value (result @ drop (length result) current)) (\<lambda>_.
          modify (\<lambda>sl. sl\<lparr> sl_is_populated := True, sl_is_locked := lock \<rparr>))))"

definition slot_extend :: "('c, 'x) hes_env_scheme \<Rightarrow> sw_measurement \<Rightarrow> bool \<Rightarrow> unit slot_prog" where
  "slot_extend e m lock = bind (extend_metadata (sm_metadata m)) (\<lambda>_. extend_value e (sm_value m) lock)"

definition slot_initialize :: "('c, 'x) hes_env_scheme \<Rightarrow> sw_measurement \<Rightarrow> bool \<Rightarrow> unit slot_prog" where
  "slot_initialize e m lock =
    bind (gets sl_is_populated) (\<lambda>populated. if populated then panic
    else bind (set_meta (sm_metadata m)) (\<lambda>_.
      bind (gets sl_value) (\<lambda>v.
      let n = hash_len (mm_algorithm (sm_metadata m)) in
      bind (set_value (take n v @ replicate (n - length v) 0)) (\<lambda>_.
        extend_value e (sm_value m) lock))))"

definition mark_as_populated :: "unit slot_prog" where
  "mark_as_populated = modify (\<lambda>sl. sl\<lparr> sl_is_populated := True \<rparr>)"

definition is_prohibited :: "measurement_slot \<Rightarrow> measurement_meta \<Rightarrow> bool" where
  "is_prohibited sl md \<longleftrightarrow> mm_signer_id md \<noteq> mm_signer_id (sl_meta sl)
     \<or> mm_algorithm md \<noteq> mm_algorithm (sl_meta sl)"

section \<open>The manager\<close>

abbreviation (input) NUM_OF_MEASUREMENT_SLOTS :: nat where "NUM_OF_MEASUREMENT_SLOTS \<equiv> 32"

type_synonym 'a mgr_prog = "(measurement_slot list, boot_error, 'a) prog"

text \<open>A method of one slot of the manager.\<close>

definition with_slot :: "nat \<Rightarrow> 'a slot_prog \<Rightarrow> 'a mgr_prog" where
  "with_slot i m = (\<lambda>ms. if i < length ms then (case m (ms ! i) of (r, sl) \<Rightarrow> (r, ms[i := sl])) else (Panic, ms))"

text \<open>The result of storing the boot measurements is unwrapped, so an error of the conversion panics.\<close>

definition mgr_init ::
  "('c, 'x) hes_env_scheme \<Rightarrow> boot_measurement list \<Rightarrow> ('s, boot_error, measurement_slot list) prog" where
  "mgr_init e boot_measurements = (\<lambda>s.
    if NUM_OF_MEASUREMENT_SLOTS < length boot_measurements then (Panic, s)
    else case for_each (enumerate 0 boot_measurements) (\<lambda>(index, boot_measurement).
          bind (measurement_try_from boot_measurement) (\<lambda>measurement.
            with_slot index (slot_initialize e measurement False)))
        (replicate NUM_OF_MEASUREMENT_SLOTS slot_default) of
      (Ok _, ms) \<Rightarrow> (Ok ms, s)
    | (Hang, _) \<Rightarrow> (Hang, s)
    | _ \<Rightarrow> (Panic, s))"

definition mgr_read :: "nat \<Rightarrow> (sw_measurement \<times> bool) mgr_prog" where
  "mgr_read slot_id =
    (if NUM_OF_MEASUREMENT_SLOTS \<le> slot_id then throw InvalidArgument
     else bind (gets id) (\<lambda>ms. bind (index_slice ms slot_id) (\<lambda>sl.
       if \<not> sl_is_populated sl then throw DoesNotExist
       else return (sl_measurement sl, sl_is_locked sl))))"

definition mgr_extend ::
  "('c, 'x) hes_env_scheme \<Rightarrow> nat \<Rightarrow> sw_measurement \<Rightarrow> bool \<Rightarrow> unit mgr_prog" where
  "mgr_extend e slot_id m lock =
    (if NUM_OF_MEASUREMENT_SLOTS \<le> slot_id then throw InvalidArgument
     else with_slot slot_id (
       bind (gets sl_is_locked) (\<lambda>locked. if locked then throw BadState
       else bind (gets id) (\<lambda>sl.
         if sl_is_populated sl
         then if is_prohibited sl (sm_metadata m) then throw NotPermitted
           else slot_extend e m lock
         else bind (slot_initialize e m lock) (\<lambda>_. mark_as_populated)))))"

section \<open>The log of a slot\<close>

text \<open>
  The abstract store keeps, for each slot, the accepted requests in their order, each with its
  wish to lock.  A request is refused once the last accepted one has locked the slot, and when
  its signer or algorithm is not that of the first.
\<close>

type_synonym slot_log = "(sw_measurement \<times> bool) list"

definition log_refusal :: "slot_log \<Rightarrow> sw_measurement \<Rightarrow> boot_error option" where
  "log_refusal l m =
    (if l = [] then None
     else if snd (last l) then Some BadState
     else if mm_signer_id (sm_metadata m) \<noteq> mm_signer_id (sm_metadata (fst (hd l)))
       \<or> mm_algorithm (sm_metadata m) \<noteq> mm_algorithm (sm_metadata (fst (hd l))) then Some NotPermitted
     else None)"

definition log_extend :: "nat \<Rightarrow> sw_measurement \<Rightarrow> bool \<Rightarrow> (nat \<Rightarrow> slot_log, boot_error, unit) prog" where
  "log_extend i m lock = (\<lambda>L.
    if NUM_OF_MEASUREMENT_SLOTS \<le> i then (Err InvalidArgument, L)
    else case log_refusal (L i) m of
      None \<Rightarrow> (Ok (), L(i := L i @ [(m, lock)]))
    | Some err \<Rightarrow> (Err err, L))"

definition chain :: "('c, 'x) hes_env_scheme \<Rightarrow> measurement_type \<Rightarrow> u8 list list \<Rightarrow> u8 list" where
  "chain e t vs = foldl (\<lambda>v x. sha_of e t (v @ x)) (replicate (hash_len t) 0) vs"

definition slot_of :: "('c, 'x) hes_env_scheme \<Rightarrow> slot_log \<Rightarrow> measurement_slot" where
  "slot_of e l = (if l = [] then slot_default
    else let first = sm_metadata (fst (hd l)); recent = sm_metadata (fst (last l)) in
      \<lparr> sl_measurement = \<lparr> sm_metadata = \<lparr> mm_signer_id = mm_signer_id first, mm_sw_version = mm_sw_version recent,
            mm_algorithm = mm_algorithm first, mm_sw_type = mm_sw_type recent \<rparr>,
          sm_value = chain e (mm_algorithm first) (map (\<lambda>x. sm_value (fst x)) l) \<rparr>,
        sl_is_locked = snd (last l), sl_is_populated = True \<rparr>)"

definition mgr_of :: "('c, 'x) hes_env_scheme \<Rightarrow> (nat \<Rightarrow> slot_log) \<Rightarrow> measurement_slot list" where
  "mgr_of e L = map (\<lambda>i. slot_of e (L i)) [0..<NUM_OF_MEASUREMENT_SLOTS]"

text \<open>The digests have the length of their algorithm.\<close>

definition sha_lengths :: "('c, 'x) hes_env_scheme \<Rightarrow> bool" where
  "sha_lengths e \<longleftrightarrow> (\<forall>t x. length (sha_of e t x) = hash_len t)"

lemma length_sha_of [simp]: "sha_lengths e \<Longrightarrow> length (sha_of e t x) = hash_len t"
  by (simp add: sha_lengths_def)

lemma chain_snoc: "chain e t (vs @ [v]) = sha_of e t (chain e t vs @ v)"
  by (simp add: chain_def)

lemma length_chain [simp]: "sha_lengths e \<Longrightarrow> length (chain e t vs) = hash_len t"
  by (cases vs rule: rev_cases) (simp_all add: chain_snoc, simp add: chain_def)

lemma extend_value_run:
  assumes "sha_lengths e" and "length (sl_value sl) = hash_len (mm_algorithm (sl_meta sl))"
  shows "extend_value e v lock sl = (Ok (), sl\<lparr> sl_measurement := (sl_measurement sl)\<lparr>
      sm_value := sha_of e (mm_algorithm (sl_meta sl)) (sl_value sl @ v) \<rparr>,
    sl_is_locked := lock, sl_is_populated := True \<rparr>)"
  using assms by (simp add: extend_value_def set_value_def run Let_def)

lemma slot_initialize_run:
  assumes "sha_lengths e"
  shows "slot_initialize e m lock slot_default = (Ok (), slot_of e [(m, lock)])"
  by (simp add: slot_initialize_def extend_value_run[OF assms] set_meta_def set_value_def run Let_def slot_of_def
      slot_default_def measurement_default_def chain_def)

lemma slot_extend_run:
  assumes "sha_lengths e" and "l \<noteq> []" and "log_refusal l m = None"
  shows "slot_extend e m lock (slot_of e l) = (Ok (), slot_of e (l @ [(m, lock)]))"
  using assms
  by (simp add: slot_extend_def extend_value_run extend_metadata_def set_meta_def run Let_def slot_of_def chain_snoc)

lemma slot_of_locked: "sl_is_locked (slot_of e l) \<longleftrightarrow> l \<noteq> [] \<and> snd (last l)"
  and slot_of_populated: "sl_is_populated (slot_of e l) \<longleftrightarrow> l \<noteq> []"
  by (simp_all add: slot_of_def slot_default_def Let_def)

lemma slot_of_empty: "slot_of e [] = slot_default"
  and slot_of_mark: "l \<noteq> [] \<Longrightarrow> slot_of e l\<lparr> sl_is_populated := True \<rparr> = slot_of e l"
  by (simp_all add: slot_of_def Let_def)

lemma slot_of_prohibited: "l \<noteq> [] \<Longrightarrow> is_prohibited (slot_of e l) (sm_metadata m) \<longleftrightarrow>
    mm_signer_id (sm_metadata m) \<noteq> mm_signer_id (sm_metadata (fst (hd l)))
    \<or> mm_algorithm (sm_metadata m) \<noteq> mm_algorithm (sm_metadata (fst (hd l)))"
  by (simp add: slot_of_def is_prohibited_def Let_def)

lemma mgr_of_length [simp]: "length (mgr_of e L) = NUM_OF_MEASUREMENT_SLOTS"
  by (simp add: mgr_of_def)

lemma mgr_of_nth: "i < NUM_OF_MEASUREMENT_SLOTS \<Longrightarrow> mgr_of e L ! i = slot_of e (L i)"
  by (simp add: mgr_of_def del: upt_rec_numeral)

lemma mgr_of_update: "i < NUM_OF_MEASUREMENT_SLOTS \<Longrightarrow> (mgr_of e L)[i := slot_of e l] = mgr_of e (L(i := l))"
  by (rule nth_equalityI) (auto simp: mgr_of_nth nth_list_update)

lemma mgr_of_keep: "i < NUM_OF_MEASUREMENT_SLOTS \<Longrightarrow> (mgr_of e L)[i := slot_of e (L i)] = mgr_of e L"
  using mgr_of_update[of i e L "L i"] by simp

lemma with_slot_run:
  "i < NUM_OF_MEASUREMENT_SLOTS \<Longrightarrow> m (slot_of e (L i)) = (r, slot_of e l) \<Longrightarrow>
    with_slot i m (mgr_of e L) = (r, mgr_of e (L(i := l)))"
  by (simp add: with_slot_def mgr_of_nth mgr_of_update)

lemma mgr_extend_log:
  assumes "sha_lengths e"
  shows "mgr_extend e i m lock (mgr_of e L) = map_prod id (mgr_of e) (log_extend i m lock L)"
proof (cases "32 \<le> i")
  case True
  then show ?thesis by (simp add: mgr_extend_def log_extend_def run)
next
  case False
  then have i: "i < 32" by simp
  show ?thesis
  proof (cases "L i = []")
    case True
    then show ?thesis using i slot_initialize_run[OF assms, of m lock]
      by (simp add: mgr_extend_def log_extend_def log_refusal_def run with_slot_def mgr_of_nth slot_of_empty
          mark_as_populated_def slot_of_mark mgr_of_update) (simp add: slot_default_def)
  next
    case l: False
    note defs = mgr_extend_def log_extend_def run with_slot_def mgr_of_nth slot_of_locked slot_of_populated
      slot_of_prohibited mgr_of_keep mgr_of_update
    show ?thesis
    proof (cases "log_refusal (L i) m")
      case None
      then show ?thesis using i l slot_extend_run[OF assms l None, of lock]
        by (auto simp: defs log_refusal_def split: if_splits)
    next
      case (Some err)
      then show ?thesis using i l by (auto simp: defs log_refusal_def split: if_splits)
    qed
  qed
qed

lemma mgr_read_log:
  "mgr_read i (mgr_of e L) =
    (if NUM_OF_MEASUREMENT_SLOTS \<le> i then Err InvalidArgument
     else if L i = [] then Err DoesNotExist
     else Ok (sl_measurement (slot_of e (L i)), snd (last (L i))), mgr_of e L)"
  by (simp add: mgr_read_def run mgr_of_nth slot_of_populated slot_of_locked)

definition converted :: "boot_measurement \<Rightarrow> sw_measurement option" where
  "converted b = (case fst (measurement_try_from b ()) of Ok m \<Rightarrow> Some m | _ \<Rightarrow> None)"

lemma measurement_try_from_run:
  "(\<exists>m. converted b = Some m \<and> measurement_try_from b s = (Ok m, s))
   \<or> converted b = None \<and> (\<exists>err. measurement_try_from b s = (Err err, s))"
  by (auto simp: converted_def measurement_try_from_def measurement_type_try_from_def run Let_def split: option.splits)

definition boot_logs :: "nat \<Rightarrow> sw_measurement list \<Rightarrow> (nat \<Rightarrow> slot_log) \<Rightarrow> nat \<Rightarrow> slot_log" where
  "boot_logs k ms L = (\<lambda>i. if k \<le> i \<and> i < k + length ms then [(ms ! (i - k), False)] else L i)"

lemma boot_logs_Nil: "boot_logs k [] L = L"
  by (rule ext) (auto simp: boot_logs_def)

lemma boot_logs_Cons: "boot_logs (Suc k) ms (L(k := [(m, False)])) = boot_logs k (m # ms) L"
proof
  fix i
  show "boot_logs (Suc k) ms (L(k := [(m, False)])) i = boot_logs k (m # ms) L i"
    by (cases "i = k"; cases "Suc k \<le> i") (auto simp: boot_logs_def nth_Cons' Suc_diff_Suc)
qed

lemma mgr_init_loop:
  assumes "sha_lengths e" and "k + length bs \<le> NUM_OF_MEASUREMENT_SLOTS" and "\<forall>j \<ge> k. L j = []"
  defines "f \<equiv> \<lambda>(i, b). bind (measurement_try_from b) (\<lambda>m. with_slot i (slot_initialize e m False))"
  shows "case those (map converted bs) of
      None \<Rightarrow> \<exists>err t. for_each (enumerate k bs) f (mgr_of e L) = (Err err, t)
    | Some ms \<Rightarrow> for_each (enumerate k bs) f (mgr_of e L) = (Ok (), mgr_of e (boot_logs k ms L))"
  using assms(2,3)
proof (induction bs arbitrary: k L)
  case Nil
  then show ?case by (simp add: run boot_logs_Nil)
next
  case (Cons b bs)
  show ?case
  proof (cases "converted b")
    case None
    then show ?thesis using measurement_try_from_run[of b "mgr_of e L"] by (auto simp: f_def run)
  next
    case (Some m)
    have "f (k, b) (mgr_of e L) = (Ok (), mgr_of e (L(k := [(m, False)])))"
      using Some measurement_try_from_run[of b "mgr_of e L"] Cons.prems slot_initialize_run[OF assms(1)]
      by (auto simp: f_def run slot_of_empty intro!: with_slot_run)
    then show ?thesis using Some Cons.IH[of "Suc k" "L(k := [(m, False)])"] Cons.prems
      by (auto simp: run boot_logs_Cons split: option.split)
  qed
qed

lemma mgr_init_log:
  assumes "sha_lengths e"
  shows "mgr_init e bs s = (if NUM_OF_MEASUREMENT_SLOTS < length bs then Panic
    else case those (map converted bs) of None \<Rightarrow> Panic | Some ms \<Rightarrow> Ok (mgr_of e (boot_logs 0 ms (\<lambda>_. []))), s)"
proof (cases "32 < length bs")
  case False
  have "mgr_of e (\<lambda>_. []) = replicate 32 slot_default"
    by (simp only: mgr_of_def slot_of_empty map_replicate_const length_upt diff_zero)
  then show ?thesis using mgr_init_loop[OF assms, of 0 bs "\<lambda>_. []"] False
    by (auto simp: mgr_init_def split: option.splits)
qed (simp add: mgr_init_def)

text \<open>What a client may rely on: a store of logs behind the requests of the manager.\<close>

locale boot_store =
  fixes good :: "'env \<Rightarrow> bool"
    and store :: "'env \<Rightarrow> (nat \<Rightarrow> slot_log) \<Rightarrow> 'st"
    and extend :: "'env \<Rightarrow> nat \<Rightarrow> sw_measurement \<Rightarrow> bool \<Rightarrow> ('st, boot_error, unit) prog"
    and entry :: "'env \<Rightarrow> 'st \<Rightarrow> nat \<Rightarrow> 'sl"
    and shape :: "'env \<Rightarrow> slot_log \<Rightarrow> 'sl"
  assumes extend_log: "good e \<Longrightarrow> extend e i m lock (store e L) = map_prod id (store e) (log_extend i m lock L)"
    and entry_log: "i < NUM_OF_MEASUREMENT_SLOTS \<Longrightarrow> entry e (store e L) i = shape e (L i)"
begin

definition requests :: "'env \<Rightarrow> (nat \<times> sw_measurement \<times> bool) list \<Rightarrow> ('st, boot_error, unit) prog" where
  "requests e rs = for_each rs (\<lambda>(i, m, lock). bind (attempt (extend e i m lock)) (\<lambda>_. return ()))"

definition accepted :: "(nat \<times> sw_measurement \<times> bool) list \<Rightarrow> (nat \<Rightarrow> slot_log) \<Rightarrow> nat \<Rightarrow> slot_log" where
  "accepted rs L = foldl (\<lambda>L (i, m, lock). snd (log_extend i m lock L)) L rs"

lemma requests_log: "good e \<Longrightarrow> requests e rs (store e L) = (Ok (), store e (accepted rs L))"
proof (induction rs arbitrary: L)
  case Nil
  then show ?case by (simp add: requests_def accepted_def run)
next
  case (Cons r rs)
  obtain i m lock where r: "r = (i, m, lock)" by (cases r)
  have "requests e (r # rs) (store e L) = requests e rs (store e (snd (log_extend i m lock L)))"
    using Cons.prems
    by (simp add: r requests_def run extend_log log_extend_def split: option.split)
  then show ?case using Cons by (simp add: r accepted_def)
qed

lemma log_grows: "\<exists>l'. snd (log_extend i m lock L) j = L j @ l'"
  by (simp add: log_extend_def split: option.split)

lemma locked_log: "L j \<noteq> [] \<Longrightarrow> snd (last (L j)) \<Longrightarrow> snd (log_extend i m lock L) j = L j"
  by (auto simp: log_extend_def log_refusal_def)

lemma accepted_locked: "L j \<noteq> [] \<Longrightarrow> snd (last (L j)) \<Longrightarrow> accepted rs L j = L j"
proof (induction rs arbitrary: L)
  case Nil
  then show ?case by (simp add: accepted_def)
next
  case (Cons r rs)
  then show ?case using Cons.IH[of "snd (log_extend (fst r) (fst (snd r)) (snd (snd r)) L)"]
    by (simp add: accepted_def locked_log split_def)
qed

lemma accepted_grows: "\<exists>l'. accepted rs L j = L j @ l'"
proof (induction rs arbitrary: L)
  case Nil
  then show ?case by (simp add: accepted_def)
next
  case (Cons r rs)
  obtain l' where "accepted rs (snd (log_extend (fst r) (fst (snd r)) (snd (snd r)) L)) j
      = snd (log_extend (fst r) (fst (snd r)) (snd (snd r)) L) j @ l'" using Cons by blast
  then show ?case using log_grows[of "fst r" "fst (snd r)" "snd (snd r)" L j]
    by (auto simp: accepted_def split_def)
qed

lemma lock_is_final:
  assumes "good e" and "j < NUM_OF_MEASUREMENT_SLOTS" and "L j \<noteq> []" and "snd (last (L j))"
  shows "\<exists>t. requests e rs (store e L) = (Ok (), t) \<and> entry e t j = entry e (store e L) j"
  using assms by (simp add: requests_log entry_log accepted_locked)

end

interpretation boot: boot_store sha_lengths mgr_of mgr_extend "\<lambda>e. nth" slot_of
  by unfold_locales (simp_all add: mgr_extend_log mgr_of_nth)

section \<open>Properties\<close>

definition hes_env0 :: "'c hes_env" where
  "hes_env0 = \<lparr> he_sha256 = (\<lambda>x. take 32 (rev x @ replicate 32 1)), he_sha384 = (\<lambda>x. take 48 (rev x @ replicate 48 1)),
     he_sha512 = (\<lambda>x. take 64 (rev x @ replicate 64 1)), he_aes_block = (\<lambda>k b. b),
     he_hkdf = (\<lambda>seed info n. Some (replicate n 0)), he_order = (\<lambda>c. case c of NistP256 \<Rightarrow> 2 ^ 256 - 1 | NistP384 \<Rightarrow> 2 ^ 384 - 1),
     he_order_bits = (\<lambda>c. case c of NistP256 \<Rightarrow> 256 | NistP384 \<Rightarrow> 384), he_from_slice = (\<lambda>c b. Some 1),
     he_sec1 = (\<lambda>c k. [of_nat k]), he_sign = (\<lambda>k d. Some d), he_cbor = (\<lambda>_. Some []), he_tbs = id,
     he_tagged = (\<lambda>p g. Some (p @ g)) \<rparr>"

lemma hes_env0_sha: "sha_lengths (hes_env0 :: 'c hes_env)"
  by (simp add: sha_lengths_def sha_of_def hes_env0_def min_def split: measurement_type.split)

text \<open>
  C32. The measured boot store implements a log.  Extending a slot appends the request to the log of the slot, or refuses it
  for the reason of the log: the slot number, the lock, another signer or algorithm.  Reading
  a slot returns the signer and algorithm of the first accepted request, the version and type of the
  last, the chain of digests over all of them and whether the last one locked it; other
  slots are not touched.  The boot measurements become logs of one entry, and the store panics
  for more of them than slots and for one that does not convert.
\<close>

theorem measured_boot_refines_log:
  assumes "sha_lengths e"
  shows "mgr_extend e i m lock (mgr_of e L) = map_prod id (mgr_of e) (log_extend i m lock L)
    \<and> mgr_read i (mgr_of e L) =
        (if NUM_OF_MEASUREMENT_SLOTS \<le> i then Err InvalidArgument
         else if L i = [] then Err DoesNotExist
         else Ok (sl_measurement (slot_of e (L i)), snd (last (L i))), mgr_of e L)
    \<and> mgr_init e bs s = (if NUM_OF_MEASUREMENT_SLOTS < length bs then Panic
        else case those (map converted bs) of None \<Rightarrow> Panic
          | Some ms \<Rightarrow> Ok (mgr_of e (boot_logs 0 ms (\<lambda>_. []))), s)"
  by (intro conjI mgr_extend_log[OF assms] mgr_read_log mgr_init_log[OF assms])

definition sample_sw :: "u8 \<Rightarrow> sw_measurement" where
  "sample_sw b = \<lparr> sm_metadata = \<lparr> mm_signer_id = replicate 32 b, mm_sw_version = ''1.0'', mm_algorithm = Sha256,
     mm_sw_type = ''BL2'' \<rparr>, sm_value = replicate 32 7 \<rparr>"

theorem measured_boot_refines_log_witness:
  fixes e :: "unit hes_env"
  defines "e \<equiv> hes_env0"
  shows "fst (mgr_extend e 3 (sample_sw 1) True (mgr_of e ((\<lambda>_. [])(3 := [(sample_sw 1, False)])))) = Ok ()
   \<and> fst (mgr_extend e 3 (sample_sw 2) True (mgr_of e ((\<lambda>_. [])(3 := [(sample_sw 1, False)])))) = Err NotPermitted
   \<and> fst (mgr_extend e 3 (sample_sw 1) True (mgr_of e ((\<lambda>_. [])(3 := [(sample_sw 1, True)])))) = Err BadState"
proof -
  have "sha_lengths e" unfolding e_def by (rule hes_env0_sha)
  note ext = measured_boot_refines_log[OF this, THEN conjunct1]
  show ?thesis by (simp add: ext log_extend_def log_refusal_def sample_sw_def replicate_eq_replicate)
qed

definition chain_inputs :: "('c, 'x) hes_env_scheme \<Rightarrow> measurement_type \<Rightarrow> u8 list list \<Rightarrow> u8 list list" where
  "chain_inputs e t vs = map (\<lambda>k. chain e t (take k vs) @ vs ! k) [0..<length vs]"

lemma chain_inputs_snoc: "chain_inputs e t (vs @ [v]) = chain_inputs e t vs @ [chain e t vs @ v]"
  by (auto simp: chain_inputs_def nth_append)

lemma chain_commits:
  assumes "sha_lengths e" and "chain e t vs = chain e t ws"
  shows "vs = ws
    \<or> (\<exists>x \<in> set (chain_inputs e t vs). \<exists>y \<in> set (chain_inputs e t ws). x \<noteq> y \<and> sha_of e t x = sha_of e t y)
    \<or> (\<exists>x \<in> set (chain_inputs e t vs) \<union> set (chain_inputs e t ws). sha_of e t x = replicate (hash_len t) 0)"
  using assms(2)
proof (induction vs arbitrary: ws rule: rev_induct)
  case Nil
  then show ?case
  proof (cases ws rule: rev_cases)
    case (snoc us u)
    then have "sha_of e t (chain e t us @ u) = chain e t []" using Nil by (simp add: chain_snoc)
    then have "sha_of e t (chain e t us @ u) = replicate (hash_len t) 0" by (simp add: chain_def)
    then show ?thesis using snoc by (simp add: chain_inputs_snoc)
  qed simp
next
  case (snoc v vs)
  show ?case
  proof (cases ws rule: rev_cases)
    case Nil
    then have "sha_of e t (chain e t vs @ v) = chain e t []" using snoc.prems by (simp add: chain_snoc)
    then have "sha_of e t (chain e t vs @ v) = replicate (hash_len t) 0" by (simp add: chain_def)
    then show ?thesis by (simp add: chain_inputs_snoc)
  next
    case ws: (snoc us u)
    then have eq: "sha_of e t (chain e t vs @ v) = sha_of e t (chain e t us @ u)"
      using snoc.prems by (simp add: chain_snoc)
    show ?thesis
    proof (cases "chain e t vs @ v = chain e t us @ u")
      case True
      then have "v = u" "chain e t vs = chain e t us" using assms(1) by simp_all
      with snoc.IH[of us] ws show ?thesis
        by (simp only: chain_inputs_snoc set_append) blast
    next
      case False
      then show ?thesis using eq ws by (simp only: chain_inputs_snoc set_append list.set) blast
    qed
  qed
qed

abbreviation log_values :: "slot_log \<Rightarrow> u8 list list" where
  "log_values l \<equiv> map (\<lambda>x. sm_value (fst x)) l"

text \<open>
  C33. A measurement that can be read commits to its history.  If the same measurement is read from a slot
  of two stores, both have accepted the same values in the same order, or two inputs that
  were hashed on the way collide, or one of them has a digest of zeros.
\<close>

theorem boot_measurement_commits:
  assumes "sha_lengths e"
    and "mgr_read i (mgr_of e L) = (Ok (r, k), s)" and "mgr_read i (mgr_of e L') = (Ok (r, k'), s')"
  defines "t \<equiv> mm_algorithm (sm_metadata r)"
  shows "log_values (L i) = log_values (L' i)
    \<or> (\<exists>x \<in> set (chain_inputs e t (log_values (L i))). \<exists>y \<in> set (chain_inputs e t (log_values (L' i))).
         x \<noteq> y \<and> sha_of e t x = sha_of e t y)
    \<or> (\<exists>x \<in> set (chain_inputs e t (log_values (L i))) \<union> set (chain_inputs e t (log_values (L' i))).
         sha_of e t x = replicate (hash_len t) 0)"
proof -
  have "L i \<noteq> []" "L' i \<noteq> []" "sl_measurement (slot_of e (L i)) = r" "sl_measurement (slot_of e (L' i)) = r"
    using assms(2,3) by (auto simp: mgr_read_log split: if_splits)
  then have "chain e t (log_values (L i)) = chain e t (log_values (L' i))"
    by (auto simp: slot_of_def Let_def t_def)
  then show ?thesis by (rule chain_commits[OF assms(1)])
qed

theorem boot_measurement_commits_witness:
  fixes e :: "unit hes_env" and L L' :: "nat \<Rightarrow> slot_log"
  defines "e \<equiv> hes_env0" and "L \<equiv> (\<lambda>_. [])(3 := [(sample_sw 1, False)])" and "L' \<equiv> (\<lambda>_. [])(3 := [(sample_sw 1, True)])"
  shows "\<exists>r. fst (mgr_read 3 (mgr_of e L)) = Ok (r, False) \<and> fst (mgr_read 3 (mgr_of e L')) = Ok (r, True)
    \<and> (log_values (L 3) = log_values (L' 3) \<or> (\<exists>x y. x \<noteq> y \<and> sha_of e Sha256 x = sha_of e Sha256 y)
        \<or> (\<exists>x. sha_of e Sha256 x = replicate 32 0))"
proof -
  define r where "r = sl_measurement (slot_of e [(sample_sw 1, False)])"
  have t: "mm_algorithm (sm_metadata r) = Sha256" by (simp add: r_def slot_of_def sample_sw_def Let_def)
  have "mgr_read 3 (mgr_of e L) = (Ok (r, False), mgr_of e L)"
    by (simp add: mgr_read_log L_def r_def)
  moreover have "mgr_read 3 (mgr_of e L') = (Ok (r, True), mgr_of e L')"
    by (simp add: mgr_read_log L'_def r_def slot_of_def Let_def)
  moreover have "sha_lengths e" unfolding e_def by (rule hes_env0_sha)
  ultimately show ?thesis
    using boot_measurement_commits[of e 3 L r False "mgr_of e L" L' True "mgr_of e L'", unfolded t hash_len.simps]
    by auto
qed

end
