(* ===== verification/Hes_Attestation.thy ===== *)
theory Hes_Attestation
  imports Hes_Boot Measurement
begin

text \<open>
  Keys and the platform token of the hardware enforced security component: the crate
  \<open>hes/key-derivation\<close>, the attestation manager of \<open>hes/islet-hes/src/attestation/mod.rs\<close>, the encoding
  of \<open>utils.rs\<close> and the component itself, \<open>IsletHES\<close> of \<open>hes/islet-hes/src/lib.rs\<close>.

  A private key is its scalar.  The order of a curve and its length in bits, the parsing of a
  private key, public points and signatures are fields of the environment, as are HKDF,
  AES and the CBOR writer.  The component runs on a little-endian host.
\<close>

section \<open>Key derivation\<close>

type_synonym hes_env_cbor = "cbor hes_env"

definition ne_bytes :: "u32 \<Rightarrow> u8 list" where
  "ne_bytes w = le_bytes 4 (ucast w)"

definition from_be_bytes :: "u8 list \<Rightarrow> nat" where
  "from_be_bytes bs = foldl (\<lambda>a b. a * 256 + unat b) 0 bs"

definition be_bytes :: "nat \<Rightarrow> nat \<Rightarrow> u8 list" where
  "be_bytes n k = map (\<lambda>i. of_nat (k div 256 ^ (n - 1 - i))) [0..<n]"

definition generate_seed :: "('c, 'x) hes_env_scheme \<Rightarrow> u8 list \<Rightarrow> u8 list \<Rightarrow> u8 list \<Rightarrow> ('s, 'e, u8 list) prog" where
  "generate_seed e context input_key label =
    (let block_index = 1; seed_output_length = 32;
         state = ne_bytes block_index @ label @ [0] @ context @ ne_bytes seed_output_length;
         seed_buffer = he_sha256 e state in
     if length input_key \<noteq> 32 then panic
     else return (he_aes_block e input_key (take 16 seed_buffer) @ he_aes_block e input_key (drop 16 seed_buffer)))"

text \<open>
  The loop that looks for a candidate below the order expands the same input in every
  round; \<open>None\<close> is a loop that does not end, \<open>Some None\<close> an expansion that fails, which
  panics.
\<close>

partial_function (option) key_candidate ::
  "('c, 'x) hes_env_scheme \<Rightarrow> u8 list \<Rightarrow> u8 list \<Rightarrow> nat \<Rightarrow> nat \<Rightarrow> nat option option" where
  "key_candidate e seed info bytes n_2 =
    (case he_hkdf e seed info bytes of
       None \<Rightarrow> Some None
     | Some okm \<Rightarrow> let k = from_be_bytes okm in
         if k \<le> n_2 then Some (Some k) else key_candidate e seed info bytes n_2)"

definition uint_bytes :: "curve \<Rightarrow> nat" where
  "uint_bytes c = (case c of NistP256 \<Rightarrow> 32 | NistP384 \<Rightarrow> 48)"

definition derive_key ::
  "('c, 'x) hes_env_scheme \<Rightarrow> curve \<Rightarrow> u8 list \<Rightarrow> u8 list option \<Rightarrow> ('s, 'e, nat) prog" where
  "derive_key e c seed info =
    (let n = he_order e c; bytes = (he_order_bits e c + 7) div 8; n_2 = n - 2 in
     case key_candidate e seed (case info of Some i \<Rightarrow> i | None \<Rightarrow> []) bytes n_2 of
       None \<Rightarrow> hang
     | Some None \<Rightarrow> panic
     | Some (Some k) \<Rightarrow>
         if bytes \<noteq> uint_bytes c then panic
         else if k + 1 < n then return (k + 1) else panic)"

definition derive_p256_key :: "('c, 'x) hes_env_scheme \<Rightarrow> u8 list \<Rightarrow> u8 list option \<Rightarrow> ('s, 'e, nat) prog" where
  "derive_p256_key e = derive_key e NistP256"

definition derive_p384_key :: "('c, 'x) hes_env_scheme \<Rightarrow> u8 list \<Rightarrow> u8 list option \<Rightarrow> ('s, 'e, nat) prog" where
  "derive_p384_key e = derive_key e NistP384"

section \<open>Encoding of measurements\<close>

abbreviation (input) CCA_PLAT_CHALLENGE :: u64 where "CCA_PLAT_CHALLENGE \<equiv> 10"
abbreviation (input) CCA_PLAT_INSTANCE_ID :: u64 where "CCA_PLAT_INSTANCE_ID \<equiv> 256"
abbreviation (input) CCA_PLAT_PROFILE :: u64 where "CCA_PLAT_PROFILE \<equiv> 265"
abbreviation (input) CCA_PLAT_SECURITY_LIFECYCLE :: u64 where "CCA_PLAT_SECURITY_LIFECYCLE \<equiv> 2395"
abbreviation (input) CCA_PLAT_IMPLEMENTATION_ID :: u64 where "CCA_PLAT_IMPLEMENTATION_ID \<equiv> 2396"
abbreviation (input) CCA_PLAT_SW_COMPONENTS :: u64 where "CCA_PLAT_SW_COMPONENTS \<equiv> 2399"
abbreviation (input) CCA_PLAT_VERIFICATION_SERVICE :: u64 where "CCA_PLAT_VERIFICATION_SERVICE \<equiv> 2400"
abbreviation (input) CCA_PLAT_CONFIGURATION :: u64 where "CCA_PLAT_CONFIGURATION \<equiv> 2401"
abbreviation (input) CCA_PLAT_HASH_ALGO_DESC :: u64 where "CCA_PLAT_HASH_ALGO_DESC \<equiv> 2402"
abbreviation (input) CCA_SW_COMP_TITLE :: u64 where "CCA_SW_COMP_TITLE \<equiv> 1"
abbreviation (input) CCA_SW_COMP_MEASUREMENT_VALUE :: u64 where "CCA_SW_COMP_MEASUREMENT_VALUE \<equiv> 2"
abbreviation (input) CCA_SW_COMP_VERSION :: u64 where "CCA_SW_COMP_VERSION \<equiv> 4"
abbreviation (input) CCA_SW_COMP_SIGNER_ID :: u64 where "CCA_SW_COMP_SIGNER_ID \<equiv> 5"
abbreviation (input) CCA_SW_COMP_HASH_ALGORITHM :: u64 where "CCA_SW_COMP_HASH_ALGORITHM \<equiv> 6"

definition measurement_type_name :: "measurement_type \<Rightarrow> string" where
  "measurement_type_name t = (case t of Sha256 \<Rightarrow> ''sha-256'' | Sha384 \<Rightarrow> ''sha-384'' | Sha512 \<Rightarrow> ''sha-512'')"

definition encode_measurement :: "sw_measurement \<Rightarrow> cbor" where
  "encode_measurement m = CMap
    [(CInt CCA_SW_COMP_TITLE, CText (mm_sw_type (sm_metadata m))),
     (CInt CCA_SW_COMP_HASH_ALGORITHM, CText (measurement_type_name (mm_algorithm (sm_metadata m)))),
     (CInt CCA_SW_COMP_MEASUREMENT_VALUE, CBytes (sm_value m)),
     (CInt CCA_SW_COMP_VERSION, CText (mm_sw_version (sm_metadata m))),
     (CInt CCA_SW_COMP_SIGNER_ID, CBytes (mm_signer_id (sm_metadata m)))]"

definition encode_measurements :: "sw_measurement list \<Rightarrow> cbor" where
  "encode_measurements ms = CArray (map encode_measurement ms)"

section \<open>Attestation manager\<close>

datatype ecc_family = SecpR1
datatype key_bits = Bits256 | Bits384 | Bits521
datatype hash_algo = DakSha256 | DakSha384 | DakSha512
datatype attestation_error = AttInvalidArgument | AttGenericError | AttNotSupported

definition hash_algo_len :: "hash_algo \<Rightarrow> nat" where
  "hash_algo_len h = (case h of DakSha256 \<Rightarrow> 32 | DakSha384 \<Rightarrow> 48 | DakSha512 \<Rightarrow> 64)"

definition hash_algo_name :: "hash_algo \<Rightarrow> string" where
  "hash_algo_name h = (case h of DakSha256 \<Rightarrow> ''sha-256'' | DakSha384 \<Rightarrow> ''sha-384'' | DakSha512 \<Rightarrow> ''sha-512'')"

record hw_claims =
  hc_implementation_id :: "u8 list"
  hc_security_lifecycle :: u32
  hc_profile_definition :: "string option"
  hc_verification_service_url :: "string option"
  hc_platform_config :: "u8 list"

record dak_info =
  di_hash_algo :: hash_algo
  di_key_bits :: key_bits
  di_key :: "u8 list"

record attestation_mgr =
  am_cpak :: nat
  am_instance_id :: "u8 list"
  am_hash :: "u8 list"
  am_guk :: "u8 list"
  am_claims :: hw_claims
  am_dak :: "dak_info option"

record cose_sign1 =
  cs_payload :: "u8 list"
  cs_signature :: "u8 list"

type_synonym 'a att_prog = "(attestation_mgr, attestation_error, 'a) prog"

definition calculate_public_key_hash :: "('c, 'x) hes_env_scheme \<Rightarrow> u8 list \<Rightarrow> hash_algo \<Rightarrow> u8 list" where
  "calculate_public_key_hash e key h =
    (case h of DakSha256 \<Rightarrow> he_sha256 e key | DakSha384 \<Rightarrow> he_sha384 e key | DakSha512 \<Rightarrow> he_sha512 e key)"

definition calculate_cpak_hash :: "('c, 'x) hes_env_scheme \<Rightarrow> u8 list att_prog" where
  "calculate_cpak_hash e = gets (\<lambda>am. calculate_public_key_hash e (he_sec1 e NistP384 (am_cpak am)) DakSha256)"

definition calculate_dak_hash :: "('c, 'x) hes_env_scheme \<Rightarrow> hash_algo \<Rightarrow> u8 list att_prog" where
  "calculate_dak_hash e h =
    bind (gets am_dak) (\<lambda>d. bind (unwrap d) (\<lambda>dak.
    bind (case di_key_bits dak of
        Bits256 \<Rightarrow> bind (unwrap (he_from_slice e NistP256 (di_key dak))) (\<lambda>k. return (he_sec1 e NistP256 k))
      | Bits384 \<Rightarrow> bind (unwrap (he_from_slice e NistP384 (di_key dak))) (\<lambda>k. return (he_sec1 e NistP384 k))
      | Bits521 \<Rightarrow> panic) (\<lambda>sec1.
      return (calculate_public_key_hash e sec1 h))))"

text \<open>The instance identifier has room for 33 bytes; pushing more panics.\<close>

definition generate_instance_id :: "('c, 'x) hes_env_scheme \<Rightarrow> nat \<Rightarrow> ('s, 'e, u8 list) prog" where
  "generate_instance_id e cpak =
    (let instance_id = 1 # calculate_public_key_hash e (he_sec1 e NistP384 cpak) DakSha256 in
     if length instance_id \<le> 33 then return instance_id else panic)"

definition att_init ::
  "('c, 'x) hes_env_scheme \<Rightarrow> u8 list \<Rightarrow> u8 list \<Rightarrow> hw_claims \<Rightarrow> ('s, 'e, attestation_mgr) prog" where
  "att_init e hash guk claims =
    (let lcs = 3; reprovisioning_bits = 0;
         context = hash @ ne_bytes lcs @ ne_bytes reprovisioning_bits in
     bind (generate_seed e context guk (as_bytes ''BL1_CPAK_SEED_DERIVATION'')) (\<lambda>seed.
     bind (derive_p384_key e seed None) (\<lambda>cpak.
     bind (generate_instance_id e cpak) (\<lambda>instance_id.
       return \<lparr> am_cpak = cpak, am_instance_id = instance_id, am_hash = hash, am_guk = guk,
         am_claims = claims, am_dak = None \<rparr>))))"

definition att_reset :: "unit att_prog" where
  "att_reset = modify (\<lambda>am. am\<lparr> am_dak := None \<rparr>)"

definition att_get_delegated_key ::
  "(cbor, 'x) hes_env_scheme \<Rightarrow> ecc_family \<Rightarrow> key_bits \<Rightarrow> hash_algo \<Rightarrow> sw_measurement list \<Rightarrow> u8 list att_prog" where
  "att_get_delegated_key e ecc_family key_bits hash_algo measurements =
    bind (gets id) (\<lambda>am.
    let context = am_hash am @ ne_bytes (hc_security_lifecycle (am_claims am)) @ ne_bytes 0 in
    bind (generate_seed e context (am_guk am) (as_bytes ''BL1_DAK_SEED_DERIVATION'')) (\<lambda>seed.
    bind (ok_or AttGenericError (he_cbor e (encode_measurements measurements))) (\<lambda>salt_bytes.
    bind (case key_bits of
        Bits256 \<Rightarrow> bind (derive_p256_key e seed (Some salt_bytes)) (\<lambda>k. return (be_bytes 32 k))
      | Bits384 \<Rightarrow> bind (derive_p384_key e seed (Some salt_bytes)) (\<lambda>k. return (be_bytes 48 k))
      | Bits521 \<Rightarrow> throw AttNotSupported) (\<lambda>dak.
    bind (modify (\<lambda>am. am\<lparr> am_dak := Some \<lparr> di_hash_algo = hash_algo, di_key_bits = key_bits, di_key = dak \<rparr> \<rparr>)) (\<lambda>_.
      return dak)))))"

definition encode_claims :: "u8 list \<Rightarrow> sw_measurement list \<Rightarrow> cbor att_prog" where
  "encode_claims dak_hash measurements =
    bind (gets id) (\<lambda>am.
    bind (unwrap (am_dak am)) (\<lambda>dak.
    let claims = am_claims am in
      return (CMap (
        [(CInt CCA_PLAT_CHALLENGE, CBytes dak_hash),
         (CInt CCA_PLAT_INSTANCE_ID, CBytes (am_instance_id am))]
        @ (case hc_profile_definition claims of None \<Rightarrow> [] | Some p \<Rightarrow> [(CInt CCA_PLAT_PROFILE, CText p)])
        @ [(CInt CCA_PLAT_SECURITY_LIFECYCLE, CInt (ucast (hc_security_lifecycle claims))),
           (CInt CCA_PLAT_IMPLEMENTATION_ID, CBytes (hc_implementation_id claims)),
           (CInt CCA_PLAT_SW_COMPONENTS, encode_measurements measurements)]
        @ (case hc_verification_service_url claims of None \<Rightarrow> []
           | Some u \<Rightarrow> [(CInt CCA_PLAT_VERIFICATION_SERVICE, CText u)])
        @ [(CInt CCA_PLAT_CONFIGURATION, CBytes (hc_platform_config claims)),
           (CInt CCA_PLAT_HASH_ALGO_DESC, CText (hash_algo_name (di_hash_algo dak)))]))))"

definition att_sign :: "('c, 'x) hes_env_scheme \<Rightarrow> u8 list \<Rightarrow> u8 list att_prog" where
  "att_sign e data = bind (gets am_cpak) (\<lambda>cpak. ok_or AttGenericError (he_sign e cpak data))"

definition verify_dak_hash :: "('c, 'x) hes_env_scheme \<Rightarrow> u8 list \<Rightarrow> bool att_prog" where
  "verify_dak_hash e dak_pub_hash =
    bind (gets am_dak) (\<lambda>d. bind (unwrap d) (\<lambda>dak.
    bind (calculate_dak_hash e (di_hash_algo dak)) (\<lambda>calculated_hash.
      return (dak_pub_hash = calculated_hash))))"

text \<open>The signature covers the protected header and the payload, which \<open>he_tbs\<close> puts together.\<close>

definition att_get_platform_token ::
  "(cbor, 'x) hes_env_scheme \<Rightarrow> u8 list \<Rightarrow> sw_measurement list \<Rightarrow> cose_sign1 att_prog" where
  "att_get_platform_token e dak_pub_hash measurements =
    bind (gets am_dak) (\<lambda>d. if d = None then throw AttInvalidArgument
    else bind (verify_dak_hash e dak_pub_hash) (\<lambda>valid. if \<not> valid then throw AttInvalidArgument
    else bind (encode_claims dak_pub_hash measurements) (\<lambda>encoded_claims.
      bind (unwrap (he_cbor e encoded_claims)) (\<lambda>token.
      bind (attempt (att_sign e (he_tbs e token))) (\<lambda>signed.
        case signed of
          Inr sign \<Rightarrow> return \<lparr> cs_payload = token, cs_signature = sign \<rparr>
        | Inl err \<Rightarrow> throw err)))))"

section \<open>The component\<close>

datatype islet_hes_error = HesGenericError | HesInvalidArgument | HesNotPermitted | HesDoesNotExist
  | HesBadState | HesNotSupported

fun hes_of_boot :: "boot_error \<Rightarrow> islet_hes_error" where
  "hes_of_boot BadState = HesBadState"
| "hes_of_boot DoesNotExist = HesDoesNotExist"
| "hes_of_boot InvalidArgument = HesInvalidArgument"
| "hes_of_boot (InvalidData _) = HesInvalidArgument"
| "hes_of_boot NotPermitted = HesNotPermitted"

fun hes_of_att :: "attestation_error \<Rightarrow> islet_hes_error" where
  "hes_of_att AttInvalidArgument = HesInvalidArgument"
| "hes_of_att AttGenericError = HesGenericError"
| "hes_of_att AttNotSupported = HesNotSupported"

record islet_hes =
  ih_boot :: "measurement_slot list"
  ih_att :: attestation_mgr
  ih_lcs :: u32
  ih_huk :: "u8 list"

type_synonym 'a hes_prog = "(islet_hes, islet_hes_error, 'a) prog"

text \<open>What the trait \<open>HWData\<close> returns; \<open>None\<close> is its error.\<close>

record hw_data =
  hw_huk :: "u8 list option"
  hw_guk :: "u8 list option"
  hw_bl_hash :: "u8 list option"
  hw_boot_measurements :: "boot_measurement list option"
  hw_implementation_id :: "u8 list option"
  hw_security_lifecycle :: "u32 option"
  hw_profile_definition :: "u8 list option option"
  hw_verification_service_url :: "u8 list option option"
  hw_platform_config :: "u8 list option"

definition with_boot :: "'a mgr_prog \<Rightarrow> 'a hes_prog" where
  "with_boot m = (\<lambda>h. case map_err hes_of_boot m (ih_boot h) of (r, ms) \<Rightarrow> (r, h\<lparr> ih_boot := ms \<rparr>))"

definition with_att :: "'a att_prog \<Rightarrow> 'a hes_prog" where
  "with_att m = (\<lambda>h. case map_err hes_of_att m (ih_att h) of (r, am) \<Rightarrow> (r, h\<lparr> ih_att := am \<rparr>))"

definition hw_string :: "u8 list option option \<Rightarrow> ('s, islet_hes_error, string option) prog" where
  "hw_string x = bind (ok_or HesInvalidArgument x) (\<lambda>y. case y of
     None \<Rightarrow> return None
   | Some p \<Rightarrow> bind (ok_or HesInvalidArgument (from_utf8 p)) (\<lambda>t. return (Some t)))"

definition hes_init :: "('c, 'x) hes_env_scheme \<Rightarrow> hw_data \<Rightarrow> ('s, islet_hes_error, islet_hes) prog" where
  "hes_init e hw =
    bind (ok_or HesInvalidArgument (hw_boot_measurements hw)) (\<lambda>boot_measurements.
    bind (map_err hes_of_boot (mgr_init e boot_measurements)) (\<lambda>measured_boot_mgr.
    bind (hw_string (hw_profile_definition hw)) (\<lambda>profile_definition.
    bind (hw_string (hw_verification_service_url hw)) (\<lambda>verification_service_url.
    bind (ok_or HesInvalidArgument (hw_security_lifecycle hw)) (\<lambda>security_lifecycle.
    bind (ok_or HesInvalidArgument (hw_bl_hash hw)) (\<lambda>hash.
    bind (ok_or HesInvalidArgument (hw_guk hw)) (\<lambda>guk.
    bind (ok_or HesInvalidArgument (hw_implementation_id hw)) (\<lambda>implementation_id.
    bind (ok_or HesInvalidArgument (hw_platform_config hw)) (\<lambda>platform_config.
    bind (att_init e hash guk \<lparr> hc_implementation_id = implementation_id, hc_security_lifecycle = security_lifecycle,
        hc_profile_definition = profile_definition, hc_verification_service_url = verification_service_url,
        hc_platform_config = platform_config \<rparr>) (\<lambda>attestation_mgr.
    bind (ok_or HesInvalidArgument (hw_huk hw)) (\<lambda>huk.
      return \<lparr> ih_boot = measured_boot_mgr, ih_att = attestation_mgr, ih_lcs = security_lifecycle, ih_huk = huk \<rparr>)))))))))))"

definition hes_reset :: "('c, 'x) hes_env_scheme \<Rightarrow> hw_data \<Rightarrow> unit hes_prog" where
  "hes_reset e hw =
    bind (ok_or HesInvalidArgument (hw_boot_measurements hw)) (\<lambda>boot_measurements.
    bind (map_err hes_of_boot (mgr_init e boot_measurements)) (\<lambda>measured_boot_mgr.
    bind (modify (\<lambda>h. h\<lparr> ih_boot := measured_boot_mgr \<rparr>)) (\<lambda>_.
      with_att att_reset)))"

definition hes_read_measurement :: "nat \<Rightarrow> (sw_measurement \<times> bool) hes_prog" where
  "hes_read_measurement slot_id = with_boot (mgr_read slot_id)"

definition hes_extend_measurement ::
  "('c, 'x) hes_env_scheme \<Rightarrow> nat \<Rightarrow> sw_measurement \<Rightarrow> bool \<Rightarrow> unit hes_prog" where
  "hes_extend_measurement e slot_id m lock = with_boot (mgr_extend e slot_id m lock)"

text \<open>The loop over the slots from one index on.\<close>

primrec fetch_measurements :: "nat list \<Rightarrow> sw_measurement list mgr_prog" where
  "fetch_measurements [] = return []"
| "fetch_measurements (i # is) = bind (attempt (mgr_read i)) (\<lambda>r. case r of
     Inr (m, _) \<Rightarrow> bind (fetch_measurements is) (\<lambda>ms. return (m # ms))
   | Inl err \<Rightarrow> if err = DoesNotExist then fetch_measurements is else throw err)"

definition fetch_current_measurements :: "sw_measurement list hes_prog" where
  "fetch_current_measurements = with_boot (fetch_measurements [0..<NUM_OF_MEASUREMENT_SLOTS])"

definition get_delegated_key ::
  "(cbor, 'x) hes_env_scheme \<Rightarrow> ecc_family \<Rightarrow> key_bits \<Rightarrow> hash_algo \<Rightarrow> u8 list hes_prog" where
  "get_delegated_key e ecc_family key_bits hash_algo =
    bind fetch_current_measurements (\<lambda>measurements.
      with_att (att_get_delegated_key e ecc_family key_bits hash_algo measurements))"

definition get_platform_token :: "(cbor, 'x) hes_env_scheme \<Rightarrow> u8 list \<Rightarrow> cose_sign1 hes_prog" where
  "get_platform_token e dak_pub_hash =
    bind fetch_current_measurements (\<lambda>measurements.
      with_att (att_get_platform_token e dak_pub_hash measurements))"

definition authority_info :: "sw_measurement list \<Rightarrow> u8 list" where
  "authority_info ms = concat (map (\<lambda>m. mm_signer_id (sm_metadata m) @ as_bytes (mm_sw_type (sm_metadata m))) ms)"

definition get_authority_vhuk :: "(cbor, 'x) hes_env_scheme \<Rightarrow> u8 list hes_prog" where
  "get_authority_vhuk e =
    bind fetch_current_measurements (\<lambda>measurements.
    bind (gets id) (\<lambda>h.
      generate_seed e (authority_info measurements @ ne_bytes (ih_lcs h)) (ih_huk h) (as_bytes ''VHUK_A'')))"

definition get_measurement_vhuk :: "(cbor, 'x) hes_env_scheme \<Rightarrow> u8 list hes_prog" where
  "get_measurement_vhuk e =
    bind fetch_current_measurements (\<lambda>measurements.
    bind (ok_or HesGenericError (he_cbor e (encode_measurements measurements))) (\<lambda>context.
    bind (gets id) (\<lambda>h.
      generate_seed e (context @ ne_bytes (ih_lcs h)) (ih_huk h) (as_bytes ''VHUK_M''))))"

section \<open>Properties\<close>

lemma key_candidate_loops:
  assumes "he_hkdf e seed info n = Some okm" and "n_2 < from_be_bytes okm"
  shows "key_candidate e seed info n n_2 = None"
proof (cases "key_candidate e seed info n n_2")
  case (Some y)
  have "he_hkdf e seed info n = Some okm \<longrightarrow> from_be_bytes okm \<le> n_2"
    by (rule key_candidate.raw_induct[OF _ Some])
      (auto simp: Let_def split: option.splits if_splits)
  then show ?thesis using assms by simp
qed

lemma derive_key_run:
  assumes "(he_order_bits e c + 7) div 8 = uint_bytes c" and "2 \<le> he_order e c"
    and "he_hkdf e seed (case info of Some i \<Rightarrow> i | None \<Rightarrow> []) (uint_bytes c) = Some okm"
  shows "derive_key e c seed info s =
    (if from_be_bytes okm \<le> he_order e c - 2 then Ok (from_be_bytes okm + 1) else Hang, s)"
proof (cases "from_be_bytes okm \<le> he_order e c - 2")
  case True
  then have "key_candidate e seed (case info of Some i \<Rightarrow> i | None \<Rightarrow> []) (uint_bytes c) (he_order e c - 2)
      = Some (Some (from_be_bytes okm))"
    using assms(3) by (subst key_candidate.simps) (simp add: Let_def)
  moreover have "from_be_bytes okm + 1 < he_order e c" using True assms(2) by arith
  ultimately show ?thesis using True assms(1) by (simp add: derive_key_def run Let_def)
next
  case False
  then have "key_candidate e seed (case info of Some i \<Rightarrow> i | None \<Rightarrow> []) (uint_bytes c) (he_order e c - 2) = None"
    by (intro key_candidate_loops[OF assms(3)]) linarith
  then show ?thesis using False assms(1) by (simp add: derive_key_def run Let_def)
qed

lemma derive_key_Ok:
  assumes "derive_key e c seed info s = (Ok k, t)"
  shows "1 \<le> k \<and> k < he_order e c \<and> t = s"
  using assms by (auto simp: derive_key_def run Let_def split: option.splits if_splits)

text \<open>
  C34. A derived key is a valid private key, and the derivation may not end.  When the expanded candidate is at
  most the order less two, the key is one above it, hence between one and the order less one;
  for every other candidate the derivation never returns, as the loop that should try another
  one expands the same input again.
\<close>

theorem derived_key_valid_or_loops:
  assumes "(he_order_bits e c + 7) div 8 = uint_bytes c" and "2 \<le> he_order e c"
    and "he_hkdf e seed (case info of Some i \<Rightarrow> i | None \<Rightarrow> []) (uint_bytes c) = Some okm"
  shows "derive_key e c seed info s =
      (if from_be_bytes okm \<le> he_order e c - 2 then Ok (from_be_bytes okm + 1) else Hang, s)
    \<and> (\<forall>k t. derive_key e c seed info s = (Ok k, t) \<longrightarrow> 1 \<le> k \<and> k < he_order e c)"
  by (intro conjI allI impI derive_key_run[OF assms]) (simp_all only: derive_key_Ok)

lemma from_be_bytes_replicate:
  "from_be_bytes (replicate n 0) = 0" "from_be_bytes (replicate n 0xff) = 256 ^ n - 1"
proof -
  have snoc: "from_be_bytes (bs @ [b]) = from_be_bytes bs * 256 + unat b" for bs b
    by (simp add: from_be_bytes_def)
  have rep: "replicate (Suc k) (b :: u8) = replicate k b @ [b]" for k b
    by (simp add: replicate_append_same)
  have empty: "from_be_bytes [] = 0" by (simp add: from_be_bytes_def)
  show "from_be_bytes (replicate n 0) = 0"
    by (induction n) (simp add: empty, simp only: rep snoc, simp)
  have "from_be_bytes (replicate n 0xff) + 1 = 256 ^ n"
    by (induction n) (simp add: empty, simp only: rep snoc, simp)
  then show "from_be_bytes (replicate n 0xff) = 256 ^ n - 1" by simp
qed

theorem derived_key_valid_or_loops_witness:
  fixes e e' :: "unit hes_env"
  defines "e \<equiv> hes_env0" and "e' \<equiv> hes_env0\<lparr> he_hkdf := \<lambda>_ _ n. Some (replicate n 0xff) \<rparr>"
  shows "fst (derive_key e NistP256 [] None ()) = (Ok 1 :: (unit, nat) outcome)
    \<and> fst (derive_key e' NistP256 [] None ()) = (Hang :: (unit, nat) outcome)"
proof -
  have sizes: "(he_order_bits x NistP256 + 7) div 8 = uint_bytes NistP256" "2 \<le> he_order x NistP256"
      "he_order x NistP256 = 2 ^ 256 - 1" if "x = e \<or> x = e'" for x
    using that by (auto simp: e_def e'_def hes_env0_def uint_bytes_def)
  have okm: "he_hkdf e [] (case None of Some i \<Rightarrow> i | None \<Rightarrow> []) (uint_bytes NistP256) = Some (replicate 32 0)"
    "he_hkdf e' [] (case None of Some i \<Rightarrow> i | None \<Rightarrow> []) (uint_bytes NistP256) = Some (replicate 32 0xff)"
    by (simp_all add: e_def e'_def hes_env0_def uint_bytes_def)
  have "derive_key e NistP256 [] None () = (Ok 1 :: (unit, nat) outcome, ())"
    using derived_key_valid_or_loops[OF sizes(1,2) okm(1), THEN conjunct1] by (simp add: from_be_bytes_replicate)
  moreover have "derive_key e' NistP256 [] None () = (Hang :: (unit, nat) outcome, ())"
    using derived_key_valid_or_loops[OF sizes(1,2) okm(2), THEN conjunct1]
    by (simp add: from_be_bytes_replicate sizes(3))
  ultimately show ?thesis by simp
qed

definition populated :: "measurement_slot list \<Rightarrow> sw_measurement list" where
  "populated ms = map sl_measurement (filter sl_is_populated ms)"

lemma fetch_measurements_run:
  assumes "\<forall>i \<in> set is. i < NUM_OF_MEASUREMENT_SLOTS \<and> i < length ms"
  shows "fetch_measurements is ms
    = (Ok (map (\<lambda>i. sl_measurement (ms ! i)) (filter (\<lambda>i. sl_is_populated (ms ! i)) is)), ms)"
  using assms by (induction "is") (auto simp: run mgr_read_def)

lemma populated_nth:
  "map (\<lambda>i. sl_measurement (ms ! i)) (filter (\<lambda>i. sl_is_populated (ms ! i)) [0..<length ms]) = populated ms"
proof -
  have "filter sl_is_populated (map ((!) ms) [0..<length ms])
      = map ((!) ms) (filter (sl_is_populated \<circ> (!) ms) [0..<length ms])" by (rule filter_map)
  then show ?thesis by (simp add: populated_def map_nth comp_def)
qed

lemma fetch_current_run:
  assumes "length (ih_boot h) = NUM_OF_MEASUREMENT_SLOTS"
  shows "fetch_current_measurements h = (Ok (populated (ih_boot h)), h)"
  using fetch_measurements_run[of "[0..<32]" "ih_boot h"] populated_nth[of "ih_boot h"] assms
  by (simp add: fetch_current_measurements_def with_boot_def run del: upt_rec_numeral)
lemma from_be_be_bytes: "from_be_bytes (be_bytes n k) = k mod 256 ^ n"
proof (induction n arbitrary: k)
  case 0
  then show ?case by (simp add: be_bytes_def from_be_bytes_def)
next
  case (Suc n)
  have "k div 256 ^ (n - i) = k div 256 div 256 ^ (n - Suc i)" if "i < n" for i
  proof -
    have "n - i = Suc (n - Suc i)" using that by simp
    then show ?thesis by (simp add: div_mult2_eq)
  qed
  then have "be_bytes (Suc n) k = be_bytes n (k div 256) @ [of_nat k]"
    by (simp add: be_bytes_def)
  then have "from_be_bytes (be_bytes (Suc n) k) = (k div 256) mod 256 ^ n * 256 + k mod 256"
    using Suc by (simp add: from_be_bytes_def unat_of_nat take_bit_eq_mod)
  then show ?case by (simp add: mod_mult2_eq)
qed

definition curve_of :: "key_bits \<Rightarrow> curve" where
  "curve_of b = (case b of Bits256 \<Rightarrow> NistP256 | _ \<Rightarrow> NistP384)"

lemma generate_seed_Ok: "generate_seed e c k l s = (Ok x, t) \<Longrightarrow> t = s"
  by (simp add: generate_seed_def run Let_def split: if_splits)

lemma get_delegated_key_Ok:
  assumes "length (ih_boot h) = NUM_OF_MEASUREMENT_SLOTS" and "get_delegated_key e fam bits ha h = (Ok dak, h1)"
  shows "bits \<noteq> Bits521 \<and> (\<exists>k. dak = be_bytes (uint_bytes (curve_of bits)) k \<and> 1 \<le> k \<and> k < he_order e (curve_of bits))
    \<and> h1 = h\<lparr> ih_att := (ih_att h)\<lparr> am_dak := Some \<lparr> di_hash_algo = ha, di_key_bits = bits, di_key = dak \<rparr> \<rparr> \<rparr>"
  using assms
  by (cases bits) (auto simp: get_delegated_key_def att_get_delegated_key_def fetch_current_run with_att_def run Let_def
      derive_p256_key_def derive_p384_key_def curve_of_def uint_bytes_def
      simp del: One_nat_def dest: derive_key_Ok generate_seed_Ok split: prod.splits outcome.splits option.splits)

lemma get_platform_token_run:
  assumes "length (ih_boot h) = NUM_OF_MEASUREMENT_SLOTS"
  shows "get_platform_token e p h = (case am_dak (ih_att h) of
      None \<Rightarrow> (Err HesInvalidArgument, h)
    | Some d \<Rightarrow> with_att (att_get_platform_token e p (populated (ih_boot h))) h)"
  by (simp add: get_platform_token_def fetch_current_run[OF assms] run att_get_platform_token_def with_att_def
      split: option.split)

lemma calculate_dak_hash_run:
  assumes "am_dak am = Some d" and "di_key_bits d \<noteq> Bits521"
    and "he_from_slice e (curve_of (di_key_bits d)) (di_key d) = Some k"
  shows "calculate_dak_hash e ha am
    = (Ok (calculate_public_key_hash e (he_sec1 e (curve_of (di_key_bits d)) k) ha), am)"
  using assms by (cases "di_key_bits d") (simp_all add: calculate_dak_hash_def run curve_of_def)

lemma hes_reset_Ok:
  assumes "sha_lengths e" and "hes_reset e hw h = (Ok (), h')"
  shows "length (ih_boot h') = NUM_OF_MEASUREMENT_SLOTS \<and> am_dak (ih_att h') = None"
  using assms by (auto simp: hes_reset_def run mgr_init_log with_att_def att_reset_def split: option.splits if_splits)

lemma token_of_delegated_key:
  assumes len: "length (ih_boot h) = NUM_OF_MEASUREMENT_SLOTS"
    and key: "get_delegated_key e fam bits ha h = (Ok dak, h1)"
    and parse: "\<forall>c k. 1 \<le> k \<and> k < he_order e c \<longrightarrow> he_from_slice e c (be_bytes (uint_bytes c) k) = Some k"
    and cbor: "\<forall>v. he_cbor e v \<noteq> None" and sign: "\<forall>d. he_sign e (am_cpak (ih_att h)) d \<noteq> None"
  obtains k tok v where "dak = be_bytes (uint_bytes (curve_of bits)) k" and "he_from_slice e (curve_of bits) dak = Some k"
    and "get_platform_token e (calculate_public_key_hash e (he_sec1 e (curve_of bits) k) ha) h1 = (Ok tok, h1)"
    and "encode_claims (calculate_public_key_hash e (he_sec1 e (curve_of bits) k) ha) (populated (ih_boot h)) (ih_att h1)
      = (Ok v, ih_att h1)"
    and "he_cbor e v = Some (cs_payload tok)"
    and "he_sign e (am_cpak (ih_att h)) (he_tbs e (cs_payload tok)) = Some (cs_signature tok)"
    and "\<forall>q. q \<noteq> calculate_public_key_hash e (he_sec1 e (curve_of bits) k) ha \<longrightarrow>
      get_platform_token e q h1 = (Err HesInvalidArgument, h1)"
proof -
  let ?c = "curve_of bits" and ?d = "\<lparr> di_hash_algo = ha, di_key_bits = bits, di_key = dak \<rparr>"
  obtain k where b: "bits \<noteq> Bits521" and k: "dak = be_bytes (uint_bytes ?c) k" "1 \<le> k" "k < he_order e ?c"
    and h1: "h1 = h\<lparr> ih_att := (ih_att h)\<lparr> am_dak := Some ?d \<rparr> \<rparr>"
    using get_delegated_key_Ok[OF len key] by blast
  let ?p = "calculate_public_key_hash e (he_sec1 e ?c k) ha"
  have slice: "he_from_slice e ?c dak = Some k" using parse k by simp
  have hash: "calculate_dak_hash e ha (ih_att h1) = (Ok ?p, ih_att h1)"
    using calculate_dak_hash_run[of "ih_att h1" ?d e k ha] slice b by (simp add: h1)
  have same: "h1\<lparr> ih_att := ih_att h1 \<rparr> = h1" by simp
  have dak: "am_dak (ih_att h1) = Some ?d" "length (ih_boot h1) = 32" "ih_boot h1 = ih_boot h"
    "am_cpak (ih_att h1) = am_cpak (ih_att h)" using len by (simp_all add: h1)
  note tok = get_platform_token_run[OF dak(2)] att_get_platform_token_def verify_dak_hash_def with_att_def run dak hash same
  obtain v where v: "encode_claims ?p (populated (ih_boot h)) (ih_att h1) = (Ok v, ih_att h1)"
    by (simp add: encode_claims_def run dak Let_def)
  obtain pl where pl: "he_cbor e v = Some pl" using cbor by blast
  obtain g where g: "he_sign e (am_cpak (ih_att h)) (he_tbs e pl) = Some g" using sign by blast
  have "get_platform_token e ?p h1 = (Ok \<lparr> cs_payload = pl, cs_signature = g \<rparr>, h1)"
    using v pl g by (simp add: tok att_sign_def)
  moreover have "get_platform_token e q h1 = (Err HesInvalidArgument, h1)" if "q \<noteq> ?p" for q
    using that by (simp add: tok)
  ultimately show ?thesis using k(1) slice v pl g by (intro that[of k "\<lparr> cs_payload = pl, cs_signature = g \<rparr>" v]) simp_all
qed

text \<open>
  C35. The platform token certifies the delegated key that was asked for last.  After a delegated key
  was handed out, the token is issued for the hash of exactly that key's public part, with the
  measurements of all populated slots among its claims and signed with the platform's
  key; for every other hash, and after a reset for every hash, the request is refused and
  nothing changes.
\<close>

theorem delegated_key_certified:
  assumes len: "length (ih_boot h) = NUM_OF_MEASUREMENT_SLOTS"
    and key: "get_delegated_key e fam bits ha h = (Ok dak, h1)"
    and parse: "\<forall>c k. 1 \<le> k \<and> k < he_order e c \<longrightarrow> he_from_slice e c (be_bytes (uint_bytes c) k) = Some k"
    and cbor: "\<forall>v. he_cbor e v \<noteq> None" and sign: "\<forall>d. he_sign e (am_cpak (ih_att h)) d \<noteq> None"
    and "sha_lengths e"
  shows "\<exists>c k. dak = be_bytes (uint_bytes c) k \<and>
      (let p = calculate_public_key_hash e (he_sec1 e c k) ha in
       (\<exists>tok v. get_platform_token e p h1 = (Ok tok, h1)
          \<and> encode_claims p (populated (ih_boot h)) (ih_att h1) = (Ok v, ih_att h1)
          \<and> he_cbor e v = Some (cs_payload tok)
          \<and> he_sign e (am_cpak (ih_att h)) (he_tbs e (cs_payload tok)) = Some (cs_signature tok))
       \<and> (\<forall>q. q \<noteq> p \<longrightarrow> get_platform_token e q h1 = (Err HesInvalidArgument, h1)))
    \<and> (\<forall>hw h2 q. hes_reset e hw h1 = (Ok (), h2) \<longrightarrow> get_platform_token e q h2 = (Err HesInvalidArgument, h2))"
proof -
  obtain k tok v where
    k: "dak = be_bytes (uint_bytes (curve_of bits)) k" "he_from_slice e (curve_of bits) dak = Some k"
    and tok: "get_platform_token e (calculate_public_key_hash e (he_sec1 e (curve_of bits) k) ha) h1 = (Ok tok, h1)"
      "encode_claims (calculate_public_key_hash e (he_sec1 e (curve_of bits) k) ha) (populated (ih_boot h)) (ih_att h1)
        = (Ok v, ih_att h1)"
      "he_cbor e v = Some (cs_payload tok)"
      "he_sign e (am_cpak (ih_att h)) (he_tbs e (cs_payload tok)) = Some (cs_signature tok)"
    and other: "\<forall>q. q \<noteq> calculate_public_key_hash e (he_sec1 e (curve_of bits) k) ha \<longrightarrow>
      get_platform_token e q h1 = (Err HesInvalidArgument, h1)" by (rule token_of_delegated_key[OF assms(1-5)])
  have "get_platform_token e q h2 = (Err HesInvalidArgument, h2)" if "hes_reset e hw h1 = (Ok (), h2)" for hw h2 q
    using hes_reset_Ok[OF assms(6) that] by (simp add: get_platform_token_run)
  then show ?thesis
    using k(1) tok other by (intro exI[of _ "curve_of bits"] exI[of _ k]) (auto simp: Let_def)
qed

definition sample_hes :: islet_hes where
  "sample_hes = \<lparr> ih_boot = replicate NUM_OF_MEASUREMENT_SLOTS slot_default,
     ih_att = \<lparr> am_cpak = 1, am_instance_id = [], am_hash = [], am_guk = replicate 32 0,
       am_claims = \<lparr> hc_implementation_id = [], hc_security_lifecycle = 0x3000, hc_profile_definition = None,
         hc_verification_service_url = None, hc_platform_config = [] \<rparr>, am_dak = None \<rparr>,
     ih_lcs = 0x3000, ih_huk = replicate 32 0 \<rparr>"

definition sample_he :: "cbor hes_env" where
  "sample_he = hes_env0\<lparr> he_from_slice := \<lambda>c b. Some (from_be_bytes b), he_aes_block := \<lambda>k b. replicate 16 0 \<rparr>"

lemma sample_he:
  "length (ih_boot sample_hes) = NUM_OF_MEASUREMENT_SLOTS" "he_cbor sample_he v = Some []"
  "he_sign sample_he n d = Some d" "sha_lengths sample_he"
  using hes_env0_sha[where ?'c = cbor]
  by (simp_all add: sample_hes_def sample_he_def hes_env0_def sha_lengths_def sha_of_def split: measurement_type.splits)

lemma sample_parse:
  "\<forall>c k. 1 \<le> k \<and> k < he_order sample_he c \<longrightarrow> he_from_slice sample_he c (be_bytes (uint_bytes c) k) = Some k"
proof (intro allI impI)
  fix c k assume "1 \<le> k \<and> k < he_order sample_he c"
  then have "k < 256 ^ uint_bytes c" by (cases c) (simp_all add: sample_he_def hes_env0_def uint_bytes_def)
  then show "he_from_slice sample_he c (be_bytes (uint_bytes c) k) = Some k" by (simp add: sample_he_def from_be_be_bytes)
qed

lemma sample_key: "\<exists>dak h1. get_delegated_key sample_he SecpR1 Bits384 DakSha256 sample_hes = (Ok dak, h1)"
proof -
  have "(he_order_bits sample_he NistP384 + 7) div 8 = uint_bytes NistP384" "2 \<le> he_order sample_he NistP384"
    "he_hkdf sample_he seed info (uint_bytes NistP384) = Some (replicate 48 0)" for seed info
    by (simp_all add: sample_he_def hes_env0_def uint_bytes_def)
  then have "derive_key sample_he NistP384 seed info s = (Ok 1 :: (attestation_error, nat) outcome, s)"
    for seed info and s :: attestation_mgr
    using derive_key_run[of sample_he NistP384 seed info "replicate 48 0" s] by (simp add: from_be_bytes_replicate)
  moreover have "length (am_guk (ih_att sample_hes)) = 32" by (simp add: sample_hes_def)
  ultimately show ?thesis
    by (simp add: get_delegated_key_def fetch_current_run[OF sample_he(1)] att_get_delegated_key_def with_att_def run Let_def
        generate_seed_def derive_p384_key_def sample_he(2))
qed

theorem delegated_key_certified_witness:
  "\<exists>dak h1 p tok. get_delegated_key sample_he SecpR1 Bits384 DakSha256 sample_hes = (Ok dak, h1)
    \<and> get_platform_token sample_he p h1 = (Ok tok, h1) \<and> fst (get_platform_token sample_he (0 # p) h1) = Err HesInvalidArgument"
proof -
  obtain dak h1 where key: "get_delegated_key sample_he SecpR1 Bits384 DakSha256 sample_hes = (Ok dak, h1)"
    using sample_key by blast
  have "\<forall>v. he_cbor sample_he v \<noteq> None" "\<forall>d. he_sign sample_he (am_cpak (ih_att sample_hes)) d \<noteq> None"
    by (simp_all add: sample_he)
  then show ?thesis
    using delegated_key_certified[OF sample_he(1) key sample_parse] sample_he(4) key
    by (simp add: Let_def) (metis fst_conv list.distinct(1) not_Cons_self2)
qed

lemma measurement_type_name_inj: "measurement_type_name t = measurement_type_name t' \<Longrightarrow> t = t'"
  by (cases t; cases t') (simp_all add: measurement_type_name_def)

lemma hash_algo_name_inj: "hash_algo_name t = hash_algo_name t' \<Longrightarrow> t = t'"
  by (cases t; cases t') (simp_all add: hash_algo_name_def)

lemma encode_measurement_inj: "encode_measurement m = encode_measurement m' \<Longrightarrow> m = (m' :: sw_measurement)"
  by (auto simp: encode_measurement_def intro!: sw_measurement.equality measurement_meta.equality
      measurement_type_name_inj)

lemma encode_measurements_inj: "encode_measurements ms = encode_measurements ms' \<Longrightarrow> ms = ms'"
  by (simp add: encode_measurements_def inj_map_eq_map[OF injI, OF encode_measurement_inj])

lemma ucast_u64_inj: "ucast (x :: u32) = (ucast y :: u64) \<Longrightarrow> x = y"
proof -
  assume eq: "ucast x = (ucast y :: u64)"
  have "ucast (ucast z :: u64) = z" for z :: u32 by (rule bit_word_eqI) (simp add: bit_simps)
  then show "x = y" using eq by metis
qed

definition optional :: "u64 \<Rightarrow> string option \<Rightarrow> (cbor \<times> cbor) list" where
  "optional k x = (case x of None \<Rightarrow> [] | Some t \<Rightarrow> [(CInt k, CText t)])"

lemma optional_eq [simp]: "optional k x = optional k y \<longleftrightarrow> x = y"
  by (cases x; cases y) (auto simp: optional_def)

lemma optional_inj:
  "optional k x @ (CInt j, c) # r = optional k y @ (CInt j, c') # r' \<Longrightarrow> k \<noteq> j \<Longrightarrow> x = y \<and> c = c' \<and> r = r'"
  by (cases x; cases y) (auto simp: optional_def)

definition claim_list :: "attestation_mgr \<Rightarrow> dak_info \<Rightarrow> u8 list \<Rightarrow> sw_measurement list \<Rightarrow> (cbor \<times> cbor) list" where
  "claim_list am d p ms = (CInt CCA_PLAT_CHALLENGE, CBytes p) # (CInt CCA_PLAT_INSTANCE_ID, CBytes (am_instance_id am))
      # optional CCA_PLAT_PROFILE (hc_profile_definition (am_claims am))
      @ (CInt CCA_PLAT_SECURITY_LIFECYCLE, CInt (ucast (hc_security_lifecycle (am_claims am))))
      # (CInt CCA_PLAT_IMPLEMENTATION_ID, CBytes (hc_implementation_id (am_claims am)))
      # (CInt CCA_PLAT_SW_COMPONENTS, encode_measurements ms)
      # optional CCA_PLAT_VERIFICATION_SERVICE (hc_verification_service_url (am_claims am))
      @ [(CInt CCA_PLAT_CONFIGURATION, CBytes (hc_platform_config (am_claims am))),
         (CInt CCA_PLAT_HASH_ALGO_DESC, CText (hash_algo_name (di_hash_algo d)))]"

lemma encode_claims_Ok:
  assumes "encode_claims p ms am = (Ok v, t)"
  shows "\<exists>d. am_dak am = Some d \<and> v = CMap (claim_list am d p ms)"
  using assms by (cases "am_dak am") (auto simp: encode_claims_def run Let_def claim_list_def optional_def)

lemma claim_list_inj:
  assumes "claim_list am d p ms = claim_list am' d' p' ms'"
  shows "p = p' \<and> ms = ms' \<and> am_instance_id am = am_instance_id am' \<and> am_claims am = am_claims am'
    \<and> di_hash_algo d = di_hash_algo d'"
proof -
  let ?c = "am_claims am" and ?c' = "am_claims am'"
  have "p = p'" "am_instance_id am = am_instance_id am'" "hc_profile_definition ?c = hc_profile_definition ?c'"
    "hc_security_lifecycle ?c = hc_security_lifecycle ?c'" "hc_implementation_id ?c = hc_implementation_id ?c'"
    "ms = ms'" "hc_verification_service_url ?c = hc_verification_service_url ?c'"
    "hc_platform_config ?c = hc_platform_config ?c'" "di_hash_algo d = di_hash_algo d'"
    using assms unfolding claim_list_def
    by (auto dest!: optional_inj encode_measurements_inj hash_algo_name_inj ucast_u64_inj)
  then show ?thesis by (simp add: hw_claims.equality)
qed

lemma encode_claims_inj:
  assumes "encode_claims p ms am = (Ok v, t)" and "encode_claims p' ms' am' = (Ok v, t')"
  shows "p = p' \<and> ms = ms' \<and> am_instance_id am = am_instance_id am' \<and> am_claims am = am_claims am'
    \<and> map_option di_hash_algo (am_dak am) = map_option di_hash_algo (am_dak am')"
  using encode_claims_Ok[OF assms(1)] encode_claims_Ok[OF assms(2)] by (auto dest!: claim_list_inj)

lemma verify_dak_hash_state: "verify_dak_hash e p am = (r, t) \<Longrightarrow> t = am"
  by (cases "am_dak am")
    (auto simp: verify_dak_hash_def calculate_dak_hash_def run split: key_bits.splits option.splits)

lemma get_platform_token_Ok:
  assumes "length (ih_boot h) = NUM_OF_MEASUREMENT_SLOTS" and "get_platform_token e p h = (Ok tok, u)"
  shows "\<exists>v t. encode_claims p (populated (ih_boot h)) (ih_att h) = (Ok v, t) \<and> he_cbor e v = Some (cs_payload tok)"
proof -
  obtain am' where "att_get_platform_token e p (populated (ih_boot h)) (ih_att h) = (Ok tok, am')"
    using assms by (auto simp: get_platform_token_def fetch_current_run run with_att_def split: prod.splits outcome.splits)
  then show ?thesis
    by (auto simp: att_get_platform_token_def run split: prod.splits outcome.splits option.splits if_splits sum.splits
        dest!: verify_dak_hash_state)
qed

text \<open>
  C36. The platform token commits to the platform.  Two tokens with the same payload have the same
  challenge, which is the hash of the delegated key, the same software measurements, the same
  instance identifier, hardware claims and hash algorithm, unless two different values have the
  same encoding.
\<close>

theorem platform_token_commits:
  assumes "length (ih_boot h) = NUM_OF_MEASUREMENT_SLOTS" and "length (ih_boot h') = NUM_OF_MEASUREMENT_SLOTS"
    and tok: "get_platform_token e p h = (Ok tok, t)" and tok': "get_platform_token e p' h' = (Ok tok', t')"
    and "cs_payload tok = cs_payload tok'"
  shows "p = p' \<and> populated (ih_boot h) = populated (ih_boot h')
      \<and> am_instance_id (ih_att h) = am_instance_id (ih_att h') \<and> am_claims (ih_att h) = am_claims (ih_att h')
      \<and> map_option di_hash_algo (am_dak (ih_att h)) = map_option di_hash_algo (am_dak (ih_att h'))
    \<or> (\<exists>v v'. v \<noteq> v' \<and> he_cbor e v \<noteq> None \<and> he_cbor e v = he_cbor e v')"
proof -
  have claims: "\<exists>v t. encode_claims p (populated (ih_boot h)) (ih_att h) = (Ok v, t)
      \<and> he_cbor e v = Some (cs_payload tok)"
    if "length (ih_boot h) = 32" "get_platform_token e p h = (Ok tok, u)" for p h tok u
    by (rule get_platform_token_Ok[OF that])
  from claims[OF assms(1) tok] claims[OF assms(2) tok'] assms(5)
  obtain v v' u u' where v: "encode_claims p (populated (ih_boot h)) (ih_att h) = (Ok v, u)"
      "encode_claims p' (populated (ih_boot h')) (ih_att h') = (Ok v', u')"
    and "he_cbor e v \<noteq> None" "he_cbor e v = he_cbor e v'" by auto
  then show ?thesis using encode_claims_inj[of p _ _ v] by (cases "v = v'") blast+
qed

theorem platform_token_commits_witness:
  fixes e :: "cbor hes_env" and h h' :: islet_hes
  defines "e \<equiv> hes_env0" and "h \<equiv> sample_hes\<lparr> ih_att := (ih_att sample_hes)\<lparr> am_dak :=
      Some \<lparr> di_hash_algo = DakSha256, di_key_bits = Bits384, di_key = [1] \<rparr> \<rparr> \<rparr>"
    and "h' \<equiv> h\<lparr> ih_boot := (ih_boot h)[0 := slot_of e [(sample_sw 1, False)]] \<rparr>"
  shows "\<exists>p tok t tok' t'. get_platform_token e p h = (Ok tok, t) \<and> get_platform_token e p h' = (Ok tok', t')
    \<and> cs_payload tok = cs_payload tok' \<and> (\<exists>v v'. v \<noteq> v' \<and> he_cbor e v = he_cbor e v')"
proof -
  define p where "p = calculate_public_key_hash e (he_sec1 e NistP384 1) DakSha256"
  have len: "length (ih_boot h) = 32" "length (ih_boot h') = 32" by (simp_all add: h'_def h_def sample_hes_def)
  have env: "he_from_slice e c b = Some 1" "he_cbor e v = Some []" "he_sign e k d = Some d" for c b v k d
    by (simp_all add: e_def hes_env0_def)
  have am: "am_dak (ih_att h) = Some \<lparr> di_hash_algo = DakSha256, di_key_bits = Bits384, di_key = [1] \<rparr>" "ih_att h' = ih_att h"
    by (simp_all add: h'_def h_def)
  have tok: "\<exists>g u. get_platform_token e p x = (Ok \<lparr> cs_payload = [], cs_signature = g \<rparr>, u)"
    if "length (ih_boot x) = 32" "ih_att x = ih_att h" for x
    using that by (simp add: get_platform_token_def fetch_current_run run with_att_def att_get_platform_token_def am env
        verify_dak_hash_def calculate_dak_hash_def encode_claims_def att_sign_def Let_def p_def)
  obtain g u where 1: "get_platform_token e p h = (Ok \<lparr> cs_payload = [], cs_signature = g \<rparr>, u)"
    using tok[OF len(1) refl] by blast
  obtain g' u' where 2: "get_platform_token e p h' = (Ok \<lparr> cs_payload = [], cs_signature = g' \<rparr>, u')"
    using tok[OF len(2) am(2)] by blast
  have "populated (ih_boot h) \<noteq> populated (ih_boot h')"
    by (simp add: populated_def h'_def h_def sample_hes_def slot_default_def slot_of_def Let_def numeral_eq_Suc)
  then have "\<exists>v v'. v \<noteq> v' \<and> he_cbor e v = he_cbor e v'"
    using platform_token_commits[OF len 1 2] by auto
  then show ?thesis using 1 2 by (metis cose_sign1.simps(1))
qed

lemma populated_log:
  "populated (mgr_of e L) = map (\<lambda>i. sl_measurement (slot_of e (L i))) (filter (\<lambda>i. L i \<noteq> []) [0..<NUM_OF_MEASUREMENT_SLOTS])"
  by (simp add: populated_def mgr_of_def filter_map comp_def slot_of_populated del: upt_rec_numeral)

lemma authority_info_log:
  "authority_info (populated (mgr_of e L)) = concat (map (\<lambda>i. mm_signer_id (sm_metadata (fst (hd (L i))))
     @ as_bytes (mm_sw_type (sm_metadata (fst (last (L i)))))) (filter (\<lambda>i. L i \<noteq> []) [0..<NUM_OF_MEASUREMENT_SLOTS]))"
  unfolding populated_log authority_info_def map_map
  by (intro arg_cong[where f = concat] map_cong refl) (simp add: slot_of_def Let_def)

lemma get_authority_vhuk_run:
  assumes "length (ih_boot h) = NUM_OF_MEASUREMENT_SLOTS"
  shows "get_authority_vhuk e h
    = generate_seed e (authority_info (populated (ih_boot h)) @ ne_bytes (ih_lcs h)) (ih_huk h) (as_bytes ''VHUK_A'') h"
  by (simp add: get_authority_vhuk_def fetch_current_run[OF assms] run)

text \<open>
  C37. The authority key survives a firmware update.  When a component of the same type extends a
  populated slot, whatever its version and value, the authority based key stays the same, while the
  slot has a new value, the digest of the old one and the component's.
\<close>

theorem authority_key_survives_update:
  assumes sha: "sha_lengths e" and boot: "ih_boot h = mgr_of e L" and "L i \<noteq> []"
    and ext: "hes_extend_measurement e i m lock h = (Ok (), h')"
    and ty: "mm_sw_type (sm_metadata m) = mm_sw_type (sm_metadata (fst (last (L i))))"
  shows "fst (get_authority_vhuk e h') = fst (get_authority_vhuk e h)
    \<and> sl_value (ih_boot h' ! i) = sha_of e (mm_algorithm (sm_metadata m)) (sl_value (ih_boot h ! i) @ sm_value m)"
proof -
  let ?L = "L(i := L i @ [(m, lock)])"
  have i: "i < 32" and ok: "log_refusal (L i) m = None" and h': "h' = h\<lparr> ih_boot := mgr_of e ?L \<rparr>"
    using ext by (auto simp: hes_extend_measurement_def with_boot_def run boot mgr_extend_log[OF sha] log_extend_def
        split: if_splits option.splits)
  have "authority_info (populated (mgr_of e ?L)) = authority_info (populated (mgr_of e L))"
    unfolding authority_info_log using assms(3) ty
    by (intro arg_cong[where f = concat] map_cong filter_cong refl) auto
  then have "fst (get_authority_vhuk e h') = fst (get_authority_vhuk e h)"
    by (simp add: get_authority_vhuk_run h' boot generate_seed_def run Let_def)
  moreover have "mm_algorithm (sm_metadata m) = mm_algorithm (sm_metadata (fst (hd (L i))))"
    using ok assms(3) by (auto simp: log_refusal_def split: if_splits)
  ultimately show ?thesis using i assms(3) by (simp add: h' boot mgr_of_nth slot_of_def Let_def chain_snoc)
qed

theorem authority_key_survives_update_witness:
  fixes e :: "cbor hes_env" and h :: islet_hes
  defines "e \<equiv> hes_env0" and "h \<equiv> sample_hes\<lparr> ih_boot := mgr_of e ((\<lambda>_. [])(3 := [(sample_sw 1, False)])) \<rparr>"
  shows "\<exists>h'. hes_extend_measurement e 3 ((sample_sw 1)\<lparr> sm_value := [1, 2] \<rparr>) False h = (Ok (), h')
    \<and> fst (get_authority_vhuk e h') = fst (get_authority_vhuk e h)"
proof -
  let ?L = "(\<lambda>_. [])(3 := [(sample_sw 1, False)])" and ?m = "(sample_sw 1)\<lparr> sm_value := [1, 2] \<rparr>"
  have sha: "sha_lengths e" unfolding e_def by (rule hes_env0_sha)
  have boot: "ih_boot h = mgr_of e ?L" by (simp add: h_def)
  obtain h' where "hes_extend_measurement e 3 ?m False h = (Ok (), h')"
    by (simp add: hes_extend_measurement_def with_boot_def run boot mgr_extend_log[OF sha] log_extend_def log_refusal_def)
  with authority_key_survives_update[OF sha boot _ this] show ?thesis by (auto simp: fun_upd_same)
qed

text \<open>
  The authority data does not say where a signer ends and a type begins, so two different
  platforms can have the same authority based key.
\<close>

lemma authority_info_ambiguous:
  "\<exists>b b' m m'. converted b = Some m \<and> converted b' = Some m'
     \<and> mm_signer_id (sm_metadata m) \<noteq> mm_signer_id (sm_metadata m') \<and> authority_info [m] = authority_info [m']"
proof -
  define b where "b n t = \<lparr> bm_metadata = \<lparr> bm_type = 0, bm_signer_id = replicate n 0x41, bm_sw_type = t,
    bm_sw_version = [] \<rparr>, bm_value = replicate 32 0 \<rparr>" for n and t :: "u8 list"
  define m where "m n t = \<lparr> sm_metadata = \<lparr> mm_signer_id = replicate n 0x41, mm_sw_version = [], mm_algorithm = Sha256,
    mm_sw_type = t \<rparr>, sm_value = replicate 32 0 \<rparr>" for n t
  have "converted (b 32 [0x41, 0x42]) = Some (m 32 ''AB'')" "converted (b 33 [0x42]) = Some (m 33 ''B'')"
    by (simp_all add: converted_def measurement_try_from_def measurement_type_try_from_def run b_def m_def Let_def
        from_utf8_def char_of_def bit_Suc_0_iff)
  moreover have "authority_info [m 32 ''AB''] = authority_info [m 33 ''B'']"
    by (simp add: authority_info_def m_def as_bytes_def of_char_def replicate_app_Cons_same numeral_eq_Suc)
  moreover have "mm_signer_id (sm_metadata (m 32 ''AB'')) \<noteq> mm_signer_id (sm_metadata (m 33 ''B''))"
    by (simp add: m_def)
  ultimately show ?thesis by blast
qed

end
