(* ===== verification/Hes_Service.thy ===== *)
theory Hes_Service
  imports Hes_Attestation
begin

text \<open>
  The host application around the security component, \<open>hes/islet-hes-host-app\<close>: the wire format
  of its requests and replies (\<open>comms/psa_serde.rs\<close>), their conversion (\<open>comms/mod.rs\<close>), the loop that serves
  a connection and the emulated hardware (\<open>main.rs\<close>).

  A connection is the list of the messages read from the socket, each with the outcome of writing
  its reply; the end of the list is the peer's disconnection.  The parser casts a pointer to
  the received bytes to a larger structure: \<open>beyond\<close> are the bytes behind them that it reads when
  the message is too short, and \<open>pad\<close> the padding of a C structure that is sent as it is.
\<close>

section \<open>Wire format\<close>

abbreviation (input) RSS_MEASURED_BOOT_SERVICE_HANDLE :: u32 where "RSS_MEASURED_BOOT_SERVICE_HANDLE \<equiv> 0x40000110"
abbreviation (input) RSS_DELEGATED_SERVICE_HANDLE :: u32 where "RSS_DELEGATED_SERVICE_HANDLE \<equiv> 0x40000111"
abbreviation (input) RSS_VHUK_SERVICE_HANDLE :: u32 where "RSS_VHUK_SERVICE_HANDLE \<equiv> 0x40000112"
abbreviation (input) RSS_DELEGATED_ATTEST_GET_DELEGATED_KEY :: u16 where "RSS_DELEGATED_ATTEST_GET_DELEGATED_KEY \<equiv> 1001"
abbreviation (input) RSS_DELEGATED_ATTEST_GET_PLATFORM_TOKEN :: u16 where "RSS_DELEGATED_ATTEST_GET_PLATFORM_TOKEN \<equiv> 1002"
abbreviation (input) RSS_VHUK_GET_KEY :: u16 where "RSS_VHUK_GET_KEY \<equiv> 1006"
abbreviation (input) RSS_MEASURED_BOOT_READ :: u16 where "RSS_MEASURED_BOOT_READ \<equiv> 1001"
abbreviation (input) RSS_MEASURED_BOOT_EXTEND :: u16 where "RSS_MEASURED_BOOT_EXTEND \<equiv> 1002"
abbreviation (input) PSA_MAX_IOVEC :: nat where "PSA_MAX_IOVEC \<equiv> 4"
abbreviation (input) PAYLOAD_MAX_SIZE :: nat where "PAYLOAD_MAX_SIZE \<equiv> 0x1000"
abbreviation (input) PSA_SUCCESS :: u32 where "PSA_SUCCESS \<equiv> 0"

datatype psa_error = WrongDataLength

record psa_request =
  pr_protocol_ver :: u8
  pr_seq_num :: u8
  pr_client_id :: u16
  pr_handle :: u32
  pr_type :: u16
  pr_in_vecs :: "u8 list list"
  pr_out_lens :: "nat list"

definition raw_byte :: "(nat \<Rightarrow> u8) \<Rightarrow> u8 list \<Rightarrow> nat \<Rightarrow> u8" where
  "raw_byte beyond input i = (if i < length input then input ! i else beyond i)"

definition raw_u16 :: "(nat \<Rightarrow> u8) \<Rightarrow> nat \<Rightarrow> u16" where
  "raw_u16 m i = ucast (m i) OR push_bit 8 (ucast (m (i + 1)))"

definition raw_u32 :: "(nat \<Rightarrow> u8) \<Rightarrow> nat \<Rightarrow> u32" where
  "raw_u32 m i = ucast (m i) OR push_bit 8 (ucast (m (i + 1))) OR push_bit 16 (ucast (m (i + 2)))
     OR push_bit 24 (ucast (m (i + 3)))"

text \<open>The vectors are cut from the payload one after the other; a slice beyond its end panics.\<close>

primrec cut_vecs :: "(nat \<Rightarrow> u8) \<Rightarrow> nat \<Rightarrow> nat list \<Rightarrow> ('s, 'e, u8 list list) prog" where
  "cut_vecs trailer offset [] = return []"
| "cut_vecs trailer offset (len # lens) =
    (if PAYLOAD_MAX_SIZE < offset + len then panic
     else bind (cut_vecs trailer (offset + len) lens) (\<lambda>vs.
       return (map trailer [offset..<offset + len] # vs)))"

definition pad_to :: "nat \<Rightarrow> 'a \<Rightarrow> 'a list \<Rightarrow> 'a list" where
  "pad_to n x xs = xs @ replicate (n - length xs) x"

definition psa_request_de :: "(nat \<Rightarrow> u8) \<Rightarrow> u8 list \<Rightarrow> ('s, psa_error, psa_request) prog" where
  "psa_request_de beyond input =
    (if 4112 < length input then throw WrongDataLength
     else let m = raw_byte beyond input;
       ctrl_param = raw_u32 m 8;
       psa_type = drop_bit 16 (ctrl_param AND 0xFFFF0000);
       num_in_vecs = unat (drop_bit 8 (ctrl_param AND 0xFF00));
       num_out_vecs = unat (ctrl_param AND 0xFF);
       io_sizes = map (\<lambda>i. unat (raw_u16 m (12 + 2 * i))) [0..<PSA_MAX_IOVEC] in
     if 0x7FFF < psa_type then panic
     else if PSA_MAX_IOVEC < num_in_vecs then panic
     else bind (cut_vecs (\<lambda>i. m (20 + i)) 0 (take num_in_vecs io_sizes)) (\<lambda>in_vecs.
       if PSA_MAX_IOVEC < num_in_vecs + num_out_vecs then panic
       else return \<lparr> pr_protocol_ver = m 0, pr_seq_num = m 1, pr_client_id = raw_u16 m 2, pr_handle = raw_u32 m 4,
         pr_type = ucast psa_type, pr_in_vecs = pad_to PSA_MAX_IOVEC [] in_vecs,
         pr_out_lens = pad_to PSA_MAX_IOVEC 0 (take num_out_vecs (drop num_in_vecs io_sizes)) \<rparr>))"

record psa_response =
  ps_protocol_ver :: u8
  ps_seq_num :: u8
  ps_client_id :: u16
  ps_return_val :: u32
  ps_out_vecs :: "u8 list list"

text \<open>The loop stops at the first empty vector.\<close>

primrec pack_vecs :: "nat \<Rightarrow> u8 list list \<Rightarrow> ('s, psa_error, nat list \<times> u8 list) prog" where
  "pack_vecs offset [] = return ([], [])"
| "pack_vecs offset (v # vs) =
    (if v = [] then return ([], [])
     else if 0xFFFF < length v then panic
     else if PAYLOAD_MAX_SIZE \<le> offset + length v then throw WrongDataLength
     else bind (pack_vecs (offset + length v) vs) (\<lambda>(sizes, bytes). return (length v # sizes, v @ bytes)))"

definition u16_bytes :: "u16 \<Rightarrow> u8 list" where
  "u16_bytes w = le_bytes 2 (ucast w)"

definition psa_response_ser :: "psa_response \<Rightarrow> ('s, psa_error, u8 list) prog" where
  "psa_response_ser r =
    bind (pack_vecs 0 (ps_out_vecs r)) (\<lambda>(sizes, trailer).
      return ([ps_protocol_ver r, ps_seq_num r] @ u16_bytes (ps_client_id r) @ ne_bytes (ps_return_val r)
        @ concat (map (\<lambda>n. u16_bytes (of_nat n)) (pad_to PSA_MAX_IOVEC 0 sizes)) @ trailer))"

record extend_request =
  er_index :: u8
  er_lock_measurement :: u8
  er_measurement_algo :: u32
  er_sw_type :: "u8 list"
  er_sw_type_size :: u8

text \<open>The C structure has two bytes of padding after the lock and three at its end.\<close>

definition extend_request_de :: "u8 list \<Rightarrow> ('s, psa_error, extend_request) prog" where
  "extend_request_de input =
    (if length input \<noteq> 32 then throw WrongDataLength
     else return \<lparr> er_index = input ! 0, er_lock_measurement = input ! 1, er_measurement_algo = raw_u32 ((!) input) 4,
       er_sw_type = take 20 (drop 8 input), er_sw_type_size = input ! 28 \<rparr>)"

record read_request =
  rr_index :: u8
  rr_sw_type_size :: u8
  rr_version_size :: u8

definition read_request_de :: "u8 list \<Rightarrow> ('s, psa_error, read_request) prog" where
  "read_request_de input =
    (if length input \<noteq> 3 then throw WrongDataLength
     else return \<lparr> rr_index = input ! 0, rr_sw_type_size = input ! 1, rr_version_size = input ! 2 \<rparr>)"

record read_response =
  rp_is_locked :: u8
  rp_measurement_algo :: u32
  rp_sw_type :: "u8 list"
  rp_sw_type_len :: u8
  rp_version :: "u8 list"
  rp_version_len :: u8

definition read_response_ser :: "u8 list \<Rightarrow> read_response \<Rightarrow> u8 list" where
  "read_response_ser pad r = [rp_is_locked r] @ take 3 pad @ ne_bytes (rp_measurement_algo r) @ rp_sw_type r
     @ [rp_sw_type_len r] @ rp_version r @ [rp_version_len r]"

section \<open>Conversion of requests and responses\<close>

datatype comms_error = BufferTooSmall | CommsInvalidArgument | CommsGenericError | ProgrammerError | PsaSerdeError
  | CommunicationError | ServiceHandleError

datatype vhuk_id = VHUK_A | VHUK_M

datatype hes_request = ReqGetDAK ecc_family key_bits hash_algo | ReqGetPlatformToken "u8 list"
  | ReqReadMeasurement nat nat nat | ReqExtendMeasurement nat sw_measurement bool | ReqGetVHuk vhuk_id

datatype hes_response = ResGetDAK "u8 list" | ResGetPlatformToken "u8 list"
  | ResReadMeasurement sw_measurement bool | ResGetVHuk "u8 list"

record msg_metadata =
  ms_protocol_ver :: u8
  ms_seq_num :: u8
  ms_client_id :: u16
  ms_response_params :: "nat list"

text \<open>Collecting bytes into a \<open>ValueHash\<close> panics beyond 64 of them.\<close>

definition value_hash :: "u8 list \<Rightarrow> ('s, 'e, u8 list) prog" where
  "value_hash bs = (if length bs \<le> 64 then return bs else panic)"

definition convert_attestation_request :: "u16 \<Rightarrow> u8 list list \<Rightarrow> ('s, comms_error, hes_request) prog" where
  "convert_attestation_request request_type in_vecs =
    (if request_type = RSS_DELEGATED_ATTEST_GET_DELEGATED_KEY
     then if length (in_vecs ! 0) \<noteq> 1 \<or> length (in_vecs ! 1) \<noteq> 4 \<or> length (in_vecs ! 2) \<noteq> 4
       then throw CommsGenericError
       else return (ReqGetDAK SecpR1 Bits384 DakSha256)
     else if request_type = RSS_DELEGATED_ATTEST_GET_PLATFORM_TOKEN
     then if length (in_vecs ! 0) \<noteq> hash_algo_len DakSha256 \<and> length (in_vecs ! 0) \<noteq> hash_algo_len DakSha384
         \<and> length (in_vecs ! 0) \<noteq> hash_algo_len DakSha512
       then throw CommsInvalidArgument
       else bind (value_hash (in_vecs ! 0)) (\<lambda>h. return (ReqGetPlatformToken h))
     else throw ProgrammerError)"

definition convert_vhuk_request :: "u16 \<Rightarrow> u8 list list \<Rightarrow> ('s, comms_error, hes_request) prog" where
  "convert_vhuk_request request_type in_vecs =
    (if request_type = RSS_VHUK_GET_KEY
     then if length (in_vecs ! 0) \<noteq> 1 then throw CommsGenericError
       else if in_vecs ! 0 = [1] then return (ReqGetVHuk VHUK_A)
       else if in_vecs ! 0 = [2] then return (ReqGetVHuk VHUK_M)
       else throw CommsInvalidArgument
     else throw ProgrammerError)"

definition measurement_algo :: "u32 \<Rightarrow> ('s, comms_error, measurement_type) prog" where
  "measurement_algo a =
    (if a = 0x02000009 then return Sha256 else if a = 0x0200000a then return Sha384
     else if a = 0x0200000b then return Sha512 else throw CommsInvalidArgument)"

definition convert_measured_boot_request :: "u16 \<Rightarrow> u8 list list \<Rightarrow> ('s, comms_error, hes_request) prog" where
  "convert_measured_boot_request request_type in_vecs =
    (if request_type = RSS_MEASURED_BOOT_READ
     then bind (map_err (\<lambda>_. PsaSerdeError) (read_request_de (in_vecs ! 0))) (\<lambda>r.
       if NUM_OF_MEASUREMENT_SLOTS \<le> unat (rr_index r) then throw CommsInvalidArgument
       else return (ReqReadMeasurement (unat (rr_index r)) (unat (rr_sw_type_size r)) (unat (rr_version_size r))))
     else if request_type = RSS_MEASURED_BOOT_EXTEND
     then bind (map_err (\<lambda>_. PsaSerdeError) (extend_request_de (in_vecs ! 0))) (\<lambda>r.
       bind (measurement_algo (er_measurement_algo r)) (\<lambda>algorithm.
       if SW_TYPE_MAX_SIZE < unat (er_sw_type_size r) then throw CommsInvalidArgument
       else bind (unwrap (from_utf8 (take (unat (er_sw_type_size r)) (er_sw_type r)))) (\<lambda>sw_type.
         bind (value_hash (in_vecs ! 1)) (\<lambda>signer_id.
         bind (unwrap (from_utf8 (in_vecs ! 2))) (\<lambda>sw_version.
         bind (value_hash (in_vecs ! 3)) (\<lambda>value.
           return (ReqExtendMeasurement (unat (er_index r))
             \<lparr> sm_metadata = \<lparr> mm_signer_id = signer_id, mm_sw_version = sw_version, mm_algorithm = algorithm,
                 mm_sw_type = sw_type \<rparr>, sm_value = value \<rparr> (er_lock_measurement r \<noteq> 0))))))))
     else throw ProgrammerError)"

section \<open>The service\<close>

record service =
  sv_hes :: islet_hes
  sv_meta :: "msg_metadata option"
  sv_sent :: "u8 list list"

type_synonym 'a sv_prog = "(service, comms_error, 'a) prog"

definition convert_request :: "psa_request \<Rightarrow> hes_request sv_prog" where
  "convert_request r =
    bind (modify (\<lambda>sv. sv\<lparr> sv_meta := Some \<lparr> ms_protocol_ver = pr_protocol_ver r, ms_seq_num = pr_seq_num r,
      ms_client_id = pr_client_id r, ms_response_params = pr_out_lens r \<rparr> \<rparr>)) (\<lambda>_.
    if pr_handle r = RSS_DELEGATED_SERVICE_HANDLE then convert_attestation_request (pr_type r) (pr_in_vecs r)
    else if pr_handle r = RSS_MEASURED_BOOT_SERVICE_HANDLE then convert_measured_boot_request (pr_type r) (pr_in_vecs r)
    else if pr_handle r = RSS_VHUK_SERVICE_HANDLE then convert_vhuk_request (pr_type r) (pr_in_vecs r)
    else throw ServiceHandleError)"

text \<open>A read of the socket: an error or the bytes of a message.\<close>

datatype socket_read = ReadError | Received "u8 list"

definition get_request :: "(nat \<Rightarrow> u8) \<Rightarrow> socket_read \<Rightarrow> hes_request sv_prog" where
  "get_request beyond r = (case r of
     ReadError \<Rightarrow> throw CommunicationError
   | Received data \<Rightarrow> bind (map_err (\<lambda>_. PsaSerdeError) (psa_request_de beyond data)) convert_request)"

definition set_out :: "u8 list list \<Rightarrow> nat list \<Rightarrow> u8 list \<Rightarrow> ('s, comms_error, u8 list list) prog" where
  "set_out out_vecs params v =
    (if params ! 0 < length v then throw BufferTooSmall else return (out_vecs[0 := v]))"

definition algo_code :: "measurement_type \<Rightarrow> u32" where
  "algo_code t = (case t of Sha256 \<Rightarrow> 0x02000009 | Sha384 \<Rightarrow> 0x0200000a | Sha512 \<Rightarrow> 0x0200000b)"

definition convert_response :: "u8 list \<Rightarrow> u32 \<Rightarrow> hes_response option \<Rightarrow> psa_response sv_prog" where
  "convert_response pad return_val response =
    bind (gets sv_meta) (\<lambda>taken.
    bind (modify (\<lambda>sv. sv\<lparr> sv_meta := None \<rparr>)) (\<lambda>_.
    bind (unwrap taken) (\<lambda>md.
    let params = ms_response_params md; out_vecs = replicate PSA_MAX_IOVEC [] in
    bind (if return_val \<noteq> 0 then return out_vecs else (case response of
        Some (ResGetDAK dak) \<Rightarrow> set_out out_vecs params dak
      | Some (ResGetPlatformToken token) \<Rightarrow> set_out out_vecs params token
      | Some (ResReadMeasurement m is_locked) \<Rightarrow>
          if params ! 1 < length (mm_signer_id (sm_metadata m)) \<or> params ! 2 < length (sm_value m) then throw BufferTooSmall
          else let sw_type = as_bytes (mm_sw_type (sm_metadata m)); version = as_bytes (mm_sw_version (sm_metadata m)) in
            if length sw_type \<noteq> SW_TYPE_MAX_SIZE \<or> length version \<noteq> VERSION_MAX_SIZE then panic
            else return (out_vecs[0 := read_response_ser pad
                \<lparr> rp_is_locked = of_bool is_locked, rp_measurement_algo = algo_code (mm_algorithm (sm_metadata m)),
                  rp_sw_type = sw_type, rp_sw_type_len = of_nat (length sw_type), rp_version = version,
                  rp_version_len = of_nat (length version) \<rparr>,
              1 := mm_signer_id (sm_metadata m), 2 := sm_value m])
      | Some (ResGetVHuk key) \<Rightarrow> set_out out_vecs params key
      | None \<Rightarrow> if params ! 0 \<noteq> 0 then throw ProgrammerError else return out_vecs)) (\<lambda>out_vecs'.
      return \<lparr> ps_protocol_ver = ms_protocol_ver md, ps_seq_num = ms_seq_num md, ps_client_id = ms_client_id md,
        ps_return_val = return_val, ps_out_vecs = out_vecs' \<rparr>))))"

definition send_response :: "u8 list \<Rightarrow> bool \<Rightarrow> u32 \<Rightarrow> hes_response option \<Rightarrow> unit sv_prog" where
  "send_response pad writable ret_val response =
    bind (convert_response pad ret_val response) (\<lambda>r.
    bind (map_err (\<lambda>_. PsaSerdeError) (psa_response_ser r)) (\<lambda>bytes.
      if writable then modify (\<lambda>sv. sv\<lparr> sv_sent := sv_sent sv @ [bytes] \<rparr>) else throw CommunicationError))"

definition islet_hes_error_to_ret_val :: "islet_hes_error \<Rightarrow> u32" where
  "islet_hes_error_to_ret_val err = (case err of HesBadState \<Rightarrow> - 137 | HesDoesNotExist \<Rightarrow> - 140 | HesGenericError \<Rightarrow> - 132
     | HesInvalidArgument \<Rightarrow> - 135 | HesNotPermitted \<Rightarrow> - 133 | HesNotSupported \<Rightarrow> - 134)"

definition comms_error_to_ret_val :: "comms_error \<Rightarrow> ('s, 'e, u32) prog" where
  "comms_error_to_ret_val err = (case err of BufferTooSmall \<Rightarrow> return (- 138) | CommsGenericError \<Rightarrow> return (- 132)
     | CommsInvalidArgument \<Rightarrow> return (- 135) | ProgrammerError \<Rightarrow> return (- 129) | _ \<Rightarrow> panic)"

text \<open>A call of the component, its success turned into a response and its error into a return value.\<close>

definition call_hes :: "'a hes_prog \<Rightarrow> ('a \<Rightarrow> (u32 \<times> hes_response option) sv_prog) \<Rightarrow> (u32 \<times> hes_response option) sv_prog" where
  "call_hes m f = (\<lambda>sv. case m (sv_hes sv) of
      (Ok a, h) \<Rightarrow> f a (sv\<lparr> sv_hes := h \<rparr>)
    | (Err err, h) \<Rightarrow> (Ok (islet_hes_error_to_ret_val err, None), sv\<lparr> sv_hes := h \<rparr>)
    | (Panic, h) \<Rightarrow> (Panic, sv\<lparr> sv_hes := h \<rparr>)
    | (Hang, h) \<Rightarrow> (Hang, sv\<lparr> sv_hes := h \<rparr>))"

definition process_request :: "(cbor, 'x) hes_env_scheme \<Rightarrow> hes_request \<Rightarrow> (u32 \<times> hes_response option) sv_prog" where
  "process_request e request = (case request of
      ReqGetDAK ecc_family key_bits hash_algo \<Rightarrow>
        call_hes (get_delegated_key e ecc_family key_bits hash_algo) (\<lambda>dak. return (PSA_SUCCESS, Some (ResGetDAK dak)))
    | ReqGetPlatformToken dak_pub_hash \<Rightarrow>
        call_hes (get_platform_token e dak_pub_hash) (\<lambda>token.
          bind (unwrap (he_tagged e (cs_payload token) (cs_signature token))) (\<lambda>bytes.
            return (PSA_SUCCESS, Some (ResGetPlatformToken bytes))))
    | ReqExtendMeasurement slot_id measurement lock \<Rightarrow>
        call_hes (hes_extend_measurement e slot_id measurement lock) (\<lambda>_. return (PSA_SUCCESS, None))
    | ReqReadMeasurement index sw_type_len version_len \<Rightarrow>
        call_hes (hes_read_measurement index) (\<lambda>(measurement, is_locked).
          if sw_type_len < length (mm_sw_type (sm_metadata measurement))
            \<or> version_len < length (mm_sw_version (sm_metadata measurement))
          then return (islet_hes_error_to_ret_val HesInvalidArgument, None)
          else return (PSA_SUCCESS, Some (ResReadMeasurement measurement is_locked)))
    | ReqGetVHuk key_id \<Rightarrow>
        call_hes (case key_id of VHUK_A \<Rightarrow> get_authority_vhuk e | VHUK_M \<Rightarrow> get_measurement_vhuk e) (\<lambda>key.
          return (PSA_SUCCESS, Some (ResGetVHuk key))))"

text \<open>One round of the loop.  A request for another service is ignored.\<close>

definition serve :: "(cbor, 'x) hes_env_scheme \<Rightarrow> (nat \<Rightarrow> u8) \<Rightarrow> u8 list \<Rightarrow> socket_read \<times> bool \<Rightarrow> unit sv_prog" where
  "serve e beyond pad = (\<lambda>(input, writable).
    bind (attempt (get_request beyond input)) (\<lambda>got.
    bind (case got of
        Inr request \<Rightarrow> bind (process_request e request) (\<lambda>x. return (Some x))
      | Inl err \<Rightarrow> (case err of
          CommunicationError \<Rightarrow> throw CommunicationError
        | PsaSerdeError \<Rightarrow> panic
        | ServiceHandleError \<Rightarrow> return None
        | ProgrammerError \<Rightarrow> panic
        | _ \<Rightarrow> bind (comms_error_to_ret_val err) (\<lambda>ret_val. return (Some (ret_val, None))))) (\<lambda>answer.
      case answer of
        None \<Rightarrow> return ()
      | Some (ret_val, response) \<Rightarrow>
          bind (attempt (send_response pad writable ret_val response)) (\<lambda>sent. case sent of
              Inr _ \<Rightarrow> return ()
            | Inl err \<Rightarrow> if err = CommunicationError then throw CommunicationError else panic))))"

definition process_requests ::
  "(cbor, 'x) hes_env_scheme \<Rightarrow> (nat \<Rightarrow> u8) \<Rightarrow> u8 list \<Rightarrow> (socket_read \<times> bool) list \<Rightarrow> unit sv_prog" where
  "process_requests e beyond pad inputs = for_each inputs (serve e beyond pad)"

text \<open>After a connection a persistent application resets the component and waits for the next one.\<close>

definition reset_service :: "(cbor, 'x) hes_env_scheme \<Rightarrow> hw_data \<Rightarrow> unit sv_prog" where
  "reset_service e hw = (\<lambda>sv. case hes_reset e hw (sv_hes sv) of
      (Ok _, h) \<Rightarrow> (Ok (), sv\<lparr> sv_hes := h \<rparr>)
    | (Hang, h) \<Rightarrow> (Hang, sv\<lparr> sv_hes := h \<rparr>)
    | (_, h) \<Rightarrow> (Panic, sv\<lparr> sv_hes := h \<rparr>))"

primrec serve_connections ::
  "(cbor, 'x) hes_env_scheme \<Rightarrow> (nat \<Rightarrow> u8) \<Rightarrow> u8 list \<Rightarrow> hw_data \<Rightarrow> bool \<Rightarrow> (socket_read \<times> bool) list list \<Rightarrow> unit sv_prog" where
  "serve_connections e beyond pad hw persistent [] = return ()"
| "serve_connections e beyond pad hw persistent (c # cs) =
    bind (attempt (process_requests e beyond pad c)) (\<lambda>r.
      if persistent then bind (reset_service e hw) (\<lambda>_. serve_connections e beyond pad hw persistent cs)
      else case r of Inr _ \<Rightarrow> return () | Inl err \<Rightarrow> throw err)"

definition hes_main ::
  "(cbor, 'x) hes_env_scheme \<Rightarrow> (nat \<Rightarrow> u8) \<Rightarrow> u8 list \<Rightarrow> hw_data \<Rightarrow> bool \<Rightarrow> (socket_read \<times> bool) list list
    \<Rightarrow> (comms_error, unit) outcome \<times> u8 list list" where
  "hes_main e beyond pad hw persistent connections = (case hes_init e hw () of
      (Ok h, _) \<Rightarrow> (case serve_connections e beyond pad hw persistent connections
          \<lparr> sv_hes = h, sv_meta = None, sv_sent = [] \<rparr> of (r, sv) \<Rightarrow> (r, sv_sent sv))
    | (Hang, _) \<Rightarrow> (Hang, [])
    | _ \<Rightarrow> (Panic, []))"

section \<open>The emulated hardware\<close>

definition dummy_boot_measurements :: "boot_measurement list" where
  "dummy_boot_measurements =
    [\<lparr> bm_metadata = \<lparr> bm_type = 0,
         bm_signer_id = [0xc6, 0xc3, 0x2a, 0x95, 0x7d, 0xf4, 0xc6, 0x69, 0x8c, 0x55, 0x0b, 0x69, 0x5d, 0x02, 0x2e, 0xd5,
           0x18, 0x0c, 0xae, 0x71, 0xf8, 0xb4, 0x9c, 0xbb, 0x75, 0xe6, 0x06, 0x1c, 0x2e, 0xf4, 0x97, 0xe1],
         bm_sw_type = as_bytes ''BL1'', bm_sw_version = as_bytes ''0.1.0'' \<rparr>,
       bm_value = [0x61, 0x97, 0x3b, 0x4f, 0x62, 0x0c, 0x2a, 0xe6, 0xc7, 0x63, 0x51, 0x18, 0xa0, 0xb4, 0x37, 0x6d,
         0x15, 0x34, 0x4c, 0x1c, 0x53, 0xa2, 0x17, 0x89, 0xb1, 0xaa, 0x95, 0xd2, 0x0f, 0x3c, 0x45, 0x06] \<rparr>,
     \<lparr> bm_metadata = \<lparr> bm_type = 2,
         bm_signer_id = [0xa0, 0x64, 0xb1, 0xad, 0x60, 0xfa, 0x18, 0x33, 0x94, 0xdd, 0xa5, 0x78, 0x91, 0x35, 0x7f, 0x97,
           0x2e, 0x4f, 0xe7, 0x22, 0x78, 0x2a, 0xdf, 0xf1, 0x85, 0x4c, 0x8b, 0x2a, 0x14, 0x2c, 0x04, 0x10],
         bm_sw_type = as_bytes ''BL2'', bm_sw_version = as_bytes ''1.9.0+0'' \<rparr>,
       bm_value = [0x8a, 0x66, 0x01, 0xf6, 0x70, 0x74, 0x8b, 0xe2, 0x33, 0xff, 0x5d, 0x75, 0xd7, 0xea, 0x89, 0xa8,
         0xbb, 0xbb, 0xbb, 0xbb, 0xbb, 0xbb, 0xbb, 0xbb, 0x01, 0x05, 0x01, 0xEF, 0x68, 0x07, 0x88, 0xCC,
         0x83, 0x09, 0x22, 0xCD, 0x09, 0x61, 0xB6, 0xFF, 0xbb, 0xbb, 0xbb, 0xbb, 0xbb, 0xbb, 0xbb, 0xbb,
         0x56, 0x46, 0x58, 0x49, 0x99, 0x31, 0xcf, 0x59, 0x7d, 0xbc, 0x3a, 0x4e, 0x68, 0x79, 0x8a, 0x1c] \<rparr>]"

definition dummy_hw :: "u8 list option \<Rightarrow> u8 list option \<Rightarrow> hw_data" where
  "dummy_hw guk bl_hash =
    \<lparr> hw_huk = Some (map of_nat [0..<16] @ map of_nat [0..<16]),
      hw_guk = Some (case guk of Some k \<Rightarrow> k | None \<Rightarrow> [0x01, 0x23, 0x45, 0x67, 0x89, 0x01, 0x23, 0x45, 0x67, 0x89, 0x01,
        0x23, 0x45, 0x67, 0x89, 0x01, 0x23, 0x45, 0x67, 0x89, 0x01, 0x23, 0x45, 0x67, 0x89, 0x01, 0x23, 0x45,
        0x67, 0x89, 0x01, 0x23]),
      hw_bl_hash = Some (case bl_hash of Some h \<Rightarrow> h | None \<Rightarrow> [0xf1, 0x5f, 0x95, 0x3b, 0xe5, 0x0d, 0xad, 0x92, 0xc3, 0xb2,
        0xaa, 0x32, 0x97, 0xe6, 0xa4, 0xa8, 0xd6, 0x6d, 0x33, 0x63, 0x84, 0x49, 0xec, 0x19, 0x22, 0xb4, 0xa7, 0x92,
        0x4a, 0x7b, 0x30, 0x22]),
      hw_boot_measurements = Some dummy_boot_measurements,
      hw_implementation_id = Some (replicate 8 0xAA @ replicate 8 0xBB @ replicate 8 0xCC @ replicate 8 0xDD),
      hw_security_lifecycle = Some 0x3000,
      hw_profile_definition = Some (Some (as_bytes ''http://arm.com/CCA-SSD/1.0.0'')),
      hw_verification_service_url = Some (Some (as_bytes ''http://whatever.com'')),
      hw_platform_config = Some (ne_bytes 0xDEADBEEF) \<rparr>"

section \<open>Reading back the wire format\<close>

definition psa_encode :: "psa_request \<Rightarrow> u8 list" where
  "psa_encode r = [pr_protocol_ver r, pr_seq_num r] @ u16_bytes (pr_client_id r) @ ne_bytes (pr_handle r)
     @ ne_bytes (push_bit 16 (ucast (pr_type r)) OR push_bit 8 (of_nat (length (pr_in_vecs r)))
         OR of_nat (length (pr_out_lens r)))
     @ concat (map (\<lambda>n. u16_bytes (of_nat n)) (pad_to PSA_MAX_IOVEC 0 (map length (pr_in_vecs r) @ pr_out_lens r)))
     @ concat (pr_in_vecs r)"

lemma u16_bytes_list: "u16_bytes w = [ucast w, ucast (drop_bit 8 w)]"
proof -
  have "ucast (drop_bit k (ucast w :: u64)) = (ucast (drop_bit k w) :: u8)" for k
    by (rule bit_word_eqI) (auto simp: bit_simps dest: bit_imp_le_length)
  from this[of 0] this[of 8] show ?thesis by (simp add: u16_bytes_def le_bytes_def numeral_eq_Suc)
qed

lemma ne_bytes_list:
  "ne_bytes w = [ucast w, ucast (drop_bit 8 w), ucast (drop_bit 16 w), ucast (drop_bit 24 w)]"
proof -
  have "ucast (drop_bit k (ucast w :: u64)) = (ucast (drop_bit k w) :: u8)" for k
    by (rule bit_word_eqI) (auto simp: bit_simps dest: bit_imp_le_length)
  from this[of 0] this[of 8] this[of 16] this[of 24] show ?thesis
    by (simp add: ne_bytes_def le_bytes_def numeral_eq_Suc)
qed

lemma u16_join: "ucast (ucast w :: u8) OR push_bit 8 (ucast (ucast (drop_bit 8 w) :: u8)) = (w :: u16)"
  by (rule bit_word_eqI) (auto simp: bit_simps)

lemma u32_join:
  "ucast (ucast w :: u8) OR push_bit 8 (ucast (ucast (drop_bit 8 w) :: u8))
     OR push_bit 16 (ucast (ucast (drop_bit 16 w) :: u8)) OR push_bit 24 (ucast (ucast (drop_bit 24 w) :: u8)) = (w :: u32)"
  (is "?l = w")
proof (rule bit_word_eqI)
  fix n assume "n < LENGTH(32)"
  then show "bit ?l n = bit w n" by (cases "24 \<le> n"; cases "16 \<le> n") (auto simp: bit_simps)
qed

lemma raw_u16_bytes: "m i = ucast w \<Longrightarrow> m (i + 1) = ucast (drop_bit 8 w) \<Longrightarrow> raw_u16 m i = w"
  by (simp add: raw_u16_def u16_join)

lemma raw_u32_bytes:
  "m i = ucast w \<Longrightarrow> m (i + 1) = ucast (drop_bit 8 w) \<Longrightarrow> m (i + 2) = ucast (drop_bit 16 w)
    \<Longrightarrow> m (i + 3) = ucast (drop_bit 24 w) \<Longrightarrow> raw_u32 m i = w"
  by (simp only: raw_u32_def u32_join)

lemma small_bit:
  assumes "n < 256" and "bit (n :: nat) k"
  shows "k < 8"
proof -
  have "take_bit 8 n = n" using assms(1) by (simp add: take_bit_nat_eq_self)
  then have "bit (take_bit 8 n) k" using assms(2) by simp
  then show ?thesis by (simp add: bit_take_bit_iff)
qed

lemma ctrl_fields:
  fixes t :: u16
  assumes "a < 256" and "b < 256"
  defines "c \<equiv> push_bit 16 (ucast t) OR push_bit 8 (of_nat a) OR of_nat b :: u32"
  shows "drop_bit 16 (c AND 0xFFFF0000) = ucast t" and "drop_bit 8 (c AND 0xFF00) = of_nat a" and "c AND 0xFF = of_nat b"
proof -
  have m: "(0xFFFF0000 :: u32) = push_bit 16 (mask 16)" "(0xFF00 :: u32) = push_bit 8 (mask 8)" "(0xFF :: u32) = mask 8"
    by (simp_all add: mask_eq_exp_minus_1 push_bit_eq_mult)
  note small = small_bit[OF assms(1)] small_bit[OF assms(2)] bit_imp_le_length[of t]
  have off: "\<not> bit a (8 + n)" "\<not> bit b (8 + n)" "\<not> bit b (16 + n)" for n
    using small(1)[of "8 + n"] small(2)[of "8 + n"] small(2)[of "16 + n"] by auto
  show "drop_bit 16 (c AND 0xFFFF0000) = ucast t"
    unfolding m c_def by (rule bit_word_eqI) (auto simp: bit_simps off dest: small)
  show "drop_bit 8 (c AND 0xFF00) = of_nat a"
    unfolding m c_def by (rule bit_word_eqI) (auto simp: bit_simps off dest: small)
  show "c AND 0xFF = of_nat b"
    unfolding m c_def by (rule bit_word_eqI) (auto simp: bit_simps off dest: small)
qed

lemma cut_vecs_concat:
  assumes "\<forall>j < length (concat vs). trailer (offset + j) = concat vs ! j"
    and "offset + length (concat vs) \<le> PAYLOAD_MAX_SIZE"
  shows "cut_vecs trailer offset (map length vs) s = (Ok vs, s)"
  using assms
proof (induction vs arbitrary: offset)
  case Nil
  then show ?case by (simp add: run)
next
  case (Cons v vs)
  have "trailer (offset + length v + j) = concat vs ! j" if "j < length (concat vs)" for j
    using Cons.prems(1)[rule_format, of "length v + j"] that by (simp add: add.assoc nth_append)
  moreover have "map trailer [offset..<offset + length v] = v"
    by (rule nth_equalityI) (use Cons.prems(1) in \<open>auto simp: nth_append\<close>)
  ultimately show ?case using Cons.IH[of "offset + length v"] Cons.prems(2) by (simp add: run)
qed

lemma psa_encode_bytes:
  fixes r :: psa_request and beyond :: "nat \<Rightarrow> u8"
  assumes "length (pr_in_vecs r) + length (pr_out_lens r) \<le> PSA_MAX_IOVEC"
  defines "m \<equiv> raw_byte beyond (psa_encode r)"
  shows "m 0 = pr_protocol_ver r" and "m (Suc 0) = pr_seq_num r" and "raw_u16 m 2 = pr_client_id r"
    and "raw_u32 m 4 = pr_handle r"
    and "raw_u32 m 8 = push_bit 16 (ucast (pr_type r)) OR push_bit 8 (of_nat (length (pr_in_vecs r)))
         OR of_nat (length (pr_out_lens r))"
    and "i < PSA_MAX_IOVEC \<Longrightarrow> raw_u16 m (12 + 2 * i) = of_nat (pad_to PSA_MAX_IOVEC 0 (map length (pr_in_vecs r) @ pr_out_lens r) ! i)"
    and "j < length (concat (pr_in_vecs r)) \<Longrightarrow> m (20 + j) = concat (pr_in_vecs r) ! j"
    and "length (psa_encode r) = 20 + length (concat (pr_in_vecs r))"
proof -
  let ?sizes = "pad_to 4 0 (map length (pr_in_vecs r) @ pr_out_lens r)"
  have "length ?sizes = 4" using assms(1) by (simp add: pad_to_def)
  then obtain n0 n1 n2 n3 where sizes: "?sizes = [n0, n1, n2, n3]"
    by (auto simp: length_Suc_conv numeral_eq_Suc)
  define ctrl :: u32 where "ctrl = push_bit 16 (ucast (pr_type r)) OR push_bit 8 (of_nat (length (pr_in_vecs r)))
         OR of_nat (length (pr_out_lens r))"
  define H where "H = [pr_protocol_ver r, pr_seq_num r] @ u16_bytes (pr_client_id r) @ ne_bytes (pr_handle r)
     @ ne_bytes ctrl @ concat (map (\<lambda>n. u16_bytes (of_nat n)) [n0, n1, n2, n3])"
  have enc: "psa_encode r = H @ concat (pr_in_vecs r)" by (simp add: psa_encode_def sizes ctrl_def H_def)
  have head: "length H = 20" by (simp add: H_def u16_bytes_list ne_bytes_list)
  then show "length (psa_encode r) = 20 + length (concat (pr_in_vecs r))" by (simp add: enc)
  have m: "m k = H ! k" if "k < 20" for k
    using that head by (simp add: m_def raw_byte_def enc nth_append)
  note at = m H_def u16_bytes_list ne_bytes_list
  show "m 0 = pr_protocol_ver r" "m (Suc 0) = pr_seq_num r" by (simp_all add: at)
  show "raw_u16 m 2 = pr_client_id r" "raw_u32 m 4 = pr_handle r"
    by (rule raw_u16_bytes raw_u32_bytes; simp add: at)+
  show "raw_u32 m 8 = push_bit 16 (ucast (pr_type r)) OR push_bit 8 (of_nat (length (pr_in_vecs r)))
         OR of_nat (length (pr_out_lens r))"
    unfolding ctrl_def[symmetric] by (rule raw_u32_bytes; simp add: at)
  show "raw_u16 m (12 + 2 * i) = of_nat (?sizes ! i)" if "i < 4"
  proof -
    have "i = 0 \<or> i = 1 \<or> i = 2 \<or> i = 3" using that by arith
    then show ?thesis unfolding sizes
      by (elim disjE; intro raw_u16_bytes; simp add: at)
  qed
  show "m (20 + j) = concat (pr_in_vecs r) ! j" if "j < length (concat (pr_in_vecs r))"
    using that head by (simp add: m_def raw_byte_def enc nth_append)
qed

lemma psa_request_de_encode:
  fixes r :: psa_request
  assumes len: "length (pr_in_vecs r) + length (pr_out_lens r) \<le> PSA_MAX_IOVEC" and "pr_type r \<le> 0x7FFF"
    and bytes: "length (concat (pr_in_vecs r)) \<le> 4092" and outs: "\<forall>n \<in> set (pr_out_lens r). n < 0x10000"
  shows "psa_request_de beyond (psa_encode r) s = (Ok (r\<lparr> pr_in_vecs := pad_to PSA_MAX_IOVEC [] (pr_in_vecs r),
    pr_out_lens := pad_to PSA_MAX_IOVEC 0 (pr_out_lens r) \<rparr>), s)"
proof -
  let ?m = "raw_byte beyond (psa_encode r)" and ?ins = "pr_in_vecs r" and ?outs = "pr_out_lens r"
  let ?sizes = "pad_to 4 0 (map length ?ins @ ?outs)"
  note fields = psa_encode_bytes[OF len]
  have "n < 0x10000" if "n \<in> set ?sizes" for n
  proof -
    have "length v \<le> 4092" if "v \<in> set ?ins" for v
      using member_le_sum_list[of "length v" "map length ?ins"] that bytes by (auto simp: length_concat)
    then show ?thesis using that outs by (fastforce simp: pad_to_def)
  qed
  moreover have "length ?sizes = 4" using len by (simp add: pad_to_def)
  ultimately have sizes: "map (\<lambda>i. unat (raw_u16 ?m (12 + 2 * i))) [0..<4] = ?sizes"
    by (intro nth_equalityI) (auto simp: fields(6) unat_of_nat take_bit_nat_eq_self simp del: upt_rec_numeral)
  have small: "length ?ins < 256" "length ?outs < 256" using len by simp_all
  note ctrl = ctrl_fields[OF small, of "pr_type r", folded fields(5)[of beyond]]
  have "unat (ucast (pr_type r) :: u32) = unat (pr_type r)"
    by (simp add: unsigned_ucast_eq take_bit_nat_eq_self less_trans[OF unsigned_less])
  then have ty: "ucast (pr_type r) \<le> (0x7FFF :: u32)"
    using assms(2) by (simp add: word_le_nat_alt)
  have ty': "ucast (ucast (pr_type r) :: u32) = pr_type r" by (rule bit_word_eqI) (simp add: bit_simps)
  have nums: "unat (of_nat (length ?ins) :: u32) = length ?ins" "unat (of_nat (length ?outs) :: u32) = length ?outs"
    using small by (simp_all add: unat_of_nat take_bit_nat_eq_self)
  have cut: "cut_vecs (\<lambda>i. ?m (20 + i)) 0 (map length ?ins) s = (Ok ?ins :: (psa_error, u8 list list) outcome, s)"
    by (rule cut_vecs_concat) (use fields(7) bytes in auto)
  have split: "take (length ?ins) ?sizes = map length ?ins" "take (length ?outs) (drop (length ?ins) ?sizes) = ?outs"
    by (simp_all add: pad_to_def)
  show ?thesis using len bytes cut ty ty' fields(8)
    unfolding psa_request_de_def Let_def ctrl sizes nums split
    by (simp add: run fields(1-4) not_less)
qed

section \<open>Locked slots\<close>

text \<open>A relation on the states of the store, of the component and of the service: a locked slot stays as it is.\<close>

definition locked_kept :: "measurement_slot list \<Rightarrow> measurement_slot list \<Rightarrow> bool" where
  "locked_kept ms ms' \<longleftrightarrow> length ms' = length ms \<and> (\<forall>i < length ms. sl_is_locked (ms ! i) \<longrightarrow> ms' ! i = ms ! i)"

definition hes_kept :: "islet_hes \<Rightarrow> islet_hes \<Rightarrow> bool" where
  "hes_kept h h' \<longleftrightarrow> locked_kept (ih_boot h) (ih_boot h')"

definition service_kept :: "service \<Rightarrow> service \<Rightarrow> bool" where
  "service_kept sv sv' \<longleftrightarrow> hes_kept (sv_hes sv) (sv_hes sv')"

interpretation slots_kept: step_relation locked_kept
  by unfold_locales (auto simp: locked_kept_def)

interpretation component_kept: step_relation hes_kept
  by unfold_locales (auto simp: hes_kept_def intro: slots_kept.R_refl slots_kept.R_trans)

interpretation connection_kept: step_relation service_kept
  by unfold_locales (auto simp: service_kept_def intro: component_kept.R_refl component_kept.R_trans)

lemma steps_with_slot:
  assumes "\<And>sl r sl'. m sl = (r, sl') \<Longrightarrow> sl_is_locked sl \<Longrightarrow> sl' = sl"
  shows "steps locked_kept (with_slot i m)"
  by (rule stepsI) (use assms in \<open>auto simp: with_slot_def locked_kept_def nth_list_update split: if_splits prod.splits\<close>)

lemma steps_mgr_extend: "steps locked_kept (mgr_extend e i m lock)"
  unfolding mgr_extend_def
  by (intro slots_kept.steps_rules steps_with_slot) (auto simp: run)

lemma steps_mgr_read: "steps locked_kept (mgr_read i)"
  unfolding mgr_read_def by (intro slots_kept.steps_rules)

lemma steps_fetch: "steps locked_kept (fetch_measurements is)"
  by (induction "is") (auto intro!: slots_kept.steps_rules steps_mgr_read split: sum.split)

lemma steps_with_boot: "steps locked_kept m \<Longrightarrow> steps hes_kept (with_boot m)"
  by (rule stepsI) (auto simp: with_boot_def hes_kept_def run split: prod.splits outcome.splits dest: steps_Ok steps_Err)

lemma steps_with_att: "steps hes_kept (with_att m)"
  by (rule stepsI) (auto simp: with_att_def hes_kept_def slots_kept.R_refl split: prod.splits)

lemma steps_generate_seed: "steps hes_kept (generate_seed e c k l)"
  unfolding generate_seed_def Let_def by (intro component_kept.steps_rules)

lemma steps_current: "steps hes_kept fetch_current_measurements"
  unfolding fetch_current_measurements_def by (intro steps_with_boot steps_fetch)

lemmas component_rules = component_kept.steps_rules steps_with_att steps_generate_seed steps_current
  steps_with_boot steps_mgr_read steps_mgr_extend

lemma steps_call_hes:
  assumes "steps hes_kept m" and "\<And>a. steps service_kept (f a)"
  shows "steps service_kept (call_hes m f)"
proof -
  have kept: "service_kept sv sv'" if call: "call_hes m f sv = (r, sv')" and "r \<noteq> Panic" "r \<noteq> Hang" for sv r sv'
  proof (cases "m (sv_hes sv)")
    case (Pair x h)
    show ?thesis
    proof (cases x)
      case (Ok a)
      then have "hes_kept (sv_hes sv) h" using steps_Ok[OF assms(1)] Pair by simp
      moreover have "service_kept (sv\<lparr> sv_hes := h \<rparr>) sv'"
        using steps_returns[OF assms(2)] call Pair Ok that(2,3) by (simp add: call_hes_def)
      ultimately show ?thesis by (auto simp: service_kept_def intro: component_kept.R_trans)
    next
      case (Err err)
      then show ?thesis using steps_Err[OF assms(1)] Pair call by (auto simp: call_hes_def service_kept_def)
    qed (use call Pair that(2,3) in \<open>simp_all add: call_hes_def\<close>)
  qed
  show ?thesis by (rule stepsI) (auto dest: kept)
qed

lemma steps_process_request: "steps service_kept (process_request e request)"
  unfolding process_request_def get_delegated_key_def get_platform_token_def hes_extend_measurement_def
    hes_read_measurement_def get_authority_vhuk_def get_measurement_vhuk_def
  by (cases request; simp only: hes_request.case)
    (auto intro!: steps_call_hes component_rules connection_kept.steps_rules split: vhuk_id.split)

lemma steps_modify_comms:
  assumes "\<And>sv. sv_hes (f sv) = sv_hes sv"
  shows "steps service_kept (modify f)"
  by (intro connection_kept.steps_modify) (simp add: assms service_kept_def component_kept.R_refl)

lemma steps_cut_vecs: "steps service_kept (cut_vecs trailer offset lens)"
  by (induction lens arbitrary: offset) (auto intro!: connection_kept.steps_rules)

lemma steps_pack_vecs: "steps service_kept (pack_vecs offset vs)"
  by (induction vs arbitrary: offset) (auto intro!: connection_kept.steps_rules split: prod.split)

lemma steps_get_request: "steps service_kept (get_request beyond input)"
proof -
  have "steps service_kept (psa_request_de beyond data)" for data
    unfolding psa_request_de_def Let_def by (intro connection_kept.steps_rules steps_cut_vecs)
  moreover have "steps service_kept (convert_request r)" for r
    unfolding convert_request_def convert_attestation_request_def convert_measured_boot_request_def
      convert_vhuk_request_def read_request_de_def extend_request_de_def measurement_algo_def value_hash_def
    by (intro connection_kept.steps_rules steps_modify_comms) simp
  ultimately show ?thesis
    by (auto simp: get_request_def intro!: connection_kept.steps_rules split: socket_read.split)
qed

lemma steps_send_response: "steps service_kept (send_response pad writable ret_val response)"
proof -
  have "steps service_kept (convert_response pad ret_val response)"
    unfolding convert_response_def set_out_def Let_def
    by (intro connection_kept.steps_rules steps_modify_comms)
      (auto intro!: connection_kept.steps_rules split: option.split hes_response.split)
  moreover have "steps service_kept (psa_response_ser r)" for r
    unfolding psa_response_ser_def by (auto intro!: connection_kept.steps_rules steps_pack_vecs split: prod.split)
  ultimately show ?thesis unfolding send_response_def
    by (intro connection_kept.steps_rules steps_modify_comms) simp_all
qed

lemma steps_serve: "steps service_kept (serve e beyond pad input)"
  unfolding serve_def comms_error_to_ret_val_def
  by (auto intro!: connection_kept.steps_rules steps_get_request steps_process_request steps_send_response
      split: prod.split sum.split comms_error.split option.split)

section \<open>Properties\<close>

definition extend_iovec :: "nat \<Rightarrow> sw_measurement \<Rightarrow> bool \<Rightarrow> u8 list" where
  "extend_iovec i m lock = [of_nat i, of_bool lock, 0, 0] @ ne_bytes (algo_code (mm_algorithm (sm_metadata m)))
     @ pad_to 20 0 (as_bytes (mm_sw_type (sm_metadata m))) @ [of_nat (length (mm_sw_type (sm_metadata m))), 0, 0, 0]"

definition extend_message :: "u8 \<Rightarrow> u8 \<Rightarrow> u16 \<Rightarrow> nat \<Rightarrow> sw_measurement \<Rightarrow> bool \<Rightarrow> psa_request" where
  "extend_message v q c i m lock = \<lparr> pr_protocol_ver = v, pr_seq_num = q, pr_client_id = c,
     pr_handle = RSS_MEASURED_BOOT_SERVICE_HANDLE, pr_type = RSS_MEASURED_BOOT_EXTEND,
     pr_in_vecs = [extend_iovec i m lock, mm_signer_id (sm_metadata m), as_bytes (mm_sw_version (sm_metadata m)), sm_value m],
     pr_out_lens = [] \<rparr>"

definition reply_message :: "u8 \<Rightarrow> u8 \<Rightarrow> u16 \<Rightarrow> u32 \<Rightarrow> u8 list" where
  "reply_message v q c code = [v, q] @ u16_bytes c @ ne_bytes code @ replicate 8 0"

definition reply_code :: "(boot_error, unit) outcome \<Rightarrow> u32" where
  "reply_code r = (case r of Err err \<Rightarrow> islet_hes_error_to_ret_val (hes_of_boot err) | _ \<Rightarrow> PSA_SUCCESS)"

definition sw_fits :: "sw_measurement \<Rightarrow> bool" where
  "sw_fits m \<longleftrightarrow> length (mm_signer_id (sm_metadata m)) \<le> 64 \<and> length (sm_value m) \<le> 64
     \<and> length (mm_sw_version (sm_metadata m)) \<le> VERSION_MAX_SIZE \<and> length (mm_sw_type (sm_metadata m)) \<le> SW_TYPE_MAX_SIZE
     \<and> utf8_valid (as_bytes (mm_sw_version (sm_metadata m))) \<and> utf8_valid (as_bytes (mm_sw_type (sm_metadata m)))"

lemma length_as_bytes [simp]: "length (as_bytes s) = length s"
  by (simp add: as_bytes_def)

lemma from_utf8_as_bytes: "utf8_valid (as_bytes s) \<Longrightarrow> from_utf8 (as_bytes s) = Some s"
proof -
  have "char_of (unat (of_nat (of_char c) :: u8)) = c" for c
    by (simp add: unat_of_nat take_bit_nat_eq_self)
  then show "utf8_valid (as_bytes s) \<Longrightarrow> from_utf8 (as_bytes s) = Some s"
    by (simp add: from_utf8_def as_bytes_def comp_def)
qed

lemma extend_iovec_de:
  assumes "i < 256" and "length (mm_sw_type (sm_metadata m)) \<le> SW_TYPE_MAX_SIZE"
  shows "extend_request_de (extend_iovec i m lock) s = (Ok \<lparr> er_index = of_nat i, er_lock_measurement = of_bool lock,
    er_measurement_algo = algo_code (mm_algorithm (sm_metadata m)),
    er_sw_type = pad_to 20 0 (as_bytes (mm_sw_type (sm_metadata m))),
    er_sw_type_size = of_nat (length (mm_sw_type (sm_metadata m))) \<rparr>, s)"
proof -
  let ?t = "pad_to 20 0 (as_bytes (mm_sw_type (sm_metadata m)))" and ?v = "extend_iovec i m lock"
  have t: "length ?t = 20" using assms(2) by (simp add: pad_to_def)
  have v: "?v = [of_nat i, of_bool lock, 0, 0] @ ne_bytes (algo_code (mm_algorithm (sm_metadata m))) @ ?t
     @ [of_nat (length (mm_sw_type (sm_metadata m))), 0, 0, 0]" by (simp add: extend_iovec_def)
  have "raw_u32 ((!) ?v) 4 = algo_code (mm_algorithm (sm_metadata m))"
    by (rule raw_u32_bytes; simp add: v ne_bytes_list)
  moreover have "length ?v = 32" "take 20 (drop 8 ?v) = ?t" "?v ! 28 = of_nat (length (mm_sw_type (sm_metadata m)))"
    "?v ! 0 = of_nat i" "?v ! 1 = of_bool lock"
    using t by (simp_all add: v ne_bytes_list nth_append)
  ultimately show ?thesis by (simp add: extend_request_de_def run)
qed

lemma measurement_algo_code: "measurement_algo (algo_code t) = return t"
  by (cases t) (simp_all add: measurement_algo_def algo_code_def)

lemma convert_extend:
  assumes "i < 256" and "sw_fits m"
  shows "convert_measured_boot_request RSS_MEASURED_BOOT_EXTEND
      [extend_iovec i m lock, mm_signer_id (sm_metadata m), as_bytes (mm_sw_version (sm_metadata m)), sm_value m] s
    = (Ok (ReqExtendMeasurement i m lock), s)"
proof -
  have "unat (of_nat n :: u8) = n" if "n < 256" for n using that by (simp add: unat_of_nat take_bit_nat_eq_self)
  moreover have "take (length t) (pad_to 20 0 (as_bytes t)) = as_bytes t" for t :: string by (simp add: pad_to_def)
  ultimately show ?thesis using assms
    by (simp add: convert_measured_boot_request_def run extend_iovec_de sw_fits_def from_utf8_as_bytes value_hash_def measurement_algo_code)
qed

lemma get_extend_request:
  assumes "i < 256" and "sw_fits m"
  shows "get_request beyond (Received (psa_encode (extend_message v q c i m lock))) sv
    = (Ok (ReqExtendMeasurement i m lock), sv\<lparr> sv_meta := Some \<lparr> ms_protocol_ver = v, ms_seq_num = q, ms_client_id = c,
        ms_response_params = [0, 0, 0, 0] \<rparr> \<rparr>)"
proof -
  let ?r = "extend_message v q c i m lock"
  have "length (extend_iovec i m lock) = 32" using assms(2) by (simp add: extend_iovec_def sw_fits_def pad_to_def ne_bytes_list)
  then have "psa_request_de beyond (psa_encode ?r) sv = (Ok (?r\<lparr> pr_in_vecs := pad_to 4 [] (pr_in_vecs ?r),
      pr_out_lens := pad_to 4 0 (pr_out_lens ?r) \<rparr>) :: (psa_error, psa_request) outcome, sv)"
    using assms(2) by (intro psa_request_de_encode) (auto simp: extend_message_def sw_fits_def)
  moreover have "pad_to 4 0 [] = [0, 0, 0, 0 :: nat]" by (simp add: pad_to_def numeral_eq_Suc)
  ultimately show ?thesis
    by (simp add: get_request_def run convert_request_def extend_message_def pad_to_def convert_extend[OF assms, simplified])
qed

lemma psa_response_ser_empty:
  "psa_response_ser \<lparr> ps_protocol_ver = v, ps_seq_num = q, ps_client_id = c, ps_return_val = code,
     ps_out_vecs = replicate 4 [] \<rparr> s = (Ok (reply_message v q c code), s)"
  by (simp add: psa_response_ser_def run numeral_eq_Suc pad_to_def u16_bytes_list reply_message_def)

lemma send_none:
  assumes "sv_meta sv = Some \<lparr> ms_protocol_ver = v, ms_seq_num = q, ms_client_id = c, ms_response_params = [0, 0, 0, 0] \<rparr>"
  shows "send_response pad True code None sv
    = (Ok (), sv\<lparr> sv_meta := None, sv_sent := sv_sent sv @ [reply_message v q c code] \<rparr>)"
  using assms by (simp add: send_response_def convert_response_def run Let_def psa_response_ser_empty)

lemma serve_extend:
  assumes "i < 256" and "sw_fits m"
    and "hes_extend_measurement e i m lock (sv_hes sv) = (r, h)" and "r \<noteq> Panic" and "r \<noteq> Hang"
  shows "serve e beyond pad (Received (psa_encode (extend_message v q c i m lock)), True) sv
    = (Ok (), sv\<lparr> sv_hes := h, sv_meta := None,
        sv_sent := sv_sent sv @ [reply_message v q c (case r of Err err \<Rightarrow> islet_hes_error_to_ret_val err | _ \<Rightarrow> PSA_SUCCESS)] \<rparr>)"
  using assms(3-5)
  by (cases r) (simp_all add: serve_def run get_extend_request[OF assms(1,2)] process_request_def call_hes_def send_none)

text \<open>
  C38. A request to extend a measurement is served from the wire to the wire.  The message of a client that extends slot \<open>i\<close>
  with a component whose identifiers fit the format is parsed to that request, appended to the log of the slot
  or refused as the log says, and answered with the sequence number and client of the request
  and the PSA status: success, invalid argument, bad state or not permitted.  Nothing else of the component changes.
\<close>

theorem extend_request_served:
  assumes "sha_lengths e" and "ih_boot (sv_hes sv) = mgr_of e L" and "i < 256" and "sw_fits m"
  shows "\<exists>sv'. serve e beyond pad (Received (psa_encode (extend_message v q c i m lock)), True) sv = (Ok (), sv')
    \<and> sv_hes sv' = (sv_hes sv)\<lparr> ih_boot := mgr_of e (snd (log_extend i m lock L)) \<rparr>
    \<and> sv_sent sv' = sv_sent sv @ [reply_message v q c (reply_code (fst (log_extend i m lock L)))]"
proof -
  have "hes_extend_measurement e i m lock (sv_hes sv)
      = (case fst (log_extend i m lock L) of Ok u \<Rightarrow> Ok u | Err err \<Rightarrow> Err (hes_of_boot err) | Panic \<Rightarrow> Panic | Hang \<Rightarrow> Hang,
         (sv_hes sv)\<lparr> ih_boot := mgr_of e (snd (log_extend i m lock L)) \<rparr>)" (is "_ = (?r, ?h)")
    by (simp add: hes_extend_measurement_def with_boot_def run assms(2) mgr_extend_log[OF assms(1)] log_extend_def
        split: option.split)
  moreover have "fst (log_extend i m lock L) \<noteq> Panic" "fst (log_extend i m lock L) \<noteq> Hang"
    by (auto simp: log_extend_def split: option.split)
  ultimately show ?thesis
    using serve_extend[OF assms(3,4), of e lock sv ?r ?h beyond pad v q c]
    by (cases "fst (log_extend i m lock L)") (simp_all add: reply_code_def)
qed

definition sample_service :: "slot_log \<Rightarrow> service" where
  "sample_service l = \<lparr> sv_hes = sample_hes\<lparr> ih_boot := mgr_of (hes_env0 :: cbor hes_env) ((\<lambda>_. [])(3 := l)) \<rparr>,
     sv_meta = None, sv_sent = [] \<rparr>"

lemma sample_sw_fits: "sw_fits (sample_sw b)"
proof -
  have "utf8_valid (as_bytes ''1.0'')" "utf8_valid (as_bytes ''BL2'')" by code_simp+
  then show ?thesis by (simp add: sw_fits_def sample_sw_def)
qed

theorem extend_request_served_witness:
  "\<exists>sv'. serve (hes_env0 :: cbor hes_env) (\<lambda>_. 0) [] (Received (psa_encode (extend_message 1 2 3 3 (sample_sw 2) True)), True)
       (sample_service [(sample_sw 1, False)]) = (Ok (), sv')
     \<and> sv_sent sv' = [reply_message 1 2 3 (- 133)]"
proof -
  have boot: "ih_boot (sv_hes (sample_service [(sample_sw 1, False)]))
      = mgr_of (hes_env0 :: cbor hes_env) ((\<lambda>_. [])(3 := [(sample_sw 1, False)]))" by (simp add: sample_service_def)
  have "fst (log_extend 3 (sample_sw 2) True ((\<lambda>_. [])(3 := [(sample_sw 1, False)]))) = Err NotPermitted"
    by (simp add: log_extend_def log_refusal_def sample_sw_def)
  moreover have "sv_sent (sample_service [(sample_sw 1, False)]) = []" by (simp add: sample_service_def)
  ultimately show ?thesis
    using extend_request_served[OF hes_env0_sha boot _ sample_sw_fits, of 3 "\<lambda>_. 0" "[]" 1 2 3 2 True]
    by (auto simp: reply_code_def islet_hes_error_to_ret_val_def)
qed

text \<open>
  C39. A locked measurement is final.  Whatever requests a connection brings, well-formed or not, and however
  it ends, a slot that is locked keeps its measurement and its lock until the component is reset.
\<close>

theorem locked_slot_survives_connection:
  assumes "process_requests e beyond pad inputs sv = (r, sv')" and "r \<noteq> Panic" and "r \<noteq> Hang"
    and "i < length (ih_boot (sv_hes sv))" and "sl_is_locked (ih_boot (sv_hes sv) ! i)"
  shows "ih_boot (sv_hes sv') ! i = ih_boot (sv_hes sv) ! i"
proof -
  have "steps service_kept (process_requests e beyond pad inputs)"
    unfolding process_requests_def by (intro connection_kept.steps_for_each steps_serve)
  from steps_returns[OF this assms(1-3)] show ?thesis
    using assms(4,5) by (simp add: service_kept_def hes_kept_def locked_kept_def)
qed

theorem locked_slot_survives_connection_witness:
  fixes e :: "cbor hes_env" and sv :: service
  defines "e \<equiv> hes_env0" and "sv \<equiv> sample_service [(sample_sw 1, True)]"
  shows "\<exists>sv'. process_requests e (\<lambda>_. 0) [] [(Received (psa_encode (extend_message 1 2 3 3 (sample_sw 1) False)), True)] sv
      = (Ok (), sv') \<and> ih_boot (sv_hes sv') ! 3 = ih_boot (sv_hes sv) ! 3"
proof -
  let ?in = "[(Received (psa_encode (extend_message 1 2 3 3 (sample_sw 1) False)), True)]"
  let ?L = "(\<lambda>_. [])(3 := [(sample_sw 1, True)])"
  have boot: "ih_boot (sv_hes sv) = mgr_of e ?L" by (simp add: sv_def e_def sample_service_def)
  have sha: "sha_lengths e" unfolding e_def by (rule hes_env0_sha)
  have "hes_extend_measurement e 3 (sample_sw 1) False (sv_hes sv) = (Err HesBadState, sv_hes sv)"
    by (simp add: hes_extend_measurement_def with_boot_def run boot mgr_extend_log[OF sha] log_extend_def log_refusal_def)
  then obtain sv' where run: "process_requests e (\<lambda>_. 0) [] ?in sv = (Ok (), sv')"
    using serve_extend[of 3 "sample_sw 1" e False sv "Err HesBadState" "sv_hes sv" "\<lambda>_. 0" "[]" 1 2 3]
    by (simp add: process_requests_def sample_sw_fits bind_run return_run)
  have "sl_is_locked (ih_boot (sv_hes sv) ! 3)" by (simp add: boot mgr_of_nth slot_of_locked)
  then show ?thesis
    using locked_slot_survives_connection[OF run, of 3] run by (simp add: boot)
qed

definition read_message :: "nat \<Rightarrow> nat \<Rightarrow> nat \<Rightarrow> nat list \<Rightarrow> psa_request" where
  "read_message i a b lens = \<lparr> pr_protocol_ver = 0, pr_seq_num = 0, pr_client_id = 0,
     pr_handle = RSS_MEASURED_BOOT_SERVICE_HANDLE, pr_type = RSS_MEASURED_BOOT_READ,
     pr_in_vecs = [[of_nat i, of_nat a, of_nat b]], pr_out_lens = lens \<rparr>"

lemma get_read_request:
  assumes "i < NUM_OF_MEASUREMENT_SLOTS" and "a < 256" and "b < 256" and "length lens \<le> 3" and "\<forall>n \<in> set lens. n < 0x10000"
  shows "get_request beyond (Received (psa_encode (read_message i a b lens))) sv
    = (Ok (ReqReadMeasurement i a b), sv\<lparr> sv_meta := Some \<lparr> ms_protocol_ver = 0, ms_seq_num = 0, ms_client_id = 0,
        ms_response_params = pad_to 4 0 lens \<rparr> \<rparr>)"
proof -
  let ?r = "read_message i a b lens"
  have "unat (of_nat n :: u8) = n" if "n < 256" for n using that by (simp add: unat_of_nat take_bit_nat_eq_self)
  moreover have "psa_request_de beyond (psa_encode ?r) sv = (Ok (?r\<lparr> pr_in_vecs := pad_to 4 [] (pr_in_vecs ?r),
      pr_out_lens := pad_to 4 0 (pr_out_lens ?r) \<rparr>) :: (psa_error, psa_request) outcome, sv)"
    using assms(4,5) by (intro psa_request_de_encode) (auto simp: read_message_def)
  ultimately show ?thesis using assms(1-3)
    by (simp add: get_request_def run convert_request_def read_message_def pad_to_def
        convert_measured_boot_request_def read_request_de_def)
qed

text \<open>
  C40. A measurement can be read only when its names fill their fields.  When a client reads a populated slot with buffers
  that are large enough, and the type has not exactly 20 bytes or the version not exactly 14, the
  service panics instead of answering.
\<close>

theorem read_of_short_names_panics:
  assumes "length (ih_boot (sv_hes sv)) = NUM_OF_MEASUREMENT_SLOTS" and "i < NUM_OF_MEASUREMENT_SLOTS"
    and "sl_is_populated (ih_boot (sv_hes sv) ! i)" and "sl_measurement (ih_boot (sv_hes sv) ! i) = m"
    and names: "length (mm_sw_type (sm_metadata m)) \<noteq> SW_TYPE_MAX_SIZE \<or> length (mm_sw_version (sm_metadata m)) \<noteq> VERSION_MAX_SIZE"
    and "length (mm_sw_type (sm_metadata m)) \<le> a" and "a < 256"
    and "length (mm_sw_version (sm_metadata m)) \<le> b" and "b < 256"
    and "length (mm_signer_id (sm_metadata m)) \<le> n" and "length (sm_value m) \<le> k"
    and "n0 < 0x10000" and "n < 0x10000" and "k < 0x10000"
  shows "fst (serve e beyond pad (Received (psa_encode (read_message i a b [n0, n, k])), writable) sv) = Panic"
proof -
  have lens: "pad_to 4 0 [n0, n, k] = [n0, n, k, 0]" by (simp add: pad_to_def)
  have "hes_read_measurement i (sv_hes sv) = (Ok (m, sl_is_locked (ih_boot (sv_hes sv) ! i)), sv_hes sv)"
    using assms(1-4) by (simp add: hes_read_measurement_def with_boot_def run mgr_read_def)
  moreover have "get_request beyond (Received (psa_encode (read_message i a b [n0, n, k]))) sv
    = (Ok (ReqReadMeasurement i a b), sv\<lparr> sv_meta := Some \<lparr> ms_protocol_ver = 0, ms_seq_num = 0, ms_client_id = 0,
        ms_response_params = [n0, n, k, 0] \<rparr> \<rparr>)"
    unfolding lens[symmetric] using assms by (intro get_read_request) auto
  ultimately show ?thesis using assms(5-11)
    by (simp add: serve_def run process_request_def call_hes_def send_response_def convert_response_def Let_def not_less)
qed

theorem read_of_short_names_panics_witness:
  "fst (serve (hes_env0 :: cbor hes_env) (\<lambda>_. 0) [] (Received (psa_encode (read_message 3 20 14 [44, 64, 64])), True)
     (sample_service [(sample_sw 1, False)])) = Panic"
proof -
  let ?sv = "sample_service [(sample_sw 1, False)]"
  define m where "m = sl_measurement (ih_boot (sv_hes ?sv) ! 3)"
  have slot: "ih_boot (sv_hes ?sv) ! 3 = slot_of (hes_env0 :: cbor hes_env) [(sample_sw 1, False)]"
    by (simp add: sample_service_def mgr_of_nth)
  have "sl_is_populated (ih_boot (sv_hes ?sv) ! 3)" by (simp add: slot slot_of_populated)
  moreover have "length (mm_sw_type (sm_metadata m)) = 3" "length (mm_sw_version (sm_metadata m)) = 3"
    "length (mm_signer_id (sm_metadata m)) = 32" "length (sm_value m) = 32"
    unfolding m_def slot by (simp_all add: slot_of_def sample_sw_def Let_def hes_env0_sha)
  moreover have "length (ih_boot (sv_hes ?sv)) = 32" by (simp add: sample_service_def)
  ultimately show ?thesis by (intro read_of_short_names_panics[where m = m]) (simp_all add: m_def)
qed

text \<open>A reply that does not fit the client's buffer is an error that the loop does not expect.\<close>

lemma small_buffer_panics:
  assumes "get_request beyond input sv = (Ok (ReqGetVHuk VHUK_A), sv1)" and "sv_meta sv1 = Some md"
    and "get_authority_vhuk e (sv_hes sv1) = (Ok key, h)" and "ms_response_params md ! 0 < length key"
  shows "fst (serve e beyond pad (input, writable) sv) = Panic"
  using assms
  by (simp add: serve_def run process_request_def call_hes_def send_response_def convert_response_def set_out_def Let_def)

end
