(* ===== verification/El3_Iface.thy ===== *)
theory El3_Iface
  imports Attestation
begin

text \<open>
  The interface to firmware at boot, \<open>rmm/src/rmm_el3\<close>: the monitor fetches the attestation key of the
  realms, the platform token for that key and the two sealing secrets, through the registers of
  an SMC and one shared page.  What firmware does is a parameter with a state of its own.  Every lock is
  taken for the length of one function and none is taken twice, so the locks leave no trace here.
\<close>

section \<open>State\<close>

record 'w el3 =
  el_fw :: 'w
  el_mem :: "usize \<Rightarrow> u8"
  el_key :: "u8 list"
  el_token :: "u8 list"
  el_vhuk_a :: "u8 list"
  el_vhuk_m :: "u8 list"

text \<open>The call of firmware, on the eight registers, its state and the memory, and a digest that \<open>env\<close> lacks.\<close>

record 'w el3_env =
  ee_smc :: "usize list \<Rightarrow> 'w \<Rightarrow> (usize \<Rightarrow> u8) \<Rightarrow> usize list \<times> 'w \<times> (usize \<Rightarrow> u8)"
  ee_sha384 :: "u8 list \<Rightarrow> u8 list"

type_synonym ('w, 'a) el3_prog = "('w el3, unit, 'a) prog"

abbreviation (input) RMM_SHARED_BUFFER_START :: usize where "RMM_SHARED_BUFFER_START \<equiv> 0xFFBFF000"
abbreviation (input) EL3_PAGE_SIZE :: usize where "EL3_PAGE_SIZE \<equiv> 0x1000"
abbreviation (input) RMM_GET_REALM_ATTEST_KEY :: usize where "RMM_GET_REALM_ATTEST_KEY \<equiv> 0xC40001B2"
abbreviation (input) RMM_GET_PLAT_TOKEN :: usize where "RMM_GET_PLAT_TOKEN \<equiv> 0xC40001B3"
abbreviation (input) RMM_ISLET_GET_VHUK :: usize where "RMM_ISLET_GET_VHUK \<equiv> 0xC70001B0"
abbreviation (input) ATTEST_KEY_CURVE_ECC_SECP384R1 :: usize where "ATTEST_KEY_CURVE_ECC_SECP384R1 \<equiv> 0"
abbreviation (input) SHA256_DIGEST_SIZE :: usize where "SHA256_DIGEST_SIZE \<equiv> 32"
abbreviation (input) VHUK_LENGTH :: nat where "VHUK_LENGTH \<equiv> 32"
abbreviation (input) ID_VHUK_A :: usize where "ID_VHUK_A \<equiv> 1"
abbreviation (input) ID_VHUK_M :: usize where "ID_VHUK_M \<equiv> 2"

text \<open>The statics before the boot.\<close>

definition el3_new :: "'w \<Rightarrow> (usize \<Rightarrow> u8) \<Rightarrow> 'w el3" where
  "el3_new w m = \<lparr> el_fw = w, el_mem = m, el_key = [], el_token = [],
     el_vhuk_a = replicate VHUK_LENGTH 0xAA, el_vhuk_m = replicate VHUK_LENGTH 0x33 \<rparr>"

section \<open>Utilities\<close>

text \<open>\<open>smc\<close> of \<open>rmm/src/asm.rs\<close>, here with its effect on memory.\<close>

definition el3_smc :: "'w el3_env \<Rightarrow> usize \<Rightarrow> usize list \<Rightarrow> ('w, usize list) el3_prog" where
  "el3_smc f cmd args =
    (if 1 + length args > 7 then return (replicate 8 0)
     else (\<lambda>s. let (r, w, m) = ee_smc f (cmd # args @ replicate (7 - length args) 0) (el_fw s) (el_mem s)
               in (Ok r, s\<lparr> el_fw := w, el_mem := m \<rparr>)))"

datatype rmm_el3_ifc_error = Unk | BadAddr | BadPas | NoMem | Inval

definition rmm_el3_ifc_error_from :: "usize \<Rightarrow> ('s, 'e, rmm_el3_ifc_error) prog" where
  "rmm_el3_ifc_error_from v =
    (if v = - 1 then return Unk else if v = - 2 then return BadAddr else if v = - 3 then return BadPas
     else if v = - 4 then return NoMem else if v = - 5 then return Inval else panic)"

text \<open>The bytes from an address on.\<close>

definition bytes_at :: "(usize \<Rightarrow> u8) \<Rightarrow> usize \<Rightarrow> nat \<Rightarrow> u8 list" where
  "bytes_at m a n = map (\<lambda>i. m (a + of_nat i)) [0..<n]"

definition va_to_vec :: "usize \<Rightarrow> usize \<Rightarrow> ('w, u8 list) el3_prog" where
  "va_to_vec a len = gets (\<lambda>s. bytes_at (el_mem s) a (unat len))"

definition vec_to_va :: "u8 list \<Rightarrow> usize \<Rightarrow> usize \<Rightarrow> ('w, unit) el3_prog" where
  "vec_to_va v a len =
    (if length v > unat len then panic
     else modify (\<lambda>s. s\<lparr> el_mem := (\<lambda>b. if unat (b - a) < length v then v ! unat (b - a) else el_mem s b) \<rparr>))"

text \<open>The loop that copies registers, eight bytes each; a slice beyond the array panics.\<close>

fun copy_regs :: "nat \<Rightarrow> usize list \<Rightarrow> u8 list \<Rightarrow> ('s, 'e, u8 list) prog" where
  "copy_regs i [] d = return d"
| "copy_regs i (reg # regs) d =
    (if i * 8 + 8 \<le> length d then copy_regs (i + 1) regs (take (i * 8) d @ le_bytes 8 reg @ drop (i * 8 + 8) d)
     else panic)"

definition set_array :: "usize list \<Rightarrow> nat \<Rightarrow> nat \<Rightarrow> ('w el3 \<Rightarrow> u8 list) \<Rightarrow> (u8 list \<Rightarrow> 'w el3 \<Rightarrow> 'w el3)
    \<Rightarrow> ('w, unit) el3_prog" where
  "set_array smc_ret lo hi dst put =
    (if lo \<le> hi \<and> hi \<le> length smc_ret
     then bind (gets dst) (\<lambda>d. bind (copy_regs 0 (take (hi - lo) (drop lo smc_ret)) d) (\<lambda>d'. modify (put d')))
     else panic)"

section \<open>Digest of the key\<close>

datatype el3_hash_algo = El3Sha256 | El3Sha384 | El3Sha512

definition el3_calculate_hash :: "env \<Rightarrow> 'w el3_env \<Rightarrow> u8 list \<Rightarrow> el3_hash_algo \<Rightarrow> u8 list" where
  "el3_calculate_hash e f data algo = (case algo of
      El3Sha256 \<Rightarrow> e_hash e HASH_ALGO_SHA256 data
    | El3Sha384 \<Rightarrow> ee_sha384 f data
    | El3Sha512 \<Rightarrow> e_hash e HASH_ALGO_SHA512 data)"

definition get_realm_public_key_hash :: "env \<Rightarrow> 'w el3_env \<Rightarrow> u8 list \<Rightarrow> ('w, u8 list) el3_prog" where
  "get_realm_public_key_hash e f key =
    bind (unwrap (e_p384_public e key)) (\<lambda>public_key.
      return (el3_calculate_hash e f public_key El3Sha256))"

section \<open>The calls\<close>

definition log_failure :: "usize \<Rightarrow> ('s, 'e, unit) prog" where
  "log_failure ret_code = only_if (ret_code \<noteq> 0) (seq (rmm_el3_ifc_error_from ret_code) (return ()))"

definition get_realm_attest_key :: "'w el3_env \<Rightarrow> ('w, unit) el3_prog" where
  "get_realm_attest_key f =
    bind (el3_smc f RMM_GET_REALM_ATTEST_KEY
        [RMM_SHARED_BUFFER_START, EL3_PAGE_SIZE, ATTEST_KEY_CURVE_ECC_SECP384R1]) (\<lambda>r.
    bind (index_slice r 0) (\<lambda>ret_code. bind (index_slice r 1) (\<lambda>buflen.
      seq (log_failure ret_code)
      (bind (va_to_vec RMM_SHARED_BUFFER_START buflen) (\<lambda>v. modify (\<lambda>s. s\<lparr> el_key := v \<rparr>))))))"

definition get_plat_token :: "env \<Rightarrow> 'w el3_env \<Rightarrow> ('w, unit) el3_prog" where
  "get_plat_token e f =
    bind (gets el_key) (\<lambda>dak_priv.
    bind (get_realm_public_key_hash e f dak_priv) (\<lambda>dak_pub_hash.
    seq (vec_to_va dak_pub_hash RMM_SHARED_BUFFER_START EL3_PAGE_SIZE)
    (bind (el3_smc f RMM_GET_PLAT_TOKEN [RMM_SHARED_BUFFER_START, EL3_PAGE_SIZE, SHA256_DIGEST_SIZE]) (\<lambda>r.
    bind (index_slice r 0) (\<lambda>ret_code. bind (index_slice r 1) (\<lambda>buflen.
      seq (log_failure ret_code)
      (bind (va_to_vec RMM_SHARED_BUFFER_START buflen) (\<lambda>v. modify (\<lambda>s. s\<lparr> el_token := v \<rparr>)))))))))"

definition get_vhuk :: "'w el3_env \<Rightarrow> usize \<Rightarrow> ('w el3 \<Rightarrow> u8 list) \<Rightarrow> (u8 list \<Rightarrow> 'w el3 \<Rightarrow> 'w el3)
    \<Rightarrow> ('w, usize) el3_prog" where
  "get_vhuk f ident out put =
    bind (el3_smc f RMM_ISLET_GET_VHUK [ident]) (\<lambda>r.
    bind (index_slice r 0) (\<lambda>ret_code.
      seq (log_failure ret_code) (seq (set_array r 1 5 out put) (return ret_code))))"

definition get_vhuks :: "'w el3_env \<Rightarrow> ('w, unit) el3_prog" where
  "get_vhuks f =
    bind (get_vhuk f ID_VHUK_A el_vhuk_a (\<lambda>v s. s\<lparr> el_vhuk_a := v \<rparr>)) (\<lambda>ret_code.
    seq (log_failure ret_code)
    (bind (get_vhuk f ID_VHUK_M el_vhuk_m (\<lambda>v s. s\<lparr> el_vhuk_m := v \<rparr>)) (\<lambda>ret_code.
      log_failure ret_code)))"

definition setup_el3_ifc :: "env \<Rightarrow> 'w el3_env \<Rightarrow> ('w, unit) el3_prog" where
  "setup_el3_ifc e f = seq (get_realm_attest_key f) (seq (get_plat_token e f) (get_vhuks f))"

text \<open>
  What \<open>realm_attest_key\<close>, \<open>plat_token\<close>, \<open>vhuk_a\<close> and \<open>vhuk_m\<close> return from then on, which is how the
  commands of the monitor see them.
\<close>

definition booted_env :: "env \<Rightarrow> 'w el3 \<Rightarrow> env" where
  "booted_env e s = e\<lparr> e_rak := el_key s, e_plat_token := el_token s, e_vhuk_a := el_vhuk_a s, e_vhuk_m := el_vhuk_m s \<rparr>"

section \<open>Behaviour\<close>

abbreviation (input) el3_codes :: "usize set" where "el3_codes \<equiv> {0, - 1, - 2, - 3, - 4, - 5}"

lemma log_failure_run [run]: "log_failure c s = (if c \<in> el3_codes then (Ok (), s) else (Panic, s))"
  by (simp add: log_failure_def rmm_el3_ifc_error_from_def only_if_def run)

lemma length_bytes_at [simp]: "length (bytes_at m a n) = n"
  by (simp add: bytes_at_def)

lemma bytes_at_written:
  assumes "length v \<le> 4096"
  shows "bytes_at (\<lambda>b. if unat (b - a) < length v then v ! unat (b - a) else m b) a (length v) = v"
proof (rule nth_equalityI)
  fix i assume i: "i < length (bytes_at (\<lambda>b. if unat (b - a) < length v then v ! unat (b - a) else m b) a (length v))"
  then have "unat (of_nat i :: usize) = i" using assms by (simp add: unat_of_nat take_bit_eq_mod)
  then show "bytes_at (\<lambda>b. if unat (b - a) < length v then v ! unat (b - a) else m b) a (length v) ! i = v ! i"
    using i by (simp add: bytes_at_def)
qed simp

lemma copy_regs_run:
  "length d = 8 * (i + length regs) \<Longrightarrow>
    copy_regs i regs d s = (Ok (take (8 * i) d @ concat (map (le_bytes 8) regs)), s)"
proof (induction regs arbitrary: i d)
  case Nil
  then show ?case by (simp add: run)
next
  case (Cons reg regs)
  let ?d = "take (i * 8) d @ le_bytes 8 reg @ drop (i * 8 + 8) d"
  have "length ?d = 8 * (i + 1 + length regs)" using Cons.prems by simp
  moreover have "take (8 * (i + 1)) ?d = take (8 * i) d @ le_bytes 8 reg"
    using Cons.prems by (simp add: mult.commute)
  ultimately show ?case using Cons.IH[of ?d "i + 1"] Cons.prems by simp
qed

text \<open>One call: the code in the first register decides, and the bytes of the answer are stored even on a failure.\<close>

lemma get_realm_attest_key_run:
  assumes "ee_smc f [RMM_GET_REALM_ATTEST_KEY, RMM_SHARED_BUFFER_START, EL3_PAGE_SIZE, 0, 0, 0, 0, 0] (el_fw s) (el_mem s) = (r, w, m)"
    and "length r = 8"
  shows "get_realm_attest_key f s =
    (if r ! 0 \<in> el3_codes
     then (Ok (), s\<lparr> el_fw := w, el_mem := m, el_key := bytes_at m RMM_SHARED_BUFFER_START (unat (r ! 1)) \<rparr>)
     else (Panic, s\<lparr> el_fw := w, el_mem := m \<rparr>))"
  using assms by (simp add: get_realm_attest_key_def el3_smc_def va_to_vec_def run numeral_eq_Suc)

lemma get_plat_token_run:
  assumes "e_p384_public e (el_key s) = Some pk" and "length (e_hash e HASH_ALGO_SHA256 pk) = 32"
    and "\<forall>m. bytes_at m RMM_SHARED_BUFFER_START 32 = e_hash e HASH_ALGO_SHA256 pk \<longrightarrow>
      (\<exists>r m'. ee_smc f [RMM_GET_PLAT_TOKEN, RMM_SHARED_BUFFER_START, EL3_PAGE_SIZE, 32, 0, 0, 0, 0] (el_fw s) m = (r, w, m')
         \<and> length r = 8 \<and> r ! 0 = 0 \<and> bytes_at m' RMM_SHARED_BUFFER_START (unat (r ! 1)) = tok)"
  shows "\<exists>m. get_plat_token e f s = (Ok (), s\<lparr> el_fw := w, el_mem := m, el_token := tok \<rparr>)"
proof -
  let ?h = "e_hash e HASH_ALGO_SHA256 pk"
  let ?m = "\<lambda>b. if unat (b - RMM_SHARED_BUFFER_START) < length ?h then ?h ! unat (b - RMM_SHARED_BUFFER_START) else el_mem s b"
  have "bytes_at ?m RMM_SHARED_BUFFER_START 32 = ?h"
    using bytes_at_written[of ?h RMM_SHARED_BUFFER_START "el_mem s"] assms(2) by simp
  then obtain r m' where r: "ee_smc f [RMM_GET_PLAT_TOKEN, RMM_SHARED_BUFFER_START, EL3_PAGE_SIZE, 32, 0, 0, 0, 0] (el_fw s) ?m = (r, w, m')"
    "length r = 8" "r ! 0 = 0" "bytes_at m' RMM_SHARED_BUFFER_START (unat (r ! 1)) = tok"
    using assms(3) by blast
  have hash: "get_realm_public_key_hash e f (el_key s) s = (Ok ?h, s)"
    using assms(1) by (simp add: get_realm_public_key_hash_def el3_calculate_hash_def run)
  have put: "vec_to_va ?h RMM_SHARED_BUFFER_START EL3_PAGE_SIZE s = (Ok (), s\<lparr> el_mem := ?m \<rparr>)"
    using assms(2) by (simp add: vec_to_va_def run)
  have call: "el3_smc f RMM_GET_PLAT_TOKEN [RMM_SHARED_BUFFER_START, EL3_PAGE_SIZE, SHA256_DIGEST_SIZE] (s\<lparr> el_mem := ?m \<rparr>)
      = (Ok r, s\<lparr> el_fw := w, el_mem := m' \<rparr>)"
    using r(1) by (simp add: el3_smc_def numeral_eq_Suc)
  show ?thesis
    by (rule exI[of _ m']) (simp add: get_plat_token_def run hash put call r(2,3) r(4)[unfolded One_nat_def] va_to_vec_def)
qed

lemma set_array_run:
  assumes "length r = 8" and "length (out s) = VHUK_LENGTH"
  shows "set_array r 1 5 out put s = (Ok (), put (concat (map (le_bytes 8) (take 4 (drop 1 r)))) s)"
proof -
  have "copy_regs 0 (take 4 (drop 1 r)) (out s) s = (Ok (concat (map (le_bytes 8) (take 4 (drop 1 r)))) :: (unit, u8 list) outcome, s)"
    using copy_regs_run[of "out s" 0 "take 4 (drop 1 r)"] assms by simp
  then show ?thesis using assms(1) by (simp add: set_array_def run)
qed

lemma get_vhuk_run:
  assumes "ee_smc f [RMM_ISLET_GET_VHUK, ident, 0, 0, 0, 0, 0, 0] (el_fw s) (el_mem s) = (r, w, m)"
    and "length r = 8" and "r ! 0 = 0" and "length (out (s\<lparr> el_fw := w, el_mem := m \<rparr>)) = VHUK_LENGTH"
  shows "get_vhuk f ident out put s =
    (Ok 0, put (concat (map (le_bytes 8) (take 4 (drop 1 r)))) (s\<lparr> el_fw := w, el_mem := m \<rparr>))"
proof -
  have "el3_smc f RMM_ISLET_GET_VHUK [ident] s = (Ok r, s\<lparr> el_fw := w, el_mem := m \<rparr>)"
    using assms(1) by (simp add: el3_smc_def numeral_eq_Suc)
  then show ?thesis
    using assms(2,3) set_array_run[of r out "s\<lparr> el_fw := w, el_mem := m \<rparr>", OF assms(2,4)] by (simp add: get_vhuk_def run)
qed

text \<open>
  A failure of the first call is logged and no more: the boot goes on with the bytes that the page has.  Where firmware
  reports none, the key is empty, and the boot ends in a panic of the second step.
\<close>

lemma key_failure_panics:
  assumes "ee_smc f [RMM_GET_REALM_ATTEST_KEY, RMM_SHARED_BUFFER_START, EL3_PAGE_SIZE, 0, 0, 0, 0, 0] (el_fw s) (el_mem s) = (r, w, m)"
    and "length r = 8" and "r ! 0 \<in> {- 1, - 2, - 3, - 4, - 5}" and "r ! 1 = 0" and "e_p384_public e [] = None"
  shows "fst (get_realm_attest_key f s) = Ok ()" and "fst (setup_el3_ifc e f s) = Panic"
proof -
  have "get_realm_attest_key f s = (Ok (), s\<lparr> el_fw := w, el_mem := m, el_key := [] \<rparr>)"
    using get_realm_attest_key_run[OF assms(1,2)] assms(3,4) by (auto simp: bytes_at_def)
  then show "fst (get_realm_attest_key f s) = Ok ()" "fst (setup_el3_ifc e f s) = Panic"
    using assms(5) by (simp_all add: setup_el3_ifc_def get_plat_token_def get_realm_public_key_hash_def run)
qed

end
