(* ===== verification/Spec2Isabelle.thy ===== *)
theory Spec2Isabelle
  imports Monitor Hes_Service El3_Iface
begin

text \<open>
  Islet: the realm management monitor (RMM) of the Arm confidential compute architecture,
  \<open>rmm/\<close> with the libraries \<open>lib/armv9a\<close> and \<open>lib/vmsa\<close> it is built from, and the security component
  (HES) under \<open>hes/\<close> that measures the boot of the platform and vouches for it.

  \<^bold>\<open>The program.\<close>  The host (hypervisor) gives pages of memory, \<^emph>\<open>granules\<close>, to the monitor and
  asks it by commands (RMI) to build realms from them: a realm descriptor (RD), translation
  tables (RTT), data pages and execution contexts (REC).  A realm that runs calls the
  monitor through realm services (RSI).  The monitor keeps for every granule its state,
  lock and reference count; firmware keeps for every granule the physical address space it
  belongs to, which delegation changes by an SMC.  The initial content of a realm is hashed
  into its initial measurement, which attestation tokens and sealing keys carry.  At boot the
  monitor fetches, through firmware, an attestation key, a token of the platform for that key and two
  sealing secrets; they come from the security component, which keeps the measurements of the
  boot in slots and derives its keys from them.

  \<^bold>\<open>The model.\<close>  Code is a program (theory \<open>Islet_Prelude\<close>): a function of a state to an outcome
  \<open>Ok\<close>, \<open>Err\<close>, \<open>Panic\<close> or \<open>Hang\<close> and the state left.  An early return by \<open>?\<close> is \<open>Err\<close>, \<open>unwrap\<close> on \<open>None\<close>,
  an index out of range, \<open>todo!()\<close> and \<open>unreachable!()\<close> are \<open>Panic\<close>, and taking a lock that is
  held, or a loop that does not end, is \<open>Hang\<close>.  Integers are words of their width; arithmetic wraps as
  in the release build.  The state of the monitor is one record \<open>rmm\<close> (theory \<open>Granule\<close>): the granule
  table, the locks that are held, the memory as 64-bit words at physical addresses, the realm descriptors
  and execution contexts by the address of their granule, the assignment of granules in firmware, the set of
  VMIDs, the root tables of the realms, the monitor's own page table, a log of TLB instructions, the return
  registers, the run page of the entered context and the registers of the core.  The security component has a
  state \<open>islet_hes\<close>, its service a state around that, and the interface to firmware a state \<open>el3\<close>.

  \<^bold>\<open>The theories,\<close> with the code they model and what their lemmas show.
  \<^item> \<open>Islet_Prelude\<close>: outcomes, programs, the rules of the collection \<open>run\<close> that evaluate them, total
    correctness triples, step relations (locale \<open>step_relation\<close>) and programs that end.
    \<open>Islet_Bits\<close>: \<open>lib/armv9a/src/macro.rs\<close>, \<open>lib/vmsa/src/address.rs\<close>.
  \<^item> \<open>Rmi_Error\<close>: \<open>rmi/error.rs\<close>.  \<open>S2tte\<close>: \<open>realm/mm/stage2_tte.rs\<close>; a table that passes the test of
    homogeneity maps what one block maps.  \<open>Realm_Rd\<close>: \<open>realm/rd.rs\<close>.  \<open>Rec_Context\<close>: \<open>rec/mod.rs\<close>,
    \<open>rec/context.rs\<close>, \<open>rmi/rec/mpidr.rs\<close>.
  \<^item> \<open>Stage1\<close>: the monitor's own table, \<open>mm/translation.rs\<close>, \<open>mm/page_table/\<close> and the parts of \<open>lib/vmsa\<close> it
    uses, with the interface \<open>page_map\<close>; a page mapped for a command leaves no trace.
  \<^item> \<open>Granule\<close>: \<open>granule/array/\<close> and \<open>host.rs\<close>; indices of granules, locks and the interfaces of frame
    conditions \<open>granule_frame\<close> and \<open>command_frame\<close>, interpreted on \<open>confined\<close>: a program changes the
    states of granules within a set only.  \<open>Rmi_Gpt\<close>: \<open>rmi/gpt.rs\<close>; both commands on every branch.
  \<^item> \<open>Measurement\<close>: \<open>measurement/\<close>, \<open>rsi/measurement.rs\<close>; equal initial measurements have equal histories, or
    show a collision of the digest.
  \<^item> \<open>Stage2\<close>: \<open>realm/mm/entry.rs\<close>, \<open>realm/mm/stage2_translation.rs\<close> and the walks of
    \<open>lib/vmsa/src/page_table.rs\<close>; walks of covered addresses do not fail and entries read back.  \<open>Rtt\<close>:
    \<open>realm/mm/rtt.rs\<close>; splitting and folding keep translations, loops over entries end.  \<open>Rmi_Rtt\<close>:
    \<open>rmi/rtt.rs\<close>; the frames of its commands, and that a change of RIPAS has a pending request.
  \<^item> \<open>Rmi_Realm\<close>: \<open>rmi/realm/\<close>, \<open>rmi/features.rs\<close>, \<open>rmi/version.rs\<close>, \<open>rmi/metadata.rs\<close>; what accepted
    parameters guarantee, and activation.
  \<^item> \<open>Rec_Run\<close>: \<open>rmi/rec/run.rs\<close>, \<open>rec/gic.rs\<close>, \<open>rec/timer.rs\<close>, \<open>rec/simd.rs\<close>, \<open>mmio.rs\<close> and the switch of
    contexts, which keeps a realm's registers.  \<open>Trap\<close>: \<open>exception/\<close>, \<open>event/realmexit.rs\<close>; the decoding of exits.
  \<^item> \<open>Attestation\<close>: \<open>rsi/attestation/\<close>, \<open>rsi/sealing.rs\<close>; tokens and sealing keys determine what they carry.
    \<open>Rsi\<close>: \<open>rsi/\<close>.  \<open>Realm_Exit\<close>: \<open>rmi/rec/exit.rs\<close>.  \<open>Rmi_Rec\<close>: \<open>rmi/rec/handlers.rs\<close>,
    \<open>rmi/rec/params.rs\<close>; refusals of REC_ENTER and the completion of CPU_ON.
  \<^item> \<open>Realm_Frame\<close>: what running a realm, and creating and destroying contexts, leaves alone (locale
    \<open>realm_frame\<close>).  \<open>Realm_Live\<close>: REC_ENTER of a realm that is interrupted does not hang.
  \<^item> \<open>Monitor\<close>: \<open>event/\<close>, \<open>monitor.rs\<close> and \<open>rmi/constraint.rs\<close>; the loop keeps the states of granules
    consistent with firmware and leaves no lock held.  Two commands are left out of that invariant, because
    they set the state of a granule that a table or a realm names without a check of its state.
  \<^item> \<open>Hes_Boot\<close>: \<open>hes/islet-hes/src/measured_boot/\<close>, \<open>hw/\<close>; the slots refine a log of accepted requests (locale
    \<open>boot_store\<close>), and a measurement determines its log or shows a collision.  \<open>Hes_Attestation\<close>:
    \<open>hes/key-derivation\<close>, \<open>hes/islet-hes/src/attestation\<close>, \<open>utils.rs\<close>, \<open>lib.rs\<close>; derived keys, the token of the
    platform and its binding to the delegated key.  \<open>Hes_Service\<close>: \<open>hes/islet-hes-host-app/src\<close>; requests from
    the bytes received to the bytes sent, and locked slots through whole connections.
  \<^item> \<open>El3_Iface\<close>: \<open>rmm/src/rmm_el3/\<close>.  This theory puts it together with the security component and the tokens of
    realms into the chain of attestation.

  \<^bold>\<open>Parameters.\<close>  The record \<open>env\<close> holds what is not code of the repository: the firmware call, the digest
  functions, the signature check, the encoders of CBOR and COSE, key derivation and the tokens and keys of
  the platform, which \<open>booted_env\<close> fills in from the boot; \<open>platform\<close> holds the values and fields of hardware
  registers.  What a realm does between two exits is an input, a list of \<open>guest_step\<close>.  \<open>hes_env\<close> holds the crates
  that the security component uses, with the orders of the curves; \<open>el3_env\<close> holds firmware, with a state of
  its own.  Bytes that the service reads behind a received message are a parameter as well.

  \<^bold>\<open>Fuel.\<close>  The two loops over the entries of a table run on \<open>loop_fuel\<close>, the number of
  entries between the address and the end of the table plus two, which is never used up
  (\<open>fuel_enough\<close>, \<open>set_ripas_no_hang\<close>).  The loop of REC_ENTER runs on the number of steps of
  the realm that are given plus one; each iteration consumes one.  The page iterator and the search
  for a key candidate are \<open>partial_function\<close>s: the one does not end at the end of the address space,
  the other not when the first candidate is out of range.  The main loops of the monitor and
  of the service run over the list of turns, or of connections, that they are given.

  \<^bold>\<open>Not modelled.\<close>  The boot of the cores, the system registers set there and the fixed mappings of the
  monitor, the console and its driver, the allocator and the logger are device and start-up code.
  Interrupts of the monitor itself end in a panic or a log message.  The builds with the features
  \<open>gst_page_table\<close> and \<open>stat\<close> are not the default one.  Of the service, reading and writing the socket
  and files, command line arguments and the detachment from the terminal are calls of the
  operating system.  The command line tools under \<open>hes/\<close> print what modelled functions return.  The programs
  under \<open>sdk/\<close>, \<open>examples/\<close>, \<open>realm/\<close> and \<open>model-checking/\<close> run in a realm, at a relying party or in a model checker.
  Several cores running at once are not modelled: a command runs alone, so a lock that is held is
  one the command holds itself.
\<close>

section \<open>The chain of attestation\<close>

text \<open>
  Firmware between the monitor and the security component, as the interface of the monitor with EL3 documents
  it: a request for the attestation key is one for a delegated key on the curve P-384 whose public part will be
  hashed with SHA-256, a request for the platform token passes on the hash in the shared page, and the requests for
  the sealing secrets return them in four registers.  Answers go to the shared page.
\<close>

definition relays :: "(cbor, 'x) hes_env_scheme \<Rightarrow> islet_hes el3_env \<Rightarrow> bool" where
  "relays he f \<longleftrightarrow>
    (\<forall>h m dak h1. get_delegated_key he SecpR1 Bits384 DakSha256 h = (Ok dak, h1) \<and> length dak \<le> unat EL3_PAGE_SIZE \<longrightarrow>
      (\<exists>r m'. ee_smc f [RMM_GET_REALM_ATTEST_KEY, RMM_SHARED_BUFFER_START, EL3_PAGE_SIZE, 0, 0, 0, 0, 0] h m = (r, h1, m')
         \<and> length r = 8 \<and> r ! 0 = 0 \<and> bytes_at m' RMM_SHARED_BUFFER_START (unat (r ! 1)) = dak))
    \<and> (\<forall>h m tok h1 bytes. get_platform_token he (bytes_at m RMM_SHARED_BUFFER_START 32) h = (Ok tok, h1)
         \<and> he_tagged he (cs_payload tok) (cs_signature tok) = Some bytes \<and> length bytes \<le> unat EL3_PAGE_SIZE \<longrightarrow>
      (\<exists>r m'. ee_smc f [RMM_GET_PLAT_TOKEN, RMM_SHARED_BUFFER_START, EL3_PAGE_SIZE, 32, 0, 0, 0, 0] h m = (r, h1, m')
         \<and> length r = 8 \<and> r ! 0 = 0 \<and> bytes_at m' RMM_SHARED_BUFFER_START (unat (r ! 1)) = bytes))
    \<and> (\<forall>h m k h1 ident. (if ident = ID_VHUK_A then get_authority_vhuk he h else get_measurement_vhuk he h) = (Ok k, h1)
         \<and> ident \<in> {ID_VHUK_A, ID_VHUK_M} \<and> length k = VHUK_LENGTH \<longrightarrow>
      (\<exists>r. ee_smc f [RMM_ISLET_GET_VHUK, ident, 0, 0, 0, 0, 0, 0] h m = (r, h1, m)
         \<and> length r = 8 \<and> r ! 0 = 0 \<and> concat (map (le_bytes 8) (take 4 (drop 1 r))) = k))"

lemma relaysD:
  assumes "relays he f"
  shows "get_delegated_key he SecpR1 Bits384 DakSha256 h = (Ok dak, h1) \<Longrightarrow> length dak \<le> 4096 \<Longrightarrow>
      \<exists>r m'. ee_smc f [RMM_GET_REALM_ATTEST_KEY, RMM_SHARED_BUFFER_START, EL3_PAGE_SIZE, 0, 0, 0, 0, 0] h m = (r, h1, m')
         \<and> length r = 8 \<and> r ! 0 = 0 \<and> bytes_at m' RMM_SHARED_BUFFER_START (unat (r ! 1)) = dak"
    and "get_platform_token he (bytes_at m RMM_SHARED_BUFFER_START 32) h = (Ok tok, h1) \<Longrightarrow>
      he_tagged he (cs_payload tok) (cs_signature tok) = Some bytes \<Longrightarrow> length bytes \<le> 4096 \<Longrightarrow>
      \<exists>r m'. ee_smc f [RMM_GET_PLAT_TOKEN, RMM_SHARED_BUFFER_START, EL3_PAGE_SIZE, 32, 0, 0, 0, 0] h m = (r, h1, m')
         \<and> length r = 8 \<and> r ! 0 = 0 \<and> bytes_at m' RMM_SHARED_BUFFER_START (unat (r ! 1)) = bytes"
    and "get_authority_vhuk he h = (Ok k, h1) \<Longrightarrow> length k = VHUK_LENGTH \<Longrightarrow>
      \<exists>r. ee_smc f [RMM_ISLET_GET_VHUK, ID_VHUK_A, 0, 0, 0, 0, 0, 0] h m = (r, h1, m)
         \<and> length r = 8 \<and> r ! 0 = 0 \<and> concat (map (le_bytes 8) (take 4 (drop 1 r))) = k"
    and "get_measurement_vhuk he h = (Ok k, h1) \<Longrightarrow> length k = VHUK_LENGTH \<Longrightarrow>
      \<exists>r. ee_smc f [RMM_ISLET_GET_VHUK, ID_VHUK_M, 0, 0, 0, 0, 0, 0] h m = (r, h1, m)
         \<and> length r = 8 \<and> r ! 0 = 0 \<and> concat (map (le_bytes 8) (take 4 (drop 1 r))) = k"
  using assms unfolding relays_def by simp_all

text \<open>The crates for SHA-256 and P-384 are the same on both sides.\<close>

definition same_crates :: "env \<Rightarrow> (cbor, 'x) hes_env_scheme \<Rightarrow> bool" where
  "same_crates e he \<longleftrightarrow> (\<forall>d. e_hash e HASH_ALGO_SHA256 d = he_sha256 he d)
     \<and> (\<forall>key n. he_from_slice he NistP384 key = Some n \<longrightarrow> e_p384_public e key = Some (he_sec1 he NistP384 n))"

lemma vhuk_run:
  assumes "length (ih_boot h) = NUM_OF_MEASUREMENT_SLOTS" and "length (ih_huk h) = 32"
    and "\<forall>k b. length (he_aes_block he k b) = 16" and "\<forall>v. he_cbor he v \<noteq> None"
  shows "\<exists>k. get_authority_vhuk he h = (Ok k, h) \<and> length k = VHUK_LENGTH"
    and "\<exists>k. get_measurement_vhuk he h = (Ok k, h) \<and> length k = VHUK_LENGTH"
proof -
  show "\<exists>k. get_authority_vhuk he h = (Ok k, h) \<and> length k = VHUK_LENGTH"
    using assms by (simp add: get_authority_vhuk_def fetch_current_run run generate_seed_def Let_def)
  obtain c where "he_cbor he (encode_measurements (populated (ih_boot h))) = Some c" using assms(4) by blast
  then show "\<exists>k. get_measurement_vhuk he h = (Ok k, h) \<and> length k = VHUK_LENGTH"
    using assms by (simp add: get_measurement_vhuk_def fetch_current_run run generate_seed_def Let_def)
qed

lemma get_vhuks_run:
  assumes "relays he f" and "length (el_vhuk_a s) = VHUK_LENGTH" and "length (el_vhuk_m s) = VHUK_LENGTH"
    and "get_authority_vhuk he (el_fw s) = (Ok a, el_fw s)" and "length a = VHUK_LENGTH"
    and "get_measurement_vhuk he (el_fw s) = (Ok b, el_fw s)" and "length b = VHUK_LENGTH"
  shows "get_vhuks f s = (Ok (), s\<lparr> el_vhuk_a := a, el_vhuk_m := b \<rparr>)"
proof -
  obtain r where r: "ee_smc f [RMM_ISLET_GET_VHUK, ID_VHUK_A, 0, 0, 0, 0, 0, 0] (el_fw s) (el_mem s) = (r, el_fw s, el_mem s)"
    "length r = 8" "r ! 0 = 0" "concat (map (le_bytes 8) (take 4 (drop 1 r))) = a"
    using relaysD(3)[OF assms(1,4,5)] by blast
  have one: "get_vhuk f ID_VHUK_A el_vhuk_a (\<lambda>v s. s\<lparr> el_vhuk_a := v \<rparr>) s = (Ok 0, s\<lparr> el_vhuk_a := a \<rparr>)"
    using get_vhuk_run[OF r(1-3), of el_vhuk_a] assms(2) unfolding r(4) by simp
  obtain q where q: "ee_smc f [RMM_ISLET_GET_VHUK, ID_VHUK_M, 0, 0, 0, 0, 0, 0] (el_fw s) (el_mem s) = (q, el_fw s, el_mem s)"
    "length q = 8" "q ! 0 = 0" "concat (map (le_bytes 8) (take 4 (drop 1 q))) = b"
    using relaysD(4)[OF assms(1,6,7)] by blast
  have "ee_smc f [RMM_ISLET_GET_VHUK, ID_VHUK_M, 0, 0, 0, 0, 0, 0] (el_fw (s\<lparr> el_vhuk_a := a \<rparr>)) (el_mem (s\<lparr> el_vhuk_a := a \<rparr>))
      = (q, el_fw s, el_mem s)" using q(1) by simp
  from get_vhuk_run[OF this q(2,3), of el_vhuk_m]
  have "get_vhuk f ID_VHUK_M el_vhuk_m (\<lambda>v s. s\<lparr> el_vhuk_m := v \<rparr>) (s\<lparr> el_vhuk_a := a \<rparr>)
      = (Ok 0, s\<lparr> el_vhuk_a := a, el_vhuk_m := b \<rparr>)"
    using assms(3) unfolding q(4) by simp
  then show ?thesis by (simp add: get_vhuks_def run one)
qed

lemma setup_run:
  assumes "relays he f" and "e_p384_public e dak = Some pk" and "length (e_hash e HASH_ALGO_SHA256 pk) = 32"
    and key: "get_delegated_key he SecpR1 Bits384 DakSha256 h = (Ok dak, h1)" "length dak \<le> 4096"
    and tok: "get_platform_token he (e_hash e HASH_ALGO_SHA256 pk) h1 = (Ok tok, h1)"
      "he_tagged he (cs_payload tok) (cs_signature tok) = Some bytes" "length bytes \<le> 4096"
    and vhuk: "get_authority_vhuk he h1 = (Ok a, h1)" "length a = VHUK_LENGTH"
      "get_measurement_vhuk he h1 = (Ok b, h1)" "length b = VHUK_LENGTH"
  shows "\<exists>t. setup_el3_ifc e f (el3_new h m) = (Ok (), t)
    \<and> el_key t = dak \<and> el_token t = bytes \<and> el_vhuk_a t = a \<and> el_vhuk_m t = b"
proof -
  let ?s = "el3_new h m"
  have s: "el_fw ?s = h" "el_mem ?s = m" "length (el_vhuk_a ?s) = 32" "length (el_vhuk_m ?s) = 32"
    by (simp_all add: el3_new_def)
  obtain r m1 where r: "ee_smc f [RMM_GET_REALM_ATTEST_KEY, RMM_SHARED_BUFFER_START, EL3_PAGE_SIZE, 0, 0, 0, 0, 0]
      (el_fw ?s) (el_mem ?s) = (r, h1, m1)" "length r = 8" "r ! 0 = 0" "bytes_at m1 RMM_SHARED_BUFFER_START (unat (r ! 1)) = dak"
    using relaysD(1)[OF assms(1) key, of m] s by auto
  let ?s1 = "?s\<lparr> el_fw := h1, el_mem := m1, el_key := dak \<rparr>"
  have first: "get_realm_attest_key f ?s = (Ok (), ?s1)"
    using get_realm_attest_key_run[OF r(1,2)] r(3) unfolding r(4) by simp
  obtain m2 where second: "get_plat_token e f ?s1 = (Ok (), ?s1\<lparr> el_fw := h1, el_mem := m2, el_token := bytes \<rparr>)"
    using get_plat_token_run[of e ?s1 pk f h1 bytes] relaysD(2)[OF assms(1) _ tok(2,3), of _ h1 h1] assms(2,3) tok(1)
    by auto
  let ?s2 = "?s1\<lparr> el_fw := h1, el_mem := m2, el_token := bytes \<rparr>"
  have "get_vhuks f ?s2 = (Ok (), ?s2\<lparr> el_vhuk_a := a, el_vhuk_m := b \<rparr>)"
    using vhuk s(3,4) by (intro get_vhuks_run[OF assms(1)]) simp_all
  then show ?thesis by (simp add: setup_el3_ifc_def run first second)
qed

text \<open>
  C1. The chain of attestation, from the security component to the token of a realm.  At boot the monitor ends up, without
  a panic, with the delegated key of the security component, with a platform token that the security component
  issued and signed for that key over the measurements of the boot, and with its two sealing secrets.  In every token that a
  realm obtains from then on, the hash of the public key that the realm token names is the challenge
  of the platform token beside it: a verifier that trusts the platform's key can trust that of the realm token.
\<close>

theorem attestation_chain:
  assumes "relays he f" and "same_crates e he" and "sha_lengths he" and aes: "\<forall>k b. length (he_aes_block he k b) = 16"
    and parse: "\<forall>c k. 1 \<le> k \<and> k < he_order he c \<longrightarrow> he_from_slice he c (be_bytes (uint_bytes c) k) = Some k"
    and cbor: "\<forall>v. he_cbor he v \<noteq> None" and sign: "\<forall>d. he_sign he (am_cpak (ih_att h)) d \<noteq> None"
    and len: "length (ih_boot h) = NUM_OF_MEASUREMENT_SLOTS" and huk: "length (ih_huk h) = 32"
    and key: "get_delegated_key he SecpR1 Bits384 DakSha256 h = (Ok dak, h1)"
    and fits: "\<forall>p tok h2. get_platform_token he p h1 = (Ok tok, h2) \<longrightarrow>
      (\<exists>bytes. he_tagged he (cs_payload tok) (cs_signature tok) = Some bytes \<and> length bytes \<le> 4096)"
  shows "\<exists>t (tok :: cose_sign1) v. setup_el3_ifc e f (el3_new h m) = (Ok (), t)
    \<and> (let e' = booted_env e t in
        e_rak e' = dak
        \<and> he_tagged he (cs_payload tok) (cs_signature tok) = Some (e_plat_token e')
        \<and> he_cbor he v = Some (cs_payload tok)
        \<and> he_sign he (am_cpak (ih_att h)) (he_tbs he (cs_payload tok)) = Some (cs_signature tok)
        \<and> fst (get_authority_vhuk he h1) = Ok (e_vhuk_a e') \<and> fst (get_measurement_vhuk he h1) = Ok (e_vhuk_m e')
        \<and> (\<forall>c ms rpv ha s tk u. get_token e' c ms rpv ha s = (Ok tk, u) \<longrightarrow>
            (\<exists>sz algo pk. tk = token_of e' c rpv ms sz algo pk
               \<and> encode_claims (he_sha256 he pk) (populated (ih_boot h)) (ih_att h1) = (Ok v, ih_att h1))))"
proof -
  obtain k tok v where slice: "he_from_slice he NistP384 dak = Some k"
    and tok: "get_platform_token he (he_sha256 he (he_sec1 he NistP384 k)) h1 = (Ok tok, h1)"
      "encode_claims (he_sha256 he (he_sec1 he NistP384 k)) (populated (ih_boot h)) (ih_att h1) = (Ok v, ih_att h1)"
      "he_cbor he v = Some (cs_payload tok)"
      "he_sign he (am_cpak (ih_att h)) (he_tbs he (cs_payload tok)) = Some (cs_signature tok)"
    by (rule token_of_delegated_key[OF len key parse cbor sign]) (simp add: curve_of_def calculate_public_key_hash_def)
  let ?pk = "he_sec1 he NistP384 k"
  have public: "e_p384_public e dak = Some ?pk" and hash: "e_hash e HASH_ALGO_SHA256 ?pk = he_sha256 he ?pk"
    using assms(2) slice by (simp_all add: same_crates_def)
  have "length (sha_of he Sha256 ?pk) = 32" using assms(3) by simp
  then have size: "length (e_hash e HASH_ALGO_SHA256 ?pk) = 32" by (simp add: hash sha_of_def)
  have fit: "length dak \<le> 4096"
    using get_delegated_key_Ok[OF len key] by (auto simp: be_bytes_def uint_bytes_def split: curve.split)
  obtain bytes where bytes: "he_tagged he (cs_payload tok) (cs_signature tok) = Some bytes" "length bytes \<le> 4096"
    using fits tok(1) by blast
  have "length (ih_boot h1) = NUM_OF_MEASUREMENT_SLOTS" "length (ih_huk h1) = 32"
    using get_delegated_key_Ok[OF len key] len huk by auto
  from vhuk_run[OF this aes cbor] obtain a b where vhuk: "get_authority_vhuk he h1 = (Ok a, h1)" "length a = VHUK_LENGTH"
      "get_measurement_vhuk he h1 = (Ok b, h1)" "length b = VHUK_LENGTH" by blast
  obtain t where t: "setup_el3_ifc e f (el3_new h m) = (Ok (), t)"
      "el_key t = dak" "el_token t = bytes" "el_vhuk_a t = a" "el_vhuk_m t = b"
    using setup_run[OF assms(1) public size key fit tok(1)[folded hash] bytes vhuk, of m] by blast
  have fields: "e_rak (booted_env e t) = dak" "e_plat_token (booted_env e t) = bytes" "e_vhuk_a (booted_env e t) = a"
    "e_vhuk_m (booted_env e t) = b" "e_p384_public (booted_env e t) = e_p384_public e" by (simp_all add: booted_env_def t)
  have "\<exists>sz algo pk. tk = token_of (booted_env e t) c rpv ms sz algo pk
      \<and> encode_claims (he_sha256 he pk) (populated (ih_boot h)) (ih_att h1) = (Ok v, ih_att h1)"
    if token: "get_token (booted_env e t) c ms rpv ha s = (Ok tk, u)" for c ms rpv ha s tk u
  proof -
    obtain algo sz pk where "tk = token_of (booted_env e t) c rpv ms sz algo pk"
      and "e_p384_public (booted_env e t) (e_rak (booted_env e t)) = Some pk" using get_token_claims[OF token] by metis
    then show ?thesis using public tok(2) by (auto simp: fields)
  qed
  then show ?thesis
    unfolding Let_def
    by (intro exI[of _ t] exI[of _ tok] exI[of _ v]) (simp add: t(1) fields bytes(1) tok(3,4) vhuk)
qed

definition to_page :: "u8 list \<Rightarrow> (usize \<Rightarrow> u8) \<Rightarrow> usize \<Rightarrow> u8" where
  "to_page v m b = (if unat (b - RMM_SHARED_BUFFER_START) < length v then v ! unat (b - RMM_SHARED_BUFFER_START) else m b)"

definition sample_relay :: "islet_hes el3_env" where
  "sample_relay = \<lparr> ee_smc = (\<lambda>regs h m.
     if regs ! 0 = RMM_GET_REALM_ATTEST_KEY then
       (case get_delegated_key sample_he SecpR1 Bits384 DakSha256 h of
          (Ok dak, h1) \<Rightarrow> (0 # of_nat (length dak) # replicate 6 0, h1, to_page dak m)
        | (_, h1) \<Rightarrow> (- 1 # replicate 7 0, h1, m))
     else if regs ! 0 = RMM_GET_PLAT_TOKEN then
       (case get_platform_token sample_he (bytes_at m RMM_SHARED_BUFFER_START 32) h of
          (Ok tok, h1) \<Rightarrow> (0 # of_nat (length (cs_payload tok @ cs_signature tok)) # replicate 6 0, h1,
             to_page (cs_payload tok @ cs_signature tok) m)
        | (_, h1) \<Rightarrow> (- 1 # replicate 7 0, h1, m))
     else (replicate 8 0, h, m)), ee_sha384 = id \<rparr>"

lemma read_to_page: "length v \<le> 4096 \<Longrightarrow> bytes_at (to_page v m) RMM_SHARED_BUFFER_START (unat (of_nat (length v) :: usize)) = v"
  using bytes_at_written[of v RMM_SHARED_BUFFER_START m]
  by (simp add: to_page_def[abs_def] unat_of_nat take_bit_eq_mod)

lemma sample_fields:
  "he_tagged sample_he p g = Some (p @ g)" "he_aes_block sample_he k b = replicate 16 0" "he_tbs sample_he p = p"
  "he_sec1 sample_he c n = [of_nat n]" "he_from_slice sample_he c b' = Some (from_be_bytes b')"
  by (simp_all add: sample_he_def hes_env0_def)

lemma fetch_keeps: "fetch_current_measurements h = (r, h1) \<Longrightarrow> h1 = h"
proof -
  have "fetch_measurements is ms = (q, ms') \<Longrightarrow> ms' = ms" for "is" ms q ms'
    by (induction "is" arbitrary: q ms') (auto simp: run mgr_read_def split: if_splits prod.splits outcome.splits)
  then show "fetch_current_measurements h = (r, h1) \<Longrightarrow> h1 = h"
    by (auto simp: fetch_current_measurements_def with_boot_def map_err_def split: prod.splits outcome.splits)
qed

lemma sample_vhuk:
  "(if ident = ID_VHUK_A then get_authority_vhuk sample_he h else get_measurement_vhuk sample_he h) = (Ok k, h1)
    \<Longrightarrow> h1 = h \<and> k = replicate 32 0"
proof -
  assume vhuk: "(if ident = ID_VHUK_A then get_authority_vhuk sample_he h else get_measurement_vhuk sample_he h) = (Ok k, h1)"
  obtain r where "fetch_current_measurements h = (r, h)" using fetch_keeps by (metis surj_pair)
  then show ?thesis
    using vhuk by (cases r) (auto simp: get_authority_vhuk_def get_measurement_vhuk_def run generate_seed_def Let_def sample_fields
        sample_he replicate_add[symmetric] split: if_splits)
qed

lemma sample_relays: "relays sample_he sample_relay"
  unfolding relays_def
proof (intro conjI allI impI, goal_cases)
  case (1 h m dak h1)
  then show ?case by (auto simp: sample_relay_def read_to_page)
next
  case (2 h m tok h1 bytes)
  then show ?case by (auto simp: sample_relay_def read_to_page sample_fields simp del: length_append)
next
  case (3 h m k h1 ident)
  have "concat (replicate 4 (le_bytes 8 0)) = replicate 32 0" by code_simp
  then show ?case using 3 sample_vhuk[of ident h k h1] by (auto simp: sample_relay_def)
qed

definition sample_crates :: env where
  "sample_crates = env0\<lparr> e_hash := (\<lambda>a. he_sha256 sample_he), e_p384_public := (\<lambda>k. Some [of_nat (from_be_bytes k)]) \<rparr>"

lemma sample_tokens:
  assumes "get_platform_token sample_he p h = (Ok tok, h2)"
  shows "cs_payload tok = [] \<and> cs_signature tok = []"
proof -
  obtain r where "fetch_current_measurements h = (r, h)" using fetch_keeps by (metis surj_pair)
  then show ?thesis
    using assms by (cases r) (auto simp: get_platform_token_def with_att_def att_get_platform_token_def att_sign_def run
        sample_he sample_fields map_err_def bind_def split: if_splits prod.splits outcome.splits option.splits)
qed

theorem attestation_chain_witness:
  "\<exists>dak h1 t tk. get_delegated_key sample_he SecpR1 Bits384 DakSha256 sample_hes = (Ok dak, h1)
    \<and> setup_el3_ifc sample_crates sample_relay (el3_new sample_hes (\<lambda>_. 0)) = (Ok (), t) \<and> el_key t = dak
    \<and> get_token (booted_env sample_crates t) (replicate 64 1) (replicate 5 measurement_empty) (replicate 64 0) 0 rmm0 = (Ok tk, rmm0)"
proof -
  obtain dak h1 where key: "get_delegated_key sample_he SecpR1 Bits384 DakSha256 sample_hes = (Ok dak, h1)"
    using sample_key by blast
  have crates: "same_crates sample_crates sample_he"
    by (simp add: same_crates_def sample_crates_def sample_fields)
  have "\<forall>k b. length (he_aes_block sample_he k b) = 16" "\<forall>v. he_cbor sample_he v \<noteq> None"
    "\<forall>d. he_sign sample_he (am_cpak (ih_att sample_hes)) d \<noteq> None" "length (ih_huk sample_hes) = 32"
    by (simp_all add: sample_fields sample_he) (simp add: sample_hes_def)
  note facts = this(1) sample_parse this(2,3) sample_he(1) this(4) key
  have "\<forall>p tok h2. get_platform_token sample_he p h1 = (Ok tok, h2) \<longrightarrow>
      (\<exists>bytes. he_tagged sample_he (cs_payload tok) (cs_signature tok) = Some bytes \<and> length bytes \<le> 4096)"
    by (auto simp: sample_fields dest!: sample_tokens)
  from attestation_chain[OF sample_relays crates sample_he(4) facts this, of "\<lambda>_. 0"]
  obtain t tok v where t: "setup_el3_ifc sample_crates sample_relay (el3_new sample_hes (\<lambda>_. 0)) = (Ok (), t)" "el_key t = dak"
    and tok: "he_tagged sample_he (cs_payload tok) (cs_signature (tok :: cose_sign1)) = Some (el_token t)"
      "he_cbor sample_he v = Some (cs_payload tok)"
      "he_sign sample_he (am_cpak (ih_att sample_hes)) (he_tbs sample_he (cs_payload tok)) = Some (cs_signature tok)"
    by (auto simp: Let_def booted_env_def)
  have "el_token t = []" using tok by (auto simp: sample_fields sample_he)
  moreover have "length dak = 48"
    using get_delegated_key_Ok[OF sample_he(1) key] by (auto simp: be_bytes_def uint_bytes_def curve_of_def)
  ultimately have "\<exists>tk. get_token (booted_env sample_crates t) (replicate 64 1) (replicate 5 measurement_empty) (replicate 64 0) 0 rmm0
      = (Ok tk, rmm0)"
    using t(2) by (simp add: get_token_def create_attestation_token_def create_realm_token_def realm_claims_def array_vec_def
        run booted_env_def sample_crates_def hash_algo_id_def measurement_size_def)
  then show ?thesis using key t by blast
qed

end
